(* ===== verification/Prelude.thy ===== *)
theory Prelude imports Main "HOL-Library.Word" begin

text \<open>
  Shared vocabulary of the development.

  \<^item> Go error values and \<open>errors.Is\<close>.
  \<^item> Programs over a state, \<open>('w, 'a) prog\<close>: a Go function that may return an error is a
    function from the state before the call to its result (\<open>Inl\<close> the error, \<open>Inr\<close> the
    value) and the state after it. An error does not undo the effects that came before it.
  \<^item> The frame locale: a reflexive and transitive relation between the state before and the
    state after that every primitive call respects is respected by every program built from
    them. All "every operation keeps the invariant" lemmas are instances.
  \<^item> The string functions of Go's standard library that the code uses (on ASCII text).
\<close>

section \<open>Go errors\<close>

text \<open>
  \<open>ErrWrap pre e post\<close> is \<open>fmt.Errorf("pre%wpost", e)\<close>: it keeps the wrapped error, so
  \<open>errors.Is\<close> looks through it. \<open>ErrText\<close> is any other error, known by its text only.
\<close>

datatype error =
    ErrNotFound
  | ErrInvalidInput
  | ErrConflict
  | DbErrNotFound
  | ErrText string
  | ErrWrap string error string

fun error_text :: "error \<Rightarrow> string" where
  "error_text ErrNotFound = ''not found''"
| "error_text ErrInvalidInput = ''invalid input''"
| "error_text ErrConflict = ''conflict''"
| "error_text DbErrNotFound = ''not found''"
| "error_text (ErrText s) = s"
| "error_text (ErrWrap pre e post) = pre @ error_text e @ post"

fun errors_Is :: "error \<Rightarrow> error \<Rightarrow> bool" where
  "errors_Is (ErrWrap pre e post) t = (ErrWrap pre e post = t \<or> errors_Is e t)"
| "errors_Is e t = (e = t)"

section \<open>Programs\<close>

type_synonym ('w, 'a) prog = "'w \<Rightarrow> (error + 'a) \<times> 'w"

definition ret :: "'a \<Rightarrow> ('w, 'a) prog" where
  "ret x w = (Inr x, w)"

definition throw :: "error \<Rightarrow> ('w, 'a) prog" where
  "throw e w = (Inl e, w)"

text \<open>\<open>x, err := f(); if err != nil { return err }; g(x)\<close>\<close>

definition andThen :: "('w, 'a) prog \<Rightarrow> ('a \<Rightarrow> ('w, 'b) prog) \<Rightarrow> ('w, 'b) prog" where
  "andThen f g w = (case f w of (r, w') \<Rightarrow> (case r of Inl e \<Rightarrow> (Inl e, w') | Inr x \<Rightarrow> g x w'))"

text \<open>\<open>x, err := f()\<close> with the error inspected by the code that follows.\<close>

definition attempt :: "('w, 'a) prog \<Rightarrow> ('w, error + 'a) prog" where
  "attempt f w = (case f w of (r, w') \<Rightarrow> (Inr r, w'))"

text \<open>\<open>_ = f()\<close>\<close>

definition ignore :: "('w, 'a) prog \<Rightarrow> ('w, unit) prog" where
  "ignore f w = (case f w of (r, w') \<Rightarrow> (Inr (), w'))"

text \<open>\<open>if err := f(); err != nil { return fmt.Errorf("pre%w", err) }\<close>\<close>

definition wrapErr :: "string \<Rightarrow> ('w, 'a) prog \<Rightarrow> ('w, 'a) prog" where
  "wrapErr pre f w = (case f w of (r, w') \<Rightarrow>
     (case r of Inl e \<Rightarrow> (Inl (ErrWrap pre e ''''), w') | Inr x \<Rightarrow> (Inr x, w')))"

text \<open>\<open>if err != nil { if err == db.ErrNotFound { return ErrNotFound }; return err }\<close>\<close>

definition orNotFound :: "('w, 'a) prog \<Rightarrow> ('w, 'a) prog" where
  "orNotFound f w = (case f w of (r, w') \<Rightarrow>
     (case r of Inl e \<Rightarrow> (Inl (if e = DbErrNotFound then ErrNotFound else e), w') | Inr x \<Rightarrow> (Inr x, w')))"

text \<open>\<open>for _, x := range xs { if err := f(x); err != nil { return err } }\<close>\<close>

primrec forEach :: "('a \<Rightarrow> ('w, unit) prog) \<Rightarrow> 'a list \<Rightarrow> ('w, unit) prog" where
  "forEach f [] = ret ()"
| "forEach f (x # xs) = andThen (f x) (\<lambda>_. forEach f xs)"

text \<open>The same loop collecting one result per element.\<close>

primrec mapEach :: "('a \<Rightarrow> ('w, 'b) prog) \<Rightarrow> 'a list \<Rightarrow> ('w, 'b list) prog" where
  "mapEach f [] = ret []"
| "mapEach f (x # xs) = andThen (f x) (\<lambda>y. andThen (mapEach f xs) (\<lambda>ys. ret (y # ys)))"

text \<open>\<open>defer func() { _ = g() }(); f()\<close>\<close>

definition deferring :: "('w, 'b) prog \<Rightarrow> ('w, 'a) prog \<Rightarrow> ('w, 'a) prog" where
  "deferring g f w = (case f w of (r, w') \<Rightarrow> (r, snd (g w')))"

text \<open>A read of the state.\<close>

definition asks :: "('w \<Rightarrow> 'a) \<Rightarrow> ('w, 'a) prog" where
  "asks f w = (Inr (f w), w)"

lemmas prog_defs = ret_def throw_def andThen_def attempt_def ignore_def wrapErr_def asks_def

text \<open>Handling an error has no effect of its own.\<close>

lemma snd_attempt [simp]: "snd (attempt f w) = snd (f w)"
  by (simp add: attempt_def split: prod.split)

lemma snd_ignore [simp]: "snd (ignore f w) = snd (f w)"
  by (simp add: ignore_def split: prod.split)

lemma snd_wrapErr [simp]: "snd (wrapErr pre f w) = snd (f w)"
  by (simp add: wrapErr_def split: prod.split sum.split)

text \<open>What a step that returned says of its parts.\<close>

lemma andThen_Inr:
  "andThen f g w = (Inr y, w'') \<longleftrightarrow> (\<exists>x w'. f w = (Inr x, w') \<and> g x w' = (Inr y, w''))"
  by (auto simp: andThen_def split: prod.splits sum.splits)

lemma andThen_Inl:
  "andThen f g w = (Inl e, w'') \<longleftrightarrow>
   f w = (Inl e, w'') \<or> (\<exists>x w'. f w = (Inr x, w') \<and> g x w' = (Inl e, w''))"
  by (auto simp: andThen_def split: prod.splits sum.splits)

lemma ret_eq [simp]: "ret x w = (r, w') \<longleftrightarrow> r = Inr x \<and> w' = w"
  by (auto simp: ret_def)

lemma throw_eq [simp]: "throw e w = (r, w') \<longleftrightarrow> r = Inl e \<and> w' = w"
  by (auto simp: throw_def)

lemma attempt_eq: "attempt f w = (r, w') \<longleftrightarrow> (\<exists>x. f w = (x, w') \<and> r = Inr x)"
  by (auto simp: attempt_def split: prod.splits)

lemma andThen_attempt: "andThen (attempt f) g w = (case f w of (r, w') \<Rightarrow> g r w')"
  by (simp add: andThen_def attempt_def split_beta)

lemma case_sum_eq:
  "case_sum g h x w = (r, w') \<longleftrightarrow> (\<exists>e. x = Inl e \<and> g e w = (r, w')) \<or> (\<exists>y. x = Inr y \<and> h y w = (r, w'))"
  by (cases x) auto

lemma ignore_eq: "ignore f w = (r, w') \<longleftrightarrow> (\<exists>x. f w = (x, w')) \<and> r = Inr ()"
  by (auto simp: ignore_def split: prod.splits)

lemma deferring_eq: "deferring g f w = (r, w'') \<longleftrightarrow> (\<exists>w'. f w = (r, w') \<and> w'' = snd (g w'))"
  by (auto simp: deferring_def split: prod.splits)

lemma wrapErr_Inr: "wrapErr pre f w = (Inr x, w') \<longleftrightarrow> f w = (Inr x, w')"
  by (auto simp: wrapErr_def split: prod.splits sum.splits)

lemma wrapErr_Inl: "wrapErr pre f w = (Inl e, w') \<longleftrightarrow> (\<exists>e'. f w = (Inl e', w') \<and> e = ErrWrap pre e' '''')"
  by (auto simp: wrapErr_def split: prod.splits sum.splits)

lemma snd_orNotFound [simp]: "snd (orNotFound f w) = snd (f w)"
  by (simp add: orNotFound_def split: prod.split sum.split)

lemma orNotFound_Inr: "orNotFound f w = (Inr x, w') \<longleftrightarrow> f w = (Inr x, w')"
  by (auto simp: orNotFound_def split: prod.splits sum.splits)

lemma fst_attempt [simp]: "fst (attempt f w) = Inr (fst (f w))"
  by (simp add: attempt_def split: prod.split)

section \<open>Programs that always return\<close>

text \<open>Best-effort steps: whatever the services do, the caller goes on.\<close>

definition answers :: "('w, 'a) prog \<Rightarrow> bool" where
  "answers f \<longleftrightarrow> (\<forall>w. \<exists>x w'. f w = (Inr x, w'))"

named_theorems answer_rules

lemma answers_ret [answer_rules]: "answers (ret x)"
  by (simp add: answers_def)

lemma answers_ignore [answer_rules]: "answers (ignore f)"
  by (simp add: answers_def ignore_def split_beta)

lemma answers_attempt [answer_rules]: "answers (attempt f)"
  by (simp add: answers_def attempt_def split_beta)

lemma answers_andThen [answer_rules]: "answers f \<Longrightarrow> (\<And>x. answers (g x)) \<Longrightarrow> answers (andThen f g)"
  unfolding answers_def by (metis andThen_Inr)

lemma answers_forEach [answer_rules]: "(\<And>x. answers (f x)) \<Longrightarrow> answers (forEach f xs)"
  by (induction xs) (auto intro: answer_rules)

lemma answers_if [answer_rules]: "(b \<Longrightarrow> answers f) \<Longrightarrow> (\<not> b \<Longrightarrow> answers g) \<Longrightarrow> answers (if b then f else g)"
  by simp

lemma answers_case_sum [answer_rules]:
  "(\<And>e. answers (f e)) \<Longrightarrow> (\<And>y. answers (g y)) \<Longrightarrow> answers (case x of Inl e \<Rightarrow> f e | Inr y \<Rightarrow> g y)"
  by (cases x) simp_all

lemma andThen_answers:
  assumes "answers f" "andThen f g w = (r, w')"
  obtains x w1 where "f w = (Inr x, w1)" "g x w1 = (r, w')"
proof -
  obtain x w1 where "f w = (Inr x, w1)" using assms(1) unfolding answers_def by blast
  then show thesis using assms(2) that by (simp add: andThen_def)
qed

section \<open>What a program yields\<close>

text \<open>Every value a program can return satisfies \<open>P\<close>.\<close>

definition yields :: "('a \<Rightarrow> bool) \<Rightarrow> ('w, 'a) prog \<Rightarrow> bool" where
  "yields P f \<longleftrightarrow> (\<forall>w x w'. f w = (Inr x, w') \<longrightarrow> P x)"

named_theorems yield_rules

lemma yieldsD: "yields P f \<Longrightarrow> f w = (Inr x, w') \<Longrightarrow> P x"
  unfolding yields_def by blast

lemma yields_ret [yield_rules]: "P x \<Longrightarrow> yields P (ret x)"
  by (simp add: yields_def)

lemma yields_throw [yield_rules]: "yields P (throw e)"
  by (simp add: yields_def)

lemma yields_andThen [yield_rules]: "(\<And>x. yields P (g x)) \<Longrightarrow> yields P (andThen f g)"
  unfolding yields_def andThen_Inr by blast

lemma yields_wrapErr [yield_rules]: "yields P f \<Longrightarrow> yields P (wrapErr pre f)"
  unfolding yields_def wrapErr_Inr by blast

lemma yields_if [yield_rules]: "(b \<Longrightarrow> yields P f) \<Longrightarrow> (\<not> b \<Longrightarrow> yields P g) \<Longrightarrow> yields P (if b then f else g)"
  by simp

lemma yields_case_sum [yield_rules]:
  "(\<And>e. x = Inl e \<Longrightarrow> yields P (f e)) \<Longrightarrow> (\<And>y. x = Inr y \<Longrightarrow> yields P (g y)) \<Longrightarrow>
   yields P (case x of Inl e \<Rightarrow> f e | Inr y \<Rightarrow> g y)"
  by (cases x) simp_all

lemma yields_case_option [yield_rules]:
  "(x = None \<Longrightarrow> yields P f) \<Longrightarrow> (\<And>y. x = Some y \<Longrightarrow> yields P (g y)) \<Longrightarrow>
   yields P (case x of None \<Rightarrow> f | Some y \<Rightarrow> g y)"
  by (cases x) simp_all

lemma yields_Let [yield_rules]: "yields P (f x) \<Longrightarrow> yields P (Let x f)"
  by simp

section \<open>Frames: what every call respects\<close>

definition steps :: "('w \<Rightarrow> 'w \<Rightarrow> bool) \<Rightarrow> ('w, 'a) prog \<Rightarrow> bool" where
  "steps R f \<longleftrightarrow> (\<forall>w. R w (snd (f w)))"

lemma stepsI: "(\<And>w. R w (snd (f w))) \<Longrightarrow> steps R f"
  by (simp add: steps_def)

lemma stepsD: "steps R f \<Longrightarrow> f w = (r, w') \<Longrightarrow> R w w'"
  by (metis snd_conv steps_def)

named_theorems frame_rules

locale frame =
  fixes R :: "'w \<Rightarrow> 'w \<Rightarrow> bool"
  assumes frame_refl: "R w w"
    and frame_trans: "R u v \<Longrightarrow> R v w \<Longrightarrow> R u w"
begin

lemma steps_ret [frame_rules]: "steps R (ret x)"
  by (simp add: steps_def ret_def frame_refl)

lemma steps_throw [frame_rules]: "steps R (throw e)"
  by (simp add: steps_def throw_def frame_refl)

lemma steps_asks [frame_rules]: "steps R (asks f)"
  by (simp add: steps_def asks_def frame_refl)

lemma steps_andThen [frame_rules]:
  assumes "steps R f" and "\<And>x. steps R (g x)"
  shows "steps R (andThen f g)"
proof (rule stepsI)
  fix w
  obtain r w' where f: "f w = (r, w')" by fastforce
  then have 1: "R w w'" using assms(1) by (rule stepsD [rotated])
  show "R w (snd (andThen f g w))"
  proof (cases r)
    case (Inl e)
    then show ?thesis using f 1 by (simp add: andThen_def)
  next
    case (Inr x)
    have "R w' (snd (g x w'))" using assms(2) [of x] by (simp add: steps_def)
    then show ?thesis using f 1 Inr by (auto simp: andThen_def intro: frame_trans)
  qed
qed

lemma steps_attempt [frame_rules]: "steps R f \<Longrightarrow> steps R (attempt f)"
  by (simp add: steps_def)

lemma steps_ignore [frame_rules]: "steps R f \<Longrightarrow> steps R (ignore f)"
  by (simp add: steps_def)

lemma steps_wrapErr [frame_rules]: "steps R f \<Longrightarrow> steps R (wrapErr pre f)"
  by (simp add: steps_def)

lemma steps_orNotFound [frame_rules]: "steps R f \<Longrightarrow> steps R (orNotFound f)"
  by (simp add: steps_def)

lemma steps_deferring [frame_rules]:
  assumes "steps R g" "steps R f" shows "steps R (deferring g f)"
proof (rule stepsI)
  fix w
  have "R w (snd (f w))" "R (snd (f w)) (snd (g (snd (f w))))" using assms by (simp_all add: steps_def)
  then show "R w (snd (deferring g f w))"
    by (auto simp: deferring_def split_beta intro: frame_trans)
qed

lemma steps_forEach [frame_rules]: "(\<And>x. steps R (f x)) \<Longrightarrow> steps R (forEach f xs)"
  by (induction xs) (auto intro!: steps_ret steps_andThen)

lemma steps_mapEach [frame_rules]: "(\<And>x. steps R (f x)) \<Longrightarrow> steps R (mapEach f xs)"
  by (induction xs) (auto intro!: steps_ret steps_andThen)

lemma steps_if [frame_rules]: "(b \<Longrightarrow> steps R f) \<Longrightarrow> (\<not> b \<Longrightarrow> steps R g) \<Longrightarrow> steps R (if b then f else g)"
  by simp

lemma steps_case_sum [frame_rules]:
  "(\<And>e. x = Inl e \<Longrightarrow> steps R (f e)) \<Longrightarrow> (\<And>y. x = Inr y \<Longrightarrow> steps R (g y)) \<Longrightarrow>
   steps R (case x of Inl e \<Rightarrow> f e | Inr y \<Rightarrow> g y)"
  by (cases x) simp_all

lemma steps_case_option [frame_rules]:
  "(x = None \<Longrightarrow> steps R f) \<Longrightarrow> (\<And>y. x = Some y \<Longrightarrow> steps R (g y)) \<Longrightarrow>
   steps R (case x of None \<Rightarrow> f | Some y \<Rightarrow> g y)"
  by (cases x) simp_all

lemma steps_case_list [frame_rules]:
  "(x = [] \<Longrightarrow> steps R f) \<Longrightarrow> (\<And>y ys. x = y # ys \<Longrightarrow> steps R (g y ys)) \<Longrightarrow>
   steps R (case x of [] \<Rightarrow> f | y # ys \<Rightarrow> g y ys)"
  by (cases x) simp_all

lemma steps_case_prod [frame_rules]:
  "(\<And>a b. x = (a, b) \<Longrightarrow> steps R (f a b)) \<Longrightarrow> steps R (case x of (a, b) \<Rightarrow> f a b)"
  by (cases x) simp

lemma steps_Let [frame_rules]: "(\<And>y. y = x \<Longrightarrow> steps R (f y)) \<Longrightarrow> steps R (Let x f)"
  by (simp add: Let_def)

end

section \<open>Strings of Go's standard library (ASCII)\<close>

definition lower_char :: "char \<Rightarrow> char" where
  "lower_char c = (let n = (of_char c :: nat) in if 65 \<le> n \<and> n \<le> 90 then char_of (n + 32) else c)"

definition is_space :: "char \<Rightarrow> bool" where
  "is_space c \<longleftrightarrow> (let n = (of_char c :: nat) in 9 \<le> n \<and> n \<le> 13 \<or> n = 32)"

definition strings_ToLower :: "string \<Rightarrow> string" where
  "strings_ToLower s = map lower_char s"

definition strings_TrimSpace :: "string \<Rightarrow> string" where
  "strings_TrimSpace s = rev (dropWhile is_space (rev (dropWhile is_space s)))"

definition strings_EqualFold :: "string \<Rightarrow> string \<Rightarrow> bool" where
  "strings_EqualFold a b \<longleftrightarrow> strings_ToLower a = strings_ToLower b"

definition strings_HasPrefix :: "string \<Rightarrow> string \<Rightarrow> bool" where
  "strings_HasPrefix s p \<longleftrightarrow> take (length p) s = p"

definition strings_HasSuffix :: "string \<Rightarrow> string \<Rightarrow> bool" where
  "strings_HasSuffix s p \<longleftrightarrow> strings_HasPrefix (rev s) (rev p)"

fun strings_Contains :: "string \<Rightarrow> string \<Rightarrow> bool" where
  "strings_Contains [] sub = (sub = [])"
| "strings_Contains (c # s) sub = (strings_HasPrefix (c # s) sub \<or> strings_Contains s sub)"

text \<open>\<open>strings.Split\<close> with a one-byte separator; the result is never empty.\<close>

fun strings_Split :: "string \<Rightarrow> char \<Rightarrow> string list" where
  "strings_Split [] sep = [[]]"
| "strings_Split (c # s) sep =
     (if c = sep then [] # strings_Split s sep
      else (case strings_Split s sep of [] \<Rightarrow> [[c]] | y # ys \<Rightarrow> (c # y) # ys))"

fun strings_Join :: "string list \<Rightarrow> string \<Rightarrow> string" where
  "strings_Join [] sep = []"
| "strings_Join [x] sep = x"
| "strings_Join (x # xs) sep = x @ sep @ strings_Join xs sep"

text \<open>Characters outside ASCII, as the bytes of their UTF-8 encoding.\<close>

definition em_dash :: string where "em_dash = [CHR 0xE2, CHR 0x80, CHR 0x94]"

definition arrow :: string where "arrow = [CHR 0xE2, CHR 0x86, CHR 0x92]"

definition ellipsis :: string where "ellipsis = [CHR 0xE2, CHR 0x80, CHR 0xA6]"

definition infinity_sign :: string where "infinity_sign = [CHR 0xE2, CHR 0x88, CHR 0x9E]"

text \<open>\<open>%q\<close> of a text of printable characters without quote and backslash.\<close>

definition go_quote :: "string \<Rightarrow> string" where
  "go_quote s = [CHR 0x22] @ s @ [CHR 0x22]"

subsection \<open>Decimal numbers\<close>

definition digit_char :: "nat \<Rightarrow> char" where
  "digit_char d = char_of (48 + d)"

definition char_digit :: "char \<Rightarrow> nat" where
  "char_digit c = of_char c - 48"

fun nat_str :: "nat \<Rightarrow> string" where
  "nat_str n = (if n < 10 then [digit_char n] else nat_str (n div 10) @ [digit_char (n mod 10)])"

declare nat_str.simps [simp del]

text \<open>\<open>strconv.Itoa\<close> and \<open>%d\<close>.\<close>

definition itoa :: "int \<Rightarrow> string" where
  "itoa i = (if i < 0 then CHR ''-'' # nat_str (nat (- i)) else nat_str (nat i))"

text \<open>The same over \<open>int\<close>, whose literals are binary, for evaluation.\<close>

function int_str :: "int \<Rightarrow> string" where
  "int_str i = (if i < 10 then [digit_char (nat i)] else int_str (i div 10) @ [digit_char (nat (i mod 10))])"
  by pat_completeness auto
termination by (relation "measure nat") auto

declare int_str.simps [simp del]

lemma int_str_nat_str: "0 \<le> i \<Longrightarrow> int_str i = nat_str (nat i)"
proof (induction i rule: int_str.induct)
  case (1 i)
  show ?case
  proof (cases "i < 10")
    case True
    then have "nat i < 10" by simp
    then show ?thesis using True by (subst int_str.simps, subst nat_str.simps) simp
  next
    case False
    then have "int_str (i div 10) = nat_str (nat i div 10)" using 1 by (simp add: nat_div_distrib)
    moreover have "\<not> nat i < 10" "nat (i mod 10) = nat i mod 10" using False 1 by (auto simp: nat_mod_distrib)
    ultimately show ?thesis using False
      by (subst int_str.simps, subst nat_str.simps) (simp only: if_False)
  qed
qed

lemma itoa_code [code]: "itoa i = (if i < 0 then CHR ''-'' # int_str (- i) else int_str i)"
  by (simp add: itoa_def int_str_nat_str)

definition str_nat :: "string \<Rightarrow> nat" where
  "str_nat s = foldl (\<lambda>a c. 10 * a + char_digit c) 0 s"

lemma char_digit_digit_char [simp]: "d < 10 \<Longrightarrow> char_digit (digit_char d) = d"
  by (simp add: char_digit_def digit_char_def)

lemma str_nat_nat_str: "str_nat (nat_str n) = n"
proof (induction n rule: nat_str.induct)
  case (1 n)
  show ?case
  proof (cases "n < 10")
    case True
    then show ?thesis by (subst nat_str.simps) (simp add: str_nat_def)
  next
    case False
    with "1.IH" have "str_nat (nat_str (n div 10)) = n div 10" by simp
    with False show ?thesis by (subst nat_str.simps) (simp add: str_nat_def)
  qed
qed

lemma nat_str_eq [simp]: "nat_str m = nat_str n \<longleftrightarrow> m = n"
  by (metis str_nat_nat_str)

definition is_digit :: "char \<Rightarrow> bool" where
  "is_digit c \<longleftrightarrow> (let n = (of_char c :: nat) in 48 \<le> n \<and> n \<le> 57)"

text \<open>\<open>fmt.Sscanf(s, "%d", &e)\<close> on an \<open>int\<close>: white space, a sign, digits; nothing when it fails.\<close>

definition Sscanf_d :: "string \<Rightarrow> int option" where
  "Sscanf_d s =
     (let t = dropWhile is_space s;
          neg = (t \<noteq> [] \<and> hd t = CHR ''-'');
          u = (if t \<noteq> [] \<and> hd t \<in> {CHR ''-'', CHR ''+''} then tl t else t);
          ds = takeWhile is_digit u;
          n = (if neg then - int (str_nat ds) else int (str_nat ds)) in
      if ds = [] \<or> n < - (2 ^ 63) \<or> 2 ^ 63 - 1 < n then None else Some n)"

text \<open>\<open>strconv.Atoi\<close>: an optional sign and decimal digits, within the range of \<open>int\<close>.\<close>

definition decimal :: "string \<Rightarrow> int option" where
  "decimal s =
     (let neg = (s \<noteq> [] \<and> hd s = CHR ''-'');
          ds = (if s \<noteq> [] \<and> hd s \<in> {CHR ''-'', CHR ''+''} then tl s else s) in
      if ds = [] \<or> \<not> list_all is_digit ds then None
      else Some (if neg then - int (str_nat ds) else int (str_nat ds)))"

definition Atoi :: "string \<Rightarrow> int option" where
  "Atoi s = (case decimal s of None \<Rightarrow> None | Some n \<Rightarrow> if n < - (2 ^ 63) \<or> 2 ^ 63 - 1 < n then None else Some n)"

lemma is_digit_char [simp]: "d < 10 \<Longrightarrow> is_digit (digit_char d)"
  by (simp add: is_digit_def digit_char_def)

lemma nat_str_digits: "list_all is_digit (nat_str n)"
proof (induction n rule: nat_str.induct)
  case (1 n)
  then show ?case by (subst nat_str.simps) auto
qed

lemma nat_str_nonempty [simp]: "nat_str n \<noteq> []"
  by (subst nat_str.simps) simp

lemma digit_char_not_minus: "d < 10 \<Longrightarrow> digit_char d \<noteq> CHR ''-''"
proof
  assume d: "d < 10" and eq: "digit_char d = CHR ''-''"
  have "of_char (digit_char d) = (48 + d :: nat)" using d by (simp add: digit_char_def)
  then show False using eq by simp
qed

lemma hd_nat_str: "hd (nat_str n) \<noteq> CHR ''-'' \<and> nat_str n \<noteq> []"
proof (induction n rule: nat_str.induct)
  case (1 n)
  show ?case
  proof (cases "n < 10")
    case True
    then show ?thesis using digit_char_not_minus [of n] by (subst (1 2) nat_str.simps) simp
  next
    case False
    then show ?thesis using "1.IH" by (subst (1 2) nat_str.simps) simp
  qed
qed

lemma itoa_eq [simp]: "itoa a = itoa b \<longleftrightarrow> a = b"
proof
  assume eq: "itoa a = itoa b"
  have neg: "(CHR ''-'' # xs \<noteq> nat_str n) \<and> (nat_str n \<noteq> CHR ''-'' # xs)" for xs n
    using hd_nat_str [of n] by (metis list.sel(1))
  show "a = b"
    using eq by (auto simp: itoa_def neg split: if_splits)
qed simp

text \<open>
  The pieces \<open>strings.Split\<close> returns never hold the separator, and joining them with it gives
  the text back.
\<close>

lemma strings_Split_nonempty [simp]: "strings_Split s c \<noteq> []"
  by (cases s) (auto split: list.split)

lemma strings_Split_no_sep: "x \<in> set (strings_Split s c) \<Longrightarrow> c \<notin> set x"
proof (induction s arbitrary: x)
  case Nil
  then show ?case by simp
next
  case (Cons a s)
  then show ?case by (auto split: if_splits list.splits)
qed

lemma strings_Split_append: "c \<notin> set a \<Longrightarrow> strings_Split (a @ c # s) c = a # strings_Split s c"
  by (induction a) auto

lemma strings_Split_single: "c \<notin> set a \<Longrightarrow> strings_Split a c = [a]"
  by (induction a) auto

lemma strings_Join_Split: "strings_Join (strings_Split s c) [c] = s"
proof (induction s)
  case Nil
  then show ?case by simp
next
  case (Cons a s)
  obtain y ys where ys: "strings_Split s c = y # ys"
    using strings_Split_nonempty [of s c] by (cases "strings_Split s c") auto
  show ?case using Cons ys by (cases ys) (auto split: list.split)
qed

lemma strings_HasPrefix_append [simp]: "strings_HasPrefix (p @ s) p"
  by (simp add: strings_HasPrefix_def)

lemma strings_HasPrefix_iff: "strings_HasPrefix s p \<longleftrightarrow> (\<exists>t. s = p @ t)"
  by (metis append_eq_conv_conj append_take_drop_id strings_HasPrefix_def)

lemma strings_Contains_iff: "strings_Contains s sub \<longleftrightarrow> (\<exists>a b. s = a @ sub @ b)"
proof (induction s)
  case Nil
  then show ?case by auto
next
  case (Cons c s)
  have "(\<exists>a b. c # s = a @ sub @ b) \<longleftrightarrow> (\<exists>b. c # s = sub @ b) \<or> (\<exists>a b. s = a @ sub @ b)"
    (is "?l = ?r")
  proof
    assume ?l
    then obtain a b where ab: "c # s = a @ sub @ b" by blast
    show ?r using ab by (cases a) auto
  next
    assume ?r
    then show ?l by (metis append_Cons append_Nil)
  qed
  with Cons show ?case by (simp add: strings_HasPrefix_iff)
qed

section \<open>Lists with unique keys\<close>

lemma find_unique: "distinct (map k xs) \<Longrightarrow> x \<in> set xs \<Longrightarrow> List.find (\<lambda>y. k y = k x) xs = Some x"
  by (induction xs) force+

lemma find_unique_some: "List.find P xs = Some x \<Longrightarrow> x \<in> set xs \<and> P x"
  by (induction xs) (auto split: if_splits)

lemma distinct_map_distinct: "distinct (map k xs) \<Longrightarrow> distinct xs"
  by (simp add: distinct_map)

end
