(* ===== verification/Models.thy ===== *)
theory Models imports Complex_Main Prelude begin

text \<open>
  The data of \<open>internal/models/models.go\<close>: instances, port mappings, requests and responses.

  Field names carry a one-letter prefix because record fields are constants. \<open>int64\<close> byte
  counters are 64-bit words read with \<open>sint\<close>; other Go \<open>int\<close>s are \<open>int\<close>, times are
  nanoseconds since the Unix epoch, and the \<open>float64\<close> core counts are exact rationals.
\<close>

type_synonym int64 = "64 word"
type_synonym uuid = "128 word"
type_synonym time = int

section \<open>Lifecycle states\<close>

datatype instance_status =
    StatusPending
  | StatusCreating
  | StatusRunning
  | StatusStopped
  | StatusError
  | StatusDeleting
  | StatusDeleted

fun status_text :: "instance_status \<Rightarrow> string" where
  "status_text StatusPending = ''pending''"
| "status_text StatusCreating = ''creating''"
| "status_text StatusRunning = ''running''"
| "status_text StatusStopped = ''stopped''"
| "status_text StatusError = ''error''"
| "status_text StatusDeleting = ''deleting''"
| "status_text StatusDeleted = ''deleted''"

section \<open>Instances and port mappings\<close>

record port_mapping =
  p_id :: uuid
  p_instance :: uuid
  p_protocol :: string
  p_host :: int
  p_internal :: int
  p_device :: string
  p_created :: time

record inst =
  i_id :: uuid
  i_name :: string
  i_incus :: string
  i_image :: string
  i_status :: instance_status
  i_cpu :: rat
  i_memory :: int
  i_storage :: int
  i_processes :: int
  i_bandwidth :: int
  i_traffic_gb :: int
  i_traffic_used :: int64
  i_traffic_period :: string
  i_throttled :: bool
  i_counter_snap :: int64
  i_password :: string
  i_error :: string
  i_ports :: "port_mapping list"
  i_created :: time
  i_updated :: time

section \<open>Requests\<close>

record create_request =
  cr_name :: string
  cr_image :: string
  cr_cpu :: rat
  cr_memory :: int
  cr_storage :: int
  cr_processes :: int
  cr_bandwidth :: int
  cr_traffic_gb :: int

record add_port_request =
  ap_protocol :: string
  ap_internal :: int
  ap_host :: int

record update_port_request =
  up_protocol :: string

record reset_password_request =
  rp_password :: string

section \<open>Responses\<close>

record health_response =
  h_status :: string
  h_database :: string
  h_redis :: string
  h_incus :: string
  h_checks :: "(string \<times> string) list"

record daily_usage_point =
  du_date :: string
  du_disk_used :: int64
  du_disk_total :: int64
  du_bandwidth :: int64

record usage_chart_response =
  uc_instance :: uuid
  uc_name :: string
  uc_days :: int
  uc_from :: string
  uc_to :: string
  uc_points :: "daily_usage_point list"

record host_ports_stats =
  hp_start :: int
  hp_end :: int
  hp_per_instance :: int
  hp_total :: int
  hp_used :: int
  hp_free :: int

record hourly_metrics_point =
  hm_hour :: string
  hm_cpu :: rat
  hm_mem_used :: int64
  hm_mem_total :: int64
  hm_disk_used :: int64
  hm_disk_total :: int64
  hm_bandwidth :: int64

record instance_metrics_series =
  ms_instance :: uuid
  ms_name :: string
  ms_points :: "hourly_metrics_point list"

record metrics_chart_response =
  mc_hours :: int
  mc_from :: string
  mc_to :: string
  mc_items :: "instance_metrics_series list"

record host_disk_stats =
  hd_pool :: string
  hd_driver :: string
  hd_total :: int64
  hd_used :: int64
  hd_free :: int64

record host_stats_response =
  hs_ports :: host_ports_stats
  hs_disk :: host_disk_stats

record resource_cpu =
  rc_cores :: rat
  rc_percent :: rat

record resource_memory =
  rm_limit :: int
  rm_total :: int64
  rm_used :: int64

record resource_disk =
  rd_limit :: int
  rd_total :: int64
  rd_used :: int64

record resource_bandwidth =
  rb_limit :: int
  rb_monthly_limit :: int
  rb_monthly_used :: int64
  rb_period :: string
  rb_throttled :: bool
  rb_total :: int64

record instance_resources_response =
  ir_instance :: uuid
  ir_name :: string
  ir_status :: instance_status
  ir_sampled_at :: string
  ir_cpu :: resource_cpu
  ir_memory :: resource_memory
  ir_disk :: resource_disk
  ir_bandwidth :: resource_bandwidth

end
