(* ===== verification/Secrets.thy ===== *)
theory Secrets imports Prelude begin

text \<open>
  \<open>internal/secrets/secrets.go\<close>: random passwords and API keys. The source of randomness
  (\<open>crypto/rand\<close>) is an argument. The Base64 and hexadecimal encodings of Go's standard
  library are written out, with the proof that they lose nothing: two different byte strings
  never give the same password or key.
\<close>

type_synonym byte = "8 word"

section \<open>Base64\<close>

definition b64_std_char :: "nat \<Rightarrow> char" where
  "b64_std_char i = (if i < 26 then char_of (65 + i) else if i < 52 then char_of (71 + i)
     else if i < 62 then char_of (i - 4) else if i = 62 then CHR ''+'' else CHR ''/'')"

definition b64_url_char :: "nat \<Rightarrow> char" where
  "b64_url_char i = (if i < 62 then b64_std_char i else if i = 62 then CHR ''-'' else CHR ''_'')"

definition b64_index :: "char \<Rightarrow> nat" where
  "b64_index c = (let n = of_char c in
     if 65 \<le> n \<and> n \<le> 90 then n - 65 else if 97 \<le> n \<and> n \<le> 122 then n - 71
     else if 48 \<le> n \<and> n \<le> 57 then n + 4 else if n = 43 \<or> n = 45 then 62 else 63)"

text \<open>The first argument is the alphabet, the second the padding to append to a short group.\<close>

fun b64_encode :: "(nat \<Rightarrow> char) \<Rightarrow> string \<Rightarrow> byte list \<Rightarrow> string" where
  "b64_encode e pad [] = []"
| "b64_encode e pad [a] = [e (unat a div 4), e ((unat a mod 4) * 16)] @ pad @ pad"
| "b64_encode e pad [a, b] =
     [e (unat a div 4), e ((unat a mod 4) * 16 + unat b div 16), e ((unat b mod 16) * 4)] @ pad"
| "b64_encode e pad (a # b # c # bs) =
     e (unat a div 4) # e ((unat a mod 4) * 16 + unat b div 16)
       # e ((unat b mod 16) * 4 + unat c div 64) # e (unat c mod 64) # b64_encode e pad bs"

text \<open>\<open>base64.RawURLEncoding\<close> and \<open>base64.StdEncoding\<close>.\<close>

definition raw_url_encode :: "byte list \<Rightarrow> string" where
  "raw_url_encode = b64_encode b64_url_char []"

definition std_encode :: "byte list \<Rightarrow> string" where
  "std_encode = b64_encode b64_std_char [CHR ''='']"

fun raw_url_decode :: "string \<Rightarrow> byte list" where
  "raw_url_decode (w # x # y # z # s) =
     (let p = b64_index w; q = b64_index x; r = b64_index y; t = b64_index z in
      of_nat (p * 4 + q div 16) # of_nat ((q mod 16) * 16 + r div 4)
        # of_nat ((r mod 4) * 64 + t) # raw_url_decode s)"
| "raw_url_decode [w, x, y] =
     (let p = b64_index w; q = b64_index x; r = b64_index y in
      [of_nat (p * 4 + q div 16), of_nat ((q mod 16) * 16 + r div 4)])"
| "raw_url_decode [w, x] = (let p = b64_index w; q = b64_index x in [of_nat (p * 4 + q div 16)])"
| "raw_url_decode s = []"

lemma b64_index_url_char: "i < 64 \<Longrightarrow> b64_index (b64_url_char i) = i"
  by (auto simp: b64_index_def b64_url_char_def b64_std_char_def Let_def)

lemma unat_byte: "unat (a :: byte) < 256"
  using unsigned_less [of a, where ?'a = nat] by simp

text \<open>The arithmetic of one group: three bytes as four 6-bit numbers and back.\<close>

lemma b64_group_bounds:
  fixes a b c :: nat
  assumes "a < 256" "b < 256" "c < 256"
  shows "a div 4 < 64" "(a mod 4) * 16 + b div 16 < 64" "(b mod 16) * 4 + c div 64 < 64"
    "(a mod 4) * 16 < 64" "(b mod 16) * 4 < 64" "c mod 64 < 64"
  using assms by linarith+

lemma pack_div: "q < k \<Longrightarrow> (p * k + q) div k = (p :: nat)"
  by simp

lemma pack_mod: "q < k \<Longrightarrow> (p * k + q) mod k = (q :: nat)"
  by simp

lemma b64_group_back:
  fixes a b c :: nat
  assumes "a < 256" "b < 256" "c < 256"
  shows "a div 4 * 4 + ((a mod 4) * 16 + b div 16) div 16 = a"
    "((a mod 4) * 16 + b div 16) mod 16 * 16 + ((b mod 16) * 4 + c div 64) div 4 = b"
    "((b mod 16) * 4 + c div 64) mod 4 * 64 + c mod 64 = c"
    "a div 4 * 4 + ((a mod 4) * 16) div 16 = a"
    "((a mod 4) * 16 + b div 16) mod 16 * 16 + ((b mod 16) * 4) div 4 = b"
proof -
  have lt: "b div 16 < 16" "c div 64 < 4" using assms by linarith+
  note eqs = pack_div [OF lt(1)] pack_mod [OF lt(1)] pack_div [OF lt(2)] pack_mod [OF lt(2)]
  show "a div 4 * 4 + ((a mod 4) * 16 + b div 16) div 16 = a" by (simp only: eqs div_mult_mod_eq)
  show "((a mod 4) * 16 + b div 16) mod 16 * 16 + ((b mod 16) * 4 + c div 64) div 4 = b"
    by (simp only: eqs div_mult_mod_eq)
  show "((b mod 16) * 4 + c div 64) mod 4 * 64 + c mod 64 = c" by (simp only: eqs div_mult_mod_eq)
  show "a div 4 * 4 + ((a mod 4) * 16) div 16 = a" by simp
  show "((a mod 4) * 16 + b div 16) mod 16 * 16 + ((b mod 16) * 4) div 4 = b"
    by (simp only: eqs) simp
qed

lemma word_of_unat: "word_of_nat (unat x) = (x :: byte)"
  by simp

lemmas b64_bytes = unat_byte unat_byte unat_byte

lemmas b64_arith = b64_group_bounds [OF b64_bytes] b64_group_back [OF b64_bytes]

lemma raw_url_roundtrip_aux: "raw_url_decode (b64_encode b64_url_char [] bs) = bs"
proof (induction b64_url_char "[] :: string" bs rule: b64_encode.induct)
  case (4 a b c bs)
  then show ?case
    by (simp only: b64_encode.simps raw_url_decode.simps Let_def b64_index_url_char b64_arith
        word_of_unat)
qed (simp_all only: b64_encode.simps raw_url_decode.simps append.simps append_Nil2 Let_def
    b64_index_url_char b64_arith word_of_unat)

lemma raw_url_roundtrip: "raw_url_decode (raw_url_encode bs) = bs"
  by (simp add: raw_url_encode_def raw_url_roundtrip_aux)

lemma raw_url_encode_eq [simp]: "raw_url_encode a = raw_url_encode b \<longleftrightarrow> a = b"
  by (metis raw_url_roundtrip)

lemma length_raw_url_encode: "length (raw_url_encode bs) = (4 * length bs + 2) div 3"
  unfolding raw_url_encode_def
  by (induction b64_url_char "[] :: string" bs rule: b64_encode.induct) simp_all

text \<open>
  The alphabet: no quote, dollar sign, backslash or white space, so an encoded secret may stand
  between single quotes of a shell script.
\<close>

definition shell_safe :: "char \<Rightarrow> bool" where
  "shell_safe c \<longleftrightarrow> (let n = (of_char c :: nat) in
     65 \<le> n \<and> n \<le> 90 \<or> 97 \<le> n \<and> n \<le> 122 \<or> 48 \<le> n \<and> n \<le> 57 \<or> n \<in> {43, 45, 47, 61, 95})"

lemma shell_safe_std_char: "i < 64 \<Longrightarrow> shell_safe (b64_std_char i)"
  by (auto simp: shell_safe_def b64_std_char_def Let_def)

lemma shell_safe_pad: "shell_safe CHR ''=''"
  by (simp add: shell_safe_def)

lemma std_encode_safe_aux: "c \<in> set (b64_encode b64_std_char [CHR ''=''] bs) \<Longrightarrow> shell_safe c"
proof (induction b64_std_char "[CHR ''='']" bs rule: b64_encode.induct)
  case (4 a b c bs)
  then show ?case by (auto simp: b64_arith intro!: shell_safe_std_char)
qed (auto simp: b64_arith shell_safe_pad intro!: shell_safe_std_char)

lemma std_encode_safe: "c \<in> set (std_encode bs) \<Longrightarrow> shell_safe c"
  unfolding std_encode_def by (rule std_encode_safe_aux)

section \<open>Hexadecimal\<close>

definition hex_char :: "nat \<Rightarrow> char" where
  "hex_char i = (if i < 10 then char_of (48 + i) else char_of (87 + i))"

fun hex_encode :: "byte list \<Rightarrow> string" where
  "hex_encode [] = []"
| "hex_encode (b # bs) = hex_char (unat b div 16) # hex_char (unat b mod 16) # hex_encode bs"

definition hex_value :: "char \<Rightarrow> nat" where
  "hex_value c = (let n = of_char c in if n < 58 then n - 48 else n - 87)"

lemma hex_value_char: "i < 16 \<Longrightarrow> hex_value (hex_char i) = i"
  by (simp add: hex_value_def hex_char_def)

lemma hex_char_eq: "i < 16 \<Longrightarrow> j < 16 \<Longrightarrow> hex_char i = hex_char j \<longleftrightarrow> i = j"
  by (metis hex_value_char)

lemma hex_encode_eq [simp]: "hex_encode a = hex_encode b \<longleftrightarrow> a = b"
proof (induction a arbitrary: b)
  case Nil
  then show ?case by (cases b) auto
next
  case (Cons x xs)
  have byte: "unat x div 16 < 16" "unat x mod 16 < 16" for x :: byte
    using unat_byte [of x] by auto
  have div_mod: "unat x div 16 = unat y div 16 \<and> unat x mod 16 = unat y mod 16 \<longleftrightarrow> x = y" for x y :: byte
    by (metis div_mult_mod_eq word_of_unat)
  show ?case
    by (cases b) (auto simp: hex_char_eq byte Cons div_mod [symmetric])
qed

lemma length_hex_encode [simp]: "length (hex_encode bs) = 2 * length bs"
  by (induction bs) simp_all

section \<open>Random secrets\<close>

text \<open>
  \<open>rand_read n\<close> stands for \<open>rand.Read\<close> on a buffer of \<open>n\<close> bytes: the bytes read, or an error.
\<close>

definition RandomPassword :: "(nat \<Rightarrow> ('w, byte list) prog) \<Rightarrow> nat \<Rightarrow> ('w, string) prog" where
  "RandomPassword rand_read n =
     (let n = (if n < 16 then 16 else n) in
      andThen (wrapErr ''generate password: '' (rand_read n)) (\<lambda>buf.
      ret (raw_url_encode buf)))"

definition RandomAPIKey :: "(nat \<Rightarrow> ('w, byte list) prog) \<Rightarrow> ('w, string) prog" where
  "RandomAPIKey rand_read =
     andThen (wrapErr ''generate api key: '' (rand_read 32)) (\<lambda>buf.
     ret (''gic_'' @ hex_encode buf))"

end
