(* ===== verification/Config.thy ===== *)
theory Config imports Models Secrets begin

text \<open>
  \<open>internal/config/config.go\<close>: the configuration structs, the defaults, \<open>Validate\<close> (which
  also fills in missing values, so it is a program over the configuration), the API key check and
  the file-permission check.
\<close>

unbundle bit_operations_syntax

section \<open>The configuration\<close>

record usage_config =
  u_sample_interval :: int
  u_hourly_enabled :: bool
  u_hourly_interval :: int
  u_hourly_retention :: int
  u_daily_retention :: int

record server_config =
  s_host :: string
  s_port :: int
  s_read_timeout :: int
  s_write_timeout :: int
  s_idle_timeout :: int

record database_config =
  d_host :: string
  d_port :: int
  d_user :: string
  d_password :: string
  d_name :: string
  d_sslmode :: string
  d_max_conns :: int
  d_min_conns :: int

record redis_config =
  r_host :: string
  r_port :: int
  r_password :: string
  r_db :: int
  r_prefix :: string

record incus_config =
  n_socket :: string
  n_project :: string
  n_pool :: string
  n_network :: string
  n_image_server :: string
  n_image_protocol :: string
  n_default_image :: string
  n_profiles :: "string list"

record ports_config =
  po_start :: int
  po_end :: int
  po_per_instance :: int

record defaults_config =
  df_cpu :: rat
  df_memory :: int
  df_storage :: int
  df_processes :: int
  df_bandwidth :: int
  df_traffic_gb :: int

record config =
  c_server :: server_config
  c_api_keys :: "string list"
  c_database :: database_config
  c_redis :: redis_config
  c_incus :: incus_config
  c_ports :: ports_config
  c_defaults :: defaults_config
  c_usage :: usage_config

text \<open>\<open>time.Second\<close>, \<open>time.Minute\<close>, \<open>time.Hour\<close> in nanoseconds.\<close>

definition second :: int where "second = 1000000000"
definition minute :: int where "minute = 60 * second"
definition hour :: int where "hour = 60 * minute"

definition ServerAddr :: "server_config \<Rightarrow> string" where
  "ServerAddr s = s_host s @ '':'' @ itoa (s_port s)"

definition DSN :: "database_config \<Rightarrow> string" where
  "DSN d = ''host='' @ d_host d @ '' port='' @ itoa (d_port d) @ '' user='' @ d_user d
     @ '' password='' @ d_password d @ '' dbname='' @ d_name d @ '' sslmode='' @ d_sslmode d"

definition RedisAddr :: "redis_config \<Rightarrow> string" where
  "RedisAddr r = r_host r @ '':'' @ itoa (r_port r)"

section \<open>Defaults\<close>

definition Default :: config where
  "Default = \<lparr>
     c_server = \<lparr>s_host = ''0.0.0.0'', s_port = 9603, s_read_timeout = 30 * second,
       s_write_timeout = 60 * second, s_idle_timeout = 120 * second\<rparr>,
     c_api_keys = [],
     c_database = \<lparr>d_host = ''127.0.0.1'', d_port = 9601, d_user = ''goincus'', d_password = '''',
       d_name = ''goincus'', d_sslmode = ''disable'', d_max_conns = 25, d_min_conns = 2\<rparr>,
     c_redis = \<lparr>r_host = ''127.0.0.1'', r_port = 9602, r_password = '''', r_db = 0,
       r_prefix = ''goincus:''\<rparr>,
     c_incus = \<lparr>n_socket = '''', n_project = ''default'', n_pool = ''goincus'',
       n_network = ''incusbr0'', n_image_server = ''https://images.linuxcontainers.org'',
       n_image_protocol = ''simplestreams'', n_default_image = ''ubuntu/24.04'',
       n_profiles = [''goincus-unprivileged'']\<rparr>,
     c_ports = \<lparr>po_start = 20000, po_end = 29999, po_per_instance = 20\<rparr>,
     c_defaults = \<lparr>df_cpu = 1, df_memory = 512, df_storage = 10, df_processes = 512,
       df_bandwidth = 100, df_traffic_gb = 1024\<rparr>,
     c_usage = \<lparr>u_sample_interval = minute, u_hourly_enabled = True, u_hourly_interval = hour,
       u_hourly_retention = 30, u_daily_retention = 400\<rparr>\<rparr>"

definition GenerateInitialized :: "(nat \<Rightarrow> ('w, byte list) prog) \<Rightarrow> ('w, config) prog" where
  "GenerateInitialized rand_read =
     andThen (RandomPassword rand_read 24) (\<lambda>dbPass.
     andThen (RandomPassword rand_read 24) (\<lambda>redisPass.
     andThen (RandomAPIKey rand_read) (\<lambda>apiKey.
     andThen (RandomAPIKey rand_read) (\<lambda>adminKey.
     ret (Default\<lparr>c_database := (c_database Default)\<lparr>d_password := dbPass\<rparr>,
       c_redis := (c_redis Default)\<lparr>r_password := redisPass\<rparr>,
       c_api_keys := [apiKey, adminKey]\<rparr>)))))"

section \<open>Validation\<close>

text \<open>
  The checks in the order of the code. Between them the code fills in missing values of its
  receiver, so the configuration is the state of the program; \<open>fixup\<close> is such an assignment.
\<close>

definition fixup :: "('w \<Rightarrow> 'w) \<Rightarrow> ('w, unit) prog" where
  "fixup f w = (Inr (), f w)"

definition reject :: "('w \<Rightarrow> bool) \<Rightarrow> ('w \<Rightarrow> string) \<Rightarrow> ('w, unit) prog" where
  "reject bad msg w = (if bad w then (Inl (ErrText (msg w)), w) else (Inr (), w))"

definition emdash :: string where
  "emdash = [CHR 0xE2, CHR 0x80, CHR 0x94]"

definition setupHintPath :: string where
  "setupHintPath = ''/etc/goincus/config.yaml''"

definition with_ports :: "(ports_config \<Rightarrow> ports_config) \<Rightarrow> config \<Rightarrow> config" where
  "with_ports f c = c\<lparr>c_ports := f (c_ports c)\<rparr>"

definition with_usage :: "(usage_config \<Rightarrow> usage_config) \<Rightarrow> config \<Rightarrow> config" where
  "with_usage f c = c\<lparr>c_usage := f (c_usage c)\<rparr>"

definition default_port_block :: "ports_config \<Rightarrow> ports_config" where
  "default_port_block p = (if po_per_instance p \<le> 0 then p\<lparr>po_per_instance := 20\<rparr> else p)"

definition default_intervals :: "usage_config \<Rightarrow> usage_config" where
  "default_intervals u =
     (let u = (if u_sample_interval u \<le> 0 then u\<lparr>u_sample_interval := minute\<rparr> else u);
          u = (if u_hourly_interval u \<le> 0 then u\<lparr>u_hourly_interval := hour\<rparr> else u);
          u = (if u_hourly_retention u \<le> 0 then u\<lparr>u_hourly_retention := 30\<rparr> else u)
      in if u_daily_retention u \<le> 0 then u\<lparr>u_daily_retention := 400\<rparr> else u)"

definition Validate :: "(config, unit) prog" where
  "Validate =
     andThen (reject (\<lambda>c. s_port (c_server c) \<le> 0 \<or> s_port (c_server c) > 65535)
       (\<lambda>c. ''invalid server port: '' @ itoa (s_port (c_server c)))) (\<lambda>_.
     andThen (reject (\<lambda>c. d_host (c_database c) = '''' \<or> d_port (c_database c) \<le> 0)
       (\<lambda>c. ''database host/port required'')) (\<lambda>_.
     andThen (reject (\<lambda>c. r_host (c_redis c) = '''' \<or> r_port (c_redis c) \<le> 0)
       (\<lambda>c. ''redis host/port required'')) (\<lambda>_.
     andThen (reject (\<lambda>c. po_start (c_ports c) \<ge> po_end (c_ports c))
       (\<lambda>c. ''invalid host port range: '' @ itoa (po_start (c_ports c)) @ ''-''
            @ itoa (po_end (c_ports c)))) (\<lambda>_.
     andThen (fixup (with_ports default_port_block)) (\<lambda>_.
     andThen (reject (\<lambda>c. po_per_instance (c_ports c) > po_end (c_ports c) - po_start (c_ports c) + 1)
       (\<lambda>c. ''ports_per_instance '' @ itoa (po_per_instance (c_ports c))
            @ '' exceeds host port range'')) (\<lambda>_.
     andThen (reject (\<lambda>c. df_cpu (c_defaults c) < 1 / 10)
       (\<lambda>c. ''defaults.cpu_cores must be >= 0.1'')) (\<lambda>_.
     andThen (reject (\<lambda>c. df_memory (c_defaults c) < 64)
       (\<lambda>c. ''defaults.memory_mb must be >= 64'')) (\<lambda>_.
     andThen (reject (\<lambda>c. df_storage (c_defaults c) < 1)
       (\<lambda>c. ''defaults.storage_gb must be >= 1'')) (\<lambda>_.
     andThen (reject (\<lambda>c. df_bandwidth (c_defaults c) < 0)
       (\<lambda>c. ''defaults.bandwidth_mbps must be >= 0 (0 = unlimited)'')) (\<lambda>_.
     andThen (reject (\<lambda>c. df_traffic_gb (c_defaults c) < 0)
       (\<lambda>c. ''defaults.traffic_monthly_gb must be >= 0 (0 = unlimited)'')) (\<lambda>_.
     andThen (fixup (with_usage default_intervals)) (\<lambda>_.
     andThen (reject (\<lambda>c. c_api_keys c = [])
       (\<lambda>c. ''auth.api_keys must contain at least one key (run: goincus init)'')) (\<lambda>_.
     andThen (reject (\<lambda>c. \<exists>key \<in> set (c_api_keys c). strings_Contains key ''REPLACE_WITH'')
       (\<lambda>c. setupHintPath @ '' looks like a package template '' @ emdash
            @ '' run: sudo goincus init (do not overwrite an existing working config unless secrets were lost)'')) (\<lambda>_.
     reject (\<lambda>c. strings_Contains (d_password (c_database c)) ''REPLACE_WITH''
              \<or> strings_Contains (r_password (c_redis c)) ''REPLACE_WITH'')
       (\<lambda>c. setupHintPath @ '' has template passwords '' @ emdash
            @ '' apt upgrade used to overwrite this file; restore a backup or run: sudo goincus init --force'')))))))))))))))"

text \<open>
  \<open>Load\<close> reads the file, parses it over the defaults (\<open>yaml.Unmarshal\<close>, not under \<open>src/\<close>, is
  the argument \<open>unmarshal\<close>) and validates the result.
\<close>

definition Load ::
    "(string \<Rightarrow> error + byte list) \<Rightarrow> (byte list \<Rightarrow> config \<Rightarrow> error + config) \<Rightarrow> string \<Rightarrow> error + config" where
  "Load read_file unmarshal path =
     (case read_file path of
        Inl e \<Rightarrow> Inl (ErrWrap ''read config: '' e '''')
      | Inr data \<Rightarrow>
          (case unmarshal data Default of
             Inl e \<Rightarrow> Inl (ErrWrap ''parse config: '' e '''')
           | Inr cfg \<Rightarrow>
               (case Validate cfg of
                  (Inl e, _) \<Rightarrow> Inl e
                | (Inr _, cfg') \<Rightarrow> Inr cfg')))"

text \<open>What a configuration that passed \<open>Validate\<close> satisfies.\<close>

definition config_ok :: "config \<Rightarrow> bool" where
  "config_ok c \<longleftrightarrow>
     0 < s_port (c_server c) \<and> s_port (c_server c) \<le> 65535 \<and>
     d_host (c_database c) \<noteq> '''' \<and> 0 < d_port (c_database c) \<and>
     r_host (c_redis c) \<noteq> '''' \<and> 0 < r_port (c_redis c) \<and>
     po_start (c_ports c) < po_end (c_ports c) \<and>
     0 < po_per_instance (c_ports c) \<and>
     po_per_instance (c_ports c) \<le> po_end (c_ports c) - po_start (c_ports c) + 1 \<and>
     1 / 10 \<le> df_cpu (c_defaults c) \<and> 64 \<le> df_memory (c_defaults c) \<and>
     1 \<le> df_storage (c_defaults c) \<and> 0 \<le> df_bandwidth (c_defaults c) \<and>
     0 \<le> df_traffic_gb (c_defaults c) \<and>
     0 < u_sample_interval (c_usage c) \<and> 0 < u_hourly_interval (c_usage c) \<and>
     0 < u_hourly_retention (c_usage c) \<and> 0 < u_daily_retention (c_usage c) \<and>
     c_api_keys c \<noteq> []"

lemma andThen_reject [simp]:
  "andThen (reject bad msg) g w = (if bad w then (Inl (ErrText (msg w)), w) else g () w)"
  by (simp add: andThen_def reject_def)

lemma andThen_fixup [simp]: "andThen (fixup f) g w = g () (f w)"
  by (simp add: andThen_def fixup_def)

lemma with_usage_default_intervals:
  "0 < u_sample_interval u \<Longrightarrow> 0 < u_hourly_interval u \<Longrightarrow> 0 < u_hourly_retention u \<Longrightarrow>
   0 < u_daily_retention u \<Longrightarrow> default_intervals u = u"
  by (simp add: default_intervals_def Let_def)

lemma default_intervals_pos:
  "0 < u_sample_interval (default_intervals u)" "0 < u_hourly_interval (default_intervals u)"
  "0 < u_hourly_retention (default_intervals u)" "0 < u_daily_retention (default_intervals u)"
  by (simp_all add: default_intervals_def Let_def minute_def hour_def second_def)

lemma default_port_block_pos: "0 < po_per_instance (default_port_block p)"
  by (simp add: default_port_block_def)

lemma default_port_block_range [simp]:
  "po_start (default_port_block p) = po_start p" "po_end (default_port_block p) = po_end p"
  by (simp_all add: default_port_block_def)

lemmas config_updates = with_ports_def with_usage_def default_port_block_pos default_intervals_pos

lemma Validate_config_ok: "Validate c = (Inr u, c') \<Longrightarrow> config_ok c'"
  unfolding Validate_def config_ok_def
  by (auto simp: reject_def config_updates split: if_splits)

text \<open>The placeholders of the packaged configuration file.\<close>

definition is_template :: "config \<Rightarrow> bool" where
  "is_template c \<longleftrightarrow>
     (\<exists>key \<in> set (c_api_keys c). strings_Contains key ''REPLACE_WITH'') \<or>
     strings_Contains (d_password (c_database c)) ''REPLACE_WITH'' \<or>
     strings_Contains (r_password (c_redis c)) ''REPLACE_WITH''"

lemma Validate_not_template: "Validate c = (Inr u, c') \<Longrightarrow> \<not> is_template c'"
  unfolding Validate_def is_template_def
  by (auto simp: reject_def config_updates split: if_splits)

lemma Validate_accepts:
  assumes "config_ok c" and "\<not> is_template c"
  shows "Validate c = (Inr (), c)"
proof -
  have "with_ports default_port_block c = c" "with_usage default_intervals c = c"
    using assms(1) by (auto simp: config_ok_def with_ports_def with_usage_def default_port_block_def
        with_usage_default_intervals)
  then show ?thesis
    using assms unfolding Validate_def by (auto simp: config_ok_def is_template_def reject_def)
qed

section \<open>API keys\<close>

text \<open>
  \<open>subtle.ConstantTimeCompare\<close> returns 1 when its two arguments are equal, 0 otherwise. The
  comparison of a key with itself, made for timing only, has no result that is used.
\<close>

definition ConstantTimeCompare :: "string \<Rightarrow> string \<Rightarrow> int" where
  "ConstantTimeCompare a b = (if a = b then 1 else 0)"

fun valid_key_loop :: "string list \<Rightarrow> string \<Rightarrow> bool \<Rightarrow> bool" where
  "valid_key_loop [] key ok = ok"
| "valid_key_loop (k # ks) key ok =
     (if k = '''' then valid_key_loop ks key ok
      else if length k \<noteq> length key then valid_key_loop ks key ok
      else if ConstantTimeCompare k key = 1 then valid_key_loop ks key True
      else valid_key_loop ks key ok)"

definition ValidAPIKey :: "config \<Rightarrow> string \<Rightarrow> bool" where
  "ValidAPIKey c key =
     (if key = '''' \<or> length (c_api_keys c) = 0 then False else valid_key_loop (c_api_keys c) key False)"

lemma valid_key_loop_iff: "key \<noteq> '''' \<Longrightarrow> valid_key_loop ks key ok \<longleftrightarrow> ok \<or> key \<in> set ks"
  by (induction ks arbitrary: ok) (auto simp: ConstantTimeCompare_def)

lemma ValidAPIKey_iff: "ValidAPIKey c key \<longleftrightarrow> key \<noteq> '''' \<and> key \<in> set (c_api_keys c)"
  by (auto simp: ValidAPIKey_def valid_key_loop_iff)

section \<open>File permissions\<close>

text \<open>\<open>0o077\<close> is 63: the group and other bits of a Unix mode. The message prints the mode in octal.\<close>

fun octal_str :: "nat \<Rightarrow> string" where
  "octal_str n = (if n < 8 then [digit_char n] else octal_str (n div 8) @ [digit_char (n mod 8)])"

declare octal_str.simps [simp del]

definition EnsureFilePermissions :: "(string \<Rightarrow> error + 32 word) \<Rightarrow> string \<Rightarrow> error + unit" where
  "EnsureFilePermissions stat_perm path =
     (case stat_perm path of
        Inl e \<Rightarrow> Inl e
      | Inr mode \<Rightarrow>
          if mode AND 63 \<noteq> 0
          then Inl (ErrText (path @ '' mode is 0'' @ octal_str (unat mode)
                 @ '' (expected 0600); run: chmod 600 '' @ path))
          else Inr ())"

section \<open>Properties\<close>

text \<open>A configuration that \<open>Load\<close> returns has every bound the service relies on: ports in range, a
  non-empty host port range that holds at least one block, positive block size, defaults within
  the limits, positive intervals and retentions, at least one API key, and no placeholder of the
  packaged template.
\<close>

theorem Load_config_ok:
  assumes "Load read_file unmarshal path = Inr c"
  shows "config_ok c \<and> \<not> is_template c"
  using assms
  by (auto simp: Load_def split: sum.splits prod.splits dest: Validate_config_ok Validate_not_template)

lemma sample_config_valid:
  "Validate (Default\<lparr>c_api_keys := [''gic_test'']\<rparr>) = (Inr (), Default\<lparr>c_api_keys := [''gic_test'']\<rparr>)"
  by (rule Validate_accepts)
    (simp_all add: config_ok_def is_template_def Default_def minute_def hour_def second_def
      strings_HasPrefix_def)

theorem Load_config_ok_witness:
  "config_ok (Default\<lparr>c_api_keys := [''gic_test'']\<rparr>) \<and> \<not> is_template (Default\<lparr>c_api_keys := [''gic_test'']\<rparr>)"
  by (rule Load_config_ok [where read_file = "\<lambda>_. Inr []" and path = "[]"
        and unmarshal = "\<lambda>_ d. Inr (d\<lparr>c_api_keys := [''gic_test'']\<rparr>)"])
    (simp add: Load_def sample_config_valid)

text \<open>The key check accepts exactly the non-empty configured keys: the constant-time loop, which
  never stops early, computes membership.
\<close>

theorem ValidAPIKey_correct:
  "ValidAPIKey c key \<longleftrightarrow> key \<noteq> '''' \<and> key \<in> set (c_api_keys c)"
  by (rule ValidAPIKey_iff)

end
