(* ===== verification/World.thy ===== *)
theory World imports Config begin

text \<open>
  The state the program works on and the services it calls.

  The four tables of the database are concrete, because their schema and every statement on them
  is code of the repository (\<open>migrations/*.sql\<close>, \<open>internal/db/store.go\<close>). The Redis server, the
  PostgreSQL connection, the clock, the random source and the UUID library are not: their
  operations are fields of \<open>sys\<close> that act on an opaque state (\<open>'r\<close> for Redis, \<open>'e\<close> for the
  rest), and nothing is known of them but what a theorem assumes. \<open>'i\<close> is the state behind
  \<open>internal/incusclient\<close>: the Incus daemon with the client's own mutable fields; the service
  reaches it through the operations collected in \<open>incus_client\<close>.

  Any call may fail, and a failed database statement may or may not have taken effect.
\<close>

section \<open>The database\<close>

record daily_row =
  dr_instance :: uuid
  dr_day :: time
  dr_disk_used :: int64
  dr_disk_total :: int64
  dr_bandwidth :: int64
  dr_baseline :: int64

record hourly_row =
  hr_instance :: uuid
  hr_hour :: time
  hr_cpu :: rat
  hr_mem_used :: int64
  hr_mem_total :: int64
  hr_disk_used :: int64
  hr_disk_total :: int64
  hr_bandwidth :: int64
  hr_cpu_ns :: int64
  hr_net_total :: int64

text \<open>A row of \<open>instances\<close> is an \<open>inst\<close> whose \<open>i_ports\<close>, which is no column, is empty.\<close>

record database =
  t_instances :: "inst list"
  t_ports :: "port_mapping list"
  t_daily :: "daily_row list"
  t_hourly :: "hourly_row list"

text \<open>
  What the PostgreSQL connection answers to one statement. \<open>PgDone t v\<close>: it was executed at
  server time \<open>t\<close> (\<open>NOW()\<close>), and \<open>v\<close> is the text the server reports should a constraint refuse
  it. \<open>PgLost t v m\<close>: it was executed, but the reply was lost and the caller sees error \<open>m\<close>.
  \<open>PgDown m\<close>: it never reached the server.
\<close>

datatype pg_reply = PgDone time string | PgLost time string string | PgDown string

section \<open>The Redis commands the program sends\<close>

datatype redis_command = CmdDel string | CmdSAdd string "int list"

record 'r redis_server =
  rs_ping :: "('r, unit) prog"
  rs_setnx :: "string \<Rightarrow> string \<Rightarrow> int \<Rightarrow> ('r, bool) prog"
  rs_del :: "string \<Rightarrow> ('r, unit) prog"
  rs_sadd :: "string \<Rightarrow> int \<Rightarrow> ('r, unit) prog"
  rs_srem :: "string \<Rightarrow> int \<Rightarrow> ('r, unit) prog"
  rs_sismember :: "string \<Rightarrow> int \<Rightarrow> ('r, bool) prog"
  rs_tx :: "redis_command list \<Rightarrow> ('r, unit) prog"
  rs_set :: "string \<Rightarrow> string \<Rightarrow> int \<Rightarrow> ('r, unit) prog"
  rs_get :: "string \<Rightarrow> ('r, string option) prog"

section \<open>The operations of the Incus client that the service calls\<close>

record create_args =
  a_name :: string
  a_image :: string
  a_cpu :: rat
  a_memory :: int
  a_storage :: int
  a_processes :: int
  a_bandwidth :: int
  a_profiles :: "string list"
  a_password :: string
  a_ssh_port :: int

record proxy_spec =
  x_device :: string
  x_protocol :: string
  x_host :: int
  x_internal :: int

record resource_sample =
  rs_cpu_ns :: int64
  rs_mem_used :: int64
  rs_mem_total :: int64
  rs_disk_used :: int64
  rs_disk_total :: int64
  rs_net_total :: int64

record pool_space =
  ps_pool :: string
  ps_driver :: string
  ps_total :: "64 word"
  ps_used :: "64 word"
  ps_free :: "64 word"

record 'i incus_client =
  ic_Ping :: "('i, unit) prog"
  ic_CreateContainer :: "create_args \<Rightarrow> ('i, unit) prog"
  ic_EnsureStarted :: "string \<Rightarrow> ('i, unit) prog"
  ic_EnsureInstanceIPv4 :: "string \<Rightarrow> ('i, string) prog"
  ic_HardenNetwork :: "string \<Rightarrow> ('i, unit) prog"
  ic_ConfigureGuestDNS :: "string \<Rightarrow> ('i, unit) prog"
  ic_EnsureSSH :: "string \<Rightarrow> string \<Rightarrow> int \<Rightarrow> ('i, unit) prog"
  ic_SetRootPassword :: "string \<Rightarrow> string \<Rightarrow> ('i, unit) prog"
  ic_AddProxyDevices :: "string \<Rightarrow> proxy_spec list \<Rightarrow> ('i, unit) prog"
  ic_AddProxyDevice :: "string \<Rightarrow> string \<Rightarrow> string \<Rightarrow> int \<Rightarrow> int \<Rightarrow> ('i, unit) prog"
  ic_RemoveProxyDevice :: "string \<Rightarrow> string \<Rightarrow> ('i, unit) prog"
  ic_UpdateProxyDeviceProtocol ::
    "string \<Rightarrow> string \<Rightarrow> string \<Rightarrow> string \<Rightarrow> int \<Rightarrow> int \<Rightarrow> ('i, unit) prog"
  ic_GetStatus :: "string \<Rightarrow> ('i, string) prog"
  ic_IsRunning :: "string \<Rightarrow> 'i \<Rightarrow> bool \<times> 'i"
  ic_UpdateResourceLimits :: "string \<Rightarrow> rat \<Rightarrow> int \<Rightarrow> int \<Rightarrow> int \<Rightarrow> bool \<Rightarrow> ('i, unit) prog"
  ic_EnsureDiskIsolation :: "string \<Rightarrow> ('i, unit) prog"
  ic_ApplyNetworkPolicy :: "string \<Rightarrow> int \<Rightarrow> bool \<Rightarrow> ('i, unit) prog"
  ic_StopContainer :: "string \<Rightarrow> bool \<Rightarrow> ('i, unit) prog"
  ic_RestartContainer :: "string \<Rightarrow> ('i, unit) prog"
  ic_DeleteContainer :: "string \<Rightarrow> ('i, unit) prog"
  ic_NetworkBytesTotal :: "string \<Rightarrow> ('i, int64) prog"
  ic_ResourceSample :: "string \<Rightarrow> ('i, resource_sample) prog"
  ic_DiskUsageBytes :: "string \<Rightarrow> ('i, int64 \<times> int64) prog"
  ic_StoragePoolSpace :: "('i, pool_space) prog"

section \<open>The system\<close>

record ('r, 'i, 'e) sys =
  sys_cfg :: config
  sys_redis :: "'r redis_server"
  sys_incus :: "'i incus_client"
  sys_pg :: "'e \<Rightarrow> pg_reply \<times> 'e"
  sys_pg_ping :: "('e, unit) prog"
  sys_now :: "'e \<Rightarrow> time \<times> 'e"
  sys_rand :: "nat \<Rightarrow> ('e, byte list) prog"
  sys_uuid :: "'e \<Rightarrow> uuid \<times> 'e"
  uuid_String :: "uuid \<Rightarrow> string"
  uuid_Parse :: "string \<Rightarrow> uuid option"

record ('r, 'i, 'e) world =
  w_db :: database
  w_redis :: 'r
  w_incus :: 'i
  w_env :: 'e

definition on_redis :: "('r, 'a) prog \<Rightarrow> (('r, 'i, 'e) world, 'a) prog" where
  "on_redis f w = (case f (w_redis w) of (x, r) \<Rightarrow> (x, w\<lparr>w_redis := r\<rparr>))"

definition on_incus :: "('i, 'a) prog \<Rightarrow> (('r, 'i, 'e) world, 'a) prog" where
  "on_incus f w = (case f (w_incus w) of (x, i) \<Rightarrow> (x, w\<lparr>w_incus := i\<rparr>))"

definition on_env :: "('e, 'a) prog \<Rightarrow> (('r, 'i, 'e) world, 'a) prog" where
  "on_env f w = (case f (w_env w) of (x, e) \<Rightarrow> (x, w\<lparr>w_env := e\<rparr>))"

text \<open>Calls that cannot fail.\<close>

definition total :: "('w \<Rightarrow> 'a \<times> 'w) \<Rightarrow> ('w, 'a) prog" where
  "total f w = (case f w of (x, w') \<Rightarrow> (Inr x, w'))"

definition time_Now :: "('r, 'i, 'e) sys \<Rightarrow> (('r, 'i, 'e) world, time) prog" where
  "time_Now S = on_env (total (sys_now S))"

definition uuid_New :: "('r, 'i, 'e) sys \<Rightarrow> (('r, 'i, 'e) world, uuid) prog" where
  "uuid_New S = on_env (total (sys_uuid S))"

definition is_running :: "('r, 'i, 'e) sys \<Rightarrow> string \<Rightarrow> (('r, 'i, 'e) world, bool) prog" where
  "is_running S name = on_incus (total (ic_IsRunning (sys_incus S) name))"

text \<open>
  One statement on the database: \<open>stmt v t\<close> is its meaning on the tables, at server time \<open>t\<close>, with
  \<open>v\<close> the text of a constraint violation.
\<close>

definition sql ::
    "('r, 'i, 'e) sys \<Rightarrow> (string \<Rightarrow> time \<Rightarrow> (database, 'a) prog) \<Rightarrow> (('r, 'i, 'e) world, 'a) prog" where
  "sql S stmt w =
     (case sys_pg S (w_env w) of (reply, e) \<Rightarrow>
      (case reply of
         PgDone t v \<Rightarrow> (case stmt v t (w_db w) of (r, d) \<Rightarrow> (r, w\<lparr>w_db := d, w_env := e\<rparr>))
       | PgLost t v m \<Rightarrow>
           (case stmt v t (w_db w) of (r, d) \<Rightarrow> (Inl (ErrText m), w\<lparr>w_db := d, w_env := e\<rparr>))
       | PgDown m \<Rightarrow> (Inl (ErrText m), w\<lparr>w_env := e\<rparr>)))"

definition query :: "('r, 'i, 'e) sys \<Rightarrow> (database \<Rightarrow> 'a) \<Rightarrow> (('r, 'i, 'e) world, 'a) prog" where
  "query S f = sql S (\<lambda>v t. asks f)"

section \<open>Frames of the lifted calls\<close>

text \<open>
  A property of the tables is kept by every call that does not reach them, and by a statement
  whose meaning on the tables keeps it.
\<close>

definition db_rel :: "(database \<Rightarrow> database \<Rightarrow> bool) \<Rightarrow> ('r, 'i, 'e) world \<Rightarrow> ('r, 'i, 'e) world \<Rightarrow> bool" where
  "db_rel Q w w' \<longleftrightarrow> Q (w_db w) (w_db w')"

lemma total_frame: "steps R (total f) \<longleftrightarrow> (\<forall>w. R w (snd (f w)))"
  by (simp add: steps_def total_def split_beta)

locale db_frame =
  fixes Q :: "database \<Rightarrow> database \<Rightarrow> bool"
  assumes db_refl: "Q d d"
    and db_trans: "Q a b \<Longrightarrow> Q b c \<Longrightarrow> Q a c"
begin

sublocale frame "db_rel Q"
  by unfold_locales (auto simp: db_rel_def intro: db_refl db_trans)

lemma steps_on_redis [frame_rules]: "steps (db_rel Q) (on_redis f)"
  by (simp add: steps_def on_redis_def db_rel_def db_refl split_beta)

lemma steps_on_incus [frame_rules]: "steps (db_rel Q) (on_incus f)"
  by (simp add: steps_def on_incus_def db_rel_def db_refl split_beta)

lemma steps_on_env [frame_rules]: "steps (db_rel Q) (on_env f)"
  by (simp add: steps_def on_env_def db_rel_def db_refl split_beta)

lemma steps_is_running [frame_rules]: "steps (db_rel Q) (is_running S name)"
  unfolding is_running_def by (rule steps_on_incus)

lemma steps_sql: "(\<And>v t. steps Q (stmt v t)) \<Longrightarrow> steps (db_rel Q) (sql S stmt)"
  by (auto simp: steps_def sql_def db_rel_def db_refl split_beta split: pg_reply.split)

end

text \<open>
  The interface of the calls that write no table: a relation on the world that a change of Redis or of the
  environment respects. A frame of the tables is one for every system \<open>S\<close>.
\<close>

locale reads_frame = frame R for R :: "('r, 'i, 'e) world \<Rightarrow> ('r, 'i, 'e) world \<Rightarrow> bool" +
  fixes S :: "('r, 'i, 'e) sys"
  assumes new_redis: "R w (w\<lparr>w_redis := r\<rparr>)"
    and new_env: "R w (w\<lparr>w_env := e\<rparr>)"
begin

lemma steps_redis_call [frame_rules]: "steps R (on_redis f)"
  by (simp add: steps_def on_redis_def new_redis split_beta)

lemma steps_env_call [frame_rules]: "steps R (on_env f)"
  by (simp add: steps_def on_env_def new_env split_beta)

lemma steps_query [frame_rules]: "steps R (query S f)"
  by (auto simp: steps_def query_def sql_def asks_def new_env split_beta split: pg_reply.split)

lemma steps_time_Now [frame_rules]: "steps R (time_Now S)"
  unfolding time_Now_def by (rule steps_env_call)

lemma steps_uuid_New [frame_rules]: "steps R (uuid_New S)"
  unfolding uuid_New_def by (rule steps_env_call)

end

sublocale db_frame \<subseteq> reads_frame "db_rel Q" S for S :: "('r, 'i, 'e) sys"
  by unfold_locales (simp_all add: db_rel_def db_refl)

text \<open>The interface of the Incus client: a relation that each of its calls respects.\<close>

definition incus_respects ::
    "(('r, 'i, 'e) world \<Rightarrow> ('r, 'i, 'e) world \<Rightarrow> bool) \<Rightarrow> 'i incus_client \<Rightarrow> bool" where
  "incus_respects R C \<longleftrightarrow>
     steps R (on_incus (ic_Ping C)) \<and> (\<forall>a. steps R (on_incus (ic_CreateContainer C a)))
   \<and> (\<forall>n. steps R (on_incus (ic_EnsureStarted C n))) \<and> (\<forall>n. steps R (on_incus (ic_EnsureInstanceIPv4 C n)))
   \<and> (\<forall>n. steps R (on_incus (ic_HardenNetwork C n))) \<and> (\<forall>n. steps R (on_incus (ic_ConfigureGuestDNS C n)))
   \<and> (\<forall>n pw p. steps R (on_incus (ic_EnsureSSH C n pw p))) \<and> (\<forall>n pw. steps R (on_incus (ic_SetRootPassword C n pw)))
   \<and> (\<forall>n xs. steps R (on_incus (ic_AddProxyDevices C n xs)))
   \<and> (\<forall>n d pr h i. steps R (on_incus (ic_AddProxyDevice C n d pr h i)))
   \<and> (\<forall>n d. steps R (on_incus (ic_RemoveProxyDevice C n d)))
   \<and> (\<forall>n d d' pr h i. steps R (on_incus (ic_UpdateProxyDeviceProtocol C n d d' pr h i)))
   \<and> (\<forall>n. steps R (on_incus (ic_GetStatus C n))) \<and> (\<forall>n. steps R (on_incus (total (ic_IsRunning C n))))
   \<and> (\<forall>n c m p b t. steps R (on_incus (ic_UpdateResourceLimits C n c m p b t)))
   \<and> (\<forall>n. steps R (on_incus (ic_EnsureDiskIsolation C n))) \<and> (\<forall>n b t. steps R (on_incus (ic_ApplyNetworkPolicy C n b t)))
   \<and> (\<forall>n f. steps R (on_incus (ic_StopContainer C n f))) \<and> (\<forall>n. steps R (on_incus (ic_RestartContainer C n)))
   \<and> (\<forall>n. steps R (on_incus (ic_DeleteContainer C n))) \<and> (\<forall>n. steps R (on_incus (ic_NetworkBytesTotal C n)))
   \<and> (\<forall>n. steps R (on_incus (ic_ResourceSample C n))) \<and> (\<forall>n. steps R (on_incus (ic_DiskUsageBytes C n)))
   \<and> steps R (on_incus (ic_StoragePoolSpace C))"

section \<open>Nothing but the store's statements changes the tables\<close>

interpretation same_db: db_frame "(=)"
  by unfold_locales auto

text \<open>A query that returned saw the tables as they were, and changed nothing but the environment.\<close>

lemma query_Inr:
  assumes "query S f w = (Inr x, w')"
  shows "x = f (w_db w)" and "w_db w' = w_db w" and "w_redis w' = w_redis w" and "w_incus w' = w_incus w"
  using assms by (auto simp: query_def sql_def asks_def split: prod.splits pg_reply.splits)

lemma query_frame: "w_db (snd (query S f w)) = w_db w" "w_redis (snd (query S f w)) = w_redis w"
  "w_incus (snd (query S f w)) = w_incus w"
  by (auto simp: query_def sql_def asks_def split: prod.splits pg_reply.splits)

section \<open>A database connection that answers\<close>

definition pg_up :: "('r, 'i, 'e) sys \<Rightarrow> bool" where
  "pg_up S \<longleftrightarrow> (\<forall>e. \<exists>t v e'. sys_pg S e = (PgDone t v, e'))"

lemma query_up: "pg_up S \<Longrightarrow> \<exists>e. query S f w = (Inr (f (w_db w)), w\<lparr>w_env := e\<rparr>)"
  unfolding pg_up_def query_def sql_def asks_def by (drule spec [of _ "w_env w"]) auto

lemma sql_up: "pg_up S \<Longrightarrow> \<exists>t v e. sql S stmt w = (fst (stmt v t (w_db w)), w\<lparr>w_db := snd (stmt v t (w_db w)), w_env := e\<rparr>)"
proof -
  assume "pg_up S"
  then obtain t v e where "sys_pg S (w_env w) = (PgDone t v, e)" unfolding pg_up_def by blast
  then have "sql S stmt w = (fst (stmt v t (w_db w)), w\<lparr>w_db := snd (stmt v t (w_db w)), w_env := e\<rparr>)"
    by (simp add: sql_def split_beta)
  then show ?thesis by blast
qed

end
