(* ===== verification/Store.thy ===== *)
theory Store imports World "HOL-Library.Char_ord" "HOL-Library.List_Lexorder" begin

text \<open>
  \<open>internal/db/store.go\<close> over the schema of \<open>migrations/*.sql\<close>: for every method the meaning of
  its SQL statement on the tables (first half), and the method (second half, prefix \<open>db_\<close>).
  \<open>db_ok\<close> is what the schema's keys and checks promise; every method keeps it.

  A statement that a constraint refuses leaves the tables alone and returns an error with the text
  the server chose. Rows come back in table order where the SQL gives no order, and ties of an
  \<open>ORDER BY\<close> keep table order. Text is ordered by bytes (collation \<open>C\<close>).
\<close>

section \<open>The schema's column types and constraints\<close>

text \<open>\<open>INTEGER\<close> is 32 bits signed; \<open>NUMERIC(8,2)\<close> has six digits before the point and two after.\<close>

definition int4 :: "int \<Rightarrow> bool" where
  "int4 x \<longleftrightarrow> - 2147483648 \<le> x \<and> x \<le> 2147483647"

definition numeric_8_2 :: "rat \<Rightarrow> rat" where
  "numeric_8_2 x = of_int (round (x * 100)) / 100"

definition instance_columns :: "inst \<Rightarrow> bool" where
  "instance_columns r \<longleftrightarrow> int4 (i_memory r) \<and> int4 (i_storage r) \<and> int4 (i_processes r)
     \<and> int4 (i_bandwidth r) \<and> int4 (i_traffic_gb r) \<and> \<bar>i_cpu r\<bar> < 1000000"

definition instance_checks :: "inst \<Rightarrow> bool" where
  "instance_checks r \<longleftrightarrow> i_cpu r \<ge> 1 / 10 \<and> i_memory r \<ge> 64 \<and> i_storage r \<ge> 1
     \<and> i_processes r \<ge> 1 \<and> i_bandwidth r \<ge> 0 \<and> i_traffic_gb r \<ge> 0
     \<and> 0 \<le> sint (i_traffic_used r) \<and> 0 \<le> sint (i_counter_snap r)"

definition port_checks :: "port_mapping \<Rightarrow> bool" where
  "port_checks p \<longleftrightarrow> p_protocol p \<in> {''tcp'', ''udp''} \<and> 0 < p_host p \<and> p_host p \<le> 65535
     \<and> 0 < p_internal p \<and> p_internal p \<le> 65535"

definition daily_checks :: "daily_row \<Rightarrow> bool" where
  "daily_checks d \<longleftrightarrow> 0 \<le> sint (dr_disk_used d) \<and> 0 \<le> sint (dr_disk_total d)
     \<and> 0 \<le> sint (dr_bandwidth d) \<and> 0 \<le> sint (dr_baseline d)"

definition hourly_checks :: "hourly_row \<Rightarrow> bool" where
  "hourly_checks h \<longleftrightarrow> 0 \<le> hr_cpu h \<and> 0 \<le> sint (hr_mem_used h) \<and> 0 \<le> sint (hr_mem_total h)
     \<and> 0 \<le> sint (hr_disk_used h) \<and> 0 \<le> sint (hr_disk_total h) \<and> 0 \<le> sint (hr_bandwidth h)
     \<and> 0 \<le> sint (hr_cpu_ns h) \<and> 0 \<le> sint (hr_net_total h)"

section \<open>The statements\<close>

subsection \<open>Instances\<close>

definition refused :: "string \<Rightarrow> (database, 'a) prog" where
  "refused v = throw (ErrText v)"

definition set_instances :: "inst list \<Rightarrow> (database, unit) prog" where
  "set_instances rows d = (Inr (), d\<lparr>t_instances := rows\<rparr>)"

definition instance_row :: "inst \<Rightarrow> inst" where
  "instance_row i = i\<lparr>i_cpu := numeric_8_2 (i_cpu i), i_ports := []\<rparr>"

definition insert_instance :: "inst \<Rightarrow> string \<Rightarrow> time \<Rightarrow> (database, unit) prog" where
  "insert_instance i v t d =
     (let r = instance_row i; rows = t_instances d in
      if \<not> instance_columns r \<or> \<not> instance_checks r then refused v d
      else if i_id r \<in> i_id ` set rows \<or> i_name r \<in> i_name ` set rows
            \<or> i_incus r \<in> i_incus ` set rows then refused v d
      else set_instances (rows @ [r]) d)"

text \<open>\<open>UPDATE instances SET \<dots> WHERE id = \<dots>\<close>, refused when a changed row fails a check.\<close>

definition update_instances :: "uuid \<Rightarrow> (inst \<Rightarrow> inst) \<Rightarrow> string \<Rightarrow> (database, unit) prog" where
  "update_instances iid f v d =
     (let rows = map (\<lambda>r. if i_id r = iid then f r else r) (t_instances d) in
      if list_all (\<lambda>r. i_id r = iid \<longrightarrow> instance_checks r) rows then set_instances rows d else refused v d)"

definition set_password :: "uuid \<Rightarrow> string \<Rightarrow> string \<Rightarrow> time \<Rightarrow> (database, unit) prog" where
  "set_password iid password v t =
     update_instances iid (\<lambda>r. r\<lparr>i_password := password, i_updated := t\<rparr>) v"

definition set_status :: "uuid \<Rightarrow> instance_status \<Rightarrow> string \<Rightarrow> string \<Rightarrow> time \<Rightarrow> (database, unit) prog" where
  "set_status iid status msg v t =
     update_instances iid (\<lambda>r. r\<lparr>i_status := status, i_error := msg, i_updated := t\<rparr>) v"

definition soft_delete :: "uuid \<Rightarrow> string \<Rightarrow> time \<Rightarrow> (database, unit) prog" where
  "soft_delete iid v t =
     update_instances iid (\<lambda>r. r\<lparr>i_status := StatusDeleted, i_updated := t\<rparr>) v"

definition set_traffic ::
    "uuid \<Rightarrow> int64 \<Rightarrow> int64 \<Rightarrow> string \<Rightarrow> bool \<Rightarrow> string \<Rightarrow> time \<Rightarrow> (database, unit) prog" where
  "set_traffic iid used snap period throttled v t =
     update_instances iid (\<lambda>r. r\<lparr>i_traffic_used := used, i_counter_snap := snap,
       i_traffic_period := period, i_throttled := throttled, i_updated := t\<rparr>) v"

definition live :: "inst \<Rightarrow> bool" where
  "live r \<longleftrightarrow> i_status r \<noteq> StatusDeleted"

definition select_instance :: "uuid \<Rightarrow> database \<Rightarrow> inst option" where
  "select_instance iid d = List.find (\<lambda>r. i_id r = iid \<and> live r) (t_instances d)"

definition select_instance_by_name :: "string \<Rightarrow> database \<Rightarrow> inst option" where
  "select_instance_by_name name d = List.find (\<lambda>r. i_name r = name \<and> live r) (t_instances d)"

definition select_live_instances :: "database \<Rightarrow> inst list" where
  "select_live_instances d = sort_key (\<lambda>r. - i_created r) (filter live (t_instances d))"

definition select_active_instances :: "database \<Rightarrow> inst list" where
  "select_active_instances d = sort_key (\<lambda>r. - i_created r)
     (filter (\<lambda>r. i_status r \<in> {StatusRunning, StatusStopped, StatusCreating}) (t_instances d))"

subsection \<open>Port mappings\<close>

definition set_ports :: "port_mapping list \<Rightarrow> (database, unit) prog" where
  "set_ports rows d = (Inr (), d\<lparr>t_ports := rows\<rparr>)"

text \<open>\<open>UNIQUE (host_port, protocol)\<close>, \<open>UNIQUE (instance_id, device_name)\<close> and the primary key.\<close>

definition ports_unique :: "port_mapping list \<Rightarrow> bool" where
  "ports_unique ps \<longleftrightarrow> distinct (map p_id ps) \<and> distinct (map (\<lambda>p. (p_host p, p_protocol p)) ps)
     \<and> distinct (map (\<lambda>p. (p_instance p, p_device p)) ps)"

definition insert_port :: "port_mapping \<Rightarrow> string \<Rightarrow> time \<Rightarrow> (database, unit) prog" where
  "insert_port p v t d =
     (if \<not> port_checks p then refused v d
      else if p_instance p \<notin> i_id ` set (t_instances d) then refused v d
      else if \<not> ports_unique (t_ports d @ [p]) then refused v d
      else set_ports (t_ports d @ [p]) d)"

definition select_ports :: "uuid \<Rightarrow> database \<Rightarrow> port_mapping list" where
  "select_ports iid d = sort_key p_host (filter (\<lambda>p. p_instance p = iid) (t_ports d))"

definition select_port :: "uuid \<Rightarrow> uuid \<Rightarrow> database \<Rightarrow> port_mapping option" where
  "select_port instanceID portID d =
     List.find (\<lambda>p. p_id p = portID \<and> p_instance p = instanceID) (t_ports d)"

definition delete_port :: "uuid \<Rightarrow> string \<Rightarrow> time \<Rightarrow> (database, unit) prog" where
  "delete_port iid v t d = set_ports (filter (\<lambda>p. p_id p \<noteq> iid) (t_ports d)) d"

definition set_protocol :: "uuid \<Rightarrow> string \<Rightarrow> string \<Rightarrow> string \<Rightarrow> time \<Rightarrow> (database, unit) prog" where
  "set_protocol iid protocol device v t d =
     (let rows = map (\<lambda>p. if p_id p = iid then p\<lparr>p_protocol := protocol, p_device := device\<rparr> else p)
                   (t_ports d) in
      if list_all (\<lambda>p. p_id p = iid \<longrightarrow> port_checks p) rows \<and> ports_unique rows then set_ports rows d else refused v d)"

definition select_used_ports :: "database \<Rightarrow> int list" where
  "select_used_ports d =
     map p_host (filter (\<lambda>p. \<exists>r \<in> set (t_instances d). i_id r = p_instance p \<and> live r) (t_ports d))"

subsection \<open>Daily usage\<close>

text \<open>\<open>x.UTC().Format("2006-01-02")\<close> cast to \<open>date\<close>: midnight UTC of the day of \<open>x\<close>.\<close>

definition day_ns :: int where "day_ns = 24 * hour"

definition utc_date :: "time \<Rightarrow> time" where
  "utc_date x = x div day_ns * day_ns"

lemma day_ns_pos [simp]: "0 < day_ns" "day_ns \<noteq> 0"
  by (simp_all add: day_ns_def hour_def minute_def second_def)

lemma utc_date_idem [simp]: "utc_date (utc_date t) = utc_date t"
  by (simp add: utc_date_def)

definition upsert_daily :: "daily_row \<Rightarrow> string \<Rightarrow> time \<Rightarrow> (database, unit) prog" where
  "upsert_daily row v t d =
     (let r = row\<lparr>dr_day := utc_date (dr_day row)\<rparr>;
          same = (\<lambda>x. dr_instance x = dr_instance r \<and> dr_day x = dr_day r);
          rows = t_daily d in
      if \<not> daily_checks r \<or> dr_instance r \<notin> i_id ` set (t_instances d) then refused v d
      else if list_ex same rows
      then (Inr (), d\<lparr>t_daily := map (\<lambda>x. if same x then r else x) rows\<rparr>)
      else (Inr (), d\<lparr>t_daily := rows @ [r]\<rparr>))"

definition select_daily :: "uuid \<Rightarrow> time \<Rightarrow> database \<Rightarrow> daily_row option" where
  "select_daily iid day d = List.find (\<lambda>x. dr_instance x = iid \<and> dr_day x = utc_date day) (t_daily d)"

definition select_daily_range :: "uuid \<Rightarrow> time \<Rightarrow> time \<Rightarrow> database \<Rightarrow> daily_row list" where
  "select_daily_range iid from to d =
     sort_key dr_day (filter (\<lambda>x. dr_instance x = iid \<and> utc_date from \<le> dr_day x \<and> dr_day x \<le> utc_date to)
       (t_daily d))"

definition purge_daily :: "time \<Rightarrow> string \<Rightarrow> time \<Rightarrow> (database, unit) prog" where
  "purge_daily before v t d =
     (Inr (), d\<lparr>t_daily := filter (\<lambda>x. \<not> dr_day x < utc_date before) (t_daily d)\<rparr>)"

subsection \<open>Hourly metrics\<close>

definition upsert_hourly :: "hourly_row \<Rightarrow> string \<Rightarrow> time \<Rightarrow> (database, unit) prog" where
  "upsert_hourly r v t d =
     (let same = (\<lambda>x. hr_instance x = hr_instance r \<and> hr_hour x = hr_hour r);
          rows = t_hourly d in
      if \<not> hourly_checks r \<or> hr_instance r \<notin> i_id ` set (t_instances d) then refused v d
      else if list_ex same rows
      then (Inr (), d\<lparr>t_hourly := map (\<lambda>x. if same x then r else x) rows\<rparr>)
      else (Inr (), d\<lparr>t_hourly := rows @ [r]\<rparr>))"

definition select_latest_hourly :: "uuid \<Rightarrow> time \<Rightarrow> database \<Rightarrow> hourly_row option" where
  "select_latest_hourly iid before d =
     (case sort_key (\<lambda>x. - hr_hour x) (filter (\<lambda>x. hr_instance x = iid \<and> hr_hour x < before) (t_hourly d))
      of [] \<Rightarrow> None | x # _ \<Rightarrow> Some x)"

definition select_hourly_range :: "uuid \<Rightarrow> time \<Rightarrow> time \<Rightarrow> database \<Rightarrow> hourly_row list" where
  "select_hourly_range iid from to d =
     sort_key hr_hour (filter (\<lambda>x. hr_instance x = iid \<and> from \<le> hr_hour x \<and> hr_hour x \<le> to) (t_hourly d))"

definition select_hourly_all :: "time \<Rightarrow> time \<Rightarrow> database \<Rightarrow> hourly_row list" where
  "select_hourly_all from to d =
     concat (map (\<lambda>r. sort_key hr_hour (filter (\<lambda>x. hr_instance x = i_id r \<and> from \<le> hr_hour x \<and> hr_hour x \<le> to)
                         (t_hourly d)))
       (sort_key i_name (filter live (t_instances d))))"

definition purge_hourly :: "time \<Rightarrow> string \<Rightarrow> time \<Rightarrow> (database, unit) prog" where
  "purge_hourly before v t d = (Inr (), d\<lparr>t_hourly := filter (\<lambda>x. \<not> hr_hour x < before) (t_hourly d)\<rparr>)"

section \<open>The methods of \<open>Store\<close>\<close>

definition db_Ping :: "('r, 'i, 'e) sys \<Rightarrow> (('r, 'i, 'e) world, unit) prog" where
  "db_Ping S = on_env (sys_pg_ping S)"

definition db_CreateInstance :: "('r, 'i, 'e) sys \<Rightarrow> inst \<Rightarrow> (('r, 'i, 'e) world, unit) prog" where
  "db_CreateInstance S i = sql S (insert_instance i)"

definition db_UpdateRootPassword :: "('r, 'i, 'e) sys \<Rightarrow> uuid \<Rightarrow> string \<Rightarrow> (('r, 'i, 'e) world, unit) prog" where
  "db_UpdateRootPassword S iid password = sql S (set_password iid password)"

definition db_UpdateInstanceStatus ::
    "('r, 'i, 'e) sys \<Rightarrow> uuid \<Rightarrow> instance_status \<Rightarrow> string \<Rightarrow> (('r, 'i, 'e) world, unit) prog" where
  "db_UpdateInstanceStatus S iid status msg = sql S (set_status iid status msg)"

definition db_ListPorts :: "('r, 'i, 'e) sys \<Rightarrow> uuid \<Rightarrow> (('r, 'i, 'e) world, port_mapping list) prog" where
  "db_ListPorts S iid = query S (select_ports iid)"

definition found :: "'a option \<Rightarrow> ('w, 'a) prog" where
  "found x = (case x of None \<Rightarrow> throw DbErrNotFound | Some y \<Rightarrow> ret y)"

definition db_GetInstance :: "('r, 'i, 'e) sys \<Rightarrow> uuid \<Rightarrow> (('r, 'i, 'e) world, inst) prog" where
  "db_GetInstance S iid =
     andThen (query S (select_instance iid)) (\<lambda>row.
     andThen (found row) (\<lambda>i.
     andThen (db_ListPorts S iid) (\<lambda>ports.
     ret (i\<lparr>i_ports := ports\<rparr>))))"

definition db_GetInstanceByName :: "('r, 'i, 'e) sys \<Rightarrow> string \<Rightarrow> (('r, 'i, 'e) world, inst) prog" where
  "db_GetInstanceByName S name =
     andThen (query S (select_instance_by_name name)) (\<lambda>row.
     andThen (found row) (\<lambda>i.
     andThen (db_ListPorts S (i_id i)) (\<lambda>ports.
     ret (i\<lparr>i_ports := ports\<rparr>))))"

definition db_ListInstances :: "('r, 'i, 'e) sys \<Rightarrow> (('r, 'i, 'e) world, inst list) prog" where
  "db_ListInstances S =
     andThen (query S select_live_instances) (\<lambda>rows.
     mapEach (\<lambda>i. andThen (db_ListPorts S (i_id i)) (\<lambda>ports. ret (i\<lparr>i_ports := ports\<rparr>))) rows)"

definition db_AddPort :: "('r, 'i, 'e) sys \<Rightarrow> port_mapping \<Rightarrow> (('r, 'i, 'e) world, unit) prog" where
  "db_AddPort S p = sql S (insert_port p)"

definition db_GetPort :: "('r, 'i, 'e) sys \<Rightarrow> uuid \<Rightarrow> uuid \<Rightarrow> (('r, 'i, 'e) world, port_mapping) prog" where
  "db_GetPort S instanceID portID = andThen (query S (select_port instanceID portID)) found"

definition db_DeletePort :: "('r, 'i, 'e) sys \<Rightarrow> uuid \<Rightarrow> (('r, 'i, 'e) world, unit) prog" where
  "db_DeletePort S iid = sql S (delete_port iid)"

definition db_UpdatePortProtocol ::
    "('r, 'i, 'e) sys \<Rightarrow> uuid \<Rightarrow> string \<Rightarrow> string \<Rightarrow> (('r, 'i, 'e) world, unit) prog" where
  "db_UpdatePortProtocol S iid protocol device = sql S (set_protocol iid protocol device)"

definition db_ListUsedHostPorts :: "('r, 'i, 'e) sys \<Rightarrow> (('r, 'i, 'e) world, int list) prog" where
  "db_ListUsedHostPorts S = query S select_used_ports"

definition db_SoftDeleteInstance :: "('r, 'i, 'e) sys \<Rightarrow> uuid \<Rightarrow> (('r, 'i, 'e) world, unit) prog" where
  "db_SoftDeleteInstance S iid = sql S (soft_delete iid)"

definition db_UpdateTrafficAccounting ::
    "('r, 'i, 'e) sys \<Rightarrow> uuid \<Rightarrow> int64 \<Rightarrow> int64 \<Rightarrow> string \<Rightarrow> bool \<Rightarrow> (('r, 'i, 'e) world, unit) prog" where
  "db_UpdateTrafficAccounting S iid used snap period throttled = sql S (set_traffic iid used snap period throttled)"

definition db_UpsertDailyUsage :: "('r, 'i, 'e) sys \<Rightarrow> daily_row \<Rightarrow> (('r, 'i, 'e) world, unit) prog" where
  "db_UpsertDailyUsage S row = sql S (upsert_daily row)"

definition db_GetDailyUsage :: "('r, 'i, 'e) sys \<Rightarrow> uuid \<Rightarrow> time \<Rightarrow> (('r, 'i, 'e) world, daily_row) prog" where
  "db_GetDailyUsage S iid day = andThen (query S (select_daily iid day)) found"

definition db_ListDailyUsage ::
    "('r, 'i, 'e) sys \<Rightarrow> uuid \<Rightarrow> time \<Rightarrow> time \<Rightarrow> (('r, 'i, 'e) world, daily_row list) prog" where
  "db_ListDailyUsage S iid from to = query S (select_daily_range iid from to)"

definition db_PurgeOldDailyUsage :: "('r, 'i, 'e) sys \<Rightarrow> time \<Rightarrow> (('r, 'i, 'e) world, unit) prog" where
  "db_PurgeOldDailyUsage S before = sql S (purge_daily before)"

definition db_UpsertHourlyMetrics :: "('r, 'i, 'e) sys \<Rightarrow> hourly_row \<Rightarrow> (('r, 'i, 'e) world, unit) prog" where
  "db_UpsertHourlyMetrics S row = sql S (upsert_hourly row)"

definition db_LatestHourlyMetrics :: "('r, 'i, 'e) sys \<Rightarrow> uuid \<Rightarrow> time \<Rightarrow> (('r, 'i, 'e) world, hourly_row) prog" where
  "db_LatestHourlyMetrics S iid before = andThen (query S (select_latest_hourly iid before)) found"

definition db_ListHourlyMetrics ::
    "('r, 'i, 'e) sys \<Rightarrow> uuid \<Rightarrow> time \<Rightarrow> time \<Rightarrow> (('r, 'i, 'e) world, hourly_row list) prog" where
  "db_ListHourlyMetrics S iid from to = query S (select_hourly_range iid from to)"

definition db_ListHourlyMetricsAll ::
    "('r, 'i, 'e) sys \<Rightarrow> time \<Rightarrow> time \<Rightarrow> (('r, 'i, 'e) world, hourly_row list) prog" where
  "db_ListHourlyMetricsAll S from to = query S (select_hourly_all from to)"

definition db_PurgeOldHourlyMetrics :: "('r, 'i, 'e) sys \<Rightarrow> time \<Rightarrow> (('r, 'i, 'e) world, unit) prog" where
  "db_PurgeOldHourlyMetrics S before = sql S (purge_hourly before)"

definition db_ListActiveInstances :: "('r, 'i, 'e) sys \<Rightarrow> (('r, 'i, 'e) world, inst list) prog" where
  "db_ListActiveInstances S = query S select_active_instances"

section \<open>Reads leave the tables alone\<close>

lemmas store_frame_defs =
  db_Ping_def db_CreateInstance_def db_UpdateRootPassword_def db_UpdateInstanceStatus_def
  db_ListPorts_def db_AddPort_def db_DeletePort_def db_UpdatePortProtocol_def
  db_ListUsedHostPorts_def db_SoftDeleteInstance_def db_UpdateTrafficAccounting_def
  db_UpsertDailyUsage_def db_ListDailyUsage_def db_PurgeOldDailyUsage_def
  db_UpsertHourlyMetrics_def db_ListHourlyMetrics_def db_ListHourlyMetricsAll_def
  db_PurgeOldHourlyMetrics_def db_ListActiveInstances_def

context reads_frame
begin

lemma steps_found [frame_rules]: "steps R (found x)"
  unfolding found_def by (rule steps_case_option) (rule steps_throw steps_ret)+

lemma store_simple_reads [frame_rules]:
  "steps R (db_Ping S)"
  "steps R (db_ListPorts S iid)"
  "steps R (db_ListUsedHostPorts S)"
  "steps R (db_ListDailyUsage S iid from to)"
  "steps R (db_ListHourlyMetrics S iid from to)"
  "steps R (db_ListHourlyMetricsAll S from to)"
  "steps R (db_ListActiveInstances S)"
  unfolding store_frame_defs by (rule steps_query steps_env_call)+

lemma store_reads [frame_rules]:
  "steps R (db_GetInstance S iid)"
  "steps R (db_GetInstanceByName S name)"
  "steps R (db_ListInstances S)"
  "steps R (db_GetPort S iid pid)"
  "steps R (db_GetDailyUsage S iid day)"
  "steps R (db_LatestHourlyMetrics S iid before)"
  unfolding db_GetInstance_def db_GetInstanceByName_def db_ListInstances_def db_GetPort_def
    db_GetDailyUsage_def db_LatestHourlyMetrics_def
  by (intro frame_rules store_simple_reads)+

end

section \<open>What a store keeps: the interface of the tables' invariants\<close>

text \<open>
  A relation between the tables before and after that every statement respects. Whatever is built
  from the methods then respects it; the operations of the service are shown to in the theories
  that define them, once for all such relations.
\<close>

locale store_frame = db_frame +
  assumes insert_instance: "steps Q (insert_instance i v t)"
    and set_password: "steps Q (set_password iid password v t)"
    and set_status: "steps Q (set_status iid status msg v t)"
    and soft_delete: "steps Q (soft_delete iid v t)"
    and set_traffic: "steps Q (set_traffic iid used snap period throttled v t)"
    and insert_port: "steps Q (insert_port p v t)"
    and delete_port: "steps Q (delete_port pid v t)"
    and set_protocol: "steps Q (set_protocol pid protocol device v t)"
    and upsert_daily: "steps Q (upsert_daily drow v t)"
    and purge_daily: "steps Q (purge_daily before v t)"
    and upsert_hourly: "steps Q (upsert_hourly hrow v t)"
    and purge_hourly: "steps Q (purge_hourly before v t)"
begin

lemma store_writes [frame_rules]:
  "steps (db_rel Q) (db_CreateInstance S i)"
  "steps (db_rel Q) (db_UpdateRootPassword S iid password)"
  "steps (db_rel Q) (db_UpdateInstanceStatus S iid status msg)"
  "steps (db_rel Q) (db_SoftDeleteInstance S iid)"
  "steps (db_rel Q) (db_UpdateTrafficAccounting S iid used snap period throttled)"
  "steps (db_rel Q) (db_AddPort S p)"
  "steps (db_rel Q) (db_DeletePort S pid)"
  "steps (db_rel Q) (db_UpdatePortProtocol S pid protocol device)"
  "steps (db_rel Q) (db_UpsertDailyUsage S drow)"
  "steps (db_rel Q) (db_PurgeOldDailyUsage S before)"
  "steps (db_rel Q) (db_UpsertHourlyMetrics S hrow)"
  "steps (db_rel Q) (db_PurgeOldHourlyMetrics S before)"
  unfolding store_frame_defs
  by (rule steps_sql, rule insert_instance set_password set_status soft_delete set_traffic
      insert_port delete_port set_protocol upsert_daily purge_daily upsert_hourly purge_hourly)+

end

text \<open>
  What the operations of the service are built from: the methods of the store and the calls of the Incus
  client. A relation on the world that all of them respect is respected by every operation; the theories
  that define the operations show it, once for the relations of the tables and for those of Incus. The two
  writes that can give an instance a status or a port are apart: what respects all the others is respected by
  every operation that uses no more than those.
\<close>

locale upkeep_frame = reads_frame R S for R :: "('r, 'i, 'e) world \<Rightarrow> ('r, 'i, 'e) world \<Rightarrow> bool" and S +
  assumes upkeep [frame_rules]:
    "steps R (db_CreateInstance S i)"
    "steps R (db_UpdateRootPassword S iid password)"
    "steps R (db_SoftDeleteInstance S iid)"
    "steps R (db_UpdateTrafficAccounting S iid used snap period throttled)"
    "steps R (db_DeletePort S pid)"
    "steps R (db_UpdatePortProtocol S pid protocol device)"
    "steps R (db_UpsertDailyUsage S drow)"
    "steps R (db_PurgeOldDailyUsage S before)"
    "steps R (db_UpsertHourlyMetrics S hrow)"
    "steps R (db_PurgeOldHourlyMetrics S before)"
  and incus: "incus_respects R (sys_incus S)"
begin

lemma incus_calls [frame_rules]:
  "steps R (on_incus (ic_Ping (sys_incus S)))"
  "steps R (on_incus (ic_CreateContainer (sys_incus S) a))"
  "steps R (on_incus (ic_EnsureStarted (sys_incus S) n))"
  "steps R (on_incus (ic_EnsureInstanceIPv4 (sys_incus S) n))"
  "steps R (on_incus (ic_HardenNetwork (sys_incus S) n))"
  "steps R (on_incus (ic_ConfigureGuestDNS (sys_incus S) n))"
  "steps R (on_incus (ic_EnsureSSH (sys_incus S) n pw port))"
  "steps R (on_incus (ic_SetRootPassword (sys_incus S) n pw))"
  "steps R (on_incus (ic_AddProxyDevices (sys_incus S) n xs))"
  "steps R (on_incus (ic_AddProxyDevice (sys_incus S) n dev pr host internal))"
  "steps R (on_incus (ic_RemoveProxyDevice (sys_incus S) n dev))"
  "steps R (on_incus (ic_UpdateProxyDeviceProtocol (sys_incus S) n dev dev' pr host internal))"
  "steps R (on_incus (ic_GetStatus (sys_incus S) n))"
  "steps R (on_incus (total (ic_IsRunning (sys_incus S) n)))"
  "steps R (on_incus (ic_UpdateResourceLimits (sys_incus S) n cpu mem procs mbps throttled))"
  "steps R (on_incus (ic_EnsureDiskIsolation (sys_incus S) n))"
  "steps R (on_incus (ic_ApplyNetworkPolicy (sys_incus S) n mbps throttled))"
  "steps R (on_incus (ic_StopContainer (sys_incus S) n force))"
  "steps R (on_incus (ic_RestartContainer (sys_incus S) n))"
  "steps R (on_incus (ic_DeleteContainer (sys_incus S) n))"
  "steps R (on_incus (ic_NetworkBytesTotal (sys_incus S) n))"
  "steps R (on_incus (ic_ResourceSample (sys_incus S) n))"
  "steps R (on_incus (ic_DiskUsageBytes (sys_incus S) n))"
  "steps R (on_incus (ic_StoragePoolSpace (sys_incus S)))"
  using incus by (simp_all add: incus_respects_def)

lemma steps_running_check [frame_rules]: "steps R (is_running S name)"
  unfolding is_running_def by (rule incus_calls)

end

locale sys_frame = upkeep_frame R S for R :: "('r, 'i, 'e) world \<Rightarrow> ('r, 'i, 'e) world \<Rightarrow> bool" and S +
  assumes claims [frame_rules]:
    "steps R (db_UpdateInstanceStatus S iid status msg)"
    "steps R (db_AddPort S p)"

sublocale store_frame \<subseteq> sys_frame "db_rel Q" S for S :: "('r, 'i, 'e) sys"
  by unfold_locales (simp_all add: store_writes incus_respects_def steps_on_incus)

section \<open>The schema's invariant\<close>

definition instances_ok :: "inst list \<Rightarrow> bool" where
  "instances_ok rows \<longleftrightarrow> distinct (map i_id rows) \<and> distinct (map i_name rows)
     \<and> distinct (map i_incus rows) \<and> list_all instance_checks rows"

definition ports_ok :: "uuid set \<Rightarrow> port_mapping list \<Rightarrow> bool" where
  "ports_ok ids ps \<longleftrightarrow> ports_unique ps \<and> list_all port_checks ps \<and> p_instance ` set ps \<subseteq> ids"

definition daily_ok :: "uuid set \<Rightarrow> daily_row list \<Rightarrow> bool" where
  "daily_ok ids ds \<longleftrightarrow> distinct (map (\<lambda>x. (dr_instance x, dr_day x)) ds) \<and> list_all daily_checks ds
     \<and> list_all (\<lambda>x. utc_date (dr_day x) = dr_day x) ds \<and> dr_instance ` set ds \<subseteq> ids"

definition hourly_ok :: "uuid set \<Rightarrow> hourly_row list \<Rightarrow> bool" where
  "hourly_ok ids hs \<longleftrightarrow> distinct (map (\<lambda>x. (hr_instance x, hr_hour x)) hs) \<and> list_all hourly_checks hs
     \<and> hr_instance ` set hs \<subseteq> ids"

definition instance_ids :: "database \<Rightarrow> uuid set" where
  "instance_ids d = i_id ` set (t_instances d)"

definition db_ok :: "database \<Rightarrow> bool" where
  "db_ok d \<longleftrightarrow> instances_ok (t_instances d) \<and> ports_ok (instance_ids d) (t_ports d)
     \<and> daily_ok (instance_ids d) (t_daily d) \<and> hourly_ok (instance_ids d) (t_hourly d)"

text \<open>The columns no statement changes, and the rows no statement removes.\<close>

definition identity :: "inst \<Rightarrow> uuid \<times> string \<times> string \<times> string \<times> time" where
  "identity r = (i_id r, i_name r, i_incus r, i_image r, i_created r)"

definition rows_kept :: "database \<Rightarrow> database \<Rightarrow> bool" where
  "rows_kept d d' \<longleftrightarrow> (\<exists>ys. map identity (t_instances d') = map identity (t_instances d) @ ys)"

definition keeps_ok :: "database \<Rightarrow> database \<Rightarrow> bool" where
  "keeps_ok d d' \<longleftrightarrow> (db_ok d \<longrightarrow> db_ok d')"

lemma stepsE: "steps R f \<Longrightarrow> R w (snd (f w))"
  by (simp add: steps_def)

text \<open>An \<open>UPDATE\<close> that leaves the identity columns alone.\<close>

lemma snd_update_instances:
  "snd (update_instances iid f v d) = d \<or>
   (snd (update_instances iid f v d) = d\<lparr>t_instances := map (\<lambda>r. if i_id r = iid then f r else r) (t_instances d)\<rparr>
    \<and> list_all (\<lambda>r. i_id r = iid \<longrightarrow> instance_checks r) (map (\<lambda>r. if i_id r = iid then f r else r) (t_instances d)))"
  by (auto simp: update_instances_def set_instances_def refused_def throw_def Let_def)

lemma map_identity_update:
  assumes "\<And>r. identity (f r) = identity r"
  shows "map identity (map (\<lambda>r. if i_id r = iid then f r else r) rows) = map identity rows"
  by (induction rows) (auto simp: assms)

lemma identity_fields:
  assumes "map identity rows' = map identity rows"
  shows "map i_id rows' = map i_id rows" "map i_name rows' = map i_name rows"
    "map i_incus rows' = map i_incus rows"
proof -
  have *: "map (g \<circ> identity) rows' = map (g \<circ> identity) rows" for g :: "_ \<Rightarrow> 'x"
    using arg_cong [OF assms, of "map g"] by simp
  have f: "fst \<circ> identity = i_id" "(fst \<circ> snd) \<circ> identity = i_name"
    "(fst \<circ> snd \<circ> snd) \<circ> identity = i_incus"
    by (auto simp: identity_def)
  show "map i_id rows' = map i_id rows" using * [of fst] by (simp only: f)
  show "map i_name rows' = map i_name rows" using * [of "fst \<circ> snd"] by (simp only: f)
  show "map i_incus rows' = map i_incus rows" using * [of "fst \<circ> snd \<circ> snd"] by (simp only: f)
qed

lemma update_instances_rows_kept:
  assumes "\<And>r. identity (f r) = identity r"
  shows "rows_kept d (snd (update_instances iid f v d))"
proof -
  let ?rows = "map (\<lambda>r. if i_id r = iid then f r else r) (t_instances d)"
  let ?c = "list_all (\<lambda>r. i_id r = iid \<longrightarrow> instance_checks r) ?rows"
  have "map identity (t_instances (snd (update_instances iid f v d))) = map identity (t_instances d)"
    using snd_update_instances [of iid f v d]
  proof
    assume "snd (update_instances iid f v d) = d"
    then show ?thesis by (simp only:)
  next
    assume "snd (update_instances iid f v d) = d\<lparr>t_instances := ?rows\<rparr> \<and> ?c"
    then have "t_instances (snd (update_instances iid f v d)) = ?rows" by (simp del: map_map)
    then show ?thesis by (simp only: map_identity_update [OF assms])
  qed
  then show ?thesis by (simp add: rows_kept_def)
qed

lemma db_ok_instances:
  assumes "db_ok d" "map identity rows = map identity (t_instances d)" "list_all instance_checks rows"
  shows "db_ok (d\<lparr>t_instances := rows\<rparr>)"
proof -
  note ids = identity_fields [OF assms(2)]
  have "i_id ` set rows = i_id ` set (t_instances d)"
    using arg_cong [OF ids(1), of set] by (simp only: set_map)
  then show ?thesis
    using assms(1,3) ids by (simp add: db_ok_def instances_ok_def instance_ids_def)
qed

lemma list_all_map_if:
  assumes "list_all P xs" "list_all (\<lambda>r. k r = i \<longrightarrow> P r) (map (\<lambda>r. if k r = i then f r else r) xs)"
    and "\<And>r. k (f r) = k r"
  shows "list_all P (map (\<lambda>r. if k r = i then f r else r) xs)"
  using assms(1,2)
proof (induction xs)
  case (Cons x xs)
  then show ?case using assms(3) [of x] by (cases "k x = i") simp_all
qed simp

lemma update_instances_keeps_ok:
  assumes "\<And>r. identity (f r) = identity r"
  shows "keeps_ok d (snd (update_instances iid f v d))"
proof -
  let ?rows = "map (\<lambda>r. if i_id r = iid then f r else r) (t_instances d)"
  have fid: "i_id (f r) = i_id r" for r using assms [of r] by (simp add: identity_def)
  have upd: "db_ok (d\<lparr>t_instances := ?rows\<rparr>)"
    if d: "db_ok d" and c: "list_all (\<lambda>r. i_id r = iid \<longrightarrow> instance_checks r) ?rows"
  proof (rule db_ok_instances [OF d map_identity_update [OF assms]])
    have "list_all instance_checks (t_instances d)" using d by (simp add: db_ok_def instances_ok_def)
    then show "list_all instance_checks ?rows"
      by (rule list_all_map_if [where k = i_id and f = f, OF _ c fid])
  qed
  show ?thesis
    unfolding keeps_ok_def
  proof
    assume d: "db_ok d"
    show "db_ok (snd (update_instances iid f v d))"
      using snd_update_instances [of iid f v d]
    proof (elim disjE conjE)
      assume eq: "snd (update_instances iid f v d) = d"
      show ?thesis unfolding eq by (rule d)
    next
      assume eq: "snd (update_instances iid f v d) = d\<lparr>t_instances := ?rows\<rparr>"
        and c: "list_all (\<lambda>r. i_id r = iid \<longrightarrow> instance_checks r) ?rows"
      show ?thesis unfolding eq by (rule upd [OF d c])
    qed
  qed
qed

lemmas update_statement_defs = set_password_def set_status_def soft_delete_def set_traffic_def

lemma update_statements_kept:
  "steps rows_kept (set_password iid pw v t)"
  "steps rows_kept (set_status iid st msg v t)"
  "steps rows_kept (soft_delete iid v t)"
  "steps rows_kept (set_traffic iid used snap period throttled v t)"
  unfolding update_statement_defs
  by (rule stepsI, rule update_instances_rows_kept, simp add: identity_def)+

lemma update_statements_ok:
  "steps keeps_ok (set_password iid pw v t)"
  "steps keeps_ok (set_status iid st msg v t)"
  "steps keeps_ok (soft_delete iid v t)"
  "steps keeps_ok (set_traffic iid used snap period throttled v t)"
  unfolding update_statement_defs
  by (rule stepsI, rule update_instances_keeps_ok, simp add: identity_def)+

text \<open>Statements on the other tables do not reach \<open>instances\<close>.\<close>

lemma insert_instance_kept: "steps rows_kept (insert_instance i v t)"
  by (rule stepsI)
    (auto simp: insert_instance_def Let_def set_instances_def refused_def throw_def rows_kept_def)

lemmas other_statement_defs = insert_port_def delete_port_def set_protocol_def upsert_daily_def
  purge_daily_def upsert_hourly_def purge_hourly_def set_ports_def refused_def throw_def Let_def

lemma other_statements_kept:
  "steps rows_kept (insert_port p v t)"
  "steps rows_kept (delete_port pid v t)"
  "steps rows_kept (set_protocol pid protocol device v t)"
  "steps rows_kept (upsert_daily drow v t)"
  "steps rows_kept (purge_daily before v t)"
  "steps rows_kept (upsert_hourly hrow v t)"
  "steps rows_kept (purge_hourly before v t)"
  by (simp_all add: steps_def other_statement_defs rows_kept_def)

lemma insert_instance_ok: "steps keeps_ok (insert_instance i v t)"
proof (rule stepsI)
  fix d :: database
  have "db_ok (d\<lparr>t_instances := t_instances d @ [r]\<rparr>)"
    if "db_ok d" "instance_checks r" "i_id r \<notin> i_id ` set (t_instances d)"
      "i_name r \<notin> i_name ` set (t_instances d)" "i_incus r \<notin> i_incus ` set (t_instances d)" for r
    using that
    by (auto simp: db_ok_def instances_ok_def ports_ok_def daily_ok_def hourly_ok_def instance_ids_def)
  then show "keeps_ok d (snd (insert_instance i v t d))"
    by (simp add: insert_instance_def Let_def set_instances_def refused_def throw_def keeps_ok_def)
qed

text \<open>Each table's part of the invariant, for the statements on that table.\<close>

lemma db_ok_ports: "db_ok d \<Longrightarrow> ports_ok (instance_ids d) ps \<Longrightarrow> db_ok (d\<lparr>t_ports := ps\<rparr>)"
  by (simp add: db_ok_def instance_ids_def)

lemma db_ok_daily: "db_ok d \<Longrightarrow> daily_ok (instance_ids d) ds \<Longrightarrow> db_ok (d\<lparr>t_daily := ds\<rparr>)"
  by (simp add: db_ok_def instance_ids_def)

lemma db_ok_hourly: "db_ok d \<Longrightarrow> hourly_ok (instance_ids d) hs \<Longrightarrow> db_ok (d\<lparr>t_hourly := hs\<rparr>)"
  by (simp add: db_ok_def instance_ids_def)

lemma distinct_map_filter: "distinct (map f xs) \<Longrightarrow> distinct (map f (filter P xs))"
  by (induction xs) auto

lemma ports_unique_filter: "ports_unique ps \<Longrightarrow> ports_unique (filter P ps)"
  by (simp add: ports_unique_def distinct_map_filter)

lemma insert_port_ok: "steps keeps_ok (insert_port p v t)"
proof (rule stepsI)
  fix d :: database
  have "db_ok (d\<lparr>t_ports := t_ports d @ [p]\<rparr>)"
    if "db_ok d" "port_checks p" "p_instance p \<in> instance_ids d" "ports_unique (t_ports d @ [p])"
    using that by (intro db_ok_ports) (auto simp: db_ok_def ports_ok_def)
  then show "keeps_ok d (snd (insert_port p v t d))"
    by (simp add: other_statement_defs keeps_ok_def instance_ids_def)
qed

lemma delete_port_ok: "steps keeps_ok (delete_port pid v t)"
proof (rule stepsI)
  fix d :: database
  have "db_ok (d\<lparr>t_ports := filter P (t_ports d)\<rparr>)" if "db_ok d" for P
    using that by (intro db_ok_ports) (auto simp: db_ok_def ports_ok_def ports_unique_filter list_all_iff)
  then show "keeps_ok d (snd (delete_port pid v t d))"
    by (simp add: other_statement_defs keeps_ok_def)
qed

lemma set_protocol_ok: "steps keeps_ok (set_protocol pid protocol device v t)"
proof (rule stepsI)
  fix d :: database
  let ?f = "\<lambda>p. p\<lparr>p_protocol := protocol, p_device := device\<rparr>"
  let ?rows = "map (\<lambda>p. if p_id p = pid then ?f p else p) (t_ports d)"
  have rows: "ports_ok (instance_ids d) ?rows"
    if d: "db_ok d" and c: "list_all (\<lambda>p. p_id p = pid \<longrightarrow> port_checks p) ?rows" and u: "ports_unique ?rows"
  proof -
    have ps: "list_all port_checks (t_ports d)" "p_instance ` set (t_ports d) \<subseteq> instance_ids d"
      using d by (simp_all add: db_ok_def ports_ok_def)
    have 1: "list_all port_checks ?rows"
      by (rule list_all_map_if [where k = p_id and f = ?f, OF ps(1) c]) simp
    have 2: "p_instance ` set ?rows \<subseteq> instance_ids d" using ps(2) by auto
    show ?thesis unfolding ports_ok_def using u 1 2 by (intro conjI)
  qed
  show "keeps_ok d (snd (set_protocol pid protocol device v t d))"
    unfolding set_protocol_def Let_def keeps_ok_def
    using db_ok_ports [OF _ rows] by (auto simp: set_ports_def refused_def throw_def simp del: map_map)
qed

text \<open>The two upserts replace the row with the same key or append one.\<close>

lemma distinct_map_upsert:
  assumes "distinct (map k xs)"
  shows "distinct (map k (map (\<lambda>x. if k x = k r then r else x) xs))"
proof -
  have "map k (map (\<lambda>x. if k x = k r then r else x) xs) = map k xs" by (induction xs) auto
  with assms show ?thesis by (simp only:)
qed

lemma upsert_daily_ok: "steps keeps_ok (upsert_daily drow v t)"
proof (rule stepsI)
  fix d :: database
  define r where "r = drow\<lparr>dr_day := utc_date (dr_day drow)\<rparr>"
  let ?k = "\<lambda>x. (dr_instance x, dr_day x)"
  have day: "utc_date (dr_day r) = dr_day r" by (simp add: r_def)
  have new: "db_ok (d\<lparr>t_daily := t_daily d @ [r]\<rparr>)"
    if "db_ok d" "daily_checks r" "dr_instance r \<in> instance_ids d" "\<not> list_ex (\<lambda>x. ?k x = ?k r) (t_daily d)"
    using that day by (intro db_ok_daily) (auto simp: db_ok_def daily_ok_def list_ex_iff)
  have old: "db_ok (d\<lparr>t_daily := map (\<lambda>x. if ?k x = ?k r then r else x) (t_daily d)\<rparr>)"
    if "db_ok d" "daily_checks r" "dr_instance r \<in> instance_ids d"
    using that day distinct_map_upsert [of ?k "t_daily d" r]
    by (intro db_ok_daily) (auto simp: db_ok_def daily_ok_def list_all_iff simp del: map_map)
  show "keeps_ok d (snd (upsert_daily drow v t d))"
    using new old unfolding upsert_daily_def r_def [symmetric] Let_def keeps_ok_def
    by (simp add: refused_def throw_def instance_ids_def)
qed

lemma upsert_hourly_ok: "steps keeps_ok (upsert_hourly r v t)"
proof (rule stepsI)
  fix d :: database
  let ?k = "\<lambda>x. (hr_instance x, hr_hour x)"
  have new: "db_ok (d\<lparr>t_hourly := t_hourly d @ [r]\<rparr>)"
    if "db_ok d" "hourly_checks r" "hr_instance r \<in> instance_ids d" "\<not> list_ex (\<lambda>x. ?k x = ?k r) (t_hourly d)"
    using that by (intro db_ok_hourly) (auto simp: db_ok_def hourly_ok_def list_ex_iff)
  have old: "db_ok (d\<lparr>t_hourly := map (\<lambda>x. if ?k x = ?k r then r else x) (t_hourly d)\<rparr>)"
    if "db_ok d" "hourly_checks r" "hr_instance r \<in> instance_ids d"
    using that distinct_map_upsert [of ?k "t_hourly d" r]
    by (intro db_ok_hourly) (auto simp: db_ok_def hourly_ok_def list_all_iff simp del: map_map)
  show "keeps_ok d (snd (upsert_hourly r v t d))"
    using new old unfolding upsert_hourly_def Let_def keeps_ok_def
    by (simp add: refused_def throw_def instance_ids_def)
qed

lemma purges_ok:
  "steps keeps_ok (purge_daily before v t)"
  "steps keeps_ok (purge_hourly before v t)"
proof -
  have "daily_ok ids ds \<Longrightarrow> daily_ok ids (filter P ds)" for ids ds P
    by (auto simp: daily_ok_def distinct_map_filter list_all_iff)
  moreover have "hourly_ok ids hs \<Longrightarrow> hourly_ok ids (filter P hs)" for ids hs P
    by (auto simp: hourly_ok_def distinct_map_filter list_all_iff)
  ultimately show "steps keeps_ok (purge_daily before v t)" "steps keeps_ok (purge_hourly before v t)"
    by (auto simp: steps_def purge_daily_def purge_hourly_def keeps_ok_def db_ok_def instance_ids_def)
qed

lemma keeps_ok_preorder: "keeps_ok d d" "keeps_ok a b \<Longrightarrow> keeps_ok b c \<Longrightarrow> keeps_ok a c"
  by (simp_all add: keeps_ok_def)

lemma rows_kept_preorder: "rows_kept d d" "rows_kept a b \<Longrightarrow> rows_kept b c \<Longrightarrow> rows_kept a c"
  by (auto simp: rows_kept_def)

interpretation ok: store_frame keeps_ok
  by (unfold_locales; (rule keeps_ok_preorder insert_instance_ok update_statements_ok insert_port_ok
      delete_port_ok set_protocol_ok upsert_daily_ok upsert_hourly_ok purges_ok; assumption?)+)

interpretation kept: store_frame rows_kept
  by (unfold_locales; (rule rows_kept_preorder insert_instance_kept update_statements_kept
      other_statements_kept; assumption?)+)

end
