(* ===== verification/Redis.thy ===== *)
theory Redis imports World begin

text \<open>
  \<open>internal/redisstore/client.go\<close>: the lock, the set of allocated host ports and the lifecycle
  state of an instance, each under a key of its own.

  The Redis server is a parameter. What its documentation promises of the sets is
  \<open>redis_server_ok\<close>: a command that returns did what it says, one that fails did that or
  nothing, and no command touches the set of another key. \<open>mem_redis\<close> is a reference server
  in memory that keeps the promise (without the expiry of keys).
\<close>

section \<open>The client\<close>

definition redis_key :: "('r, 'i, 'e) sys \<Rightarrow> string list \<Rightarrow> string" where
  "redis_key S parts = r_prefix (c_redis (sys_cfg S)) @ strings_Join parts '':''"

definition lock_key :: "('r, 'i, 'e) sys \<Rightarrow> string \<Rightarrow> string" where
  "lock_key S name = redis_key S [''lock'', name]"

definition ports_key :: "('r, 'i, 'e) sys \<Rightarrow> string" where
  "ports_key S = redis_key S [''ports'', ''allocated'']"

definition state_key :: "('r, 'i, 'e) sys \<Rightarrow> string \<Rightarrow> string" where
  "state_key S instanceID = redis_key S [''instance'', instanceID, ''state'']"

definition redis_Ping :: "('r, 'i, 'e) sys \<Rightarrow> (('r, 'i, 'e) world, unit) prog" where
  "redis_Ping S = on_redis (rs_ping (sys_redis S))"

definition redis_AcquireLock :: "('r, 'i, 'e) sys \<Rightarrow> string \<Rightarrow> int \<Rightarrow> (('r, 'i, 'e) world, bool) prog" where
  "redis_AcquireLock S name ttl = on_redis (rs_setnx (sys_redis S) (lock_key S name) ''1'' ttl)"

definition redis_ReleaseLock :: "('r, 'i, 'e) sys \<Rightarrow> string \<Rightarrow> (('r, 'i, 'e) world, unit) prog" where
  "redis_ReleaseLock S name = on_redis (rs_del (sys_redis S) (lock_key S name))"

definition redis_MarkPortAllocated :: "('r, 'i, 'e) sys \<Rightarrow> int \<Rightarrow> (('r, 'i, 'e) world, unit) prog" where
  "redis_MarkPortAllocated S port = on_redis (rs_sadd (sys_redis S) (ports_key S) port)"

definition redis_ReleasePort :: "('r, 'i, 'e) sys \<Rightarrow> int \<Rightarrow> (('r, 'i, 'e) world, unit) prog" where
  "redis_ReleasePort S port = on_redis (rs_srem (sys_redis S) (ports_key S) port)"

definition redis_IsPortAllocated :: "('r, 'i, 'e) sys \<Rightarrow> int \<Rightarrow> (('r, 'i, 'e) world, bool) prog" where
  "redis_IsPortAllocated S port = on_redis (rs_sismember (sys_redis S) (ports_key S) port)"

definition redis_SyncAllocatedPorts :: "('r, 'i, 'e) sys \<Rightarrow> int list \<Rightarrow> (('r, 'i, 'e) world, unit) prog" where
  "redis_SyncAllocatedPorts S ports =
     on_redis (rs_tx (sys_redis S)
       (CmdDel (ports_key S) # (if ports = [] then [] else [CmdSAdd (ports_key S) ports])))"

definition redis_SetInstanceState ::
    "('r, 'i, 'e) sys \<Rightarrow> string \<Rightarrow> instance_status \<Rightarrow> int \<Rightarrow> (('r, 'i, 'e) world, unit) prog" where
  "redis_SetInstanceState S instanceID state ttl =
     on_redis (rs_set (sys_redis S) (state_key S instanceID) (status_text state) ttl)"

text \<open>\<open>redis.Nil\<close>, the reply for a missing key, is the empty state.\<close>

definition redis_GetInstanceState :: "('r, 'i, 'e) sys \<Rightarrow> string \<Rightarrow> (('r, 'i, 'e) world, string) prog" where
  "redis_GetInstanceState S instanceID =
     andThen (on_redis (rs_get (sys_redis S) (state_key S instanceID))) (\<lambda>val.
     ret (case val of None \<Rightarrow> '''' | Some v \<Rightarrow> v))"

definition redis_DeleteInstanceState :: "('r, 'i, 'e) sys \<Rightarrow> string \<Rightarrow> (('r, 'i, 'e) world, unit) prog" where
  "redis_DeleteInstanceState S instanceID = on_redis (rs_del (sys_redis S) (state_key S instanceID))"

section \<open>What the server promises of its sets\<close>

fun redis_exec :: "redis_command list \<Rightarrow> (string \<Rightarrow> int set) \<Rightarrow> string \<Rightarrow> int set" where
  "redis_exec [] m = m"
| "redis_exec (CmdDel k # cs) m = redis_exec cs (m(k := {}))"
| "redis_exec (CmdSAdd k ps # cs) m = redis_exec cs (m(k := m k \<union> set ps))"

definition done_or_not :: "(string \<Rightarrow> int set) \<Rightarrow> (string \<Rightarrow> int set) \<Rightarrow> error + 'a \<Rightarrow> (string \<Rightarrow> int set) \<Rightarrow> bool" where
  "done_or_not m m1 x m' \<longleftrightarrow> m' = m1 \<or> m' = m \<and> (\<exists>e. x = Inl e)"

definition redis_server_ok :: "'r redis_server \<Rightarrow> ('r \<Rightarrow> string \<Rightarrow> int set) \<Rightarrow> bool" where
  "redis_server_ok R members \<longleftrightarrow>
     (\<forall>k p r x r'. rs_sadd R k p r = (x, r') \<longrightarrow>
        done_or_not (members r) ((members r)(k := insert p (members r k))) x (members r'))
   \<and> (\<forall>k p r x r'. rs_srem R k p r = (x, r') \<longrightarrow>
        done_or_not (members r) ((members r)(k := members r k - {p})) x (members r'))
   \<and> (\<forall>k p r x r'. rs_sismember R k p r = (x, r') \<longrightarrow>
        members r' = members r \<and> (\<forall>b. x = Inr b \<longrightarrow> (b \<longleftrightarrow> p \<in> members r k)))
   \<and> (\<forall>cs r x r'. rs_tx R cs r = (x, r') \<longrightarrow>
        done_or_not (members r) (redis_exec cs (members r)) x (members r'))
   \<and> (\<forall>k v ttl r x r' k'. rs_setnx R k v ttl r = (x, r') \<longrightarrow> k' \<noteq> k \<longrightarrow> members r' k' = members r k')
   \<and> (\<forall>k r x r' k'. rs_del R k r = (x, r') \<longrightarrow> k' \<noteq> k \<longrightarrow> members r' k' = members r k')
   \<and> (\<forall>k v ttl r x r' k'. rs_set R k v ttl r = (x, r') \<longrightarrow> k' \<noteq> k \<longrightarrow> members r' k' = members r k')
   \<and> (\<forall>k r x r'. rs_get R k r = (x, r') \<longrightarrow> members r' = members r)
   \<and> (\<forall>r x r'. rs_ping R r = (x, r') \<longrightarrow> members r' = members r)"

section \<open>A reference server\<close>

record mem_redis =
  m_strings :: "string \<Rightarrow> string option"
  m_sets :: "string \<Rightarrow> int list"

definition mem_empty :: mem_redis where
  "mem_empty = \<lparr>m_strings = (\<lambda>_. None), m_sets = (\<lambda>_. [])\<rparr>"

fun mem_exec :: "redis_command list \<Rightarrow> mem_redis \<Rightarrow> mem_redis" where
  "mem_exec [] r = r"
| "mem_exec (CmdDel k # cs) r =
     mem_exec cs (r\<lparr>m_strings := (m_strings r)(k := None), m_sets := (m_sets r)(k := [])\<rparr>)"
| "mem_exec (CmdSAdd k ps # cs) r = mem_exec cs (r\<lparr>m_sets := (m_sets r)(k := ps @ m_sets r k)\<rparr>)"

definition wrong_type :: error where
  "wrong_type = ErrText ''WRONGTYPE Operation against a key holding the wrong kind of value''"

definition mem_server :: "mem_redis redis_server" where
  "mem_server = \<lparr>
     rs_ping = ret (),
     rs_setnx = (\<lambda>k v ttl r. if m_strings r k \<noteq> None \<or> m_sets r k \<noteq> [] then (Inr False, r)
       else (Inr True, r\<lparr>m_strings := (m_strings r)(k \<mapsto> v)\<rparr>)),
     rs_del = (\<lambda>k r. (Inr (), mem_exec [CmdDel k] r)),
     rs_sadd = (\<lambda>k p r. if m_strings r k \<noteq> None then (Inl wrong_type, r)
       else (Inr (), r\<lparr>m_sets := (m_sets r)(k := List.insert p (m_sets r k))\<rparr>)),
     rs_srem = (\<lambda>k p r. if m_strings r k \<noteq> None then (Inl wrong_type, r)
       else (Inr (), r\<lparr>m_sets := (m_sets r)(k := removeAll p (m_sets r k))\<rparr>)),
     rs_sismember = (\<lambda>k p r. if m_strings r k \<noteq> None then (Inl wrong_type, r)
       else (Inr (p \<in> set (m_sets r k)), r)),
     rs_tx = (\<lambda>cs r. (Inr (), mem_exec cs r)),
     rs_set = (\<lambda>k v ttl r. (Inr (), r\<lparr>m_strings := (m_strings r)(k \<mapsto> v), m_sets := (m_sets r)(k := [])\<rparr>)),
     rs_get = (\<lambda>k r. if m_sets r k \<noteq> [] then (Inl wrong_type, r) else (Inr (m_strings r k), r))\<rparr>"

definition mem_members :: "mem_redis \<Rightarrow> string \<Rightarrow> int set" where
  "mem_members r k = set (m_sets r k)"

lemma mem_members_simps [simp]:
  "mem_members (r\<lparr>m_strings := s\<rparr>) = mem_members r"
  "mem_members (r\<lparr>m_sets := (m_sets r)(k := xs)\<rparr>) = (mem_members r)(k := set xs)"
  "mem_members (r\<lparr>m_strings := s, m_sets := (m_sets r)(k := xs)\<rparr>) = (mem_members r)(k := set xs)"
  "set (m_sets r k) = mem_members r k"
  by (auto simp: mem_members_def fun_eq_iff)

lemma mem_exec_members: "mem_members (mem_exec cs r) = redis_exec cs (mem_members r)"
proof (induction cs arbitrary: r)
  case (Cons c cs)
  then show ?case
    by (cases c)
      (simp_all only: mem_exec.simps redis_exec.simps mem_members_simps set_append Un_commute list.set)
qed simp

lemma mem_server_ok: "redis_server_ok mem_server mem_members"
  unfolding redis_server_ok_def
  by (intro conjI allI impI)
    (auto simp: mem_server_def done_or_not_def mem_exec_members split: if_splits)

section \<open>The client under the server's promises\<close>

text \<open>The keys of the client are those of three kinds of objects that do not collide.\<close>

lemma key_kinds [simp]:
  "ports_key S \<noteq> lock_key S name" "lock_key S name \<noteq> ports_key S"
  "ports_key S \<noteq> state_key S iid" "state_key S iid \<noteq> ports_key S"
  "lock_key S name \<noteq> state_key S iid" "state_key S iid \<noteq> lock_key S name"
  by (simp_all add: ports_key_def lock_key_def state_key_def redis_key_def)

definition marked :: "('r \<Rightarrow> string \<Rightarrow> int set) \<Rightarrow> ('r, 'i, 'e) sys \<Rightarrow> ('r, 'i, 'e) world \<Rightarrow> int set" where
  "marked members S w = members (w_redis w) (ports_key S)"

text \<open>What the other theories rely on: how each call of the client acts on the set of marked ports.\<close>

lemma on_redis_eq: "on_redis f w = (x, w') \<longleftrightarrow> (\<exists>r. f (w_redis w) = (x, r) \<and> w' = w\<lparr>w_redis := r\<rparr>)"
  by (auto simp: on_redis_def split: prod.splits)

locale redis_laws =
  fixes R :: "'r redis_server" and members :: "'r \<Rightarrow> string \<Rightarrow> int set"
  assumes server_ok: "redis_server_ok R members"
begin

lemma mark_port:
  assumes "sys_redis S = R" "redis_MarkPortAllocated S p w = (x, w')"
  shows "marked members S w' = insert p (marked members S w) \<or>
         marked members S w' = marked members S w \<and> (\<exists>e. x = Inl e)"
proof -
  obtain r where r: "rs_sadd R (ports_key S) p (w_redis w) = (x, r)" "w' = w\<lparr>w_redis := r\<rparr>"
    using assms by (auto simp: redis_MarkPortAllocated_def on_redis_eq)
  show ?thesis
    using server_ok [unfolded redis_server_ok_def, THEN conjunct1, rule_format, OF r(1)] r(2)
    by (auto simp: done_or_not_def marked_def)
qed

lemma release_port:
  assumes "sys_redis S = R" "redis_ReleasePort S p w = (x, w')"
  shows "marked members S w' = marked members S w - {p} \<or>
         marked members S w' = marked members S w \<and> (\<exists>e. x = Inl e)"
proof -
  obtain r where r: "rs_srem R (ports_key S) p (w_redis w) = (x, r)" "w' = w\<lparr>w_redis := r\<rparr>"
    using assms by (auto simp: redis_ReleasePort_def on_redis_eq)
  show ?thesis
    using server_ok [unfolded redis_server_ok_def, THEN conjunct2, THEN conjunct1, rule_format, OF r(1)] r(2)
    by (auto simp: done_or_not_def marked_def)
qed

lemma is_allocated:
  assumes "sys_redis S = R" "redis_IsPortAllocated S p w = (x, w')"
  shows "marked members S w' = marked members S w"
    and "x = Inr b \<Longrightarrow> b \<longleftrightarrow> p \<in> marked members S w"
proof -
  obtain r where r: "rs_sismember R (ports_key S) p (w_redis w) = (x, r)" "w' = w\<lparr>w_redis := r\<rparr>"
    using assms by (auto simp: redis_IsPortAllocated_def on_redis_eq)
  show "marked members S w' = marked members S w" "x = Inr b \<Longrightarrow> b \<longleftrightarrow> p \<in> marked members S w"
    using server_ok [unfolded redis_server_ok_def, THEN conjunct2, THEN conjunct2, THEN conjunct1,
      rule_format, OF r(1)] r(2)
    by (auto simp: marked_def)
qed

lemma sync_ports:
  assumes "sys_redis S = R" "redis_SyncAllocatedPorts S ports w = (x, w')"
  shows "marked members S w' = set ports \<or>
         marked members S w' = marked members S w \<and> (\<exists>e. x = Inl e)"
proof -
  let ?cs = "CmdDel (ports_key S) # (if ports = [] then [] else [CmdSAdd (ports_key S) ports])"
  obtain r where r: "rs_tx R ?cs (w_redis w) = (x, r)" "w' = w\<lparr>w_redis := r\<rparr>"
    using assms by (auto simp: redis_SyncAllocatedPorts_def on_redis_eq)
  have "redis_exec ?cs (members (w_redis w)) (ports_key S) = set ports" by simp
  moreover have "done_or_not (members (w_redis w)) (redis_exec ?cs (members (w_redis w))) x (members r)"
    using server_ok [unfolded redis_server_ok_def, THEN conjunct2, THEN conjunct2, THEN conjunct2,
      THEN conjunct1, rule_format, OF r(1)] .
  moreover have "marked members S w' = members r (ports_key S)" using r(2) by (simp add: marked_def)
  ultimately show ?thesis unfolding done_or_not_def by (auto simp only: marked_def)
qed

text \<open>Locks and instance states live under keys of their own.\<close>

definition same_marks :: "('r, 'i, 'e) sys \<Rightarrow> ('r, 'i, 'e) world \<Rightarrow> ('r, 'i, 'e) world \<Rightarrow> bool" where
  "same_marks S w w' \<longleftrightarrow> marked members S w' = marked members S w"

sublocale marks_frame: frame "same_marks S"
  by unfold_locales (simp_all add: same_marks_def)

lemma same_marks_others:
  assumes "sys_redis S = R"
  shows "steps (same_marks S) (redis_AcquireLock S name ttl)"
    and "steps (same_marks S) (redis_ReleaseLock S name)"
    and "steps (same_marks S) (redis_SetInstanceState S iid st ttl)"
    and "steps (same_marks S) (redis_DeleteInstanceState S iid)"
    and "steps (same_marks S) (redis_GetInstanceState S iid)"
    and "steps (same_marks S) (redis_IsPortAllocated S p)"
    and "steps (same_marks S) (redis_Ping S)"
proof -
  note laws = server_ok [unfolded redis_server_ok_def]
  have step: "steps (same_marks S) (on_redis f)"
    if "\<And>r x r'. f r = (x, r') \<Longrightarrow> members r' (ports_key S) = members r (ports_key S)"
    for f :: "('r, 'x) prog"
    using that by (auto simp: steps_def same_marks_def marked_def on_redis_def split: prod.splits)
  show "steps (same_marks S) (redis_AcquireLock S name ttl)"
    unfolding redis_AcquireLock_def assms by (rule step) (meson laws key_kinds)
  show "steps (same_marks S) (redis_ReleaseLock S name)"
    unfolding redis_ReleaseLock_def assms by (rule step) (meson laws key_kinds)
  show "steps (same_marks S) (redis_SetInstanceState S iid st ttl)"
    unfolding redis_SetInstanceState_def assms by (rule step) (meson laws key_kinds)
  show "steps (same_marks S) (redis_DeleteInstanceState S iid)"
    unfolding redis_DeleteInstanceState_def assms by (rule step) (meson laws key_kinds)
  have "steps (same_marks S) (on_redis (rs_get R (state_key S iid)))"
    by (rule step) (metis laws)
  then show "steps (same_marks S) (redis_GetInstanceState S iid)"
    unfolding redis_GetInstanceState_def assms
    by (intro marks_frame.steps_andThen marks_frame.steps_ret)
  show "steps (same_marks S) (redis_IsPortAllocated S p)"
    unfolding redis_IsPortAllocated_def assms by (rule step) (metis laws)
  show "steps (same_marks S) (redis_Ping S)"
    unfolding redis_Ping_def assms by (rule step) (metis laws)
qed

end

interpretation mem: redis_laws mem_server mem_members
  by unfold_locales (rule mem_server_ok)

end
