(* ===== verification/Reference.thy ===== *)
theory Reference imports Store Redis begin

text \<open>
  Reference instances of the services, for the closed examples: a clock that advances one second
  per reading, UUIDs counted from one in the canonical text form, a database connection that always
  answers, a random source that repeats a byte, the Redis server in memory, and an Incus daemon
  that knows containers by name and power state and accepts everything else. They satisfy the
  hypotheses the theorems place on the services.
\<close>

record ref_env =
  e_clock :: time
  e_uuid :: uuid

type_synonym ref_incus = "string \<Rightarrow> string option"

text \<open>The canonical text of a UUID: 8-4-4-4-12 lower-case hexadecimal digits.\<close>

definition hex_nibble :: "uuid \<Rightarrow> nat \<Rightarrow> char" where
  "hex_nibble u k = (let d = unat (take_bit 4 (drop_bit (4 * k) u)) in
     if d < 10 then char_of (48 + d) else char_of (87 + d))"

definition canonical_uuid :: "uuid \<Rightarrow> string" where
  "canonical_uuid u =
     (let ds = map (hex_nibble u) (rev [0..<32]) in
      take 8 ds @ ''-'' @ take 4 (drop 8 ds) @ ''-'' @ take 4 (drop 12 ds) @ ''-''
        @ take 4 (drop 16 ds) @ ''-'' @ drop 20 ds)"

definition hex_digit_value :: "char \<Rightarrow> nat option" where
  "hex_digit_value c = (let n = (of_char c :: nat) in
     if 48 \<le> n \<and> n \<le> 57 then Some (n - 48)
     else if 97 \<le> n \<and> n \<le> 102 then Some (n - 87) else None)"

definition parse_uuid :: "string \<Rightarrow> uuid option" where
  "parse_uuid s =
     (let ds = filter (\<lambda>c. c \<noteq> CHR ''-'') s in
      if length s = 36 \<and> length ds = 32 \<and> list_all (\<lambda>c. hex_digit_value c \<noteq> None) ds
      then Some (foldl (\<lambda>a c. 16 * a + of_nat (the (hex_digit_value c))) 0 ds) else None)"

definition ref_incus_client :: "ref_incus incus_client" where
  "ref_incus_client = \<lparr>
     ic_Ping = ret (),
     ic_CreateContainer = (\<lambda>a m. (Inr (), m(a_name a \<mapsto> ''Stopped''))),
     ic_EnsureStarted = (\<lambda>n m. if m n = None then (Inl (ErrText ''Instance not found''), m)
       else (Inr (), m(n \<mapsto> ''Running''))),
     ic_EnsureInstanceIPv4 = (\<lambda>n. ret ''10.0.0.10''),
     ic_HardenNetwork = (\<lambda>n. ret ()),
     ic_ConfigureGuestDNS = (\<lambda>n. ret ()),
     ic_EnsureSSH = (\<lambda>n pw p. ret ()),
     ic_SetRootPassword = (\<lambda>n pw. ret ()),
     ic_AddProxyDevices = (\<lambda>n xs. ret ()),
     ic_AddProxyDevice = (\<lambda>n d pr h i. ret ()),
     ic_RemoveProxyDevice = (\<lambda>n d. ret ()),
     ic_UpdateProxyDeviceProtocol = (\<lambda>n d d' pr h i. ret ()),
     ic_GetStatus = (\<lambda>n m. case m n of None \<Rightarrow> (Inl (ErrText ''Instance not found''), m) | Some s \<Rightarrow> (Inr s, m)),
     ic_IsRunning = (\<lambda>n m. (m n = Some ''Running'', m)),
     ic_UpdateResourceLimits = (\<lambda>n c me p b t. ret ()),
     ic_EnsureDiskIsolation = (\<lambda>n. ret ()),
     ic_ApplyNetworkPolicy = (\<lambda>n b t. ret ()),
     ic_StopContainer = (\<lambda>n f m. (Inr (), m(n \<mapsto> ''Stopped''))),
     ic_RestartContainer = (\<lambda>n m. (Inr (), m(n \<mapsto> ''Running''))),
     ic_DeleteContainer = (\<lambda>n m. (Inr (), m(n := None))),
     ic_NetworkBytesTotal = (\<lambda>n. ret 0),
     ic_ResourceSample = (\<lambda>n. ret \<lparr>rs_cpu_ns = 0, rs_mem_used = 0, rs_mem_total = 0,
       rs_disk_used = 0, rs_disk_total = 0, rs_net_total = 0\<rparr>),
     ic_DiskUsageBytes = (\<lambda>n. ret (0, 0)),
     ic_StoragePoolSpace = ret \<lparr>ps_pool = ''goincus'', ps_driver = ''zfs'', ps_total = 0, ps_used = 0, ps_free = 0\<rparr>\<rparr>"

definition ref_sys :: "config \<Rightarrow> (mem_redis, ref_incus, ref_env) sys" where
  "ref_sys cfg = \<lparr>
     sys_cfg = cfg,
     sys_redis = mem_server,
     sys_incus = ref_incus_client,
     sys_pg = (\<lambda>e. (PgDone (e_clock e) ''violates constraint'', e)),
     sys_pg_ping = ret (),
     sys_now = (\<lambda>e. (e_clock e, e\<lparr>e_clock := e_clock e + second\<rparr>)),
     sys_rand = (\<lambda>n. ret (replicate n 7)),
     sys_uuid = (\<lambda>e. (e_uuid e, e\<lparr>e_uuid := e_uuid e + 1\<rparr>)),
     uuid_String = canonical_uuid,
     uuid_Parse = parse_uuid\<rparr>"

definition ref_world :: "database \<Rightarrow> (mem_redis, ref_incus, ref_env) world" where
  "ref_world d = \<lparr>w_db = d, w_redis = mem_empty, w_incus = (\<lambda>_. None),
     w_env = \<lparr>e_clock = 1750000000 * second, e_uuid = 1\<rparr>\<rparr>"

definition empty_db :: database where
  "empty_db = \<lparr>t_instances = [], t_ports = [], t_daily = [], t_hourly = []\<rparr>"

section \<open>A database with one instance\<close>

definition ref_inst :: inst where
  "ref_inst = \<lparr>i_id = 77, i_name = ''web'', i_incus = ''goincus-0000004d'', i_image = ''ubuntu/24.04'',
     i_status = StatusRunning, i_cpu = 1, i_memory = 512, i_storage = 10, i_processes = 512,
     i_bandwidth = 100, i_traffic_gb = 1, i_traffic_used = 500, i_traffic_period = ''2025-06'',
     i_throttled = False, i_counter_snap = 0, i_password = ''secret-password'', i_error = '''',
     i_ports = [], i_created = 1740000000000000000, i_updated = 1740000000000000000\<rparr>"

definition ref_port :: "int \<Rightarrow> port_mapping" where
  "ref_port p = \<lparr>p_id = of_int p, p_instance = 77, p_protocol = ''tcp'', p_host = p, p_internal = p,
     p_device = ''proxy-'' @ itoa p, p_created = 1740000000000000000\<rparr>"

definition one_db :: database where
  "one_db = empty_db\<lparr>t_instances := [ref_inst], t_ports := [ref_port 20000]\<rparr>"

lemma one_db_ok: "db_ok one_db"
  by (simp add: db_ok_def one_db_def empty_db_def ref_inst_def ref_port_def instances_ok_def
      instance_checks_def ports_ok_def ports_unique_def port_checks_def instance_ids_def daily_ok_def hourly_ok_def)

section \<open>Evaluation on the reference services\<close>

lemma ref_sel [simp]:
  "sys_cfg (ref_sys cfg) = cfg" "sys_redis (ref_sys cfg) = mem_server"
  "sys_incus (ref_sys cfg) = ref_incus_client" "uuid_String (ref_sys cfg) = canonical_uuid"
  "uuid_Parse (ref_sys cfg) = parse_uuid"
  by (simp_all add: ref_sys_def)

lemma ref_query: "query (ref_sys cfg) f w = (Inr (f (w_db w)), w)"
  by (simp add: query_def sql_def ref_sys_def asks_def)

lemma ref_sql: "sql (ref_sys cfg) stmt w =
    (case stmt ''violates constraint'' (e_clock (w_env w)) (w_db w) of (r, d) \<Rightarrow> (r, w\<lparr>w_db := d\<rparr>))"
  by (simp add: sql_def ref_sys_def)

lemma ref_now: "time_Now (ref_sys cfg) w = (Inr (e_clock (w_env w)), w\<lparr>w_env := (w_env w)\<lparr>e_clock := e_clock (w_env w) + second\<rparr>\<rparr>)"
  by (simp add: time_Now_def on_env_def total_def ref_sys_def)

lemma ref_uuid: "uuid_New (ref_sys cfg) w = (Inr (e_uuid (w_env w)), w\<lparr>w_env := (w_env w)\<lparr>e_uuid := e_uuid (w_env w) + 1\<rparr>\<rparr>)"
  by (simp add: uuid_New_def on_env_def total_def ref_sys_def)

lemma ref_random: "on_env (RandomPassword (sys_rand (ref_sys cfg)) n) w =
    (Inr (raw_url_encode (replicate (max 16 n) 7)), w)"
  by (simp add: on_env_def RandomPassword_def ref_sys_def andThen_def wrapErr_def ret_def max_def)

lemmas ref_simps = ref_query ref_sql ref_now ref_uuid ref_random

text \<open>Evaluation in the order of the program: what follows a call is looked at after the call.\<close>

lemma andThen_weak_cong: "f w = x \<Longrightarrow> andThen f g w = andThen (\<lambda>_. x) g w"
  by (simp add: andThen_def)

lemma andThen_cong_order: "f = f' \<Longrightarrow> w = w' \<Longrightarrow> andThen f g w = andThen f' g w'"
  by simp

lemma ref_pg_up [simp]: "pg_up (ref_sys cfg)"
  by (simp add: pg_up_def ref_sys_def)

end
