(* ===== verification/Ports.thy ===== *)
theory Ports imports Reference begin

text \<open>
  \<open>internal/ports/allocator.go\<close>: allocation of contiguous blocks of host ports. The tables are the
  truth, the Redis set guards what is allocated but not yet recorded there.

  Here each operation is one program that runs without interruption; theory \<open>Interleaving\<close> interrupts it. A
  successful \<open>AllocateBlock\<close> returns the first block of the range that is free in both, and marks it; \<open>first_block\<close> is the specification of the search.
\<close>

section \<open>The allocator\<close>

definition allocLockTTL :: int where
  "allocLockTTL = 10 * second"

definition ports_Sync :: "('r, 'i, 'e) sys \<Rightarrow> (('r, 'i, 'e) world, unit) prog" where
  "ports_Sync S =
     andThen (wrapErr ''list used ports: '' (db_ListUsedHostPorts S)) (\<lambda>ports.
     wrapErr ''sync redis ports: '' (redis_SyncAllocatedPorts S ports))"

definition is_free :: "('r, 'i, 'e) sys \<Rightarrow> int list \<Rightarrow> int \<Rightarrow> (('r, 'i, 'e) world, bool) prog" where
  "is_free S used port =
     (if port \<in> set used then ret False
      else andThen (redis_IsPortAllocated S port) (\<lambda>allocated. ret (\<not> allocated)))"

primrec block_free :: "('r, 'i, 'e) sys \<Rightarrow> int list \<Rightarrow> int list \<Rightarrow> (('r, 'i, 'e) world, bool) prog" where
  "block_free S used [] = ret True"
| "block_free S used (p # ps) =
     andThen (is_free S used p) (\<lambda>free. if free then block_free S used ps else ret False)"

text \<open>\<open>for _, p := range ports { _ = ReleasePort(p) }\<close>\<close>

definition ports_ReleaseBlock :: "('r, 'i, 'e) sys \<Rightarrow> int list \<Rightarrow> (('r, 'i, 'e) world, unit) prog" where
  "ports_ReleaseBlock S ports = forEach (\<lambda>p. ignore (redis_ReleasePort S p)) ports"

primrec mark_block :: "('r, 'i, 'e) sys \<Rightarrow> int list \<Rightarrow> int list \<Rightarrow> (('r, 'i, 'e) world, int list) prog" where
  "mark_block S [] block = ret block"
| "mark_block S (p # ps) block =
     andThen (attempt (redis_MarkPortAllocated S p)) (\<lambda>r.
       case r of
         Inl e \<Rightarrow> andThen (ports_ReleaseBlock S block) (\<lambda>_. throw e)
       | Inr _ \<Rightarrow> mark_block S ps (block @ [p]))"

definition ports_from :: "int \<Rightarrow> int \<Rightarrow> int list" where
  "ports_from start n = [start..start + n - 1]"

definition no_free_block :: "ports_config \<Rightarrow> int \<Rightarrow> error" where
  "no_free_block cfg n = ErrText (''no free contiguous '' @ itoa n @ ''-port block in range ''
     @ itoa (po_start cfg) @ ''-'' @ itoa (po_end cfg))"

primrec search_block ::
    "('r, 'i, 'e) sys \<Rightarrow> int list \<Rightarrow> int \<Rightarrow> int list \<Rightarrow> (('r, 'i, 'e) world, int list) prog" where
  "search_block S used n [] = throw (no_free_block (c_ports (sys_cfg S)) n)"
| "search_block S used n (start # starts) =
     andThen (block_free S used (ports_from start n)) (\<lambda>okBlock.
       if okBlock then mark_block S (ports_from start n) []
       else search_block S used n starts)"

definition block_starts :: "ports_config \<Rightarrow> int \<Rightarrow> int list" where
  "block_starts cfg n = [po_start cfg..po_end cfg - n + 1]"

text \<open>\<open>AcquireLock\<close>, the "busy" answer, and the deferred \<open>ReleaseLock\<close>.\<close>

definition busy :: error where
  "busy = ErrText ''port allocator busy''"

definition with_lock :: "('r, 'i, 'e) sys \<Rightarrow> (('r, 'i, 'e) world, bool) prog \<Rightarrow> (('r, 'i, 'e) world, 'a) prog \<Rightarrow> (('r, 'i, 'e) world, 'a) prog" where
  "with_lock S acquire body =
     andThen acquire (\<lambda>ok.
       if \<not> ok then throw busy
       else deferring (redis_ReleaseLock S ''port-alloc'') body)"

definition ports_AllocateBlock :: "('r, 'i, 'e) sys \<Rightarrow> int \<Rightarrow> (('r, 'i, 'e) world, int list) prog" where
  "ports_AllocateBlock S n =
     (if n < 1 then throw (ErrText ''block size must be >= 1'')
      else with_lock S (wrapErr ''acquire port lock: '' (redis_AcquireLock S ''port-alloc'' allocLockTTL))
        (andThen (db_ListUsedHostPorts S) (\<lambda>used.
         search_block S used n (block_starts (c_ports (sys_cfg S)) n))))"

definition ports_Allocate :: "('r, 'i, 'e) sys \<Rightarrow> (('r, 'i, 'e) world, int) prog" where
  "ports_Allocate S = andThen (ports_AllocateBlock S 1) (\<lambda>ports. ret (hd ports))"

definition ports_Reserve :: "('r, 'i, 'e) sys \<Rightarrow> int \<Rightarrow> (('r, 'i, 'e) world, unit) prog" where
  "ports_Reserve S port =
     (let cfg = c_ports (sys_cfg S);
          taken = ErrText (''host port '' @ itoa port @ '' already allocated'') in
      if port < po_start cfg \<or> port > po_end cfg
      then throw (ErrText (''host port '' @ itoa port @ '' outside allowed range ''
             @ itoa (po_start cfg) @ ''-'' @ itoa (po_end cfg)))
      else with_lock S (redis_AcquireLock S ''port-alloc'' allocLockTTL)
        (andThen (db_ListUsedHostPorts S) (\<lambda>used.
         if port \<in> set used then throw taken
         else andThen (redis_IsPortAllocated S port) (\<lambda>allocated.
           if allocated then throw taken else redis_MarkPortAllocated S port))))"

definition ports_Release :: "('r, 'i, 'e) sys \<Rightarrow> int \<Rightarrow> (('r, 'i, 'e) world, unit) prog" where
  "ports_Release S port = redis_ReleasePort S port"

record port_stats =
  st_start :: int
  st_end :: int
  st_per_instance :: int
  st_total :: int
  st_used :: int
  st_free :: int

definition ports_Stats :: "('r, 'i, 'e) sys \<Rightarrow> (('r, 'i, 'e) world, port_stats) prog" where
  "ports_Stats S =
     (let cfg = c_ports (sys_cfg S);
          span = max 0 (po_end cfg - po_start cfg + 1) in
      andThen (db_ListUsedHostPorts S) (\<lambda>usedPorts.
      let used = int (length (filter (\<lambda>p. po_start cfg \<le> p \<and> p \<le> po_end cfg) usedPorts)) in
      ret \<lparr>st_start = po_start cfg, st_end = po_end cfg, st_per_instance = po_per_instance cfg,
           st_total = span, st_used = used, st_free = max 0 (span - used)\<rparr>))"

section \<open>The specification of the search\<close>

definition first_block :: "ports_config \<Rightarrow> int \<Rightarrow> int set \<Rightarrow> int option" where
  "first_block cfg n taken =
     List.find (\<lambda>start. \<forall>p \<in> set (ports_from start n). p \<notin> taken) (block_starts cfg n)"

text \<open>In words of the ports alone: a start whose block lies in the range and is free, and the least such start.\<close>

definition fits :: "ports_config \<Rightarrow> int \<Rightarrow> int set \<Rightarrow> int \<Rightarrow> bool" where
  "fits cfg n taken s \<longleftrightarrow> po_start cfg \<le> s \<and> s + n - 1 \<le> po_end cfg \<and> {s..<s + n} \<inter> taken = {}"

definition first_fit :: "ports_config \<Rightarrow> int \<Rightarrow> int set \<Rightarrow> int \<Rightarrow> bool" where
  "first_fit cfg n taken s \<longleftrightarrow> fits cfg n taken s \<and> (\<forall>s'. fits cfg n taken s' \<longrightarrow> s \<le> s')"

lemma set_ports_from: "set (ports_from start n) = {start..<start + n}"
  by (auto simp: ports_from_def)

lemma find_upto:
  "List.find P [a..b] = Some s \<longleftrightarrow> a \<le> s \<and> s \<le> b \<and> P s \<and> (\<forall>s'. a \<le> s' \<and> s' \<le> b \<and> P s' \<longrightarrow> s \<le> s')"
proof (induction a b rule: upto.induct)
  case (1 a b)
  show ?case
  proof (cases "a \<le> b \<and> \<not> P a")
    case True
    have "(a \<le> s' \<and> s' \<le> b \<and> P s') = (a + 1 \<le> s' \<and> s' \<le> b \<and> P s')" for s'
      using True by (cases "s' = a") auto
    then show ?thesis using 1 True by (auto simp: upto.simps [of a b])
  qed (auto simp: upto.simps [of a b])
qed

lemma fits_start:
  "fits cfg n taken s \<longleftrightarrow>
     po_start cfg \<le> s \<and> s \<le> po_end cfg - n + 1 \<and> (\<forall>p \<in> set (ports_from s n). p \<notin> taken)"
  by (auto simp: fits_def set_ports_from)

lemma first_block_Some: "first_block cfg n taken = Some s \<longleftrightarrow> first_fit cfg n taken s"
  unfolding first_block_def block_starts_def find_upto first_fit_def fits_start by blast

lemma first_block_None: "first_block cfg n taken = None \<longleftrightarrow> (\<forall>s. \<not> fits cfg n taken s)"
  unfolding first_block_def block_starts_def find_None_iff fits_start by auto

section \<open>Frames\<close>

context reads_frame
begin

lemmas redis_on_redis_defs = redis_Ping_def redis_AcquireLock_def redis_ReleaseLock_def redis_MarkPortAllocated_def
  redis_ReleasePort_def redis_IsPortAllocated_def redis_SyncAllocatedPorts_def
  redis_SetInstanceState_def redis_DeleteInstanceState_def

lemma steps_redis [frame_rules]:
  "steps R (redis_Ping S)"
  "steps R (redis_AcquireLock S name ttl)"
  "steps R (redis_ReleaseLock S name)"
  "steps R (redis_MarkPortAllocated S port)"
  "steps R (redis_ReleasePort S port)"
  "steps R (redis_IsPortAllocated S port)"
  "steps R (redis_SyncAllocatedPorts S used)"
  "steps R (redis_SetInstanceState S iid st ttl)"
  "steps R (redis_DeleteInstanceState S iid)"
  unfolding redis_on_redis_defs by (rule steps_redis_call)+


lemma steps_ReleaseBlock [frame_rules]: "steps R (ports_ReleaseBlock S ports)"
  unfolding ports_ReleaseBlock_def by (intro frame_rules steps_redis)

lemma steps_block_free: "steps R (block_free S used ps)"
  unfolding is_free_def by (induction ps) (auto simp: is_free_def intro!: frame_rules)

lemma steps_mark_block: "steps R (mark_block S ps block)"
  by (induction ps arbitrary: block) (auto intro!: frame_rules)

lemma steps_search_block: "steps R (search_block S used n starts)"
  by (induction starts) (auto intro!: frame_rules steps_block_free steps_mark_block)

lemma steps_ports [frame_rules]:
  "steps R (ports_Sync S)"
  "steps R (ports_AllocateBlock S n)"
  "steps R (ports_Allocate S)"
  "steps R (ports_Reserve S port)"
  "steps R (ports_Release S port)"
  "steps R (ports_Stats S)"
  unfolding ports_Sync_def ports_AllocateBlock_def ports_Allocate_def ports_Reserve_def
    ports_Release_def ports_Stats_def with_lock_def Let_def
  by (auto intro!: frame_rules steps_search_block)

end

section \<open>A block that is returned was free, is the first one, and is marked\<close>

context redis_laws
begin

lemma block_free_Inr:
  assumes S: "sys_redis S = R" and "block_free S used ps w = (Inr b, w')"
  shows "marked members S w' = marked members S w \<and>
         (b \<longleftrightarrow> (\<forall>p \<in> set ps. p \<notin> set used \<union> marked members S w))"
  using assms(2)
proof (induction ps arbitrary: w)
  case (Cons p ps)
  show ?case
  proof (cases "p \<in> set used")
    case True
    then show ?thesis using Cons.prems by (auto simp: is_free_def andThen_Inr)
  next
    case False
    obtain a w1 where a: "redis_IsPortAllocated S p w = (Inr a, w1)"
      and rest: "(if \<not> a then block_free S used ps w1 else (Inr False, w1)) = (Inr b, w')"
      using Cons.prems False by (auto simp: is_free_def andThen_Inr ret_def split: if_splits)
    have "marked members S w1 = marked members S w" "a \<longleftrightarrow> p \<in> marked members S w"
      using is_allocated [OF S a] by auto
    then show ?thesis using Cons.IH [of w1] rest False by (auto split: if_splits)
  qed
qed simp

lemma mark_block_Inr:
  assumes S: "sys_redis S = R" and "mark_block S ps ms w = (Inr block, w')"
  shows "block = ms @ ps \<and> marked members S w' = marked members S w \<union> set ps"
  using assms(2)
proof (induction ps arbitrary: ms w)
  case (Cons p ps)
  obtain x w1 where x: "redis_MarkPortAllocated S p w = (x, w1)" by fastforce
  have ok: "x = Inr ()" and rest: "mark_block S ps (ms @ [p]) w1 = (Inr block, w')"
    using Cons.prems x by (auto simp: andThen_Inr attempt_eq split: sum.splits)
  have "marked members S w1 = insert p (marked members S w)"
    using mark_port [OF S x] ok by auto
  then show ?case using Cons.IH [OF rest] by auto
qed auto

lemma search_block_Inr:
  assumes S: "sys_redis S = R" and "search_block S used n starts w = (Inr block, w')"
  shows "\<exists>s. List.find (\<lambda>start. \<forall>p \<in> set (ports_from start n). p \<notin> set used \<union> marked members S w) starts = Some s
           \<and> block = ports_from s n \<and> marked members S w' = marked members S w \<union> set block"
  using assms(2)
proof (induction starts arbitrary: w)
  case (Cons start starts)
  obtain b w1 where b: "block_free S used (ports_from start n) w = (Inr b, w1)"
    and rest: "(if b then mark_block S (ports_from start n) [] w1 else search_block S used n starts w1) = (Inr block, w')"
    using Cons.prems by (auto simp: andThen_Inr split: if_splits)
  note free = block_free_Inr [OF S b]
  show ?case
  proof (cases b)
    case True
    then show ?thesis using mark_block_Inr [OF S, of "ports_from start n" "[]" w1 block w'] rest free by auto
  next
    case False
    have "search_block S used n starts w1 = (Inr block, w')" using rest by (simp only: False if_False)
    note ih = Cons.IH [OF this]
    have marks: "marked members S w1 = marked members S w" using free by simp
    have "\<not> (\<forall>p \<in> set (ports_from start n). p \<notin> set used \<union> marked members S w)" using free False by blast
    then show ?thesis using ih unfolding marks find.simps by (simp only: if_False)
  qed
qed simp

lemma same_marks_query: "steps (same_marks S) (query S' f)"
  by (simp add: steps_def same_marks_def marked_def query_frame)

lemma AcquireLock_marks:
  "sys_redis S = R \<Longrightarrow> redis_AcquireLock S name ttl w = (x, w') \<Longrightarrow> marked members S w' = marked members S w"
  using stepsD [OF same_marks_others(1)] by (simp add: same_marks_def)

lemma ReleaseLock_marks:
  "sys_redis S = R \<Longrightarrow> marked members S (snd (redis_ReleaseLock S name w)) = marked members S w"
  using same_marks_others(2) [of S name] by (simp add: steps_def same_marks_def)

lemma AllocateBlock_Inr:
  assumes S: "sys_redis S = R" and a: "ports_AllocateBlock S n w = (Inr block, w')"
  shows "\<exists>s. first_block (c_ports (sys_cfg S)) n (set (select_used_ports (w_db w)) \<union> marked members S w) = Some s
           \<and> block = ports_from s n \<and> marked members S w' = marked members S w \<union> set block"
proof -
  obtain w1 w2 used w3 where
    lock: "redis_AcquireLock S ''port-alloc'' allocLockTTL w = (Inr True, w1)"
    and used: "db_ListUsedHostPorts S w1 = (Inr used, w2)"
    and search: "search_block S used n (block_starts (c_ports (sys_cfg S)) n) w2 = (Inr block, w3)"
    and w': "w' = snd (redis_ReleaseLock S ''port-alloc'' w3)"
    using a by (auto simp: ports_AllocateBlock_def with_lock_def andThen_Inr wrapErr_Inr deferring_eq split: if_splits)
  have db: "w_db w1 = w_db w"
    using stepsD [OF same_db.steps_redis(2) lock] by (simp add: db_rel_def)
  have u: "used = select_used_ports (w_db w)" "marked members S w2 = marked members S w1"
    using query_Inr [OF used [unfolded db_ListUsedHostPorts_def]] db by (auto simp: marked_def)
  show ?thesis
    using search_block_Inr [OF S search] u AcquireLock_marks [OF S lock] ReleaseLock_marks [OF S, of "''port-alloc''" w3] w'
    by (auto simp: first_block_def)
qed

lemma Reserve_Inr:
  assumes S: "sys_redis S = R" and a: "ports_Reserve S port w = (Inr u, w')"
  shows "po_start (c_ports (sys_cfg S)) \<le> port \<and> port \<le> po_end (c_ports (sys_cfg S))
       \<and> port \<notin> set (select_used_ports (w_db w)) \<union> marked members S w
       \<and> marked members S w' = insert port (marked members S w)"
proof -
  obtain w1 w2 used w3 w4 where
    range: "po_start (c_ports (sys_cfg S)) \<le> port" "port \<le> po_end (c_ports (sys_cfg S))"
    and lock: "redis_AcquireLock S ''port-alloc'' allocLockTTL w = (Inr True, w1)"
    and used: "db_ListUsedHostPorts S w1 = (Inr used, w2)" "port \<notin> set used"
    and free: "redis_IsPortAllocated S port w2 = (Inr False, w3)"
    and mark: "redis_MarkPortAllocated S port w3 = (Inr u, w4)"
    and w': "w' = snd (redis_ReleaseLock S ''port-alloc'' w4)"
    using a by (auto simp: ports_Reserve_def with_lock_def Let_def andThen_Inr deferring_eq split: if_splits)
  have db: "w_db w1 = w_db w"
    using stepsD [OF same_db.steps_redis(2) lock] by (simp add: db_rel_def)
  have u: "used = select_used_ports (w_db w)" "marked members S w2 = marked members S w1"
    using query_Inr [OF used(1) [unfolded db_ListUsedHostPorts_def]] db by (auto simp: marked_def)
  show ?thesis
    using range used(2) u AcquireLock_marks [OF S lock] is_allocated [OF S free] mark_port [OF S mark]
      ReleaseLock_marks [OF S, of "''port-alloc''" w4] w'
    by auto
qed

end

section \<open>A free block is found when the services answer\<close>

text \<open>
  \<open>good r k\<close>: key \<open>k\<close> can be used as a set (it holds no string). A server that answers then
  executes the set commands on \<open>k\<close>, and commands on other keys do not change that.
\<close>

definition redis_answers :: "'r redis_server \<Rightarrow> ('r \<Rightarrow> string \<Rightarrow> bool) \<Rightarrow> bool" where
  "redis_answers R good \<longleftrightarrow>
     (\<forall>k p r. good r k \<longrightarrow> (\<exists>b r'. rs_sismember R k p r = (Inr b, r') \<and> good r' k))
   \<and> (\<forall>k p r. good r k \<longrightarrow> (\<exists>r'. rs_sadd R k p r = (Inr (), r') \<and> good r' k))
   \<and> (\<forall>k v ttl r k'. k' \<noteq> k \<longrightarrow> good r k' \<longrightarrow> good (snd (rs_setnx R k v ttl r)) k')"

definition mem_good :: "mem_redis \<Rightarrow> string \<Rightarrow> bool" where
  "mem_good r k \<longleftrightarrow> m_strings r k = None"

lemma mem_answers: "redis_answers mem_server mem_good"
  by (simp add: redis_answers_def mem_server_def mem_good_def)

definition can_use_ports :: "('r \<Rightarrow> string \<Rightarrow> bool) \<Rightarrow> ('r, 'i, 'e) sys \<Rightarrow> ('r, 'i, 'e) world \<Rightarrow> bool" where
  "can_use_ports good S w \<longleftrightarrow> good (w_redis w) (ports_key S)"

lemma block_free_total:
  assumes "redis_answers (sys_redis S) good" "can_use_ports good S w"
  shows "\<exists>b w'. block_free S used ps w = (Inr b, w') \<and> can_use_ports good S w'"
  using assms(2)
proof (induction ps arbitrary: w)
  case (Cons p ps)
  show ?case
  proof (cases "p \<in> set used")
    case False
    obtain a r where a: "rs_sismember (sys_redis S) (ports_key S) p (w_redis w) = (Inr a, r)" "good r (ports_key S)"
      using assms(1) Cons.prems unfolding redis_answers_def can_use_ports_def by meson
    have 1: "can_use_ports good S (w\<lparr>w_redis := r\<rparr>)" using a(2) by (simp add: can_use_ports_def)
    show ?thesis
      using Cons.IH [OF 1] a(1) 1 False
      by (auto simp: is_free_def andThen_def redis_IsPortAllocated_def on_redis_def ret_def)
  qed (use Cons.prems in \<open>auto simp: is_free_def andThen_def ret_def\<close>)
qed auto

lemma mark_block_total:
  assumes "redis_answers (sys_redis S) good" "can_use_ports good S w"
  shows "\<exists>w'. mark_block S ps ms w = (Inr (ms @ ps), w')"
  using assms(2)
proof (induction ps arbitrary: ms w)
  case (Cons p ps)
  obtain r where r: "rs_sadd (sys_redis S) (ports_key S) p (w_redis w) = (Inr (), r)" "good r (ports_key S)"
    using assms(1) Cons.prems unfolding redis_answers_def can_use_ports_def by meson
  have "can_use_ports good S (w\<lparr>w_redis := r\<rparr>)" using r(2) by (simp add: can_use_ports_def)
  from Cons.IH [OF this, of "ms @ [p]"] show ?case
    using r(1) by (simp add: andThen_def attempt_def redis_MarkPortAllocated_def on_redis_def)
qed simp

context redis_laws
begin

lemma search_block_total:
  assumes S: "sys_redis S = R" and ans: "redis_answers R good" and use: "can_use_ports good S w"
  shows "fst (search_block S used n starts w) =
    (case List.find (\<lambda>start. \<forall>p \<in> set (ports_from start n). p \<notin> set used \<union> marked members S w) starts of
       None \<Rightarrow> Inl (no_free_block (c_ports (sys_cfg S)) n) | Some s \<Rightarrow> Inr (ports_from s n))"
  using use
proof (induction starts arbitrary: w)
  case Nil
  then show ?case by (simp add: throw_def)
next
  case (Cons start starts)
  obtain b w1 where b: "block_free S used (ports_from start n) w = (Inr b, w1)" and use1: "can_use_ports good S w1"
    using block_free_total [OF ans [folded S] Cons.prems] by blast
  note free = block_free_Inr [OF S b]
  show ?case
  proof (cases b)
    case True
    then show ?thesis using mark_block_total [OF ans [folded S] use1, of "ports_from start n" "[]"] b free
      by (auto simp: andThen_def)
  next
    case False
    have marks: "marked members S w1 = marked members S w" using free by simp
    have "\<not> (\<forall>p \<in> set (ports_from start n). p \<notin> set used \<union> marked members S w)" using free False by blast
    then show ?thesis
      using Cons.IH [OF use1] b False unfolding marks find.simps
      by (simp only: if_False search_block.simps andThen_def prod.case sum.case)
  qed
qed

lemma AllocateBlock_total:
  assumes S: "sys_redis S = R" and ans: "redis_answers R good" and use: "can_use_ports good S w"
    and lock: "redis_AcquireLock S ''port-alloc'' allocLockTTL w = (Inr True, w1)"
    and pg: "sys_pg S (w_env w1) = (PgDone t v, e)" and n: "1 \<le> n"
  shows "fst (ports_AllocateBlock S n w) =
    (case first_block (c_ports (sys_cfg S)) n (set (select_used_ports (w_db w)) \<union> marked members S w) of
       None \<Rightarrow> Inl (no_free_block (c_ports (sys_cfg S)) n) | Some s \<Rightarrow> Inr (ports_from s n))"
proof -
  let ?w2 = "w1\<lparr>w_env := e\<rparr>"
  have db: "w_db w1 = w_db w"
    using stepsD [OF same_db.steps_redis(2) lock] by (simp add: db_rel_def)
  have q: "db_ListUsedHostPorts S w1 = (Inr (select_used_ports (w_db w)), ?w2)"
    using pg db by (simp add: db_ListUsedHostPorts_def query_def sql_def asks_def)
  have "w_redis w1 = snd (rs_setnx R (lock_key S ''port-alloc'') ''1'' allocLockTTL (w_redis w))"
    using lock S by (auto simp: redis_AcquireLock_def on_redis_eq)
  moreover have "good (snd (rs_setnx R (lock_key S ''port-alloc'') ''1'' allocLockTTL (w_redis w))) (ports_key S)"
    using ans [unfolded redis_answers_def, THEN conjunct2, THEN conjunct2, rule_format, OF key_kinds(1)] use
    by (simp add: can_use_ports_def)
  ultimately have use2: "can_use_ports good S ?w2" by (simp add: can_use_ports_def)
  have marks: "marked members S ?w2 = marked members S w"
    using AcquireLock_marks [OF S lock] by (simp add: marked_def)
  show ?thesis
    using search_block_total [OF S ans use2, of "select_used_ports (w_db w)" n] n lock q
    unfolding marks first_block_def
    by (simp add: ports_AllocateBlock_def with_lock_def andThen_def wrapErr_def deferring_def split_beta)
qed

end

section \<open>Properties of the allocator\<close>

text \<open>C2. A successful \<open>AllocateBlock\<close> returns the first block of the requested size in the configured
range that meets no port recorded for a live instance and no port marked in Redis; all its ports
lie in the range, it is marked, nothing else is, and the tables are unchanged.\<close>

theorem AllocateBlock_sound:
  assumes "redis_server_ok (sys_redis S) members"
    and "fst (ports_AllocateBlock S n w) = Inr block"
  shows "\<exists>s. first_fit (c_ports (sys_cfg S)) n (set (select_used_ports (w_db w)) \<union> marked members S w) s
           \<and> block = [s..s + n - 1]
           \<and> set block \<inter> (set (select_used_ports (w_db w)) \<union> marked members S w) = {}
           \<and> marked members S (snd (ports_AllocateBlock S n w)) = marked members S w \<union> set block
           \<and> w_db (snd (ports_AllocateBlock S n w)) = w_db w"
proof -
  let ?taken = "set (select_used_ports (w_db w)) \<union> marked members S w"
  have laws: "redis_laws (sys_redis S) members" using assms(1) by (rule redis_laws.intro)
  obtain s where s: "first_block (c_ports (sys_cfg S)) n ?taken = Some s" "block = ports_from s n"
    and m: "marked members S (snd (ports_AllocateBlock S n w)) = marked members S w \<union> set block"
    using redis_laws.AllocateBlock_Inr [OF laws refl, of n w block] assms(2) by (metis prod.collapse)
  have "first_fit (c_ports (sys_cfg S)) n ?taken s" using s(1) by (simp only: first_block_Some)
  moreover from this have "set block \<inter> ?taken = {}" by (auto simp: s(2) first_fit_def fits_def set_ports_from)
  moreover have "w_db (snd (ports_AllocateBlock S n w)) = w_db w"
    using same_db.steps_ports(2) [of S n] by (simp add: steps_def db_rel_def)
  ultimately show ?thesis
    using s m by (auto simp: ports_from_def)
qed

definition small_cfg :: config where
  "small_cfg = Default\<lparr>c_ports := \<lparr>po_start = 20000, po_end = 20005, po_per_instance = 3\<rparr>\<rparr>"

lemma ref_allocate: "fst (ports_AllocateBlock (ref_sys small_cfg) 3 (ref_world empty_db)) = Inr [20000, 20001, 20002]"
  by code_simp

lemma ref_server [simp]: "sys_redis (ref_sys cfg) = mem_server"
  by (simp add: ref_sys_def)

theorem AllocateBlock_sound_witness:
  "set [20000, 20001, 20002] \<inter> marked mem_members (ref_sys small_cfg) (ref_world empty_db) = {}"
proof -
  have ok: "redis_server_ok (sys_redis (ref_sys small_cfg)) mem_members" by (simp add: mem_server_ok)
  show ?thesis using AllocateBlock_sound [OF ok ref_allocate] by blast
qed

text \<open>C9. When the services answer and the lock is free, \<open>AllocateBlock\<close> returns exactly what the
specification of the search says: the first free block if there is one, and otherwise the "no free
contiguous block" error.\<close>

theorem AllocateBlock_complete:
  assumes "redis_server_ok (sys_redis S) members" and "redis_answers (sys_redis S) good"
    and "can_use_ports good S w"
    and "redis_AcquireLock S ''port-alloc'' allocLockTTL w = (Inr True, w1)"
    and "sys_pg S (w_env w1) = (PgDone t v, e)" and "1 \<le> n"
  shows "(\<forall>s. first_fit (c_ports (sys_cfg S)) n (set (select_used_ports (w_db w)) \<union> marked members S w) s \<longrightarrow>
       fst (ports_AllocateBlock S n w) = Inr [s..s + n - 1])
    \<and> ((\<forall>s. \<not> fits (c_ports (sys_cfg S)) n (set (select_used_ports (w_db w)) \<union> marked members S w) s) \<longrightarrow>
       fst (ports_AllocateBlock S n w) = Inl (no_free_block (c_ports (sys_cfg S)) n))"
  using redis_laws.AllocateBlock_total [OF redis_laws.intro [OF assms(1)] refl assms(2-6)]
  by (simp add: ports_from_def flip: first_block_Some first_block_None)

text \<open>\<open>Reserve\<close> accepts only a port of the configured range that no live instance uses and
that is not marked, and on success it is marked and nothing else changes.\<close>

theorem Reserve_sound:
  assumes "redis_server_ok (sys_redis S) members"
    and "fst (ports_Reserve S port w) = Inr ()"
  shows "po_start (c_ports (sys_cfg S)) \<le> port \<and> port \<le> po_end (c_ports (sys_cfg S))
       \<and> port \<notin> set (select_used_ports (w_db w)) \<and> port \<notin> marked members S w
       \<and> marked members S (snd (ports_Reserve S port w)) = insert port (marked members S w)"
proof -
  have "ports_Reserve S port w = (Inr (), snd (ports_Reserve S port w))"
    using assms(2) by (simp add: prod_eq_iff)
  from redis_laws.Reserve_Inr [OF redis_laws.intro [OF assms(1)] refl this] show ?thesis by simp
qed

lemma Sync_marks:
  assumes "redis_server_ok (sys_redis S) members"
    and "fst (ports_Sync S w) = Inr ()"
  shows "marked members S (snd (ports_Sync S w)) = set (select_used_ports (w_db w))
       \<and> w_db (snd (ports_Sync S w)) = w_db w"
proof -
  obtain used w1 w2 where used: "db_ListUsedHostPorts S w = (Inr used, w1)"
    and sync: "redis_SyncAllocatedPorts S used w1 = (Inr (), w2)" and w2: "snd (ports_Sync S w) = w2"
    using assms(2) by (cases "ports_Sync S w") (auto simp: ports_Sync_def andThen_Inr wrapErr_Inr)
  have "marked members S w2 = set used"
    using redis_laws.sync_ports [OF redis_laws.intro [OF assms(1)] refl sync] by auto
  moreover have "w_db (snd (ports_Sync S w)) = w_db w"
    using same_db.steps_ports(1) [of S] by (simp add: steps_def db_rel_def)
  ultimately show ?thesis
    using query_Inr(1) [OF used [unfolded db_ListUsedHostPorts_def]] w2 by simp
qed

text \<open>After a successful \<open>Sync\<close> the marked ports are exactly the ports of live instances.\<close>

theorem Sync_exact:
  assumes "redis_server_ok (sys_redis S) members"
    and "fst (ports_Sync S w) = Inr ()"
  shows "marked members S (snd (ports_Sync S w)) = set (select_used_ports (w_db w))
       \<and> w_db (snd (ports_Sync S w)) = w_db w"
  using assms by (rule Sync_marks)

text \<open>The examples: the lock and the port set of the reference server.\<close>

lemma ref_lock: "\<exists>w1. redis_AcquireLock (ref_sys small_cfg) ''port-alloc'' allocLockTTL (ref_world empty_db) = (Inr True, w1)"
  by (simp add: redis_AcquireLock_def on_redis_def mem_server_def ref_world_def mem_empty_def)

theorem AllocateBlock_complete_witness:
  "fst (ports_AllocateBlock (ref_sys small_cfg) 7 (ref_world empty_db)) =
     Inl (no_free_block (c_ports small_cfg) 7)"
proof -
  let ?S = "ref_sys small_cfg" and ?w = "ref_world empty_db"
  obtain w1 where lock: "redis_AcquireLock ?S ''port-alloc'' allocLockTTL ?w = (Inr True, w1)"
    using ref_lock by blast
  have 1: "redis_server_ok (sys_redis ?S) mem_members" "redis_answers (sys_redis ?S) mem_good"
    by (simp_all add: mem_server_ok mem_answers)
  have 2: "can_use_ports mem_good ?S ?w"
    by (simp add: can_use_ports_def mem_good_def ref_world_def mem_empty_def)
  have 3: "sys_pg ?S (w_env w1) = (PgDone (e_clock (w_env w1)) ''violates constraint'', w_env w1)"
    by (simp add: ref_sys_def)
  have "\<forall>s. \<not> fits (c_ports small_cfg) 7 T s" for T
    by (simp add: fits_def small_cfg_def)
  then show ?thesis
    using AllocateBlock_complete [OF 1 2 lock 3, of 7] by (simp add: ref_sys_def)
qed

theorem Reserve_sound_witness:
  "20003 \<notin> marked mem_members (ref_sys small_cfg) (ref_world empty_db)"
proof -
  have ok: "redis_server_ok (sys_redis (ref_sys small_cfg)) mem_members" by (simp add: mem_server_ok)
  have "fst (ports_Reserve (ref_sys small_cfg) 20003 (ref_world empty_db)) = Inr ()"
    by code_simp
  from Reserve_sound [OF ok this] show ?thesis by blast
qed

theorem Sync_exact_witness:
  "marked mem_members (ref_sys small_cfg) (snd (ports_Sync (ref_sys small_cfg) (ref_world empty_db))) = {}"
proof -
  have ok: "redis_server_ok (sys_redis (ref_sys small_cfg)) mem_members" by (simp add: mem_server_ok)
  have "fst (ports_Sync (ref_sys small_cfg) (ref_world empty_db)) = Inr ()" by code_simp
  from Sync_exact [OF ok this] show ?thesis
    by (simp add: ref_world_def empty_db_def select_used_ports_def)
qed

end
