(* ===== verification/Calendar.thy ===== *)
theory Calendar imports Store begin

text \<open>
  The part of Go's \<open>time\<close> package the program uses, in UTC: \<open>Truncate\<close>, \<open>AddDate\<close> by days, and
  \<open>Format\<close> with the layouts \<open>2006-01\<close>, \<open>2006-01-02\<close> and RFC 3339. A time is in nanoseconds since
  the Unix epoch; the calendar is the proleptic Gregorian one, computed as \<open>time.Time.Date\<close> does.
  A formatted date determines its day, which is what keying a map by it relies on.
\<close>

section \<open>Truncation and days\<close>

definition Truncate :: "time \<Rightarrow> int \<Rightarrow> time" where
  "Truncate t d = t div d * d"

definition AddDays :: "time \<Rightarrow> int \<Rightarrow> time" where
  "AddDays t n = t + n * day_ns"


lemma Truncate_day: "Truncate t day_ns = utc_date t"
  by (simp add: Truncate_def utc_date_def)


lemma utc_date_AddDays [simp]: "utc_date (AddDays t n) = AddDays (utc_date t) n"
  by (simp add: utc_date_def AddDays_def distrib_right)

section \<open>The calendar\<close>

definition isLeap :: "int \<Rightarrow> bool" where
  "isLeap year \<longleftrightarrow> year mod 4 = 0 \<and> (year mod 100 \<noteq> 0 \<or> year mod 400 = 0)"

definition daysBefore :: "int list" where
  "daysBefore = [0, 31, 59, 90, 120, 151, 181, 212, 243, 273, 304, 334, 365]"

text \<open>
  The four-step division: the year and the day of the year of day \<open>d\<close>, counted from the first of
  January of year 1. The last day of a cycle belongs to the cycle's last part.
\<close>

definition year_yday :: "int \<Rightarrow> int \<times> int" where
  "year_yday d0 =
     (let n400 = d0 div 146097; d1 = d0 mod 146097;
          q100 = d1 div 36524; n100 = q100 - q100 div 4; d2 = d1 - 36524 * n100;
          n4 = d2 div 1461; d3 = d2 - 1461 * n4;
          q1 = d3 div 365; n1 = q1 - q1 div 4
      in (400 * n400 + 100 * n100 + 4 * n4 + n1 + 1, d3 - 365 * n1))"

definition month_day :: "bool \<Rightarrow> int \<Rightarrow> int \<times> int" where
  "month_day leap yday =
     (if leap \<and> yday = 59 then (2, 29)
      else
        (let d = (if leap \<and> yday > 59 then yday - 1 else yday);
             m = d div 31; end = daysBefore ! nat (m + 1)
         in if d \<ge> end then (m + 2, d - end + 1) else (m + 1, d - daysBefore ! nat m + 1)))"

text \<open>\<open>t.Date()\<close>; day 719162 from year 1 is the Unix epoch.\<close>

definition Date :: "time \<Rightarrow> int \<times> int \<times> int" where
  "Date t =
     (case year_yday (t div day_ns + 719162) of (y, yday) \<Rightarrow>
      (case month_day (isLeap y) yday of (m, d) \<Rightarrow> (y, m, d)))"

definition yday_of :: "bool \<Rightarrow> int \<Rightarrow> int \<Rightarrow> int" where
  "yday_of leap m d = daysBefore ! nat (m - 1) + d - 1 + (if leap \<and> m > 2 then 1 else 0)"

lemma month_day_inverse:
  assumes "0 \<le> yday" "yday < 365 + (if leap then 1 else 0)"
  shows "case month_day leap yday of (m, d) \<Rightarrow> yday_of leap m d = yday \<and> 1 \<le> m \<and> m \<le> 12 \<and> 1 \<le> d \<and> d \<le> 31"
proof -
  have "list_all (\<lambda>yday. case month_day True yday of (m, d) \<Rightarrow>
      yday_of True m d = yday \<and> 1 \<le> m \<and> m \<le> 12 \<and> 1 \<le> d \<and> d \<le> 31) [0..365]"
    "list_all (\<lambda>yday. case month_day False yday of (m, d) \<Rightarrow>
      yday_of False m d = yday \<and> 1 \<le> m \<and> m \<le> 12 \<and> 1 \<le> d \<and> d \<le> 31) [0..364]"
    by code_simp+
  note table = this [unfolded list_all_iff]
  show ?thesis
  proof (cases leap)
    case True
    then have "yday \<in> set [0..365]" using assms by simp
    with table(1) True show ?thesis by (simp only:) 
  next
    case False
    then have "yday \<in> set [0..364]" using assms by simp
    with table(2) False show ?thesis by (simp only:)
  qed
qed

lemma div_bounds: "0 < c \<Longrightarrow> c * (x div c) \<le> x \<and> x < c * (x div c) + (c :: int)"
  by (metis add.commute mult_div_mod_eq pos_mod_bound pos_mod_sign add_le_cancel_left add_0_right add_less_cancel_left)

text \<open>Every step of the division is recovered from the year it gives.\<close>

lemma year_yday_steps:
  assumes "year_yday d0 = (y, yday)"
  shows "\<exists>n400 n100 n4 n1. y - 1 = 400 * n400 + 100 * n100 + 4 * n4 + n1
    \<and> d0 = 146097 * n400 + 36524 * n100 + 1461 * n4 + 365 * n1 + yday
    \<and> 0 \<le> n100 \<and> n100 \<le> 3 \<and> 0 \<le> n4 \<and> n4 \<le> 24 \<and> 0 \<le> n1 \<and> n1 \<le> 3 \<and> 0 \<le> yday \<and> yday \<le> 365
    \<and> (yday = 365 \<longrightarrow> n1 = 3 \<and> (n4 \<noteq> 24 \<or> n100 = 3))"
proof -
  define d1 where "d1 = d0 mod 146097"
  define q100 where "q100 = d1 div 36524"
  define n100 where "n100 = q100 - q100 div 4"
  define d2 where "d2 = d1 - 36524 * n100"
  define n4 where "n4 = d2 div 1461"
  define d3 where "d3 = d2 - 1461 * n4"
  define q1 where "q1 = d3 div 365"
  define n1 where "n1 = q1 - q1 div 4"
  have y: "y - 1 = 400 * (d0 div 146097) + 100 * n100 + 4 * n4 + n1" and yd: "yday = d3 - 365 * n1"
    using assms unfolding year_yday_def Let_def d1_def q100_def n100_def d2_def n4_def d3_def q1_def n1_def
    by (auto simp only: prod.inject add_diff_cancel_right')
  have d0: "d0 = 146097 * (d0 div 146097) + d1" by (simp add: d1_def)
  have d1: "0 \<le> d1" "d1 < 146097" by (simp_all add: d1_def)
  have q100: "0 \<le> q100" "q100 \<le> 4" "36524 * q100 \<le> d1" "d1 < 36524 * q100 + 36524"
    using d1 div_bounds [of 36524 d1] unfolding q100_def [symmetric] by linarith+
  have n100: "n100 = (if q100 = 4 then 3 else q100)" "0 \<le> n100" "n100 \<le> 3"
    using q100(1,2) unfolding n100_def by presburger+
  have d2: "0 \<le> d2" "d2 \<le> 36524" "d2 = 36524 \<longrightarrow> n100 = 3"
    using d1 q100 n100 unfolding d2_def by (auto split: if_splits)
  have n4: "0 \<le> n4" "n4 \<le> 24" "1461 * n4 \<le> d2" "d2 < 1461 * n4 + 1461"
    using d2 div_bounds [of 1461 d2] unfolding n4_def [symmetric] by linarith+
  have d3: "0 \<le> d3" "d3 < 1461" "n4 = 24 \<longrightarrow> d3 \<le> 1460 \<and> (d3 = 1460 \<longrightarrow> n100 = 3)"
    using d2 n4 unfolding d3_def by auto
  have q1: "0 \<le> q1" "q1 \<le> 4" "365 * q1 \<le> d3" "d3 < 365 * q1 + 365"
    using d3 div_bounds [of 365 d3] unfolding q1_def [symmetric] by linarith+
  have n1: "n1 = (if q1 = 4 then 3 else q1)" "0 \<le> n1" "n1 \<le> 3"
    using q1(1,2) unfolding n1_def by presburger+
  have yday: "0 \<le> yday" "yday \<le> 365" "yday = 365 \<longrightarrow> n1 = 3 \<and> d3 = 1460"
    using d3 q1 n1 unfolding yd by (auto split: if_splits)
  have "d0 = 146097 * (d0 div 146097) + 36524 * n100 + 1461 * n4 + 365 * n1 + yday"
    using d0 unfolding yd d3_def d2_def by linarith
  moreover have "yday = 365 \<longrightarrow> n1 = 3 \<and> (n4 \<noteq> 24 \<or> n100 = 3)" using yday(3) d3(3) by blast
  ultimately show ?thesis using y n100 n4 n1 yday by blast
qed

lemma year_yday_leap:
  assumes "year_yday d0 = (y, yday)"
  shows "0 \<le> yday \<and> yday < 365 + (if isLeap y then 1 else 0)"
proof -
  obtain n400 n100 n4 n1 where
    y: "y - 1 = 400 * n400 + 100 * n100 + 4 * n4 + n1"
    and b: "0 \<le> n100" "n100 \<le> 3" "0 \<le> n4" "n4 \<le> 24" "0 \<le> n1" "n1 \<le> 3" "0 \<le> yday" "yday \<le> 365"
    and l: "yday = 365 \<longrightarrow> n1 = 3 \<and> (n4 \<noteq> 24 \<or> n100 = 3)"
    using year_yday_steps [OF assms] by blast
  have "isLeap y" if "yday = 365"
  proof -
    have n1: "n1 = 3" "n4 \<noteq> 24 \<or> n100 = 3" using l that by auto
    have y4: "y = 4 * (100 * n400 + 25 * n100 + n4 + 1)" using y n1 by simp
    show ?thesis
    proof (cases "n4 = 24")
      case True
      then have "y = 400 * (n400 + 1)" using y n1 by simp
      then have "y mod 400 = 0" by (simp only: mod_mult_self1_is_0)
      moreover have "y mod 4 = 0" using y4 by (simp only: mod_mult_self1_is_0)
      ultimately show ?thesis by (simp add: isLeap_def)
    next
      case False
      have "y = (4 * n4 + 4) + 100 * (4 * n400 + n100)" using y n1 by simp
      then have "y mod 100 = (4 * n4 + 4) mod 100" by (metis mod_mult_self2)
      also have "\<dots> = 4 * n4 + 4" using b(3,4) False by (intro mod_pos_pos_trivial) auto
      finally show ?thesis using b(3) y4 by (simp add: isLeap_def)
    qed
  qed
  then show ?thesis using b by (cases "yday = 365") auto
qed

lemma year_yday_inj:
  assumes "year_yday d = (y, yday)" "year_yday d' = (y, yday)"
  shows "d = d'"
proof -
  obtain n400 n100 n4 n1 where 1: "y - 1 = 400 * n400 + 100 * n100 + 4 * n4 + n1"
    "d = 146097 * n400 + 36524 * n100 + 1461 * n4 + 365 * n1 + yday"
    "0 \<le> n100" "n100 \<le> 3" "0 \<le> n4" "n4 \<le> 24" "0 \<le> n1" "n1 \<le> 3"
    using year_yday_steps [OF assms(1)] by blast
  obtain m400 m100 m4 m1 where 2: "y - 1 = 400 * m400 + 100 * m100 + 4 * m4 + m1"
    "d' = 146097 * m400 + 36524 * m100 + 1461 * m4 + 365 * m1 + yday"
    "0 \<le> m100" "m100 \<le> 3" "0 \<le> m4" "m4 \<le> 24" "0 \<le> m1" "m1 \<le> 3"
    using year_yday_steps [OF assms(2)] by blast
  have "n400 = m400" using 1 2 by linarith
  moreover from this have "n100 = m100" using 1 2 by linarith
  moreover from calculation have "n4 = m4" using 1 2 by linarith
  moreover from calculation have "n1 = m1" using 1 2 by linarith
  ultimately show ?thesis using 1(2) 2(2) by simp
qed

lemma Date_bounds:
  assumes "Date t = (y, m, d)"
  shows "1 \<le> m \<and> m \<le> 12 \<and> 1 \<le> d \<and> d \<le> 31"
proof -
  obtain yday where y: "year_yday (t div day_ns + 719162) = (y, yday)" and m: "month_day (isLeap y) yday = (m, d)"
    using assms by (auto simp: Date_def split: prod.splits)
  show ?thesis using month_day_inverse [of yday "isLeap y"] year_yday_leap [OF y] m by simp
qed

lemma Date_inj:
  assumes "Date t = Date t'"
  shows "utc_date t = utc_date t'"
proof -
  obtain y m d where D: "Date t = (y, m, d)" "Date t' = (y, m, d)" using assms by (metis prod_cases3)
  obtain yd where y: "year_yday (t div day_ns + 719162) = (y, yd)" and m: "month_day (isLeap y) yd = (m, d)"
    using D(1) by (auto simp: Date_def split: prod.splits)
  obtain yd' where y': "year_yday (t' div day_ns + 719162) = (y, yd')" and m': "month_day (isLeap y) yd' = (m, d)"
    using D(2) by (auto simp: Date_def split: prod.splits)
  have "yd = yday_of (isLeap y) m d" "yd' = yday_of (isLeap y) m d"
    using month_day_inverse [of yd "isLeap y"] year_yday_leap [OF y] m
      month_day_inverse [of yd' "isLeap y"] year_yday_leap [OF y'] m' by simp_all
  then have "t div day_ns = t' div day_ns" using year_yday_inj [OF y, of "t' div day_ns + 719162"] y' by simp
  then show ?thesis by (simp add: utc_date_def)
qed

section \<open>Layouts\<close>

definition pad :: "nat \<Rightarrow> int \<Rightarrow> string" where
  "pad w n = (let s = itoa n in replicate (w - length s) CHR ''0'' @ s)"

definition fmt_year :: "int \<Rightarrow> string" where
  "fmt_year y = (if y < 0 then CHR ''-'' # pad 4 (- y) else pad 4 y)"

definition Format_month :: "time \<Rightarrow> string" where
  "Format_month t = (case Date t of (y, m, d) \<Rightarrow> fmt_year y @ ''-'' @ pad 2 m)"

definition Format_date :: "time \<Rightarrow> string" where
  "Format_date t = (case Date t of (y, m, d) \<Rightarrow> fmt_year y @ ''-'' @ pad 2 m @ ''-'' @ pad 2 d)"

definition Format_RFC3339 :: "time \<Rightarrow> string" where
  "Format_RFC3339 t =
     (let s = t mod day_ns div second in
      Format_date t @ ''T'' @ pad 2 (s div 3600) @ '':'' @ pad 2 (s mod 3600 div 60) @ '':'' @ pad 2 (s mod 60) @ ''Z'')"

lemma foldl_zeros: "foldl (\<lambda>a c. 10 * a + char_digit c) 0 (replicate k CHR ''0'') = 0"
  by (induction k) (simp_all add: char_digit_def)

lemma str_nat_pad: "0 \<le> n \<Longrightarrow> str_nat (pad w n) = nat n"
  using str_nat_nat_str [of "nat n"] by (simp add: pad_def Let_def str_nat_def foldl_zeros itoa_def)

lemma pad_eq: "0 \<le> a \<Longrightarrow> 0 \<le> b \<Longrightarrow> pad w a = pad w b \<longleftrightarrow> a = b"
  by (metis nat_0_le str_nat_pad)

lemma length_pad2: "1 \<le> n \<Longrightarrow> n \<le> 31 \<Longrightarrow> length (pad 2 n) = 2"
proof -
  assume "1 \<le> n" "n \<le> 31"
  then have "n \<in> set [1..31]" by simp
  moreover have "list_all (\<lambda>n. length (pad 2 n) = 2) [1..31]" by code_simp
  ultimately show ?thesis unfolding list_all_iff by blast
qed

lemma pad_no_minus: "0 \<le> n \<Longrightarrow> hd (pad w n) \<noteq> CHR ''-'' \<and> pad w n \<noteq> []"
  using hd_nat_str [of "nat n"] by (cases "w - length (nat_str (nat n))") (simp_all add: pad_def itoa_def Let_def)

lemma fmt_year_eq: "fmt_year a = fmt_year b \<longleftrightarrow> a = b"
proof
  assume eq: "fmt_year a = fmt_year b"
  consider "a < 0" "b < 0" | "a \<ge> 0" "b \<ge> 0" | "a < 0" "b \<ge> 0" | "a \<ge> 0" "b < 0" by linarith
  then show "a = b"
  proof cases
    case 1
    then show ?thesis using eq pad_eq [of "- a" "- b" 4] by (simp add: fmt_year_def)
  next
    case 2
    then show ?thesis using eq pad_eq [of a b 4] by (simp add: fmt_year_def)
  next
    case 3
    then have "CHR ''-'' # pad 4 (- a) = pad 4 b" using eq by (simp add: fmt_year_def)
    then show ?thesis using pad_no_minus [OF 3(2), of 4] by (metis list.sel(1))
  next
    case 4
    then have "pad 4 a = CHR ''-'' # pad 4 (- b)" using eq by (simp add: fmt_year_def)
    then show ?thesis using pad_no_minus [OF 4(1), of 4] by (metis list.sel(1))
  qed
qed simp

lemma Format_date_inj: "Format_date t = Format_date t' \<Longrightarrow> utc_date t = utc_date t'"
proof (rule Date_inj)
  assume eq: "Format_date t = Format_date t'"
  obtain y m d y' m' d' where D: "Date t = (y, m, d)" "Date t' = (y', m', d')" by (metis prod_cases3)
  note b = Date_bounds [OF D(1)] Date_bounds [OF D(2)]
  have l: "length (pad 2 m) = 2" "length (pad 2 m') = 2" "length (pad 2 d) = 2" "length (pad 2 d') = 2"
    using b by (auto intro!: length_pad2)
  have "fmt_year y @ ''-'' @ pad 2 m @ ''-'' @ pad 2 d = fmt_year y' @ ''-'' @ pad 2 m' @ ''-'' @ pad 2 d'"
    using eq D by (simp add: Format_date_def)
  then have "fmt_year y = fmt_year y'" "pad 2 m @ ''-'' @ pad 2 d = pad 2 m' @ ''-'' @ pad 2 d'"
    using l by (simp_all add: append_eq_append_conv [of "fmt_year y" "fmt_year y'"])
  then have "fmt_year y = fmt_year y'" "pad 2 m = pad 2 m'" "pad 2 d = pad 2 d'" using l by simp_all
  then show "Date t = Date t'" using D b by (simp add: fmt_year_eq pad_eq)
qed

lemma Format_date_utc_date: "Format_date (utc_date t) = Format_date t"
  by (simp add: Format_date_def Date_def utc_date_def)

lemma Format_date_eq: "Format_date t = Format_date t' \<longleftrightarrow> utc_date t = utc_date t'"
  by (metis Format_date_inj Format_date_utc_date)

end
