(* ===== verification/Service.thy ===== *)
theory Service imports Ports Calendar begin

text \<open>
  \<open>internal/service/service.go\<close> (and \<open>hoststats.go\<close>): the operations of the API on instances and their
  port mappings. An operation is a program over the world, in the order of the code, every call with a
  side effect included; logging and sleeping are left out.

  \<open>CreateInstance\<close> starts \<open>provision\<close> in the background: here it returns the instance to be
  provisioned, and \<open>provision\<close> is a program of its own that runs at some later time
  (theory \<open>Lifecycle\<close>).
\<close>

section \<open>Names\<close>

definition name_start :: "char \<Rightarrow> bool" where
  "name_start c \<longleftrightarrow> (let n = (of_char c :: nat) in 97 \<le> n \<and> n \<le> 122)"

definition name_end :: "char \<Rightarrow> bool" where
  "name_end c \<longleftrightarrow> name_start c \<or> (let n = (of_char c :: nat) in 48 \<le> n \<and> n \<le> 57)"

text \<open>\<open>^[a-z][a-z0-9-]{1,61}[a-z0-9]$\<close>\<close>

definition namePattern :: "string \<Rightarrow> bool" where
  "namePattern s \<longleftrightarrow> 3 \<le> length s \<and> length s \<le> 63 \<and> name_start (hd s) \<and> name_end (last s)
     \<and> list_all (\<lambda>c. name_end c \<or> c = CHR ''-'') (butlast (tl s))"

section \<open>Calls of the Incus client\<close>

abbreviation incus :: "('r, 'i, 'e) sys \<Rightarrow> ('i incus_client \<Rightarrow> ('i, 'a) prog) \<Rightarrow> (('r, 'i, 'e) world, 'a) prog" where
  "incus S call \<equiv> on_incus (call (sys_incus S))"

definition secrets_RandomPassword :: "('r, 'i, 'e) sys \<Rightarrow> nat \<Rightarrow> (('r, 'i, 'e) world, string) prog" where
  "secrets_RandomPassword S n = on_env (RandomPassword (sys_rand S) n)"

definition invalid :: "string \<Rightarrow> error" where
  "invalid msg = ErrWrap '''' ErrInvalidInput ('': '' @ msg)"

definition set_state :: "('r, 'i, 'e) sys \<Rightarrow> uuid \<Rightarrow> instance_status \<Rightarrow> int \<Rightarrow> (('r, 'i, 'e) world, unit) prog" where
  "set_state S iid status ttl = ignore (redis_SetInstanceState S (uuid_String S iid) status ttl)"

definition set_db_status :: "('r, 'i, 'e) sys \<Rightarrow> uuid \<Rightarrow> instance_status \<Rightarrow> string \<Rightarrow> (('r, 'i, 'e) world, unit) prog" where
  "set_db_status S iid status msg = ignore (db_UpdateInstanceStatus S iid status msg)"

section \<open>Health\<close>

definition up_down :: "error + unit \<Rightarrow> string" where
  "up_down r = (case r of Inl _ \<Rightarrow> ''down'' | Inr _ \<Rightarrow> ''up'')"

definition check_entry :: "string \<Rightarrow> error + unit \<Rightarrow> (string \<times> string) list" where
  "check_entry name r = (case r of Inl e \<Rightarrow> [(name, error_text e)] | Inr _ \<Rightarrow> [])"

definition Health :: "('r, 'i, 'e) sys \<Rightarrow> (('r, 'i, 'e) world, health_response) prog" where
  "Health S =
     andThen (attempt (db_Ping S)) (\<lambda>d.
     andThen (attempt (redis_Ping S)) (\<lambda>r.
     andThen (attempt (incus S ic_Ping)) (\<lambda>i.
     ret \<lparr>h_status = (if isl d \<or> isl r \<or> isl i then ''degraded'' else ''ok''),
          h_database = up_down d, h_redis = up_down r, h_incus = up_down i,
          h_checks = check_entry ''database'' d @ check_entry ''redis'' r @ check_entry ''incus'' i\<rparr>)))"

section \<open>CreateInstance\<close>

text \<open>The numbers of a request after validation and defaulting: \<open>Inl\<close> is the message of the rejection.\<close>

definition resolve_cpu :: "defaults_config \<Rightarrow> rat \<Rightarrow> string + rat" where
  "resolve_cpu df req =
     (let cpu = (if req \<le> 0 then df_cpu df else req) in
      if cpu < 1 / 10 then Inl ''cpu_cores must be >= 0.1 (e.g. 0.5, 1, 2)''
      else (let cpu = of_int \<lfloor>cpu * 100 + 1 / 2\<rfloor> / 100 in Inr (if cpu < 1 / 10 then 1 / 10 else cpu)))"

definition resolve_count :: "int \<Rightarrow> int \<Rightarrow> int" where
  "resolve_count req dflt = (if req \<le> 0 then dflt else req)"

definition resolve_quota :: "string \<Rightarrow> int \<Rightarrow> int \<Rightarrow> string + int" where
  "resolve_quota msg req dflt =
     (if req = 0 then Inr dflt else if req = -1 then Inr 0 else if req < -1 then Inl msg else Inr req)"

definition bandwidth_msg :: string where
  "bandwidth_msg = ''bandwidth_mbps must be >= -1 (Mbit/s; -1=unlimited, 0=default)''"

definition traffic_msg :: string where
  "traffic_msg = ''traffic_monthly_gb must be >= -1 (GiB/month; -1=unlimited, 0=default)''"

definition checked :: "string + 'a \<Rightarrow> ('w, 'a) prog" where
  "checked r = (case r of Inl msg \<Rightarrow> throw (invalid msg) | Inr x \<Rightarrow> ret x)"

definition CurrentTrafficPeriod :: "time \<Rightarrow> string" where
  "CurrentTrafficPeriod t = Format_month t"

definition check_name_free :: "('r, 'i, 'e) sys \<Rightarrow> string \<Rightarrow> (('r, 'i, 'e) world, unit) prog" where
  "check_name_free S name =
     andThen (attempt (db_GetInstanceByName S name)) (\<lambda>existing.
       case existing of
         Inr _ \<Rightarrow> throw (ErrWrap '''' ErrConflict '': instance name already exists'')
       | Inl e \<Rightarrow> if e = DbErrNotFound then ret () else throw e)"

definition CreateInstance :: "('r, 'i, 'e) sys \<Rightarrow> create_request \<Rightarrow> (('r, 'i, 'e) world, inst) prog" where
  "CreateInstance S req =
     (let name = strings_TrimSpace (strings_ToLower (cr_name req)); df = c_defaults (sys_cfg S) in
      if \<not> namePattern name then throw (invalid ''name must be 3-63 chars, lowercase alphanumeric/hyphen'')
      else
      andThen (check_name_free S name) (\<lambda>_.
      andThen (checked (resolve_cpu df (cr_cpu req))) (\<lambda>cpu.
      let mem = resolve_count (cr_memory req) (df_memory df);
          storage = resolve_count (cr_storage req) (df_storage df);
          procs = resolve_count (cr_processes req) (df_processes df) in
      andThen (checked (resolve_quota bandwidth_msg (cr_bandwidth req) (df_bandwidth df))) (\<lambda>bw.
      andThen (checked (resolve_quota traffic_msg (cr_traffic_gb req) (df_traffic_gb df))) (\<lambda>trafficGB.
      let image = (if cr_image req = '''' then n_default_image (c_incus (sys_cfg S)) else cr_image req) in
      andThen (time_Now S) (\<lambda>now.
      andThen (uuid_New S) (\<lambda>iid.
      andThen (wrapErr ''generate root password: '' (secrets_RandomPassword S 18)) (\<lambda>rootPass.
      let i = \<lparr>i_id = iid, i_name = name, i_incus = ''goincus-'' @ take 8 (uuid_String S iid),
               i_image = image, i_status = StatusPending, i_cpu = cpu, i_memory = mem,
               i_storage = storage, i_processes = procs, i_bandwidth = bw, i_traffic_gb = trafficGB,
               i_traffic_used = 0, i_traffic_period = CurrentTrafficPeriod now, i_throttled = False,
               i_counter_snap = 0, i_password = rootPass, i_error = '''', i_ports = [],
               i_created = now, i_updated = now\<rparr> in
      andThen (wrapErr ''persist instance: '' (db_CreateInstance S i)) (\<lambda>_.
      andThen (set_state S iid StatusCreating (30 * minute)) (\<lambda>_.
      ret (i\<lparr>i_status := StatusCreating\<rparr>)))))))))))"

section \<open>SSH and port blocks\<close>

definition bootstrapSSH :: "('r, 'i, 'e) sys \<Rightarrow> inst \<Rightarrow> int \<Rightarrow> (('r, 'i, 'e) world, unit) prog" where
  "bootstrapSSH S i sshPort =
     andThen
       (if i_password i = '''' then
          andThen (wrapErr ''generate root password: '' (secrets_RandomPassword S 18)) (\<lambda>generated.
          andThen (wrapErr ''persist root password: '' (db_UpdateRootPassword S (i_id i) generated)) (\<lambda>_.
          ret generated))
        else ret (i_password i)) (\<lambda>pass.
     let netName = n_network (c_incus (sys_cfg S)) in
     andThen (if netName \<noteq> '''' then ignore (incus S (\<lambda>c. ic_HardenNetwork c netName)) else ret ()) (\<lambda>_.
     andThen (wrapErr ''assign ipv4: '' (incus S (\<lambda>c. ic_EnsureInstanceIPv4 c (i_incus i)))) (\<lambda>_.
     andThen (ignore (incus S (\<lambda>c. ic_ConfigureGuestDNS c (i_incus i)))) (\<lambda>_.
     wrapErr ''bootstrap ssh: '' (incus S (\<lambda>c. ic_EnsureSSH c (i_incus i) pass sshPort))))))"

definition proxy_device :: "int \<Rightarrow> string" where
  "proxy_device port = ''proxy-'' @ itoa port"

definition one_to_one :: "uuid \<Rightarrow> uuid \<Rightarrow> int \<Rightarrow> time \<Rightarrow> port_mapping" where
  "one_to_one pid iid port now = \<lparr>p_id = pid, p_instance = iid, p_protocol = ''tcp'', p_host = port,
     p_internal = port, p_device = proxy_device port, p_created = now\<rparr>"

definition proxy_of :: "int \<Rightarrow> proxy_spec" where
  "proxy_of port = \<lparr>x_device = proxy_device port, x_protocol = ''tcp'', x_host = port, x_internal = port\<rparr>"

definition attachPortBlock :: "('r, 'i, 'e) sys \<Rightarrow> inst \<Rightarrow> int list \<Rightarrow> (('r, 'i, 'e) world, unit) prog" where
  "attachPortBlock S i block =
     andThen (wrapErr ''list ports: '' (db_ListPorts S (i_id i))) (\<lambda>existing.
     andThen (time_Now S) (\<lambda>now.
     let missing = filter (\<lambda>port. port \<notin> p_host ` set existing) block in
     andThen (mapEach (\<lambda>port. andThen (uuid_New S) (\<lambda>pid. ret (one_to_one pid (i_id i) port now))) missing) (\<lambda>pending.
     if missing = [] then ret ()
     else
     andThen (wrapErr ''proxy devices: '' (incus S (\<lambda>c. ic_AddProxyDevices c (i_incus i) (map proxy_of missing)))) (\<lambda>_.
     forEach (\<lambda>pm. wrapErr (''persist port '' @ itoa (p_host pm) @ '': '') (db_AddPort S pm)) pending))))"

definition instanceSSHPort :: "port_mapping list \<Rightarrow> int" where
  "instanceSSHPort ports =
     (case ports of [] \<Rightarrow> 0 | p # ps \<Rightarrow> foldl (\<lambda>m q. if p_host q < m then p_host q else m) (p_host p) ps)"

definition port_block_size :: "config \<Rightarrow> int" where
  "port_block_size cfg = (let n = po_per_instance (c_ports cfg) in if n \<le> 0 then 20 else n)"

text \<open>One missing port of an existing block.\<close>

definition fill_port :: "('r, 'i, 'e) sys \<Rightarrow> inst \<Rightarrow> int \<Rightarrow> (('r, 'i, 'e) world, unit) prog" where
  "fill_port S i port =
     andThen (attempt (ports_Reserve S port)) (\<lambda>r.
     case r of
       Inl _ \<Rightarrow> ret ()
     | Inr _ \<Rightarrow>
         let device = proxy_device port in
         andThen (attempt (incus S (\<lambda>c. ic_AddProxyDevice c (i_incus i) device ''tcp'' port port))) (\<lambda>r.
         case r of
           Inl e \<Rightarrow> andThen (ignore (ports_Release S port)) (\<lambda>_.
                     throw (ErrWrap (''proxy device '' @ device @ '': '') e ''''))
         | Inr _ \<Rightarrow>
             andThen (uuid_New S) (\<lambda>pid.
             andThen (time_Now S) (\<lambda>now.
             andThen (attempt (db_AddPort S (one_to_one pid (i_id i) port now))) (\<lambda>r.
             case r of
               Inl e \<Rightarrow> andThen (ignore (incus S (\<lambda>c. ic_RemoveProxyDevice c (i_incus i) device))) (\<lambda>_.
                         andThen (ignore (ports_Release S port)) (\<lambda>_. throw e))
             | Inr _ \<Rightarrow> ret ())))))"

definition ensurePortBlock :: "('r, 'i, 'e) sys \<Rightarrow> inst \<Rightarrow> (('r, 'i, 'e) world, int) prog" where
  "ensurePortBlock S i =
     (let blockSize = port_block_size (sys_cfg S) in
      andThen (wrapErr ''list ports: '' (db_ListPorts S (i_id i))) (\<lambda>existing.
      if existing = [] then
        andThen (ports_AllocateBlock S blockSize) (\<lambda>block.
        andThen (attempt (attachPortBlock S i block)) (\<lambda>r.
        case r of
          Inl e \<Rightarrow> andThen (ports_ReleaseBlock S block) (\<lambda>_. throw e)
        | Inr _ \<Rightarrow> ret (hd block)))
      else
        let sshPort = instanceSSHPort existing;
            need = filter (\<lambda>p. p \<notin> p_host ` set existing) (ports_from sshPort blockSize) in
        andThen (forEach (fill_port S i) need) (\<lambda>_. ret sshPort)))"

section \<open>Provisioning\<close>

definition fail_instance :: "('r, 'i, 'e) sys \<Rightarrow> uuid \<Rightarrow> error \<Rightarrow> (('r, 'i, 'e) world, unit) prog" where
  "fail_instance S iid cause =
     andThen (set_db_status S iid StatusError (error_text cause)) (\<lambda>_.
     set_state S iid StatusError hour)"

definition releaseUnused :: "('r, 'i, 'e) sys \<Rightarrow> uuid \<Rightarrow> int list \<Rightarrow> (('r, 'i, 'e) world, unit) prog" where
  "releaseUnused S iid block =
     andThen (attempt (db_ListPorts S iid)) (\<lambda>r.
     case r of
       Inl _ \<Rightarrow> ports_ReleaseBlock S block
     | Inr existing \<Rightarrow>
         forEach (\<lambda>p. if p \<in> p_host ` set existing then ret () else ignore (ports_Release S p)) block)"

definition create_args_of :: "config \<Rightarrow> inst \<Rightarrow> int \<Rightarrow> create_args" where
  "create_args_of cfg i sshPort = \<lparr>a_name = i_incus i, a_image = i_image i, a_cpu = i_cpu i,
     a_memory = i_memory i, a_storage = i_storage i, a_processes = i_processes i,
     a_bandwidth = i_bandwidth i, a_profiles = n_profiles (c_incus cfg), a_password = i_password i,
     a_ssh_port = sshPort\<rparr>"

text \<open>The steps after the container exists; they share one error path.\<close>

definition provision_guest :: "('r, 'i, 'e) sys \<Rightarrow> inst \<Rightarrow> int list \<Rightarrow> (('r, 'i, 'e) world, unit) prog" where
  "provision_guest S i block =
     andThen (wrapErr ''start container: '' (incus S (\<lambda>c. ic_EnsureStarted c (i_incus i)))) (\<lambda>_.
     andThen (wrapErr ''assign ipv4: '' (incus S (\<lambda>c. ic_EnsureInstanceIPv4 c (i_incus i)))) (\<lambda>_.
     andThen (bootstrapSSH S i (hd block)) (\<lambda>_.
     attachPortBlock S i block)))"

definition provision :: "('r, 'i, 'e) sys \<Rightarrow> inst \<Rightarrow> (('r, 'i, 'e) world, unit) prog" where
  "provision S i =
     andThen (set_db_status S (i_id i) StatusCreating '''') (\<lambda>_.
     andThen (attempt (ports_AllocateBlock S (port_block_size (sys_cfg S)))) (\<lambda>r.
     case r of
       Inl e \<Rightarrow> fail_instance S (i_id i) (ErrWrap ''allocate port block: '' e '''')
     | Inr block \<Rightarrow>
         andThen (attempt (incus S (\<lambda>c. ic_CreateContainer c (create_args_of (sys_cfg S) i (hd block))))) (\<lambda>r.
         case r of
           Inl e \<Rightarrow> andThen (ports_ReleaseBlock S block) (\<lambda>_.
                     fail_instance S (i_id i) (ErrWrap ''create container: '' e ''''))
         | Inr _ \<Rightarrow>
             andThen (attempt (provision_guest S i block)) (\<lambda>r.
             case r of
               Inl e \<Rightarrow> andThen (releaseUnused S (i_id i) block) (\<lambda>_. fail_instance S (i_id i) e)
             | Inr _ \<Rightarrow>
                 andThen (set_db_status S (i_id i) StatusRunning '''') (\<lambda>_.
                 set_state S (i_id i) StatusRunning (24 * hour))))))"

section \<open>Reading instances\<close>

text \<open>The status Incus reports, as the state it stands for; other answers change nothing.\<close>

definition power_state :: "string \<Rightarrow> instance_status option" where
  "power_state status =
     (if strings_EqualFold status ''Running'' then Some StatusRunning
      else if strings_EqualFold status ''Stopped'' then Some StatusStopped else None)"

definition mid_transition :: "instance_status \<Rightarrow> bool" where
  "mid_transition st \<longleftrightarrow> st \<in> {StatusPending, StatusCreating, StatusDeleting, StatusDeleted}"

definition syncStatusFromIncus :: "('r, 'i, 'e) sys \<Rightarrow> inst \<Rightarrow> (('r, 'i, 'e) world, inst) prog" where
  "syncStatusFromIncus S i =
     (if mid_transition (i_status i) then ret i
      else
        andThen (attempt (incus S (\<lambda>c. ic_GetStatus c (i_incus i)))) (\<lambda>r.
        case r of
          Inl _ \<Rightarrow> ret i
        | Inr status \<Rightarrow>
            (case power_state status of
               None \<Rightarrow> ret i
             | Some nxt \<Rightarrow>
                 if i_status i = nxt \<and> (nxt \<noteq> StatusRunning \<or> i_error i = '''') then ret i
                 else
                   let i' = i\<lparr>i_status := nxt, i_error := (if nxt = StatusRunning then '''' else i_error i)\<rparr> in
                   andThen (set_db_status S (i_id i) nxt (i_error i')) (\<lambda>_.
                   andThen (set_state S (i_id i) nxt (24 * hour)) (\<lambda>_.
                   ret i')))))"

definition ListInstances :: "('r, 'i, 'e) sys \<Rightarrow> (('r, 'i, 'e) world, inst list) prog" where
  "ListInstances S = andThen (db_ListInstances S) (mapEach (syncStatusFromIncus S))"

definition GetInstance :: "('r, 'i, 'e) sys \<Rightarrow> uuid \<Rightarrow> (('r, 'i, 'e) world, inst) prog" where
  "GetInstance S iid = andThen (orNotFound (db_GetInstance S iid)) (syncStatusFromIncus S)"

definition ResolveInstance :: "('r, 'i, 'e) sys \<Rightarrow> string \<Rightarrow> (('r, 'i, 'e) world, inst) prog" where
  "ResolveInstance S idOrName =
     (case uuid_Parse S idOrName of
        Some iid \<Rightarrow> GetInstance S iid
      | None \<Rightarrow>
          andThen (orNotFound (db_GetInstanceByName S (strings_ToLower (strings_TrimSpace idOrName))))
            (syncStatusFromIncus S))"

section \<open>Power and password\<close>

definition StartInstance :: "('r, 'i, 'e) sys \<Rightarrow> uuid \<Rightarrow> (('r, 'i, 'e) world, inst) prog" where
  "StartInstance S iid =
     andThen (orNotFound (db_GetInstance S iid)) (\<lambda>i.
     andThen (ignore (incus S (\<lambda>c. ic_UpdateResourceLimits c (i_incus i) (i_cpu i) (i_memory i) (i_processes i)
       (i_bandwidth i) (i_throttled i)))) (\<lambda>_.
     andThen (ignore (incus S (\<lambda>c. ic_EnsureDiskIsolation c (i_incus i)))) (\<lambda>_.
     andThen (wrapErr ''start: '' (incus S (\<lambda>c. ic_EnsureStarted c (i_incus i)))) (\<lambda>_.
     andThen (ensurePortBlock S i) (\<lambda>sshPort.
     andThen (bootstrapSSH S i (if sshPort = 0 then 22 else sshPort)) (\<lambda>_.
     andThen (set_db_status S iid StatusRunning '''') (\<lambda>_.
     andThen (set_state S iid StatusRunning (24 * hour)) (\<lambda>_.
     GetInstance S iid))))))))"

definition RepairInstance :: "('r, 'i, 'e) sys \<Rightarrow> uuid \<Rightarrow> (('r, 'i, 'e) world, inst) prog" where
  "RepairInstance S iid = StartInstance S iid"

definition ResetRootPassword :: "('r, 'i, 'e) sys \<Rightarrow> uuid \<Rightarrow> reset_password_request \<Rightarrow> (('r, 'i, 'e) world, inst) prog" where
  "ResetRootPassword S iid req =
     andThen (GetInstance S iid) (\<lambda>i.
     if i_status i = StatusDeleted \<or> i_status i = StatusDeleting
     then throw (invalid ''instance is deleted'')
     else
     andThen
       (let pass = strings_TrimSpace (rp_password req) in
        if pass = '''' then wrapErr ''generate root password: '' (secrets_RandomPassword S 18) else ret pass) (\<lambda>pass.
     if length pass < 8 then throw (invalid ''password must be at least 8 characters'')
     else
     andThen (wrapErr ''start for password reset: '' (incus S (\<lambda>c. ic_EnsureStarted c (i_incus i)))) (\<lambda>_.
     andThen (wrapErr ''set root password in guest: '' (incus S (\<lambda>c. ic_SetRootPassword c (i_incus i) pass))) (\<lambda>_.
     andThen (wrapErr ''persist root password: '' (db_UpdateRootPassword S (i_id i) pass)) (\<lambda>_.
     andThen (set_db_status S iid StatusRunning '''') (\<lambda>_.
     andThen (set_state S iid StatusRunning (24 * hour)) (\<lambda>_.
     andThen (GetInstance S iid) (\<lambda>out.
     ret (out\<lparr>i_password := pass\<rparr>)))))))))"

definition StopInstance :: "('r, 'i, 'e) sys \<Rightarrow> uuid \<Rightarrow> (('r, 'i, 'e) world, inst) prog" where
  "StopInstance S iid =
     andThen (GetInstance S iid) (\<lambda>i.
     andThen (wrapErr ''stop: '' (incus S (\<lambda>c. ic_StopContainer c (i_incus i) False))) (\<lambda>_.
     andThen (set_db_status S iid StatusStopped '''') (\<lambda>_.
     andThen (set_state S iid StatusStopped (24 * hour)) (\<lambda>_.
     GetInstance S iid))))"

definition RestartInstance :: "('r, 'i, 'e) sys \<Rightarrow> uuid \<Rightarrow> (('r, 'i, 'e) world, inst) prog" where
  "RestartInstance S iid =
     andThen (GetInstance S iid) (\<lambda>i.
     andThen (wrapErr ''restart: '' (incus S (\<lambda>c. ic_RestartContainer c (i_incus i)))) (\<lambda>_.
     andThen (set_db_status S iid StatusRunning '''') (\<lambda>_.
     andThen (set_state S iid StatusRunning (24 * hour)) (\<lambda>_.
     GetInstance S iid))))"

section \<open>Deletion\<close>

definition remove_port :: "('r, 'i, 'e) sys \<Rightarrow> inst \<Rightarrow> port_mapping \<Rightarrow> (('r, 'i, 'e) world, unit) prog" where
  "remove_port S i p =
     andThen (ignore (incus S (\<lambda>c. ic_RemoveProxyDevice c (i_incus i) (p_device p)))) (\<lambda>_.
     andThen (ignore (ports_Release S (p_host p))) (\<lambda>_.
     ignore (db_DeletePort S (p_id p))))"

definition DeleteInstance :: "('r, 'i, 'e) sys \<Rightarrow> uuid \<Rightarrow> (('r, 'i, 'e) world, unit) prog" where
  "DeleteInstance S iid =
     andThen (GetInstance S iid) (\<lambda>i.
     andThen (set_db_status S iid StatusDeleting '''') (\<lambda>_.
     andThen (set_state S iid StatusDeleting hour) (\<lambda>_.
     andThen (forEach (remove_port S i) (i_ports i)) (\<lambda>_.
     andThen (ignore (incus S (\<lambda>c. ic_DeleteContainer c (i_incus i)))) (\<lambda>_.
     andThen (ignore (redis_DeleteInstanceState S (uuid_String S iid))) (\<lambda>_.
     db_SoftDeleteInstance S iid))))))"

section \<open>Port mappings\<close>

definition port_device :: "string \<Rightarrow> int \<Rightarrow> string" where
  "port_device proto port = ''proxy-'' @ proto @ ''-'' @ itoa port"

definition fresh_device :: "('r, 'i, 'e) sys \<Rightarrow> string \<Rightarrow> bool \<Rightarrow> (('r, 'i, 'e) world, string) prog" where
  "fresh_device S device clash =
     (if clash then andThen (uuid_New S) (\<lambda>u. ret (device @ ''-'' @ take 8 (uuid_String S u))) else ret device)"

definition choose_host_port :: "('r, 'i, 'e) sys \<Rightarrow> add_port_request \<Rightarrow> (('r, 'i, 'e) world, int) prog" where
  "choose_host_port S req =
     (if ap_host req = 0 then
        andThen (attempt (ports_Reserve S (ap_internal req))) (\<lambda>r.
        case r of Inr _ \<Rightarrow> ret (ap_internal req) | Inl _ \<Rightarrow> ports_Allocate S)
      else
        andThen (attempt (ports_Reserve S (ap_host req))) (\<lambda>r.
        case r of
          Inr _ \<Rightarrow> ret (ap_host req)
        | Inl e \<Rightarrow> throw (ErrWrap '''' ErrConflict ('': '' @ error_text e))))"

definition valid_proto :: "string \<Rightarrow> bool" where
  "valid_proto proto \<longleftrightarrow> proto = ''tcp'' \<or> proto = ''udp''"

definition AddPortMapping :: "('r, 'i, 'e) sys \<Rightarrow> uuid \<Rightarrow> add_port_request \<Rightarrow> (('r, 'i, 'e) world, port_mapping) prog" where
  "AddPortMapping S iid req =
     andThen (GetInstance S iid) (\<lambda>i.
     if ap_internal req \<le> 0 \<or> ap_internal req > 65535 then throw (invalid ''invalid internal_port'')
     else
     let proto = strings_ToLower (ap_protocol req); proto = (if proto = '''' then ''tcp'' else proto) in
     if \<not> valid_proto proto then throw (invalid ''protocol must be tcp or udp'')
     else
     andThen (choose_host_port S req) (\<lambda>hostPort.
     let base = port_device proto (ap_internal req) in
     andThen (fresh_device S base (base \<in> p_device ` set (i_ports i))) (\<lambda>device.
     andThen (attempt (incus S (\<lambda>c. ic_AddProxyDevice c (i_incus i) device proto hostPort (ap_internal req)))) (\<lambda>r.
     case r of
       Inl e \<Rightarrow> andThen (ignore (ports_Release S hostPort)) (\<lambda>_. throw (ErrWrap ''add proxy: '' e ''''))
     | Inr _ \<Rightarrow>
         andThen (uuid_New S) (\<lambda>pid.
         andThen (time_Now S) (\<lambda>now.
         let pm = \<lparr>p_id = pid, p_instance = iid, p_protocol = proto, p_host = hostPort,
                   p_internal = ap_internal req, p_device = device, p_created = now\<rparr> in
         andThen (attempt (db_AddPort S pm)) (\<lambda>r.
         case r of
           Inl e \<Rightarrow> andThen (ignore (incus S (\<lambda>c. ic_RemoveProxyDevice c (i_incus i) device))) (\<lambda>_.
                     andThen (ignore (ports_Release S hostPort)) (\<lambda>_. throw e))
         | Inr _ \<Rightarrow> ret pm)))))))"

definition RemovePortMapping :: "('r, 'i, 'e) sys \<Rightarrow> uuid \<Rightarrow> uuid \<Rightarrow> (('r, 'i, 'e) world, unit) prog" where
  "RemovePortMapping S instanceID portID =
     andThen (GetInstance S instanceID) (\<lambda>i.
     andThen (orNotFound (db_GetPort S instanceID portID)) (\<lambda>pm.
     andThen (ignore (incus S (\<lambda>c. ic_RemoveProxyDevice c (i_incus i) (p_device pm)))) (\<lambda>_.
     andThen (ignore (ports_Release S (p_host pm))) (\<lambda>_.
     db_DeletePort S (p_id pm)))))"

definition UpdatePortMapping ::
    "('r, 'i, 'e) sys \<Rightarrow> uuid \<Rightarrow> uuid \<Rightarrow> update_port_request \<Rightarrow> (('r, 'i, 'e) world, port_mapping) prog" where
  "UpdatePortMapping S instanceID portID req =
     andThen (GetInstance S instanceID) (\<lambda>i.
     andThen (orNotFound (db_GetPort S instanceID portID)) (\<lambda>pm.
     let proto = strings_ToLower (strings_TrimSpace (up_protocol req)) in
     if \<not> valid_proto proto then throw (invalid ''protocol must be tcp or udp'')
     else if proto = p_protocol pm then ret pm
     else
     let others = filter (\<lambda>q. p_id q \<noteq> p_id pm) (i_ports i) in
     if \<exists>q \<in> set others. p_host q = p_host pm \<and> p_protocol q = proto
     then throw (ErrWrap '''' ErrConflict ('': host port '' @ itoa (p_host pm) @ '' already mapped as '' @ proto))
     else
     let base = port_device proto (p_host pm) in
     andThen (fresh_device S base (base \<in> p_device ` set others)) (\<lambda>newDevice.
     andThen (wrapErr ''update proxy protocol: '' (incus S (\<lambda>c.
       ic_UpdateProxyDeviceProtocol c (i_incus i) (p_device pm) newDevice proto (p_host pm) (p_internal pm)))) (\<lambda>_.
     andThen (attempt (db_UpdatePortProtocol S (p_id pm) proto newDevice)) (\<lambda>r.
     case r of
       Inl e \<Rightarrow>
         andThen (ignore (incus S (\<lambda>c. ic_UpdateProxyDeviceProtocol c (i_incus i) newDevice (p_device pm)
           (p_protocol pm) (p_host pm) (p_internal pm)))) (\<lambda>_. throw e)
     | Inr _ \<Rightarrow> ret (pm\<lparr>p_protocol := proto, p_device := newDevice\<rparr>))))))"

section \<open>Host statistics\<close>

definition GetHostStats :: "('r, 'i, 'e) sys \<Rightarrow> (('r, 'i, 'e) world, host_stats_response) prog" where
  "GetHostStats S =
     andThen (wrapErr ''port stats: '' (ports_Stats S)) (\<lambda>st.
     andThen (wrapErr ''disk stats: '' (incus S ic_StoragePoolSpace)) (\<lambda>disk.
     ret \<lparr>hs_ports = \<lparr>hp_start = st_start st, hp_end = st_end st, hp_per_instance = st_per_instance st,
            hp_total = st_total st, hp_used = st_used st, hp_free = st_free st\<rparr>,
          hs_disk = \<lparr>hd_pool = ps_pool disk, hd_driver = ps_driver disk, hd_total = ps_total disk,
            hd_used = ps_used disk, hd_free = ps_free disk\<rparr>\<rparr>))"

section \<open>Every operation respects what the statements respect\<close>

context upkeep_frame
begin

lemma steps_basic [frame_rules]:
  "steps R (secrets_RandomPassword S n)"
  "steps R (set_state S iid st ttl)"
  "steps R (checked x)"
  "steps R (check_name_free S name)"
  "steps R (fresh_device S base clash)"
  "steps R (releaseUnused S iid block)"
  unfolding secrets_RandomPassword_def set_state_def checked_def check_name_free_def
    fresh_device_def releaseUnused_def
  by (intro frame_rules)+

lemma steps_Health: "steps R (Health S)"
  unfolding Health_def by (intro frame_rules)

lemma steps_CreateInstance: "steps R (CreateInstance S req)"
  unfolding CreateInstance_def by (intro frame_rules)

lemma steps_bootstrapSSH [frame_rules]: "steps R (bootstrapSSH S i p)"
  unfolding bootstrapSSH_def by (intro frame_rules)

lemma steps_remove_port [frame_rules]: "steps R (remove_port S i p)"
  unfolding remove_port_def by (intro frame_rules)

lemma steps_choose_host_port [frame_rules]: "steps R (choose_host_port S ar)"
  unfolding choose_host_port_def by (intro frame_rules)

lemma steps_GetHostStats: "steps R (GetHostStats S)"
  unfolding GetHostStats_def by (intro frame_rules)

end

context sys_frame
begin

lemma steps_status [frame_rules]:
  "steps R (set_db_status S iid st msg)"
  "steps R (fail_instance S iid cause)"
  unfolding set_db_status_def fail_instance_def by (intro frame_rules)+

lemma steps_attachPortBlock [frame_rules]: "steps R (attachPortBlock S i block)"
  unfolding attachPortBlock_def by (intro frame_rules)

lemma steps_fill_port [frame_rules]: "steps R (fill_port S i port)"
  unfolding fill_port_def by (intro frame_rules)

lemma steps_ensurePortBlock [frame_rules]: "steps R (ensurePortBlock S i)"
  unfolding ensurePortBlock_def by (intro frame_rules)

lemma steps_provision: "steps R (provision S i)"
  unfolding provision_def provision_guest_def by (intro frame_rules)

lemma steps_sync [frame_rules]: "steps R (syncStatusFromIncus S i)"
  unfolding syncStatusFromIncus_def by (intro frame_rules)

lemma steps_get [frame_rules]:
  "steps R (GetInstance S iid)"
  "steps R (ResolveInstance S idOrName)"
  "steps R (ListInstances S)"
  unfolding GetInstance_def ResolveInstance_def ListInstances_def by (intro frame_rules)+

lemma steps_StartInstance [frame_rules]: "steps R (StartInstance S iid)"
  unfolding StartInstance_def by (intro frame_rules)

lemma steps_power:
  "steps R (RepairInstance S iid)"
  "steps R (ResetRootPassword S iid rq)"
  "steps R (StopInstance S iid)"
  "steps R (RestartInstance S iid)"
  unfolding RepairInstance_def ResetRootPassword_def StopInstance_def RestartInstance_def
  by (intro frame_rules)+

lemma steps_DeleteInstance: "steps R (DeleteInstance S iid)"
  unfolding DeleteInstance_def by (intro frame_rules)

lemma steps_port_mappings:
  "steps R (AddPortMapping S iid ar)"
  "steps R (RemovePortMapping S iid pid)"
  "steps R (UpdatePortMapping S iid pid ur)"
  unfolding AddPortMapping_def RemovePortMapping_def UpdatePortMapping_def by (intro frame_rules)+

end

end
