(* ===== verification/Traffic.thy ===== *)
theory Traffic imports Service begin

text \<open>
  \<open>internal/service/traffic.go\<close> and \<open>usage.go\<close>: the monthly transfer quota, the daily disk and bandwidth
  samples and the usage chart. Byte counters are Go \<open>int64\<close> values, so \<open>+\<close> and \<open>*\<close> wrap and comparisons are
  signed (\<open><s\<close>, \<open>\<le>s\<close>).
\<close>

section \<open>Arithmetic of the quota\<close>

text \<open>\<open>used\<close>, \<open>last\<close> and \<open>current\<close> negative count as zero; a counter below the last snapshot has been reset.\<close>

definition nonNeg :: "int64 \<Rightarrow> int64" where
  "nonNeg x = (if x <s 0 then 0 else x)"

definition AccumulateTraffic :: "int64 \<Rightarrow> int64 \<Rightarrow> int64 \<Rightarrow> int64 \<times> int64" where
  "AccumulateTraffic used lst current =
     (let current = nonNeg current; lst = nonNeg lst; used = nonNeg used;
          delta = (if lst \<le>s current then current - lst else current)
      in (used + delta, current))"

text \<open>\<open>int64(gb) * 1024 * 1024 * 1024\<close>\<close>

definition gib :: "int \<Rightarrow> int64" where
  "gib n = of_int n * 1024 * 1024 * 1024"

definition TrafficExceeded :: "int64 \<Rightarrow> int \<Rightarrow> bool" where
  "TrafficExceeded usedBytes monthlyGB =
     (if monthlyGB \<le> 0 \<or> usedBytes \<le>s 0 then False else gib monthlyGB \<le>s usedBytes)"

section \<open>Daily samples\<close>

definition disk_total_or_plan :: "int64 \<Rightarrow> int \<Rightarrow> int64" where
  "disk_total_or_plan reported storageGB = (if reported \<le>s 0 \<and> storageGB > 0 then gib storageGB else reported)"

text \<open>Bandwidth of the day from the day's baseline; a monthly counter that went down starts a new baseline.\<close>

definition day_bandwidth :: "int64 \<Rightarrow> daily_row option \<Rightarrow> int64 \<times> int64" where
  "day_bandwidth monthlyUsed existing =
     (case existing of
        None \<Rightarrow> (monthlyUsed, 0)
      | Some row \<Rightarrow>
          if monthlyUsed <s dr_baseline row then (monthlyUsed, 0)
          else (dr_baseline row, monthlyUsed - dr_baseline row))"

definition recordDailyUsage :: "('r, 'i, 'e) sys \<Rightarrow> inst \<Rightarrow> int64 \<Rightarrow> (('r, 'i, 'e) world, unit) prog" where
  "recordDailyUsage S i monthlyUsed =
     andThen (time_Now S) (\<lambda>now.
     let day = Truncate now day_ns in
     andThen (attempt (incus S (\<lambda>c. ic_DiskUsageBytes c (i_incus i)))) (\<lambda>r.
     andThen
       (case r of
          Inr disk \<Rightarrow> ret disk
        | Inl _ \<Rightarrow>
            andThen (attempt (db_GetDailyUsage S (i_id i) day)) (\<lambda>prev.
            ret (case prev of Inl _ \<Rightarrow> (0, 0) | Inr p \<Rightarrow> (dr_disk_used p, dr_disk_total p)))) (\<lambda>disk.
     let diskTotal = disk_total_or_plan (snd disk) (i_storage i);
         diskUsed = nonNeg (fst disk) in
     andThen (attempt (db_GetDailyUsage S (i_id i) day)) (\<lambda>existing.
     andThen
       (case existing of
          Inr row \<Rightarrow> ret (day_bandwidth monthlyUsed (Some row))
        | Inl e \<Rightarrow> if e = DbErrNotFound then ret (day_bandwidth monthlyUsed None) else throw e) (\<lambda>bb.
     wrapErr ''upsert daily usage: '' (db_UpsertDailyUsage S
       \<lparr>dr_instance = i_id i, dr_day = day, dr_disk_used = diskUsed, dr_disk_total = diskTotal,
        dr_bandwidth = snd bb, dr_baseline = fst bb\<rparr>))))))"

definition purgeOldDailyUsage :: "('r, 'i, 'e) sys \<Rightarrow> (('r, 'i, 'e) world, unit) prog" where
  "purgeOldDailyUsage S =
     (let days = u_daily_retention (c_usage (sys_cfg S)); days = (if days \<le> 0 then 400 else days) in
      andThen (time_Now S) (\<lambda>now.
      ignore (db_PurgeOldDailyUsage S (AddDays now (- days)))))"

section \<open>Reconciliation\<close>

text \<open>The counters after reading Incus: used bytes, snapshot, and whether anything changed.\<close>

definition read_counters ::
    "('r, 'i, 'e) sys \<Rightarrow> inst \<Rightarrow> bool \<Rightarrow> int64 \<Rightarrow> (('r, 'i, 'e) world, int64 \<times> int64 \<times> bool) prog" where
  "read_counters S i periodChanged used =
     andThen (is_running S (i_incus i)) (\<lambda>running.
     if running then
       andThen (incus S (\<lambda>c. ic_NetworkBytesTotal c (i_incus i))) (\<lambda>bytes.
       if periodChanged then ret (used, bytes, True)
       else
         let n = AccumulateTraffic used (i_counter_snap i) bytes in
         ret (fst n, snd n, fst n \<noteq> used \<or> snd n \<noteq> i_counter_snap i))
     else if periodChanged then ret (used, 0, True)
     else ret (used, i_counter_snap i, False))"

text \<open>
  The rest: throttle or restore the NIC when the quota says otherwise than before (a failure is only
  logged), store what changed, and record the day's sample.
\<close>

definition apply_quota ::
    "('r, 'i, 'e) sys \<Rightarrow> inst \<Rightarrow> string \<Rightarrow> bool \<Rightarrow> int64 \<Rightarrow> int64 \<Rightarrow> bool \<Rightarrow> (('r, 'i, 'e) world, unit) prog" where
  "apply_quota S i period throttled0 used snap changed =
     (let shouldThrottle = TrafficExceeded used (i_traffic_gb i) in
      andThen
        (if shouldThrottle \<noteq> throttled0
         then ignore (incus S (\<lambda>c. ic_ApplyNetworkPolicy c (i_incus i) (i_bandwidth i) shouldThrottle))
         else ret ()) (\<lambda>_.
      andThen
        (if changed \<or> shouldThrottle \<noteq> throttled0
         then db_UpdateTrafficAccounting S (i_id i) used snap period shouldThrottle
         else ret ()) (\<lambda>_.
      ignore (recordDailyUsage S i used))))"

definition reconcileInstanceTraffic :: "('r, 'i, 'e) sys \<Rightarrow> inst \<Rightarrow> string \<Rightarrow> (('r, 'i, 'e) world, unit) prog" where
  "reconcileInstanceTraffic S i period =
     (let periodChanged = i_traffic_period i \<noteq> period;
          used0 = (if periodChanged then 0 else i_traffic_used i);
          throttled0 = (if periodChanged then False else i_throttled i) in
      andThen (read_counters S i periodChanged used0) (\<lambda>(used, snap, changed).
      apply_quota S i period throttled0 used snap changed))"

definition sampled :: "inst \<Rightarrow> bool" where
  "sampled i \<longleftrightarrow> i_status i = StatusRunning \<or> i_status i = StatusStopped"

definition reconcileTraffic :: "('r, 'i, 'e) sys \<Rightarrow> (('r, 'i, 'e) world, unit) prog" where
  "reconcileTraffic S =
     andThen (attempt (db_ListActiveInstances S)) (\<lambda>r.
     case r of
       Inl _ \<Rightarrow> ret ()
     | Inr list \<Rightarrow>
         andThen (time_Now S) (\<lambda>now.
         andThen (forEach (\<lambda>i. if sampled i then ignore (reconcileInstanceTraffic S i (CurrentTrafficPeriod now))
                              else ret ()) list) (\<lambda>_.
         purgeOldDailyUsage S)))"

section \<open>The usage chart\<close>

text \<open>
  \<open>byDay\<close> maps a formatted date to the last row listed for it. The loop carries the last known disk
  numbers; \<open>chart_days\<close> is the sequence of its iterations.
\<close>

definition byDay :: "daily_row list \<Rightarrow> string \<Rightarrow> daily_row option" where
  "byDay rows = foldl (\<lambda>m r. m(Format_date (dr_day r) \<mapsto> r)) (\<lambda>_. None) rows"

fun chart_loop :: "(string \<Rightarrow> daily_row option) \<Rightarrow> int64 \<Rightarrow> int64 \<Rightarrow> time list \<Rightarrow> daily_usage_point list" where
  "chart_loop m lastUsed lastTotal [] = []"
| "chart_loop m lastUsed lastTotal (d # ds) =
     (case m (Format_date d) of
        None \<Rightarrow>
          \<lparr>du_date = Format_date d, du_disk_used = lastUsed, du_disk_total = lastTotal, du_bandwidth = 0\<rparr>
            # chart_loop m lastUsed lastTotal ds
      | Some row \<Rightarrow>
          \<lparr>du_date = Format_date d, du_disk_used = dr_disk_used row, du_disk_total = dr_disk_total row,
            du_bandwidth = dr_bandwidth row\<rparr>
            # chart_loop m (dr_disk_used row)
                (if 0 <s dr_disk_total row then dr_disk_total row else lastTotal) ds)"

text \<open>\<open>for d := from; !d.After(to); d = d.AddDate(0, 0, 1)\<close>\<close>

function chart_days :: "time \<Rightarrow> time \<Rightarrow> time list" where
  "chart_days d to = (if to < d then [] else d # chart_days (AddDays d 1) to)"
  by pat_completeness auto
termination
  by (relation "measure (\<lambda>(d, to). nat (to + 1 - d))")
    (auto simp: AddDays_def day_ns_def hour_def minute_def second_def)

declare chart_days.simps [simp del]

definition chart_window :: "int \<Rightarrow> int" where
  "chart_window days = (let d = (if days \<le> 0 then 30 else days) in if d > 366 then 366 else d)"

definition GetUsageChart :: "('r, 'i, 'e) sys \<Rightarrow> uuid \<Rightarrow> int \<Rightarrow> (('r, 'i, 'e) world, usage_chart_response) prog" where
  "GetUsageChart S iid days0 =
     andThen (orNotFound (db_GetInstance S iid)) (\<lambda>i.
     let days = chart_window days0 in
     andThen (time_Now S) (\<lambda>now.
     let to = Truncate now day_ns; from = AddDays to (- (days - 1)) in
     andThen (db_ListDailyUsage S iid from to) (\<lambda>rows.
     ret \<lparr>uc_instance = i_id i, uc_name = i_name i, uc_days = days, uc_from = Format_date from,
          uc_to = Format_date to,
          uc_points = chart_loop (byDay rows) 0 (if i_storage i > 0 then gib (i_storage i) else 0)
            (chart_days from to)\<rparr>)))"

context upkeep_frame
begin

lemma steps_usage [frame_rules]:
  "steps R (recordDailyUsage S i monthlyUsed)"
  "steps R (purgeOldDailyUsage S)"
  "steps R (read_counters S i changed used)"
  unfolding recordDailyUsage_def purgeOldDailyUsage_def read_counters_def by (intro frame_rules)+

lemma steps_reconcileInstanceTraffic [frame_rules]: "steps R (reconcileInstanceTraffic S i period)"
  unfolding reconcileInstanceTraffic_def apply_quota_def by (intro frame_rules)

lemma steps_reconcileTraffic: "steps R (reconcileTraffic S)"
  unfolding reconcileTraffic_def by (intro frame_rules)

lemma steps_GetUsageChart: "steps R (GetUsageChart S iid days)"
  unfolding GetUsageChart_def by (intro frame_rules)

end

section \<open>The quota arithmetic is exact\<close>

lemma sint_bounds: "- (2 ^ 63) \<le> sint (x :: int64)" "sint (x :: int64) < 2 ^ 63"
  using sint_range_size [of x] by (simp_all add: word_size)

lemma sint_plus_exact:
  "- (2 ^ 63) \<le> sint a + sint b \<Longrightarrow> sint a + sint b < 2 ^ 63 \<Longrightarrow> sint (a + b :: int64) = sint a + sint b"
  by (simp add: sint_word_ariths(1) signed_take_bit_int_eq_self)

lemma sint_minus_exact:
  "- (2 ^ 63) \<le> sint a - sint b \<Longrightarrow> sint a - sint b < 2 ^ 63 \<Longrightarrow> sint (a - b :: int64) = sint a - sint b"
  by (simp add: sint_word_ariths(2) signed_take_bit_int_eq_self)

lemma sint_nonNeg: "sint (nonNeg x) = max 0 (sint x)"
  by (simp add: nonNeg_def word_sless_alt max_def)

lemma sint_gib:
  assumes "0 \<le> n" "n \<le> 2147483647" shows "sint (gib n) = n * 2 ^ 30"
proof -
  have "gib n = of_int (n * 2 ^ 30)" by (simp add: gib_def)
  moreover have "sint (of_int (n * 2 ^ 30) :: int64) = signed_take_bit 63 (n * 2 ^ 30)"
    unfolding signed_of_int by simp
  moreover have "signed_take_bit 63 (n * 2 ^ 30) = n * 2 ^ 30"
    using assms by (intro signed_take_bit_int_eq_self) simp_all
  ultimately show ?thesis by simp
qed

text \<open>C28. \<open>AccumulateTraffic\<close> adds exactly the bytes moved since the last snapshot (all of the
current counter when it went down, a reset), never lowers the total and returns the current counter as the new
snapshot, as long as the total stays below 2^63.\<close>

theorem AccumulateTraffic_exact:
  assumes "moved = (if max 0 (sint lst) \<le> max 0 (sint cur) then max 0 (sint cur) - max 0 (sint lst) else max 0 (sint cur))"
    and "max 0 (sint used) + moved < 2 ^ 63"
  shows "sint (fst (AccumulateTraffic used lst cur)) = max 0 (sint used) + moved \<and> 0 \<le> moved
       \<and> sint (snd (AccumulateTraffic used lst cur)) = max 0 (sint cur)"
proof -
  let ?d = "if nonNeg lst \<le>s nonNeg cur then nonNeg cur - nonNeg lst else nonNeg cur"
  have moved: "0 \<le> moved" "moved < 2 ^ 63"
    using assms(1) sint_bounds(2) [of cur] by (auto simp: max_def split: if_splits)
  have b: "max 0 (sint cur) < 2 ^ 63" "max 0 (sint lst) < 2 ^ 63" "0 \<le> max 0 (sint cur)" "0 \<le> max 0 (sint lst)"
    using sint_bounds(2) [of cur] sint_bounds(2) [of lst] by simp_all
  then have "sint (nonNeg cur - nonNeg lst) = max 0 (sint cur) - max 0 (sint lst)"
    using sint_minus_exact [of "nonNeg cur" "nonNeg lst"] unfolding sint_nonNeg by linarith
  then have d: "sint ?d = moved"
    unfolding assms(1) word_sle_eq sint_nonNeg by (simp add: sint_nonNeg)
  have "sint (nonNeg used + ?d) = max 0 (sint used) + moved"
    using sint_plus_exact [of "nonNeg used" ?d] assms(2) moved unfolding d sint_nonNeg by simp
  then show ?thesis
    using moved by (simp only: AccumulateTraffic_def Let_def fst_conv snd_conv sint_nonNeg)
qed

theorem AccumulateTraffic_exact_witness:
  "sint (fst (AccumulateTraffic 1000 500 200)) = 1200 \<and> sint (snd (AccumulateTraffic 1000 500 200)) = 200"
  using AccumulateTraffic_exact [of 200 500 200 1000] by simp

text \<open>For every quota the database can hold, \<open>TrafficExceeded\<close> is the mathematical comparison:
there is a quota, and the used bytes reach that many GiB.\<close>

theorem TrafficExceeded_iff:
  assumes "int4 gb"
  shows "TrafficExceeded used gb \<longleftrightarrow> 0 < gb \<and> gb * 2 ^ 30 \<le> sint used"
proof (cases "0 < gb")
  case True
  then have "sint (gib gb) = gb * 2 ^ 30" using assms by (intro sint_gib) (auto simp: int4_def)
  then show ?thesis using True by (auto simp: TrafficExceeded_def word_sle_eq)
qed (simp add: TrafficExceeded_def)

theorem TrafficExceeded_iff_witness:
  "TrafficExceeded (gib 1024) 1024 \<longleftrightarrow> 1024 * 2 ^ 30 \<le> sint (gib 1024)"
  using TrafficExceeded_iff [of 1024 "gib 1024"] by (simp add: int4_def)

section \<open>The chart has one point per day\<close>

lemma byDay_foldl_notin:
  "key \<notin> k ` set rows \<Longrightarrow> foldl (\<lambda>m r. m(k r \<mapsto> r)) m0 rows key = m0 key"
  by (induction rows arbitrary: m0) auto

lemma byDay_foldl_in:
  "distinct (map k rows) \<Longrightarrow> r \<in> set rows \<Longrightarrow> foldl (\<lambda>m r. m(k r \<mapsto> r)) m0 rows (k r) = Some r"
proof (induction rows arbitrary: m0)
  case (Cons x xs)
  show ?case
  proof (cases "r = x")
    case True
    then have "k r \<notin> k ` set xs" using Cons.prems(1) by simp
    from byDay_foldl_notin [OF this, of "m0(k x \<mapsto> x)"] show ?thesis
      using True by (simp only: foldl.simps fun_upd_same)
  next
    case False
    then have "distinct (map k xs)" "r \<in> set xs" using Cons.prems by auto
    from Cons.IH [OF this, of "m0(k x \<mapsto> x)"] show ?thesis by (simp only: foldl.simps)
  qed
qed simp

lemma chart_loop_points:
  "map (\<lambda>p. (du_date p, du_bandwidth p)) (chart_loop m u t ds) =
   map (\<lambda>d. (Format_date d, case m (Format_date d) of None \<Rightarrow> 0 | Some row \<Rightarrow> dr_bandwidth row)) ds"
  by (induction ds arbitrary: u t) (auto split: option.split)

lemma chart_days_eq: "chart_days d (AddDays d (int n)) = map (AddDays d) (map int [0..<Suc n])"
proof (induction n arbitrary: d)
  case 0
  have "chart_days (AddDays d 1) d = []" by (subst chart_days.simps) (simp add: AddDays_def)
  then show ?case by (subst chart_days.simps) (simp add: AddDays_def)
next
  case (Suc n)
  have shift: "AddDays d (int (Suc n)) = AddDays (AddDays d 1) (int n)" by (simp add: AddDays_def algebra_simps)
  have le: "\<not> AddDays d (int (Suc n)) < d" by (simp add: AddDays_def not_less mult_nonneg_nonneg less_imp_le)
  have "chart_days d (AddDays d (int (Suc n))) = d # chart_days (AddDays d 1) (AddDays (AddDays d 1) (int n))"
    using le unfolding shift by (subst chart_days.simps) simp
  also have "\<dots> = d # map (AddDays (AddDays d 1)) (map int [0..<Suc n])" by (simp only: Suc.IH)
  also have "\<dots> = map (\<lambda>k. AddDays d (int k)) [0..<Suc (Suc n)]"
    unfolding map_upt_Suc [of _ "Suc n"] by (simp add: AddDays_def algebra_simps del: upt_Suc)
  also have "\<dots> = map (AddDays d) (map int [0..<Suc (Suc n)])" by (simp del: upt_Suc)
  finally show ?case .
qed

text \<open>What \<open>byDay\<close> finds is the stored row of the day.\<close>

lemma byDay_select:
  assumes ok: "db_ok d" and day: "utc_date from \<le> day" "day \<le> utc_date to" "utc_date day = day"
  shows "byDay (select_daily_range iid from to d) (Format_date day) = select_daily iid day d"
proof -
  let ?rows = "select_daily_range iid from to d"
  let ?k = "\<lambda>r. Format_date (dr_day r)"
  have uniq: "distinct (map (\<lambda>x. (dr_instance x, dr_day x)) (t_daily d))"
    and mid: "\<And>x. x \<in> set (t_daily d) \<Longrightarrow> utc_date (dr_day x) = dr_day x"
    using ok by (auto simp: db_ok_def daily_ok_def list_all_iff)
  have rows: "set ?rows = {x \<in> set (t_daily d). dr_instance x = iid \<and> utc_date from \<le> dr_day x \<and> dr_day x \<le> utc_date to}"
    by (auto simp: select_daily_range_def)
  have k_eq: "?k x = ?k y \<longleftrightarrow> dr_day x = dr_day y" if "x \<in> set ?rows" "y \<in> set ?rows" for x y
    using that mid by (simp add: rows Format_date_eq)
  have "distinct ?rows"
    using distinct_map_distinct [OF uniq] by (simp add: select_daily_range_def)
  then have dist: "distinct (map ?k ?rows)"
    unfolding distinct_map using k_eq uniq rows by (auto simp: inj_on_def distinct_map)
  show ?thesis
  proof (cases "\<exists>r \<in> set (t_daily d). dr_instance r = iid \<and> dr_day r = day")
    case True
    then obtain r where r: "r \<in> set (t_daily d)" "dr_instance r = iid" "dr_day r = day" by blast
    have "r \<in> set ?rows" using r day by (simp add: rows)
    from byDay_foldl_in [OF dist this] have 1: "byDay ?rows (Format_date day) = Some r"
      using r by (simp add: byDay_def)
    have "find (\<lambda>x. dr_instance x = iid \<and> dr_day x = day) (t_daily d) = Some r"
      using find_unique [OF uniq r(1)] r by simp
    then show ?thesis using 1 day by (simp add: select_daily_def)
  next
    case False
    have "Format_date day \<notin> ?k ` set ?rows"
      using False mid day by (auto simp: rows Format_date_eq)
    then have "byDay ?rows (Format_date day) = None"
      using byDay_foldl_notin [of "Format_date day" ?k ?rows] by (simp add: byDay_def)
    moreover have "select_daily iid day d = None"
      using False day by (auto simp: select_daily_def find_None_iff)
    ultimately show ?thesis by simp
  qed
qed

lemma chart_window_bounds: "1 \<le> chart_window days" "chart_window days \<le> 366"
  by (auto simp: chart_window_def Let_def)

lemma query_row: "query S f w = (Inr x, w') \<Longrightarrow> x = f (w_db w) \<and> w_db w' = w_db w"
  by (blast dest: query_Inr)

lemma byDay_window:
  assumes "db_ok d" "utc_date start = start" "k \<le> n"
  shows "byDay (select_daily_range iid start (AddDays start (int n)) d) (Format_date (AddDays start (int k)))
    = select_daily iid (AddDays start (int k)) d"
proof (rule byDay_select [OF assms(1)])
  show "utc_date start \<le> AddDays start (int k)" using assms(2) by (simp add: AddDays_def less_imp_le)
  have "AddDays start (int k) \<le> AddDays start (int n)" using assms(3) by (simp add: AddDays_def mult_right_mono less_imp_le)
  moreover have "utc_date (AddDays start (int l)) = AddDays start (int l)" for l
    using utc_date_AddDays [of start "int l"] assms(2) by simp
  ultimately show "AddDays start (int k) \<le> utc_date (AddDays start (int n))"
    "utc_date (AddDays start (int k)) = AddDays start (int k)" by simp_all
qed


lemma ref_chart: "case fst (GetUsageChart (ref_sys Default) 77 2 (ref_world one_db)) of
    Inr r \<Rightarrow> uc_days r = 2 \<and> map du_date (uc_points r) = [''2025-06-14'', ''2025-06-15''] | Inl _ \<Rightarrow> False"
  by code_simp


section \<open>Reconciliation leaves the stored quota state consistent\<close>

definition same_instances :: "database \<Rightarrow> database \<Rightarrow> bool" where
  "same_instances d d' \<longleftrightarrow> t_instances d' = t_instances d"

interpretation same_inst: db_frame same_instances
  by unfold_locales (simp_all add: same_instances_def)

lemma steps_upsert_daily_same: "steps (db_rel same_instances) (db_UpsertDailyUsage S row)"
  unfolding db_UpsertDailyUsage_def
  by (rule same_inst.steps_sql) (simp add: steps_def same_instances_def upsert_daily_def refused_def throw_def Let_def)

lemma recordDailyUsage_same: "steps (db_rel same_instances) (recordDailyUsage S i used)"
  unfolding recordDailyUsage_def by (intro frame_rules steps_upsert_daily_same)

lemma read_counters_same: "steps (db_rel (=)) (read_counters S i changed used)"
  unfolding read_counters_def by (intro frame_rules)

text \<open>Without a change of period and without a change of the counters, the numbers are the instance's.\<close>

lemma read_counters_unchanged:
  "read_counters S i pc used w = (Inr (used', snap, False), w') \<Longrightarrow> \<not> pc \<and> used' = used \<and> snap = i_counter_snap i"
  by (auto simp: read_counters_def andThen_Inr Let_def split: if_splits)

lemma sql_Inr:
  assumes "sql S stmt w = (Inr x, w')"
  shows "\<exists>v t. stmt v t (w_db w) = (Inr x, w_db w')"
proof (cases "sys_pg S (w_env w)")
  case (Pair reply e)
  with assms obtain t v where "reply = PgDone t v"
    by (cases reply) (auto simp: sql_def split: prod.splits)
  with assms Pair show ?thesis by (intro exI [of _ v] exI [of _ t]) (auto simp: sql_def split: prod.splits)
qed

lemma set_traffic_Inr:
  assumes "db_UpdateTrafficAccounting S iid used snap period thr w = (Inr x, w')"
    and "r \<in> set (t_instances (w_db w'))" "i_id r = iid"
  shows "i_traffic_used r = used \<and> i_traffic_period r = period \<and> i_throttled r = thr
    \<and> (\<exists>r0 \<in> set (t_instances (w_db w)). i_id r0 = iid \<and> i_traffic_gb r = i_traffic_gb r0)"
proof -
  obtain v t where st: "set_traffic iid used snap period thr v t (w_db w) = (Inr x, w_db w')"
    using sql_Inr [OF assms(1) [unfolded db_UpdateTrafficAccounting_def]] by blast
  let ?f = "\<lambda>r. r\<lparr>i_traffic_used := used, i_counter_snap := snap, i_traffic_period := period,
       i_throttled := thr, i_updated := t\<rparr>"
  have "w_db w' = (w_db w)\<lparr>t_instances := map (\<lambda>r. if i_id r = iid then ?f r else r) (t_instances (w_db w))\<rparr>"
    using st by (auto simp: set_traffic_def update_instances_def Let_def set_instances_def refused_def split: if_splits)
  then have "t_instances (w_db w') = map (\<lambda>r. if i_id r = iid then ?f r else r) (t_instances (w_db w))"
    by simp
  then obtain r0 where "r0 \<in> set (t_instances (w_db w))" "r = (if i_id r0 = iid then ?f r0 else r0)"
    using assms(2) by auto
  then show ?thesis using assms(3) by (auto split: if_splits)
qed

lemma apply_quota_Inr:
  assumes aq: "apply_quota S i period thr0 used snap changed w = (Inr (), w')"
    and r: "r \<in> set (t_instances (w_db w'))" "i_id r = i_id i"
    and gb: "\<forall>r \<in> set (t_instances (w_db w)). i_id r = i_id i \<longrightarrow> i_traffic_gb r = i_traffic_gb i"
  shows "if changed \<or> TrafficExceeded used (i_traffic_gb i) \<noteq> thr0
    then i_traffic_period r = period \<and> i_throttled r = TrafficExceeded (i_traffic_used r) (i_traffic_gb r)
    else r \<in> set (t_instances (w_db w))"
proof -
  let ?t = "TrafficExceeded used (i_traffic_gb i)"
  obtain u1 w1 u2 w2 where
    policy: "(if ?t \<noteq> thr0 then ignore (incus S (\<lambda>c. ic_ApplyNetworkPolicy c (i_incus i) (i_bandwidth i) ?t)) else ret ()) w
      = (Inr u1, w1)"
    and upd: "(if changed \<or> ?t \<noteq> thr0 then db_UpdateTrafficAccounting S (i_id i) used snap period ?t else ret ()) w1 = (Inr u2, w2)"
    and last: "ignore (recordDailyUsage S i used) w2 = (Inr (), w')"
    using aq unfolding apply_quota_def Let_def andThen_Inr by blast
  have db1: "w_db w1 = w_db w"
    using policy by (auto simp: ignore_eq on_incus_def split: if_splits prod.splits)
  have "t_instances (w_db w') = t_instances (w_db w2)"
    using recordDailyUsage_same [of S i used] last
    by (auto simp: ignore_eq steps_def db_rel_def same_instances_def) (metis snd_conv)
  then have r2: "r \<in> set (t_instances (w_db w2))" using r(1) by simp
  show ?thesis
  proof (cases "changed \<or> ?t \<noteq> thr0")
    case True
    then have "db_UpdateTrafficAccounting S (i_id i) used snap period ?t w1 = (Inr u2, w2)"
      using upd by simp
    from set_traffic_Inr [OF this r2 r(2)] show ?thesis using True gb db1 by auto
  next
    case False
    then have "w2 = w1" using upd by simp
    then show ?thesis using False r2 db1 by simp
  qed
qed

text \<open>C16. When the reconciliation of an instance returns without an error, the stored row carries the
current month, and its throttle flag says exactly whether its stored usage has reached its quota.\<close>

theorem reconcile_consistent:
  assumes loaded: "\<forall>r \<in> set (t_instances (w_db w)). i_id r = i_id i \<longrightarrow> i_traffic_used r = i_traffic_used i
      \<and> i_traffic_gb r = i_traffic_gb i \<and> i_traffic_period r = i_traffic_period i \<and> i_throttled r = i_throttled i"
    and ret: "fst (reconcileInstanceTraffic S i period w) = Inr ()"
  shows "\<forall>r \<in> set (t_instances (w_db (snd (reconcileInstanceTraffic S i period w)))). i_id r = i_id i \<longrightarrow>
      i_traffic_period r = period \<and> i_throttled r = TrafficExceeded (i_traffic_used r) (i_traffic_gb r)"
proof (intro ballI impI)
  let ?pc = "i_traffic_period i \<noteq> period"
  let ?used0 = "if ?pc then 0 else i_traffic_used i" and ?thr0 = "if ?pc then False else i_throttled i"
  fix r assume r: "r \<in> set (t_instances (w_db (snd (reconcileInstanceTraffic S i period w))))" "i_id r = i_id i"
  obtain w' where w': "reconcileInstanceTraffic S i period w = (Inr (), w')"
    using ret by (metis prod.collapse)
  then obtain used snap changed w1 where
    read: "read_counters S i ?pc ?used0 w = (Inr (used, snap, changed), w1)"
    and aq: "apply_quota S i period ?thr0 used snap changed w1 = (Inr (), w')"
    unfolding reconcileInstanceTraffic_def Let_def andThen_Inr by (auto simp only: prod.case)
  have db1: "w_db w1 = w_db w" using stepsD [OF read_counters_same read] by (simp add: db_rel_def)
  have gb: "\<forall>r \<in> set (t_instances (w_db w1)). i_id r = i_id i \<longrightarrow> i_traffic_gb r = i_traffic_gb i"
    using loaded db1 by simp
  note q = apply_quota_Inr [OF aq _ r(2) gb]
  show "i_traffic_period r = period \<and> i_throttled r = TrafficExceeded (i_traffic_used r) (i_traffic_gb r)"
  proof (cases "changed \<or> TrafficExceeded used (i_traffic_gb i) \<noteq> ?thr0")
    case True
    then show ?thesis using q r(1) w' by simp
  next
    case False
    then have "r \<in> set (t_instances (w_db w))" using q r(1) w' db1 by simp
    then have "i_traffic_used r = i_traffic_used i" "i_traffic_gb r = i_traffic_gb i"
      "i_traffic_period r = i_traffic_period i" "i_throttled r = i_throttled i"
      using loaded r(2) by auto
    moreover have "\<not> ?pc \<and> used = ?used0"
      using read_counters_unchanged [of S i ?pc ?used0 w used snap w1] read False by simp
    ultimately show ?thesis using False by simp
  qed
qed

lemma ref_reconcile: "fst (reconcileInstanceTraffic (ref_sys Default) ref_inst ''2025-07'' (ref_world one_db)) = Inr ()"
  by code_simp

theorem reconcile_consistent_witness:
  "\<not> (\<exists>r \<in> set (t_instances (w_db (snd (reconcileInstanceTraffic (ref_sys Default) ref_inst ''2025-07'' (ref_world one_db))))).
     i_id r = i_id ref_inst \<and> i_traffic_period r \<noteq> ''2025-07'')"
proof -
  have "t_instances (w_db (ref_world one_db)) = [ref_inst]"
    by (simp add: ref_world_def one_db_def)
  then have "\<forall>r \<in> set (t_instances (w_db (ref_world one_db))). i_id r = i_id ref_inst \<longrightarrow>
      i_traffic_used r = i_traffic_used ref_inst \<and> i_traffic_gb r = i_traffic_gb ref_inst
      \<and> i_traffic_period r = i_traffic_period ref_inst \<and> i_throttled r = i_throttled ref_inst"
    by (simp only: list.set) blast
  from reconcile_consistent [OF this ref_reconcile] show ?thesis by blast
qed

section \<open>The first reconciliation of a month\<close>

text \<open>The system with another \<open>ApplyNetworkPolicy\<close>: a program that does not use the call does not see the difference.\<close>

definition with_policy :: "(string \<Rightarrow> int \<Rightarrow> bool \<Rightarrow> ('i, unit) prog) \<Rightarrow> ('r, 'i, 'e) sys \<Rightarrow> ('r, 'i, 'e) sys" where
  "with_policy A S = S\<lparr>sys_incus := (sys_incus S)\<lparr>ic_ApplyNetworkPolicy := A\<rparr>\<rparr>"

lemma policy_unused:
  "sql (with_policy A S) = sql S" "query (with_policy A S) f = query S f" "time_Now (with_policy A S) = time_Now S"
  "is_running (with_policy A S) = is_running S"
  "ic_NetworkBytesTotal (sys_incus (with_policy A S)) = ic_NetworkBytesTotal (sys_incus S)"
  "ic_DiskUsageBytes (sys_incus (with_policy A S)) = ic_DiskUsageBytes (sys_incus S)"
  by (simp_all add: with_policy_def fun_eq_iff sql_def query_def time_Now_def is_running_def)

lemma usage_without_policy:
  "read_counters (with_policy A S) = read_counters S" "recordDailyUsage (with_policy A S) = recordDailyUsage S"
  "db_UpdateTrafficAccounting (with_policy A S) = db_UpdateTrafficAccounting S"
  by (intro ext, simp only: read_counters_def recordDailyUsage_def db_UpdateTrafficAccounting_def
      db_GetDailyUsage_def db_UpsertDailyUsage_def policy_unused)+

lemma new_period_counters:
  "read_counters S i True 0 w = (Inr (used, snap, changed), w') \<Longrightarrow> used = 0 \<and> changed"
  by (auto simp: read_counters_def andThen_Inr split: if_splits)

lemma unused_not_exceeded: "\<not> TrafficExceeded 0 gb"
  by (simp add: TrafficExceeded_def)

text \<open>C25. A flaw of the monthly reset: in the first reconciliation of a new month the throttle flag counts as off before it is
compared, so a throttled instance is stored as not throttled and \<open>ApplyNetworkPolicy\<close> is not called - whatever that
call would do, the run is the same. The NIC keeps the limit until something else writes it.\<close>

theorem new_month_keeps_nic_limit:
  assumes "i_traffic_period i \<noteq> period"
  shows "reconcileInstanceTraffic (with_policy A S) i period w = reconcileInstanceTraffic S i period w
    \<and> (fst (reconcileInstanceTraffic S i period w) = Inr () \<longrightarrow>
        (\<forall>r \<in> set (t_instances (w_db (snd (reconcileInstanceTraffic S i period w)))).
           i_id r = i_id i \<longrightarrow> \<not> i_throttled r \<and> i_traffic_period r = period))"
proof -
  have pc: "(i_traffic_period i \<noteq> period) = True" using assms by simp
  obtain x w1 where read: "read_counters S i True 0 w = (x, w1)" by fastforce
  have "reconcileInstanceTraffic (with_policy A S) i period w = reconcileInstanceTraffic S i period w"
  proof (cases x)
    case (Inr y)
    obtain used snap changed where y: "y = (used, snap, changed)" using prod_cases3 by blast
    have "used = 0" using new_period_counters read Inr y by blast
    then show ?thesis using read Inr y
      by (simp add: reconcileInstanceTraffic_def pc usage_without_policy andThen_def ret_def apply_quota_def unused_not_exceeded)
  qed (use read in \<open>simp add: reconcileInstanceTraffic_def pc usage_without_policy andThen_def\<close>)
  moreover have "\<not> i_throttled r \<and> i_traffic_period r = period"
    if ok: "reconcileInstanceTraffic S i period w = (Inr (), w')"
      and r: "r \<in> set (t_instances (w_db w'))" "i_id r = i_id i" for w' r
  proof -
    obtain used snap changed where x: "x = Inr (used, snap, changed)"
      and aq: "apply_quota S i period False used snap changed w1 = (Inr (), w')"
      using ok read by (cases x) (auto simp: reconcileInstanceTraffic_def pc andThen_def)
    have "used = 0" "changed" using new_period_counters read x by blast+
    then obtain w2 where upd: "db_UpdateTrafficAccounting S (i_id i) 0 snap period False w1 = (Inr (), w2)"
      and last: "ignore (recordDailyUsage S i 0) w2 = (Inr (), w')"
      using aq by (auto simp: apply_quota_def unused_not_exceeded andThen_Inr)
    have "t_instances (w_db w') = t_instances (w_db w2)"
      using recordDailyUsage_same [of S i 0] last
      by (auto simp: ignore_eq steps_def db_rel_def same_instances_def) (metis snd_conv)
    then show ?thesis using set_traffic_Inr [OF upd _ r(2)] r(1) by simp
  qed
  ultimately show ?thesis by (metis prod.collapse)
qed

text \<open>A throttled instance in July, after a June in which it used up its quota.\<close>

theorem new_month_keeps_nic_limit_witness:
  "\<not> (\<exists>r \<in> set (t_instances (w_db (snd (reconcileInstanceTraffic (ref_sys Default) (ref_inst\<lparr>i_throttled := True\<rparr>) ''2025-07''
      (ref_world (one_db\<lparr>t_instances := [ref_inst\<lparr>i_throttled := True\<rparr>]\<rparr>)))))). i_id r = 77 \<and> i_throttled r)"
proof -
  let ?i = "ref_inst\<lparr>i_throttled := True\<rparr>"
  have "i_traffic_period ?i \<noteq> ''2025-07''" "i_id ?i = 77" by (simp_all add: ref_inst_def)
  moreover have "fst (reconcileInstanceTraffic (ref_sys Default) ?i ''2025-07'' (ref_world (one_db\<lparr>t_instances := [?i]\<rparr>))) = Inr ()"
    by code_simp
  ultimately show ?thesis using new_month_keeps_nic_limit [of ?i "''2025-07''"] by auto
qed

end
