(* ===== verification/Metrics.thy ===== *)
theory Metrics imports Traffic begin

text \<open>
  \<open>internal/service/hourly.go\<close> and \<open>resources.go\<close>: hourly samples of CPU, memory, disk and bandwidth, their
  history, and the live usage of one instance. Percentages are exact rationals where the code has
  \<open>float64\<close>; the wait between the two samples of \<open>GetInstanceResources\<close> is left out.
\<close>

section \<open>CPU usage\<close>

text \<open>\<open>math.Round\<close> of a number that is not negative.\<close>

definition round_half_up :: "rat \<Rightarrow> rat" where
  "round_half_up x = of_int \<lfloor>x + 1 / 2\<rfloor>"

definition computeCPUPercent :: "int64 \<Rightarrow> int64 \<Rightarrow> int \<Rightarrow> rat \<Rightarrow> rat" where
  "computeCPUPercent prevNS curNS elapsed cpuCores =
     (if elapsed \<le> 0 \<or> cpuCores \<le> 0 then 0
      else if curNS <s prevNS then 0
      else
        let delta = of_int (sint (curNS - prevNS));
            capacity = of_int elapsed * cpuCores in
        if capacity \<le> 0 then 0
        else
          let pct = delta / capacity * 100 in
          if pct < 0 then 0
          else
            let pct = (if pct > 100 * cpuCores then 100 * cpuCores else pct) in
            round_half_up (pct * 100) / 100)"

definition clampNonNegFloat :: "rat \<Rightarrow> rat" where
  "clampNonNegFloat v = (if v < 0 then 0 else v)"

section \<open>Hourly samples\<close>

text \<open>\<open>int64(mb) * 1024 * 1024\<close>\<close>

definition mem_total_or_plan :: "int64 \<Rightarrow> int \<Rightarrow> int64" where
  "mem_total_or_plan reported memoryMB =
     (if reported \<le>s 0 \<and> memoryMB > 0 then of_int memoryMB * 1024 * 1024 else reported)"

definition net_delta :: "int64 \<Rightarrow> int64 \<Rightarrow> int64" where
  "net_delta prev cur = (if prev \<le>s cur then cur - prev else cur)"

definition hourly_interval :: "config \<Rightarrow> int" where
  "hourly_interval cfg = (let e = u_hourly_interval (c_usage cfg) in if e \<le> 0 then hour else e)"

text \<open>CPU percent and bandwidth from a row of the same hour, or from the latest earlier one.\<close>

definition same_hour_rates :: "config \<Rightarrow> inst \<Rightarrow> resource_sample \<Rightarrow> hourly_row \<Rightarrow> rat \<times> int64" where
  "same_hour_rates cfg i s prev =
     (computeCPUPercent (hr_cpu_ns prev) (rs_cpu_ns s) (hourly_interval cfg) (i_cpu i),
      hr_bandwidth prev + net_delta (hr_net_total prev) (rs_net_total s))"

definition next_hour_rates :: "config \<Rightarrow> inst \<Rightarrow> resource_sample \<Rightarrow> time \<Rightarrow> hourly_row \<Rightarrow> rat \<times> int64" where
  "next_hour_rates cfg i s hr prev =
     (let elapsed = hr - hr_hour prev; elapsed = (if elapsed \<le> 0 then hourly_interval cfg else elapsed) in
      (computeCPUPercent (hr_cpu_ns prev) (rs_cpu_ns s) elapsed (i_cpu i),
       net_delta (hr_net_total prev) (rs_net_total s)))"

definition hourly_row_of :: "inst \<Rightarrow> resource_sample \<Rightarrow> time \<Rightarrow> rat \<times> int64 \<Rightarrow> hourly_row" where
  "hourly_row_of i s hr rates = \<lparr>hr_instance = i_id i, hr_hour = hr,
     hr_cpu = clampNonNegFloat (fst rates),
     hr_mem_used = nonNeg (rs_mem_used s),
     hr_mem_total = nonNeg (mem_total_or_plan (rs_mem_total s) (i_memory i)),
     hr_disk_used = nonNeg (rs_disk_used s),
     hr_disk_total = nonNeg (disk_total_or_plan (rs_disk_total s) (i_storage i)),
     hr_bandwidth = nonNeg (snd rates),
     hr_cpu_ns = nonNeg (rs_cpu_ns s),
     hr_net_total = nonNeg (rs_net_total s)\<rparr>"

definition sampleInstanceHourlyMetrics :: "('r, 'i, 'e) sys \<Rightarrow> inst \<Rightarrow> time \<Rightarrow> (('r, 'i, 'e) world, unit) prog" where
  "sampleInstanceHourlyMetrics S i hr =
     andThen (incus S (\<lambda>c. ic_ResourceSample c (i_incus i))) (\<lambda>s.
     andThen (db_ListHourlyMetrics S (i_id i) hr hr) (\<lambda>existing.
     andThen
       (case existing of
          prev # _ \<Rightarrow> ret (same_hour_rates (sys_cfg S) i s prev)
        | [] \<Rightarrow>
            andThen (attempt (db_LatestHourlyMetrics S (i_id i) hr)) (\<lambda>r.
            case r of
              Inr prev \<Rightarrow> ret (next_hour_rates (sys_cfg S) i s hr prev)
            | Inl e \<Rightarrow> if e = DbErrNotFound then ret (0, 0) else throw e)) (\<lambda>rates.
     db_UpsertHourlyMetrics S (hourly_row_of i s hr rates))))"

definition sampleAllHourlyMetrics :: "('r, 'i, 'e) sys \<Rightarrow> (('r, 'i, 'e) world, unit) prog" where
  "sampleAllHourlyMetrics S =
     andThen (attempt (db_ListActiveInstances S)) (\<lambda>r.
     case r of
       Inl _ \<Rightarrow> ret ()
     | Inr list \<Rightarrow>
         andThen (time_Now S) (\<lambda>now.
         andThen (forEach (\<lambda>i. if sampled i then ignore (sampleInstanceHourlyMetrics S i (Truncate now hour)) else ret ()) list) (\<lambda>_.
         let retention = u_hourly_retention (c_usage (sys_cfg S));
             retention = (if retention \<le> 0 then 30 else retention) in
         andThen (time_Now S) (\<lambda>now2.
         ignore (db_PurgeOldHourlyMetrics S (AddDays now2 (- retention)))))))"

section \<open>History\<close>

definition hours_window :: "int \<Rightarrow> int" where
  "hours_window hours = (let h = (if hours \<le> 0 then 24 else hours) in if h > 24 * 90 then 24 * 90 else h)"

definition hourly_point :: "hourly_row \<Rightarrow> hourly_metrics_point" where
  "hourly_point r = \<lparr>hm_hour = Format_RFC3339 (hr_hour r), hm_cpu = hr_cpu r, hm_mem_used = hr_mem_used r,
     hm_mem_total = hr_mem_total r, hm_disk_used = hr_disk_used r, hm_disk_total = hr_disk_total r,
     hm_bandwidth = hr_bandwidth r\<rparr>"

definition series_of :: "hourly_row list \<Rightarrow> inst \<Rightarrow> instance_metrics_series" where
  "series_of rows i = \<lparr>ms_instance = i_id i, ms_name = i_name i,
     ms_points = map hourly_point (filter (\<lambda>r. hr_instance r = i_id i) rows)\<rparr>"

text \<open>\<open>uuid.Nil\<close> is zero and stands for all instances.\<close>

definition GetHourlyMetrics :: "('r, 'i, 'e) sys \<Rightarrow> uuid \<Rightarrow> int \<Rightarrow> (('r, 'i, 'e) world, metrics_chart_response) prog" where
  "GetHourlyMetrics S iid hours0 =
     (let hours = hours_window hours0 in
      andThen (time_Now S) (\<lambda>now.
      let to = Truncate now hour; from = to - (hours - 1) * hour in
      andThen
        (if iid \<noteq> 0 then
           andThen (orNotFound (db_GetInstance S iid)) (\<lambda>_. db_ListHourlyMetrics S iid from to)
         else db_ListHourlyMetricsAll S from to) (\<lambda>rows.
      andThen (db_ListActiveInstances S) (\<lambda>list.
      ret \<lparr>mc_hours = hours, mc_from = Format_RFC3339 from, mc_to = Format_RFC3339 to,
           mc_items = map (series_of rows) (filter (\<lambda>i. iid = 0 \<or> i_id i = iid) list)\<rparr>))))"

section \<open>Live usage\<close>

definition zero_sample :: resource_sample where
  "zero_sample = \<lparr>rs_cpu_ns = 0, rs_mem_used = 0, rs_mem_total = 0, rs_disk_used = 0, rs_disk_total = 0,
     rs_net_total = 0\<rparr>"

text \<open>
  Two samples one second apart. When the first fails the code goes on with the value returned beside the
  error, which the client leaves zero.
\<close>

definition live_sample :: "('r, 'i, 'e) sys \<Rightarrow> inst \<Rightarrow> (('r, 'i, 'e) world, resource_sample \<times> rat) prog" where
  "live_sample S i =
     andThen (attempt (incus S (\<lambda>c. ic_ResourceSample c (i_incus i)))) (\<lambda>r1.
     case r1 of
       Inr sample1 \<Rightarrow>
         andThen (attempt (incus S (\<lambda>c. ic_ResourceSample c (i_incus i)))) (\<lambda>r2.
         ret (case r2 of
                Inr sample2 \<Rightarrow> (sample2, computeCPUPercent (rs_cpu_ns sample1) (rs_cpu_ns sample2) second (i_cpu i))
              | Inl _ \<Rightarrow> (sample1, 0)))
     | Inl e \<Rightarrow>
         if i_status i = StatusRunning then throw (ErrWrap ''resource sample: '' e '''')
         else ret (zero_sample, 0))"

definition GetInstanceResources :: "('r, 'i, 'e) sys \<Rightarrow> uuid \<Rightarrow> (('r, 'i, 'e) world, instance_resources_response) prog" where
  "GetInstanceResources S iid =
     andThen (GetInstance S iid) (\<lambda>i.
     andThen (live_sample S i) (\<lambda>(s, cpuPercent).
     andThen (time_Now S) (\<lambda>now.
     ret \<lparr>ir_instance = i_id i, ir_name = i_name i, ir_status = i_status i,
       ir_sampled_at = Format_RFC3339 now,
       ir_cpu = \<lparr>rc_cores = i_cpu i, rc_percent = clampNonNegFloat cpuPercent\<rparr>,
       ir_memory = \<lparr>rm_limit = i_memory i,
         rm_total = nonNeg (mem_total_or_plan (rs_mem_total s) (i_memory i)), rm_used = nonNeg (rs_mem_used s)\<rparr>,
       ir_disk = \<lparr>rd_limit = i_storage i,
         rd_total = nonNeg (disk_total_or_plan (rs_disk_total s) (i_storage i)), rd_used = nonNeg (rs_disk_used s)\<rparr>,
       ir_bandwidth = \<lparr>rb_limit = i_bandwidth i, rb_monthly_limit = i_traffic_gb i,
         rb_monthly_used = nonNeg (i_traffic_used i), rb_period = i_traffic_period i,
         rb_throttled = i_throttled i, rb_total = nonNeg (rs_net_total s)\<rparr>\<rparr>)))"

context upkeep_frame
begin

lemma steps_sampleInstance [frame_rules]: "steps R (sampleInstanceHourlyMetrics S i hr)"
  unfolding sampleInstanceHourlyMetrics_def by (intro frame_rules)

lemma steps_metrics:
  "steps R (sampleAllHourlyMetrics S)"
  "steps R (GetHourlyMetrics S iid hours)"
  unfolding sampleAllHourlyMetrics_def GetHourlyMetrics_def by (intro frame_rules)+

lemma steps_live_sample [frame_rules]: "steps R (live_sample S i)"
  unfolding live_sample_def by (intro frame_rules)

end

context sys_frame
begin

lemma steps_GetInstanceResources: "steps R (GetInstanceResources S iid)"
  unfolding GetInstanceResources_def by (intro frame_rules)

end

section \<open>Properties\<close>

lemma computeCPUPercent_bounds:
  "0 \<le> computeCPUPercent a b elapsed cores"
  by (auto simp: computeCPUPercent_def Let_def round_half_up_def intro!: divide_nonneg_nonneg)

text \<open>Every hourly row the sampler writes satisfies the checks of the \<open>instance_hourly_metrics\<close> table, whatever the
counters.\<close>

lemma hourly_row_checks: "hourly_checks (hourly_row_of i s hr rates)"
  by (simp add: hourly_checks_def hourly_row_of_def sint_nonNeg clampNonNegFloat_def)

text \<open>The rates the code means to record: over the same hour they go on from its row, otherwise from the latest earlier one.\<close>

definition hour_rows :: "uuid \<Rightarrow> time \<Rightarrow> database \<Rightarrow> hourly_row list" where
  "hour_rows iid hr d = filter (\<lambda>x. hr_instance x = iid \<and> hr_hour x = hr) (t_hourly d)"

definition rates_from :: "config \<Rightarrow> inst \<Rightarrow> resource_sample \<Rightarrow> time \<Rightarrow> database \<Rightarrow> rat \<times> int64" where
  "rates_from cfg i s hr d =
     (case hour_rows (i_id i) hr d of
        prev # _ \<Rightarrow> same_hour_rates cfg i s prev
      | [] \<Rightarrow> (case select_latest_hourly (i_id i) hr d of
                Some prev \<Rightarrow> next_hour_rates cfg i s hr prev | None \<Rightarrow> (0, 0)))"

lemma select_hour: "select_hourly_range iid hr hr d = hour_rows iid hr d"
proof -
  have eq: "(\<lambda>x. hr_instance x = iid \<and> hr \<le> hr_hour x \<and> hr_hour x \<le> hr) = (\<lambda>x. hr_instance x = iid \<and> hr_hour x = hr)"
    by auto
  have "sort_key hr_hour (filter (\<lambda>x. hr_instance x = iid \<and> hr_hour x = hr) rows)
      = filter (\<lambda>x. hr_instance x = iid \<and> hr_hour x = hr) rows" for rows
    by (rule sort_key_id_if_sorted) (induction rows; simp)
  then show ?thesis unfolding select_hourly_range_def hour_rows_def eq by blast
qed

text \<open>The upsert of a row with accepted values: afterwards it is the only one of its instance and hour.\<close>

lemma upsert_hourly_records:
  assumes "hourly_ok (instance_ids d) (t_hourly d)" "hourly_checks r" "hr_instance r \<in> instance_ids d"
  shows "fst (upsert_hourly r v t d) = Inr ()
    \<and> hour_rows (hr_instance r) (hr_hour r) (snd (upsert_hourly r v t d)) = [r]
    \<and> filter (\<lambda>x. (hr_instance x, hr_hour x) \<noteq> (hr_instance r, hr_hour r)) (t_hourly (snd (upsert_hourly r v t d)))
        = filter (\<lambda>x. (hr_instance x, hr_hour x) \<noteq> (hr_instance r, hr_hour r)) (t_hourly d)"
proof -
  let ?same = "\<lambda>x. hr_instance x = hr_instance r \<and> hr_hour x = hr_hour r"
  have replaced: "filter ?same (map (\<lambda>x. if ?same x then r else x) rows) = (if list_ex ?same rows then [r] else [])
      \<and> filter (\<lambda>x. \<not> ?same x) (map (\<lambda>x. if ?same x then r else x) rows) = filter (\<lambda>x. \<not> ?same x) rows"
    if "distinct (map (\<lambda>x. (hr_instance x, hr_hour x)) rows)" for rows
    using that
  proof (induction rows)
    case (Cons x rows)
    have none: "\<not> list_ex ?same rows" if "?same x" using Cons.prems that by (auto simp: list_ex_iff image_iff)
    then show ?case using Cons by auto
  qed simp
  have fresh: "filter ?same rows = []" if "\<not> list_ex ?same rows" for rows
    using that by (auto simp: filter_empty_conv list_ex_iff)
  show ?thesis
    using assms replaced [of "t_hourly d"] fresh [of "t_hourly d"]
    by (auto simp: upsert_hourly_def hour_rows_def Let_def hourly_ok_def instance_ids_def)
qed

text \<open>C31. A sample that Incus answers is recorded: while the database answers, the call succeeds - no value Incus can
report is refused by the table - and the hour has exactly one row of the instance, with the values reported and with
the rates since the row of this hour or the latest earlier one. All other rows stay as they are.\<close>

theorem sampling_records_hour:
  assumes "pg_up S" and "db_ok (w_db w)" and "i_id i \<in> instance_ids (w_db w)"
    and "on_incus (ic_ResourceSample (sys_incus S) (i_incus i)) w = (Inr s, w1)"
  shows "\<exists>w'. sampleInstanceHourlyMetrics S i hr w = (Inr (), w')
    \<and> hour_rows (i_id i) hr (w_db w') = [hourly_row_of i s hr (rates_from (sys_cfg S) i s hr (w_db w))]
    \<and> filter (\<lambda>x. (hr_instance x, hr_hour x) \<noteq> (i_id i, hr)) (t_hourly (w_db w'))
      = filter (\<lambda>x. (hr_instance x, hr_hour x) \<noteq> (i_id i, hr)) (t_hourly (w_db w))"
proof -
  have db: "w_db w1 = w_db w" using stepsD [OF same_db.steps_on_incus assms(4)] by (simp add: db_rel_def)
  obtain e2 where rows: "db_ListHourlyMetrics S (i_id i) hr hr w1 = (Inr (hour_rows (i_id i) hr (w_db w)), w1\<lparr>w_env := e2\<rparr>)"
    using query_up [OF assms(1), of "select_hourly_range (i_id i) hr hr" w1] db
    by (auto simp: db_ListHourlyMetrics_def select_hour)
  obtain e3 where last: "query S (select_latest_hourly (i_id i) hr) (w1\<lparr>w_env := e2\<rparr>)
      = (Inr (select_latest_hourly (i_id i) hr (w_db w)), w1\<lparr>w_env := e3\<rparr>)"
    using query_up [OF assms(1), of "select_latest_hourly (i_id i) hr" "w1\<lparr>w_env := e2\<rparr>"] db by auto
  let ?row = "hourly_row_of i s hr (rates_from (sys_cfg S) i s hr (w_db w))"
  obtain e4 where sample: "sampleInstanceHourlyMetrics S i hr w = db_UpsertHourlyMetrics S ?row (w1\<lparr>w_env := e4\<rparr>)"
    using assms(4) rows last
    by (cases "hour_rows (i_id i) hr (w_db w)"; cases "select_latest_hourly (i_id i) hr (w_db w)")
      (fastforce simp: sampleInstanceHourlyMetrics_def rates_from_def andThen_def attempt_def db_LatestHourlyMetrics_def
        found_def ret_def throw_def)+
  obtain v t e where "db_UpsertHourlyMetrics S ?row (w1\<lparr>w_env := e4\<rparr>) =
      (fst (upsert_hourly ?row v t (w_db w)), w1\<lparr>w_db := snd (upsert_hourly ?row v t (w_db w)), w_env := e\<rparr>)"
    using sql_up [OF assms(1), of "upsert_hourly ?row" "w1\<lparr>w_env := e4\<rparr>"] db
    by (auto simp: db_UpsertHourlyMetrics_def)
  moreover have "hr_instance ?row = i_id i" "hr_hour ?row = hr" by (simp_all add: hourly_row_of_def)
  ultimately show ?thesis
    using upsert_hourly_records [of "w_db w" ?row v t] assms(2,3) hourly_row_checks sample by (simp add: db_ok_def)
qed

theorem sampling_records_hour_witness:
  "\<exists>s w'. sampleInstanceHourlyMetrics (ref_sys Default) ref_inst 0 (ref_world one_db) = (Inr (), w')
    \<and> hour_rows 77 0 (w_db w') = [hourly_row_of ref_inst s 0 (0, 0)]"
proof -
  obtain r w1 where call: "on_incus (ic_ResourceSample (sys_incus (ref_sys Default)) (i_incus ref_inst)) (ref_world one_db) = (r, w1)"
    by fastforce
  have "\<not> isl (fst (on_incus (ic_ResourceSample (sys_incus (ref_sys Default)) (i_incus ref_inst)) (ref_world one_db)))"
    by code_simp
  then obtain s where s: "r = Inr s" using call by (cases r) auto
  have "db_ok (w_db (ref_world one_db))" by (simp add: ref_world_def one_db_ok)
  moreover have "i_id ref_inst \<in> instance_ids (w_db (ref_world one_db))" "i_id ref_inst = 77"
    "rates_from (sys_cfg (ref_sys Default)) ref_inst s 0 (w_db (ref_world one_db)) = (0, 0)"
    by (simp_all add: ref_world_def one_db_def instance_ids_def ref_inst_def rates_from_def hour_rows_def
        select_latest_hourly_def empty_db_def)
  ultimately show ?thesis using sampling_records_hour [OF ref_pg_up _ _ call [unfolded s], of 0] by auto
qed

text \<open>The reported CPU percentage is never negative and never above one hundred times the cores of
the plan (rounded to two digits); in particular an instance with half a core that uses all of it reports 50, not 100.\<close>

theorem computeCPUPercent_range:
  "0 \<le> computeCPUPercent a b elapsed cores
   \<and> (0 \<le> cores \<longrightarrow> computeCPUPercent a b elapsed cores \<le> 100 * cores + 1 / 200)
   \<and> computeCPUPercent 0 500000000 second (1 / 2) = 50"
proof (intro conjI impI)
  show "0 \<le> computeCPUPercent a b elapsed cores" by (rule computeCPUPercent_bounds)
  show "computeCPUPercent a b elapsed cores \<le> 100 * cores + 1 / 200" if "0 \<le> cores"
  proof -
    have r: "round_half_up (x * 100) / 100 \<le> 100 * cores + 1 / 200" if "x \<le> 100 * cores" for x
      using that of_int_floor_le [of "x * 100 + 1 / 2"] unfolding round_half_up_def by linarith
    have if_le: "(c \<Longrightarrow> a \<le> z) \<Longrightarrow> (\<not> c \<Longrightarrow> b \<le> z) \<Longrightarrow> (if c then a else b) \<le> z" for c and a b z :: rat
      by simp
    have z: "0 \<le> 100 * cores + 1 / 200" using that by simp
    show ?thesis
      unfolding computeCPUPercent_def Let_def by (intro if_le r z) simp_all
  qed
  show "computeCPUPercent 0 500000000 second (1 / 2) = 50" by code_simp
qed


theorem computeCPUPercent_range_witness:
  "computeCPUPercent 0 500000000 second (1 / 2) \<le> 50 + 1 / 200"
  using computeCPUPercent_range [of 0 500000000 second "1 / 2"] by simp

end
