(* ===== verification/Lifecycle.thy ===== *)
theory Lifecycle imports Metrics begin

text \<open>
  The running daemon: requests and background jobs one after the other, on the shared world, with the
  provisioning jobs that \<open>CreateInstance\<close> has started and that have not run yet. Between two operations
  the services may change in any way (\<open>step_outside\<close>): keys expire in Redis, containers stop, time passes;
  only the tables are the daemon's own.

  The invariants are those every single statement keeps (theory \<open>Store\<close>), so they do not depend on the
  operations being executed one at a time.
\<close>

section \<open>Operations\<close>

datatype operation =
    OpHealth
  | OpList
  | OpResolve string
  | OpGet uuid
  | OpStart uuid
  | OpRepair uuid
  | OpResetPassword uuid reset_password_request
  | OpStop uuid
  | OpRestart uuid
  | OpDelete uuid
  | OpAddPort uuid add_port_request
  | OpRemovePort uuid uuid
  | OpUpdatePort uuid uuid update_port_request
  | OpHostStats
  | OpUsage uuid int
  | OpMetrics uuid int
  | OpResources uuid
  | OpSyncPorts
  | OpReconcileTraffic
  | OpSampleHourly

text \<open>The effect of an operation on the world; what it answers is the matter of the theorems on it.\<close>

fun run_op :: "('r, 'i, 'e) sys \<Rightarrow> operation \<Rightarrow> ('r, 'i, 'e) world \<Rightarrow> ('r, 'i, 'e) world" where
  "run_op S OpHealth w = snd (Health S w)"
| "run_op S OpList w = snd (ListInstances S w)"
| "run_op S (OpResolve s) w = snd (ResolveInstance S s w)"
| "run_op S (OpGet iid) w = snd (GetInstance S iid w)"
| "run_op S (OpStart iid) w = snd (StartInstance S iid w)"
| "run_op S (OpRepair iid) w = snd (RepairInstance S iid w)"
| "run_op S (OpResetPassword iid rq) w = snd (ResetRootPassword S iid rq w)"
| "run_op S (OpStop iid) w = snd (StopInstance S iid w)"
| "run_op S (OpRestart iid) w = snd (RestartInstance S iid w)"
| "run_op S (OpDelete iid) w = snd (DeleteInstance S iid w)"
| "run_op S (OpAddPort iid rq) w = snd (AddPortMapping S iid rq w)"
| "run_op S (OpRemovePort iid pid) w = snd (RemovePortMapping S iid pid w)"
| "run_op S (OpUpdatePort iid pid rq) w = snd (UpdatePortMapping S iid pid rq w)"
| "run_op S OpHostStats w = snd (GetHostStats S w)"
| "run_op S (OpUsage iid days) w = snd (GetUsageChart S iid days w)"
| "run_op S (OpMetrics iid hours) w = snd (GetHourlyMetrics S iid hours w)"
| "run_op S (OpResources iid) w = snd (GetInstanceResources S iid w)"
| "run_op S OpSyncPorts w = snd (ports_Sync S w)"
| "run_op S OpReconcileTraffic w = snd (reconcileTraffic S w)"
| "run_op S OpSampleHourly w = snd (sampleAllHourlyMetrics S w)"

text \<open>A state of the daemon: the world and the instances whose \<open>provision\<close> goroutine is still to run.\<close>

type_synonym ('r, 'i, 'e) daemon = "('r, 'i, 'e) world \<times> inst list"

inductive step :: "('r, 'i, 'e) sys \<Rightarrow> ('r, 'i, 'e) daemon \<Rightarrow> ('r, 'i, 'e) daemon \<Rightarrow> bool"
  for S :: "('r, 'i, 'e) sys" where
  step_op: "step S (w, jobs) (run_op S op w, jobs)"
| step_create: "CreateInstance S req w = (Inr i, w') \<Longrightarrow> step S (w, jobs) (w', jobs @ [i])"
| step_create_failed: "CreateInstance S req w = (Inl e, w') \<Longrightarrow> step S (w, jobs) (w', jobs)"
| step_provision: "i \<in> set jobs \<Longrightarrow> step S (w, jobs) (snd (provision S i w), remove1 i jobs)"
| step_outside: "w_db w' = w_db w \<Longrightarrow> step S (w, jobs) (w', jobs)"

inductive reach :: "('r, 'i, 'e) sys \<Rightarrow> ('r, 'i, 'e) daemon \<Rightarrow> ('r, 'i, 'e) daemon \<Rightarrow> bool"
  for S :: "('r, 'i, 'e) sys" and s :: "('r, 'i, 'e) daemon" where
  reach_refl: "reach S s s"
| reach_step: "reach S s t \<Longrightarrow> step S t u \<Longrightarrow> reach S s u"

inductive_cases step_pairE: "step S (w, jobs) (w', jobs')"

section \<open>What every statement keeps, the daemon keeps\<close>

context sys_frame
begin

lemmas operation_rules =
  steps_Health steps_get steps_StartInstance steps_power steps_DeleteInstance steps_port_mappings
  steps_GetHostStats steps_GetUsageChart steps_metrics steps_GetInstanceResources steps_ports steps_reconcileTraffic

lemma run_op_frame: "R w (run_op S op w)"
  by (cases op) (simp_all only: run_op.simps operation_rules [unfolded steps_def, rule_format])

end

context store_frame
begin

lemma step_frame: "step S (w, jobs) (w', jobs') \<Longrightarrow> db_rel Q w w'"
proof (erule step_pairE)
  fix op assume "w' = run_op S op w"
  then show ?thesis by (simp only: run_op_frame)
next
  fix req i assume "CreateInstance S req w = (Inr i, w')"
  then show ?thesis by (rule stepsD [OF steps_CreateInstance])
next
  fix req e assume "CreateInstance S req w = (Inl e, w')"
  then show ?thesis by (rule stepsD [OF steps_CreateInstance])
next
  fix i assume "w' = snd (provision S i w)"
  then show ?thesis using steps_provision [of S i] by (simp add: steps_def)
next
  assume "w_db w' = w_db w"
  then show ?thesis by (simp add: db_rel_def db_refl)
qed

lemma reach_frame: "reach S s t \<Longrightarrow> db_rel Q (fst s) (fst t)"
proof (induction rule: reach.induct)
  case reach_refl
  show ?case by (simp add: db_rel_def db_refl)
next
  case (reach_step t u)
  then show ?case using step_frame [of S "fst t" "snd t" "fst u" "snd u"]
    by (auto simp: db_rel_def intro: db_trans)
qed

end

section \<open>Properties\<close>


text \<open>No operation removes an instance row or changes its id, name, Incus name, image or creation
time: later tables extend earlier ones.\<close>

theorem reachable_rows_kept:
  assumes "reach S (w, jobs) (w', jobs')"
  shows "\<exists>new. map identity (t_instances (w_db w')) = map identity (t_instances (w_db w)) @ new"
  using kept.reach_frame [OF assms] by (simp add: db_rel_def rows_kept_def)

text \<open>The examples: a deletion, and a request that creates a job.\<close>

lemma ref_delete_reach:
  "reach (ref_sys Default) (ref_world one_db, []) (run_op (ref_sys Default) (OpDelete 77) (ref_world one_db), [])"
  by (rule reach_step [OF reach_refl step_op])


theorem reachable_rows_kept_witness:
  "\<exists>new. map identity (t_instances (w_db (run_op (ref_sys Default) (OpDelete 77) (ref_world one_db)))) =
     [identity ref_inst] @ new"
  using reachable_rows_kept [OF ref_delete_reach] by (simp add: ref_world_def one_db_def)

end
