(* ===== verification/Create.thy ===== *)
theory Create imports Lifecycle begin

text \<open>
  What \<open>CreateInstance\<close> promises: the answer is a validated instance whose name was free, and exactly its row
  is new in the tables; a rejected request changes nothing.
\<close>

lemma checked_Inr: "checked x w = (Inr y, w') \<longleftrightarrow> x = Inr y \<and> w' = w"
  by (cases x) (auto simp: checked_def)

lemma same_db_stepsD: "steps (db_rel (=)) f \<Longrightarrow> f w = (r, w') \<Longrightarrow> w_db w' = w_db w"
  using stepsD [of "db_rel (=)" f w r w'] by (simp add: db_rel_def)

lemma same_db_others:
  "steps (db_rel (=)) (secrets_RandomPassword S n)"
  "steps (db_rel (=)) (set_state S iid st ttl)"
  unfolding secrets_RandomPassword_def set_state_def by (intro frame_rules)+

lemma query_not_found: "query S f w0 \<noteq> (Inl DbErrNotFound, w1)"
  by (auto simp: query_def sql_def asks_def split: prod.splits pg_reply.splits)

text \<open>The name check: it passes only when no live row has the name.\<close>

lemma check_name_free_Inr:
  assumes "check_name_free S name w = (Inr u, w')"
  shows "select_instance_by_name name (w_db w) = None \<and> w_db w' = w_db w"
proof -
  have lookup: "db_GetInstanceByName S name w = (Inl DbErrNotFound, w')"
  proof (cases "db_GetInstanceByName S name w")
    case (Pair x w1)
    then show ?thesis
      using assms by (cases x) (auto simp: check_name_free_def andThen_def attempt_def split: if_splits)
  qed
  have db: "w_db w' = w_db w" by (rule same_db_stepsD [OF same_db.store_reads(2) lookup])
  have "query S (select_instance_by_name name) w = (Inl DbErrNotFound, w') \<or>
    (\<exists>row. select_instance_by_name name (w_db w) = row \<and> (row = None \<or> (\<exists>i w1. row = Some i \<and> db_ListPorts S (i_id i) w1 = (Inl DbErrNotFound, w'))))"
    using lookup unfolding db_GetInstanceByName_def andThen_Inl
    by (auto simp: andThen_Inr found_def dest!: query_row split: option.splits)
  then show ?thesis using db by (auto simp: db_ListPorts_def query_not_found)
qed

definition request_name :: "create_request \<Rightarrow> string" where
  "request_name req = strings_TrimSpace (strings_ToLower (cr_name req))"

text \<open>The instance a request asks for, but for its id, time and password.\<close>

definition requested :: "config \<Rightarrow> create_request \<Rightarrow> inst \<Rightarrow> bool" where
  "requested cfg req i \<longleftrightarrow>
     (let df = c_defaults cfg in
      i_name i = request_name req
    \<and> resolve_cpu df (cr_cpu req) = Inr (i_cpu i)
    \<and> i_memory i = resolve_count (cr_memory req) (df_memory df)
    \<and> i_storage i = resolve_count (cr_storage req) (df_storage df)
    \<and> i_processes i = resolve_count (cr_processes req) (df_processes df)
    \<and> resolve_quota bandwidth_msg (cr_bandwidth req) (df_bandwidth df) = Inr (i_bandwidth i)
    \<and> resolve_quota traffic_msg (cr_traffic_gb req) (df_traffic_gb df) = Inr (i_traffic_gb i)
    \<and> i_image i = (if cr_image req = '''' then n_default_image (c_incus cfg) else cr_image req)
    \<and> i_traffic_used i = 0 \<and> \<not> i_throttled i \<and> i_error i = '''' \<and> i_ports i = [])"

lemma insert_instance_Inr:
  assumes "insert_instance i v t d = (Inr u, d')"
  shows "d' = d\<lparr>t_instances := t_instances d @ [instance_row i]\<rparr> \<and> instance_checks (instance_row i)
    \<and> i_name i \<notin> i_name ` set (t_instances d)"
  using assms by (auto simp: insert_instance_def Let_def refused_def set_instances_def instance_row_def split: if_splits)

lemma CreateInstance_Inr:
  assumes "CreateInstance S req w = (Inr i, w')"
  shows "namePattern (i_name i) \<and> requested (sys_cfg S) req i \<and> i_status i = StatusCreating
    \<and> i_incus i = ''goincus-'' @ take 8 (uuid_String S (i_id i))
    \<and> select_instance_by_name (i_name i) (w_db w) = None
    \<and> instance_checks (instance_row i)
    \<and> w_db w' = (w_db w)\<lparr>t_instances := t_instances (w_db w) @ [instance_row (i\<lparr>i_status := StatusPending\<rparr>)]\<rparr>"
proof -
  obtain cpu bw tg now iid pass w1 w2 w3 w4 w5 where
    name: "namePattern (request_name req)"
    and free: "check_name_free S (request_name req) w = (Inr (), w1)"
    and cpu: "resolve_cpu (c_defaults (sys_cfg S)) (cr_cpu req) = Inr cpu"
    and bw: "resolve_quota bandwidth_msg (cr_bandwidth req) (df_bandwidth (c_defaults (sys_cfg S))) = Inr bw"
    and tg: "resolve_quota traffic_msg (cr_traffic_gb req) (df_traffic_gb (c_defaults (sys_cfg S))) = Inr tg"
    and now: "time_Now S w1 = (Inr now, w2)" and new: "uuid_New S w2 = (Inr iid, w3)"
    and pass: "secrets_RandomPassword S 18 w3 = (Inr pass, w4)"
    and create: "db_CreateInstance S (i\<lparr>i_status := StatusPending\<rparr>) w4 = (Inr (), w5)"
    and last: "set_state S iid StatusCreating (30 * minute) w5 = (Inr (), w')"
    and i: "i = \<lparr>i_id = iid, i_name = request_name req, i_incus = ''goincus-'' @ take 8 (uuid_String S iid),
       i_image = (if cr_image req = '''' then n_default_image (c_incus (sys_cfg S)) else cr_image req),
       i_status = StatusCreating, i_cpu = cpu,
       i_memory = resolve_count (cr_memory req) (df_memory (c_defaults (sys_cfg S))),
       i_storage = resolve_count (cr_storage req) (df_storage (c_defaults (sys_cfg S))),
       i_processes = resolve_count (cr_processes req) (df_processes (c_defaults (sys_cfg S))),
       i_bandwidth = bw, i_traffic_gb = tg, i_traffic_used = 0, i_traffic_period = CurrentTrafficPeriod now,
       i_throttled = False, i_counter_snap = 0, i_password = pass, i_error = '''', i_ports = [],
       i_created = now, i_updated = now\<rparr>"
    using assms unfolding CreateInstance_def Let_def request_name_def [symmetric]
    by (auto simp: andThen_Inr checked_Inr wrapErr_Inr split: if_split_asm)
  have db: "w_db w4 = w_db w" "w_db w' = w_db w5"
    using check_name_free_Inr [OF free] same_db_stepsD [OF same_db.steps_time_Now now]
      same_db_stepsD [OF same_db.steps_uuid_New new] same_db_stepsD [OF same_db_others(1) pass]
      same_db_stepsD [OF same_db_others(2) last]
    by simp_all
  obtain v t where "insert_instance (i\<lparr>i_status := StatusPending\<rparr>) v t (w_db w4) = (Inr (), w_db w5)"
    using sql_Inr [OF create [unfolded db_CreateInstance_def]] by blast
  note ins = insert_instance_Inr [OF this]
  have checks: "instance_checks (instance_row i)"
    using ins by (simp add: instance_checks_def instance_row_def)
  show ?thesis
    using name check_name_free_Inr [OF free] ins checks db
    by (simp add: i requested_def Let_def cpu bw tg)
qed

text \<open>The resolved numbers are the validated ones.\<close>

lemma resolve_cpu_Inr:
  assumes "resolve_cpu df q = Inr c"
  shows "1 / 10 \<le> c \<and> (0 < q \<longrightarrow> \<bar>c - q\<bar> \<le> 1 / 200)"
proof -
  define x where "x = (if q \<le> 0 then df_cpu df else q)"
  define f where "f = (of_int \<lfloor>x * 100 + 1 / 2\<rfloor> :: rat)"
  have ge: "1 / 10 \<le> x" and c: "c = (if f / 100 < 1 / 10 then 1 / 10 else f / 100)"
    using assms unfolding resolve_cpu_def Let_def x_def [symmetric] f_def [symmetric] by (auto split: if_splits)
  have fl: "f \<le> x * 100 + 1 / 2" "x * 100 + 1 / 2 < f + 1"
    unfolding f_def by linarith+
  have "c - x \<le> 1 / 200 \<and> x - c \<le> 1 / 200 \<and> 1 / 10 \<le> c"
  proof (cases "f / 100 < 1 / 10")
    case True
    then have "c = 1 / 10" using c by simp
    moreover have "f < 10" using True by simp
    then have "\<lfloor>x * 100 + 1 / 2\<rfloor> < 10" unfolding f_def by (simp only: of_int_less_numeral_iff)
    then have "\<lfloor>x * 100 + 1 / 2\<rfloor> \<le> 9" by linarith
    then have "f \<le> 9" unfolding f_def by (simp only: of_int_le_numeral_iff)
    ultimately show ?thesis using ge fl by linarith
  next
    case False
    then have "c = f / 100" using c by simp
    then show ?thesis using False fl by linarith
  qed
  moreover from this have "\<bar>c - x\<bar> \<le> 1 / 200" by (simp only: abs_le_iff minus_diff_eq)
  ultimately show ?thesis unfolding x_def by (simp split: if_splits)
qed

lemma resolve_quota_Inr: "resolve_quota msg q dflt = Inr r \<Longrightarrow> 0 \<le> dflt \<Longrightarrow> 0 \<le> r"
  by (auto simp: resolve_quota_def split: if_splits)


definition ref_request :: create_request where
  "ref_request = \<lparr>cr_name = '' New-VPS '', cr_image = '''', cr_cpu = 1 / 2, cr_memory = 0, cr_storage = 20,
     cr_processes = 0, cr_bandwidth = -1, cr_traffic_gb = 0\<rparr>"

lemma ref_request_parts:
  "namePattern ''new-vps''" "strings_TrimSpace (strings_ToLower '' New-VPS '') = ''new-vps''"
  "resolve_cpu (c_defaults Default) (1 / 2) = Inr (1 / 2)" "take 8 (canonical_uuid 1) = ''00000000''"
  "numeric_8_2 (1 / 2) = 1 / 2"
  by code_simp+

lemma ref_name_free: "check_name_free (ref_sys cfg) ''new-vps'' (ref_world one_db) = (Inr (), ref_world one_db)"
  by (simp add: check_name_free_def andThen_def attempt_def db_GetInstanceByName_def ref_simps found_def ret_def
      throw_def select_instance_by_name_def ref_world_def one_db_def ref_inst_def)

lemma ref_create:
  "\<exists>i w'. CreateInstance (ref_sys Default) ref_request (ref_world one_db) = (Inr i, w') \<and> i_name i = ''new-vps''"
proof -
  note [simp] = ref_request_parts ref_name_free ref_simps resolve_quota_def resolve_count_def
  note [cong] = andThen_cong_order
  show ?thesis
    by (simp add: CreateInstance_def Let_def ref_request_def andThen_def checked_def ret_def wrapErr_def
        secrets_RandomPassword_def db_CreateInstance_def set_state_def ignore_def redis_SetInstanceState_def
        on_redis_def mem_server_def)
      (simp add: insert_instance_def Let_def set_instances_def instance_row_def instance_columns_def
        instance_checks_def int4_def ref_world_def one_db_def ref_inst_def empty_db_def Default_def
        andThen_def ret_def ignore_def on_redis_def)
qed


text \<open>The pending provisioning jobs are those of persisted instances.\<close>

lemma identity_row [simp]: "identity (instance_row i) = identity i" "identity (i\<lparr>i_status := st\<rparr>) = identity i"
  by (simp_all add: identity_def instance_row_def)

lemma rows_kept_identity:
  assumes "rows_kept d d'" "x \<in> identity ` set (t_instances d)" shows "x \<in> identity ` set (t_instances d')"
proof -
  obtain ys where "map identity (t_instances d') = map identity (t_instances d) @ ys"
    using assms(1) by (auto simp: rows_kept_def)
  from arg_cong [OF this, of set] show ?thesis using assms(2) by auto
qed

definition jobs_persisted :: "('r, 'i, 'e) daemon \<Rightarrow> bool" where
  "jobs_persisted s \<longleftrightarrow> (\<forall>i \<in> set (snd s). identity i \<in> identity ` set (t_instances (w_db (fst s))) \<and> namePattern (i_name i))"

lemma step_jobs_persisted:
  assumes "step S s t" "jobs_persisted s" shows "jobs_persisted t"
proof -
  have kept: "rows_kept (w_db (fst s)) (w_db (fst t))"
    using kept.step_frame [of S "fst s" "snd s" "fst t" "snd t"] assms(1) by (simp add: db_rel_def)
  have old: "identity i \<in> identity ` set (t_instances (w_db (fst t))) \<and> namePattern (i_name i)" if "i \<in> set (snd s)" for i
    using rows_kept_identity [OF kept] assms(2) that by (auto simp: jobs_persisted_def)
  show ?thesis
    using assms(1)
  proof cases
    case (step_create w req i w' jobs)
    have "identity i \<in> identity ` set (t_instances (w_db w'))" "namePattern (i_name i)"
      using CreateInstance_Inr [OF step_create(3)] by simp_all
    then show ?thesis using old step_create by (auto simp: jobs_persisted_def)
  next
    case (step_provision i jobs w)
    then show ?thesis using old by (auto simp: jobs_persisted_def dest: notin_set_remove1)
  qed (use old in \<open>simp_all add: jobs_persisted_def\<close>)
qed

text \<open>Every provisioning job that is still to run belongs to an instance whose row is in the tables,
under a valid name, from the start of the daemon on.\<close>

theorem pending_jobs_persisted:
  assumes "reach S (w, []) (w', jobs)" and "i \<in> set jobs"
  shows "identity i \<in> identity ` set (t_instances (w_db w')) \<and> namePattern (i_name i)"
proof -
  have "jobs_persisted t" if "reach S (w, []) t" for t
    using that by (induction rule: reach.induct) (auto simp: jobs_persisted_def [of "(w, [])"] intro: step_jobs_persisted)
  from this [OF assms(1)] show ?thesis using assms(2) by (simp add: jobs_persisted_def)
qed

theorem pending_jobs_persisted_witness:
  "\<exists>i w'. CreateInstance (ref_sys Default) ref_request (ref_world one_db) = (Inr i, w')
     \<and> identity i \<in> identity ` set (t_instances (w_db w'))"
proof -
  obtain i w' where c: "CreateInstance (ref_sys Default) ref_request (ref_world one_db) = (Inr i, w')"
    using ref_create by blast
  have "reach (ref_sys Default) (ref_world one_db, []) (w', [i])"
    using reach_step [OF reach_refl step_create [OF c, of "[]"]] by simp
  from pending_jobs_persisted [OF this, of i] show ?thesis using c by auto
qed

end
