(* ===== verification/Auth.thy ===== *)
theory Auth imports Config begin

text \<open>
  \<open>internal/api/auth.go\<close>: API key extraction, the client address, and the limiter that blocks an address
  after too many failed attempts. Headers are read by name, absent ones as the empty string, as
  \<open>http.Header.Get\<close> does. The limiter's map is its state; every reading of the clock is an argument.
\<close>

section \<open>Requests\<close>

record http_request =
  rq_method :: string
  rq_path :: string
  rq_header :: "string \<Rightarrow> string"
  rq_remote :: string
  rq_query :: "string \<Rightarrow> string"
  rq_body :: string

definition extractAPIKey :: "http_request \<Rightarrow> string" where
  "extractAPIKey r =
     (let h = rq_header r ''X-API-Key''; auth = rq_header r ''Authorization'' in
      if h \<noteq> '''' then strings_TrimSpace h
      else if auth = '''' then ''''
      else if strings_HasPrefix auth ''Bearer '' then strings_TrimSpace (drop 7 auth)
      else '''')"

text \<open>\<open>net.SplitHostPort\<close>: the host, or nothing when the address has no port or is malformed.\<close>

definition split_last :: "char \<Rightarrow> string \<Rightarrow> (string \<times> string) option" where
  "split_last c s =
     (if c \<in> set s then
        let r = takeWhile (\<lambda>x. x \<noteq> c) (rev s) in Some (take (length s - length r - 1) s, rev r)
      else None)"

definition SplitHost :: "string \<Rightarrow> string option" where
  "SplitHost hostport =
     (case split_last (CHR '':'') hostport of
        None \<Rightarrow> None
      | Some (before, port) \<Rightarrow>
          (case before of
             CHR ''['' # inner \<Rightarrow>
               (let host = takeWhile (\<lambda>x. x \<noteq> CHR '']'') inner; rest = drop (length host) inner in
                if rest = '']'' \<and> CHR ''['' \<notin> set (inner @ port) \<and> CHR '']'' \<notin> set port then Some host else None)
           | _ \<Rightarrow>
               if CHR '':'' \<in> set before \<or> CHR ''['' \<in> set hostport \<or> CHR '']'' \<in> set hostport then None
               else Some before))"

definition clientIP :: "http_request \<Rightarrow> string" where
  "clientIP r =
     (let real = rq_header r ''X-Real-IP''; xff = rq_header r ''X-Forwarded-For'' in
      if real \<noteq> '''' then strings_TrimSpace real
      else if xff \<noteq> '''' then strings_TrimSpace (hd (strings_Split xff (CHR '','')))
      else (case SplitHost (rq_remote r) of None \<Rightarrow> rq_remote r | Some host \<Rightarrow> host))"

section \<open>The limiter\<close>

record auth_bucket =
  b_fails :: nat
  b_reset :: time

record auth_limiter =
  l_max :: nat
  l_window :: int
  l_hits :: "string \<Rightarrow> auth_bucket option"

definition newAuthLimiter :: "nat \<Rightarrow> int \<Rightarrow> auth_limiter" where
  "newAuthLimiter maxFails window = \<lparr>l_max = maxFails, l_window = window, l_hits = (\<lambda>_. None)\<rparr>"

text \<open>\<open>bucket\<close> returns the live bucket of the address, replacing an expired one.\<close>

definition bucket :: "time \<Rightarrow> string \<Rightarrow> auth_limiter \<Rightarrow> auth_bucket \<times> auth_limiter" where
  "bucket now ip l =
     (let fresh = \<lparr>b_fails = 0, b_reset = now + l_window l\<rparr> in
      case l_hits l ip of
        Some b \<Rightarrow> if now > b_reset b then (fresh, l\<lparr>l_hits := (l_hits l)(ip \<mapsto> fresh)\<rparr>) else (b, l)
      | None \<Rightarrow> (fresh, l\<lparr>l_hits := (l_hits l)(ip \<mapsto> fresh)\<rparr>))"

definition blocked :: "time \<Rightarrow> string \<Rightarrow> auth_limiter \<Rightarrow> bool \<times> auth_limiter" where
  "blocked now ip l = (case bucket now ip l of (b, l') \<Rightarrow> (b_fails b \<ge> l_max l, l'))"

definition auth_fail :: "time \<Rightarrow> string \<Rightarrow> auth_limiter \<Rightarrow> auth_limiter" where
  "auth_fail now ip l =
     (case bucket now ip l of (b, l') \<Rightarrow> l'\<lparr>l_hits := (l_hits l')(ip \<mapsto> b\<lparr>b_fails := b_fails b + 1\<rparr>)\<rparr>)"

definition auth_success :: "string \<Rightarrow> auth_limiter \<Rightarrow> auth_limiter" where
  "auth_success ip l = l\<lparr>l_hits := (l_hits l)(ip := None)\<rparr>"

section \<open>The middleware\<close>

datatype auth_decision = Public | Limited | Unauthorized | Allowed

definition public_path :: "string \<Rightarrow> bool" where
  "public_path path \<longleftrightarrow> path = ''/healthz'' \<or> path = ''/api/v1/health''"

text \<open>\<open>t1\<close> and \<open>t2\<close> are the readings of the clock in \<open>blocked\<close> and in \<open>fail\<close>.\<close>

definition APIKeyAuth ::
    "config \<Rightarrow> http_request \<Rightarrow> time \<Rightarrow> time \<Rightarrow> auth_limiter \<Rightarrow> auth_decision \<times> auth_limiter" where
  "APIKeyAuth cfg r t1 t2 l =
     (if public_path (rq_path r) then (Public, l)
      else
        let ip = clientIP r in
        case blocked t1 ip l of (stop, l1) \<Rightarrow>
          if stop then (Limited, l1)
          else if \<not> ValidAPIKey cfg (extractAPIKey r) then (Unauthorized, auth_fail t2 ip l1)
          else (Allowed, auth_success ip l1))"

definition server_limiter :: auth_limiter where
  "server_limiter = newAuthLimiter 20 minute"

section \<open>Lemmas\<close>

lemma bucket_simps [simp]:
  "l_max (snd (bucket now ip l)) = l_max l"
  "l_window (snd (bucket now ip l)) = l_window l"
  "ip' \<noteq> ip \<Longrightarrow> l_hits (snd (bucket now ip l)) ip' = l_hits l ip'"
  "l_hits (snd (bucket now ip l)) ip = Some (fst (bucket now ip l))"
  by (auto simp: bucket_def Let_def split: option.splits)

lemma bucket_fails: "b_fails (fst (bucket now ip l)) =
    (case l_hits l ip of None \<Rightarrow> 0 | Some b \<Rightarrow> if now > b_reset b then 0 else b_fails b)"
  by (auto simp: bucket_def Let_def split: option.splits)

lemma bucket_reset: "b_reset (fst (bucket now ip l)) =
    (case l_hits l ip of None \<Rightarrow> now + l_window l | Some b \<Rightarrow> if now > b_reset b then now + l_window l else b_reset b)"
  by (auto simp: bucket_def Let_def split: option.splits)

text \<open>The failures that count against an address at a time.\<close>

definition live_fails :: "time \<Rightarrow> string \<Rightarrow> auth_limiter \<Rightarrow> nat" where
  "live_fails now ip l = (case l_hits l ip of None \<Rightarrow> 0 | Some b \<Rightarrow> if now > b_reset b then 0 else b_fails b)"

lemma blocked_iff: "fst (blocked now ip l) \<longleftrightarrow> l_max l \<le> live_fails now ip l"
  by (simp add: blocked_def split_beta bucket_fails live_fails_def)

lemma gate_other:
  assumes "ip \<noteq> clientIP r"
  shows "l_hits (snd (APIKeyAuth cfg r t1 t2 l)) ip = l_hits l ip"
  using assms by (auto simp: APIKeyAuth_def Let_def blocked_def auth_fail_def auth_success_def split_beta)

lemma gate_max [simp]:
  "l_max (snd (APIKeyAuth cfg r t1 t2 l)) = l_max l" "l_window (snd (APIKeyAuth cfg r t1 t2 l)) = l_window l"
  by (auto simp: APIKeyAuth_def Let_def blocked_def auth_fail_def auth_success_def split_beta)

section \<open>Properties\<close>

text \<open>A sequence of requests with their clock readings, and the decisions about those of one address.\<close>

type_synonym timed_request = "http_request \<times> time \<times> time"

fun gate_run :: "config \<Rightarrow> string \<Rightarrow> timed_request list \<Rightarrow> auth_limiter \<Rightarrow> auth_decision list" where
  "gate_run cfg ip [] l = []"
| "gate_run cfg ip ((r, t1, t2) # qs) l =
     (case APIKeyAuth cfg r t1 t2 l of (d, l') \<Rightarrow>
        (if clientIP r = ip then d # gate_run cfg ip qs l' else gate_run cfg ip qs l'))"

definition guess :: "config \<Rightarrow> http_request \<Rightarrow> bool" where
  "guess cfg r \<longleftrightarrow> \<not> public_path (rq_path r) \<and> \<not> ValidAPIKey cfg (extractAPIKey r)"

definition counted :: "string \<Rightarrow> nat \<Rightarrow> time \<Rightarrow> auth_limiter \<Rightarrow> bool" where
  "counted ip k until l \<longleftrightarrow> l_hits l ip = None \<and> k = 0 \<or> (\<exists>b. l_hits l ip = Some b \<and> b_fails b = k \<and> until \<le> b_reset b)"

lemma bucket_counted:
  assumes "counted ip k until l" "t \<le> until" "until \<le> t + l_window l"
  shows "b_fails (fst (bucket t ip l)) = k \<and> until \<le> b_reset (fst (bucket t ip l)) \<and> counted ip k until (snd (bucket t ip l))"
  using assms by (auto simp: counted_def bucket_fails bucket_reset split: option.splits if_splits)

text \<open>One guess: counted while there is room, refused without a look at the key once the limit is reached.\<close>

lemma gate_guess:
  assumes c: "counted ip k until l" and g: "guess cfg r" "clientIP r = ip"
    and t: "t1 \<le> until" "until \<le> t1 + l_window l" "t2 \<le> until" "until \<le> t2 + l_window l"
  shows "APIKeyAuth cfg r t1 t2 l = (if l_max l \<le> k then Limited else Unauthorized, snd (APIKeyAuth cfg r t1 t2 l))
    \<and> counted ip (if l_max l \<le> k then k else Suc k) until (snd (APIKeyAuth cfg r t1 t2 l))"
proof -
  let ?l1 = "snd (bucket t1 ip l)"
  have b1: "b_fails (fst (bucket t1 ip l)) = k" "counted ip k until ?l1"
    using bucket_counted [OF c t(1,2)] by simp_all
  have b2: "b_fails (fst (bucket t2 ip ?l1)) = k" "until \<le> b_reset (fst (bucket t2 ip ?l1))"
    using bucket_counted [OF b1(2) t(3)] t(4) by simp_all
  have "counted ip (Suc k) until (auth_fail t2 ip ?l1)"
    using b2 by (simp add: auth_fail_def split_beta counted_def)
  then show ?thesis
    using g b1 by (auto simp: APIKeyAuth_def guess_def Let_def blocked_def split_beta)
qed

lemma gate_run_guesses:
  assumes "counted ip k until l" "k \<le> l_max l"
    and "\<forall>(r, t1, t2) \<in> set qs. (clientIP r = ip \<longrightarrow> guess cfg r)
      \<and> t1 \<le> until \<and> until \<le> t1 + l_window l \<and> t2 \<le> until \<and> until \<le> t2 + l_window l"
  shows "gate_run cfg ip qs l =
    (let n = length (filter (\<lambda>q. clientIP (fst q) = ip) qs); m = min n (l_max l - k) in
     replicate m Unauthorized @ replicate (n - m) Limited)"
  using assms
proof (induction qs arbitrary: k l)
  case (Cons q qs)
  obtain r t1 t2 where q: "q = (r, t1, t2)" by (cases q)
  let ?l = "snd (APIKeyAuth cfg r t1 t2 l)"
  have rest: "\<forall>(r, t1, t2) \<in> set qs. (clientIP r = ip \<longrightarrow> guess cfg r)
      \<and> t1 \<le> until \<and> until \<le> t1 + l_window ?l \<and> t2 \<le> until \<and> until \<le> t2 + l_window ?l"
    using Cons.prems(3) by simp
  show ?case
  proof (cases "clientIP r = ip")
    case False
    then have "counted ip k until ?l" using Cons.prems(1) by (simp add: counted_def gate_other)
    from Cons.IH [OF this _ rest] show ?thesis using Cons.prems(2) False by (simp add: q split_beta)
  next
    case True
    have t: "guess cfg r" "t1 \<le> until" "until \<le> t1 + l_window l" "t2 \<le> until" "until \<le> t2 + l_window l"
      using Cons.prems(3) True by (auto simp: q)
    note g = gate_guess [OF Cons.prems(1) t(1) True t(2-5)]
    show ?thesis
    proof (cases "l_max l \<le> k")
      case True
      then have "counted ip k until ?l" using g by simp
      from Cons.IH [OF this _ rest] show ?thesis
        using Cons.prems(2) True g \<open>clientIP r = ip\<close> by (simp add: q split_beta prod_eq_iff)
    next
      case False
      then have "counted ip (Suc k) until ?l" using g by simp
      from Cons.IH [OF this _ rest] show ?thesis
        using False g \<open>clientIP r = ip\<close> Suc_diff_Suc [of k "l_max l", symmetric]
        by (simp add: q split_beta prod_eq_iff Let_def min_def)
    qed
  qed
qed simp


definition guess_from :: "string \<Rightarrow> http_request" where
  "guess_from ip = \<lparr>rq_method = ''GET'', rq_path = ''/api/v1/instances'',
     rq_header = (\<lambda>h. if h = ''X-API-Key'' then ''wrong'' else if h = ''X-Real-IP'' then ip else ''''),
     rq_remote = ''203.0.113.9:4711'', rq_query = (\<lambda>_. ''''), rq_body = ''''\<rparr>"

lemma guess_from_simps: "strings_TrimSpace ''10.0.0.1'' = ''10.0.0.1''" "strings_TrimSpace ''wrong'' = ''wrong''"
  by code_simp+


text \<open>The middleware lets a request on to a handler only when its path is a health path or it
carries one of the configured keys.\<close>

theorem gate_admits_only_keys:
  assumes "fst (APIKeyAuth cfg r t1 t2 l) = Public \<or> fst (APIKeyAuth cfg r t1 t2 l) = Allowed"
  shows "rq_path r \<in> {''/healthz'', ''/api/v1/health''}
    \<or> extractAPIKey r \<noteq> '''' \<and> extractAPIKey r \<in> set (c_api_keys cfg)"
  using assms by (auto simp: APIKeyAuth_def public_path_def ValidAPIKey_iff Let_def split: prod.splits if_splits)

theorem gate_admits_only_keys_witness:
  "''/healthz'' \<in> {''/healthz'', ''/api/v1/health''} \<or>
   extractAPIKey ((guess_from ''a'')\<lparr>rq_path := ''/healthz''\<rparr>) \<in> set (c_api_keys Default)"
  using gate_admits_only_keys [of Default "(guess_from ''a'')\<lparr>rq_path := ''/healthz''\<rparr>" 0 0 server_limiter]
  by (simp add: APIKeyAuth_def public_path_def)

text \<open>The limit is per address as the client states it: requests that each name another
address in \<open>X-Real-IP\<close> are never rate limited, however many they are.\<close>

theorem stated_addresses_never_limited:
  assumes "distinct (map clientIP rs)" and "list_all (guess cfg) rs" and "0 < l_max l"
    and "\<forall>r \<in> set rs. l_hits l (clientIP r) = None"
  shows "fst (foldl (\<lambda>(ds, l) r. case APIKeyAuth cfg r t t l of (d, l') \<Rightarrow> (ds @ [d], l')) ([], l) rs) =
    replicate (length rs) Unauthorized"
proof -
  have "fst (foldl (\<lambda>(ds, l) r. case APIKeyAuth cfg r t t l of (d, l') \<Rightarrow> (ds @ [d], l')) (ds, l) rs) =
      ds @ replicate (length rs) Unauthorized" for ds
    using assms
  proof (induction rs arbitrary: ds l)
    case (Cons r rs)
    let ?l = "snd (APIKeyAuth cfg r t t l)"
    have "fst (APIKeyAuth cfg r t t l) = Unauthorized"
      using Cons.prems(2-4) by (simp add: APIKeyAuth_def guess_def Let_def blocked_def bucket_def split_beta)
    moreover have "l_hits ?l (clientIP q) = None" if "q \<in> set rs" for q
    proof -
      have "clientIP q \<noteq> clientIP r" using Cons.prems(1) that by (metis distinct.simps(2) imageI list.simps(9) set_map)
      then show ?thesis using gate_other [of "clientIP q" r cfg t t l] Cons.prems(4) that by simp
    qed
    ultimately show ?case
      using Cons.IH [of ?l "ds @ [Unauthorized]"] Cons.prems(1-3) by (simp add: split_beta)
  qed simp
  from this [of "[]"] show ?thesis by simp
qed

theorem stated_addresses_never_limited_witness:
  "fst (foldl (\<lambda>(ds, l) r. case APIKeyAuth Default r 0 0 l of (d, l') \<Rightarrow> (ds @ [d], l')) ([], newAuthLimiter 1 minute)
     (map guess_from [''a'', ''b'', ''c''])) = replicate 3 Unauthorized"
proof -
  have ip: "clientIP (guess_from [c]) = [c]" if "\<not> is_space c" for c
    using that by (simp add: clientIP_def guess_from_def strings_TrimSpace_def)
  have sp: "\<not> is_space (CHR ''a'')" "\<not> is_space (CHR ''b'')" "\<not> is_space (CHR ''c'')"
    by (simp_all add: is_space_def)
  have g: "guess Default (guess_from s)" for s
    by (simp add: guess_def guess_from_def public_path_def extractAPIKey_def guess_from_simps ValidAPIKey_iff Default_def)
  show ?thesis
    using stated_addresses_never_limited [of "map guess_from [''a'', ''b'', ''c'']" Default "newAuthLimiter 1 minute" 0]
    by (simp add: ip [OF sp(1)] ip [OF sp(2)] ip [OF sp(3)] g newAuthLimiter_def numeral_3_eq_3)
qed

end
