(* ===== verification/Server.thy ===== *)
theory Server imports Create Auth begin

text \<open>
  \<open>internal/api/server.go\<close>: the routes, the handlers and the translation of errors to status codes, over the
  operations of the service and behind the middleware of theory \<open>Auth\<close>.

  The JSON decoder is a parameter (\<open>json_codec\<close>): it turns a body into a request or fails; reading an empty
  body fails with \<open>io.EOF\<close>. A response is its status code and the value that is encoded as its body.
\<close>

section \<open>Responses\<close>

datatype body =
    NoBody
  | BError string
  | BHealth health_response
  | BInstances "inst list"
  | BInstance inst
  | BResources instance_resources_response
  | BUsage usage_chart_response
  | BMetrics metrics_chart_response
  | BHostStats host_stats_response
  | BPort port_mapping

type_synonym response = "nat \<times> body"

definition writeError :: "nat \<Rightarrow> error \<Rightarrow> response" where
  "writeError status e = (status, BError (error_text e))"

definition service_status :: "error \<Rightarrow> nat" where
  "service_status e =
     (if errors_Is e ErrNotFound then 404
      else if errors_Is e ErrInvalidInput then 400
      else if errors_Is e ErrConflict then 409
      else 500)"

definition writeServiceError :: "error \<Rightarrow> response" where
  "writeServiceError e = writeError (service_status e) e"

section \<open>Decoding\<close>

datatype 'a decoded = Decoded 'a | DecodeEOF | DecodeError

record json_codec =
  dec_create :: "string \<Rightarrow> create_request decoded"
  dec_reset :: "string \<Rightarrow> reset_password_request decoded"
  dec_add_port :: "string \<Rightarrow> add_port_request decoded"
  dec_update_port :: "string \<Rightarrow> update_port_request decoded"

definition invalid_json :: response where
  "invalid_json = writeError 400 (ErrText ''invalid JSON body'')"

definition invalid_port_id :: response where
  "invalid_port_id = writeError 400 (ErrText ''invalid port id'')"


definition query_int :: "http_request \<Rightarrow> string \<Rightarrow> int \<Rightarrow> int" where
  "query_int r name dflt =
     (let v = rq_query r name in
      if v = '''' then dflt else (case Atoi v of None \<Rightarrow> dflt | Some n \<Rightarrow> n))"

section \<open>Handlers\<close>

text \<open>A handler always answers; \<open>respond\<close> turns the outcome of the service into the response.\<close>

definition respond :: "nat \<Rightarrow> ('a \<Rightarrow> body) \<Rightarrow> ('w, 'a) prog \<Rightarrow> ('w, response) prog" where
  "respond status enc f w =
     (case f w of (r, w') \<Rightarrow>
        (case r of Inl e \<Rightarrow> (Inr (writeServiceError e), w') | Inr x \<Rightarrow> (Inr (status, enc x), w')))"

text \<open>The beginning of every handler under \<open>/instances/{id}\<close>.\<close>

definition with_instance ::
    "('r, 'i, 'e) sys \<Rightarrow> string \<Rightarrow> (inst \<Rightarrow> (('r, 'i, 'e) world, response) prog) \<Rightarrow> (('r, 'i, 'e) world, response) prog" where
  "with_instance S idOrName k w =
     (case ResolveInstance S idOrName w of (r, w') \<Rightarrow>
        (case r of Inl e \<Rightarrow> (Inr (writeServiceError e), w') | Inr i \<Rightarrow> k i w'))"

definition handleHealth :: "('r, 'i, 'e) sys \<Rightarrow> (('r, 'i, 'e) world, response) prog" where
  "handleHealth S = respond 200 BHealth (Health S)"

definition handleListInstances :: "('r, 'i, 'e) sys \<Rightarrow> (('r, 'i, 'e) world, response) prog" where
  "handleListInstances S w =
     (case ListInstances S w of (r, w') \<Rightarrow>
        (case r of
           Inl e \<Rightarrow> (Inr (writeError 500 e), w')
         | Inr list \<Rightarrow> (Inr (200, BInstances (map (\<lambda>i. i\<lparr>i_password := ''''\<rparr>) list)), w')))"

definition handleCreateInstance :: "('r, 'i, 'e) sys \<Rightarrow> json_codec \<Rightarrow> http_request \<Rightarrow> (('r, 'i, 'e) world, response) prog" where
  "handleCreateInstance S J r =
     (case dec_create J (rq_body r) of
        Decoded req \<Rightarrow> respond 202 BInstance (CreateInstance S req)
      | _ \<Rightarrow> ret invalid_json)"

definition handleGetInstance :: "('r, 'i, 'e) sys \<Rightarrow> string \<Rightarrow> (('r, 'i, 'e) world, response) prog" where
  "handleGetInstance S idp = with_instance S idp (\<lambda>i. ret (200, BInstance i))"

definition handleGetInstanceResources :: "('r, 'i, 'e) sys \<Rightarrow> string \<Rightarrow> (('r, 'i, 'e) world, response) prog" where
  "handleGetInstanceResources S idp =
     with_instance S idp (\<lambda>i. respond 200 BResources (GetInstanceResources S (i_id i)))"

definition handleGetInstanceUsage :: "('r, 'i, 'e) sys \<Rightarrow> http_request \<Rightarrow> string \<Rightarrow> (('r, 'i, 'e) world, response) prog" where
  "handleGetInstanceUsage S r idp =
     with_instance S idp (\<lambda>i. respond 200 BUsage (GetUsageChart S (i_id i) (query_int r ''days'' 30)))"

definition handleGetAllMetrics :: "('r, 'i, 'e) sys \<Rightarrow> http_request \<Rightarrow> (('r, 'i, 'e) world, response) prog" where
  "handleGetAllMetrics S r = respond 200 BMetrics (GetHourlyMetrics S 0 (query_int r ''hours'' 24))"

definition handleGetHostStats :: "('r, 'i, 'e) sys \<Rightarrow> (('r, 'i, 'e) world, response) prog" where
  "handleGetHostStats S = respond 200 BHostStats (GetHostStats S)"

definition handleGetInstanceMetrics :: "('r, 'i, 'e) sys \<Rightarrow> http_request \<Rightarrow> string \<Rightarrow> (('r, 'i, 'e) world, response) prog" where
  "handleGetInstanceMetrics S r idp =
     with_instance S idp (\<lambda>i. respond 200 BMetrics (GetHourlyMetrics S (i_id i) (query_int r ''hours'' 24)))"

definition handleDeleteInstance :: "('r, 'i, 'e) sys \<Rightarrow> string \<Rightarrow> (('r, 'i, 'e) world, response) prog" where
  "handleDeleteInstance S idp =
     with_instance S idp (\<lambda>i. respond 204 (\<lambda>_. NoBody) (DeleteInstance S (i_id i)))"

definition handleStartInstance :: "('r, 'i, 'e) sys \<Rightarrow> string \<Rightarrow> (('r, 'i, 'e) world, response) prog" where
  "handleStartInstance S idp = with_instance S idp (\<lambda>i. respond 200 BInstance (StartInstance S (i_id i)))"

definition handleStopInstance :: "('r, 'i, 'e) sys \<Rightarrow> string \<Rightarrow> (('r, 'i, 'e) world, response) prog" where
  "handleStopInstance S idp = with_instance S idp (\<lambda>i. respond 200 BInstance (StopInstance S (i_id i)))"

definition handleRestartInstance :: "('r, 'i, 'e) sys \<Rightarrow> string \<Rightarrow> (('r, 'i, 'e) world, response) prog" where
  "handleRestartInstance S idp = with_instance S idp (\<lambda>i. respond 200 BInstance (RestartInstance S (i_id i)))"

definition handleRepairInstance :: "('r, 'i, 'e) sys \<Rightarrow> string \<Rightarrow> (('r, 'i, 'e) world, response) prog" where
  "handleRepairInstance S idp = with_instance S idp (\<lambda>i. respond 200 BInstance (RepairInstance S (i_id i)))"

text \<open>An empty body is accepted here: it asks for a generated password.\<close>

definition handleResetPassword :: "('r, 'i, 'e) sys \<Rightarrow> json_codec \<Rightarrow> http_request \<Rightarrow> string \<Rightarrow> (('r, 'i, 'e) world, response) prog" where
  "handleResetPassword S J r idp =
     with_instance S idp (\<lambda>i.
       case dec_reset J (rq_body r) of
         Decoded req \<Rightarrow> respond 200 BInstance (ResetRootPassword S (i_id i) req)
       | DecodeEOF \<Rightarrow> respond 200 BInstance (ResetRootPassword S (i_id i) \<lparr>rp_password = ''''\<rparr>)
       | DecodeError \<Rightarrow> ret invalid_json)"

definition handleAddPort :: "('r, 'i, 'e) sys \<Rightarrow> json_codec \<Rightarrow> http_request \<Rightarrow> string \<Rightarrow> (('r, 'i, 'e) world, response) prog" where
  "handleAddPort S J r idp =
     with_instance S idp (\<lambda>i.
       case dec_add_port J (rq_body r) of
         Decoded req \<Rightarrow> respond 201 BPort (AddPortMapping S (i_id i) req)
       | _ \<Rightarrow> ret invalid_json)"

definition handleUpdatePort :: "('r, 'i, 'e) sys \<Rightarrow> json_codec \<Rightarrow> http_request \<Rightarrow> string \<Rightarrow> string \<Rightarrow> (('r, 'i, 'e) world, response) prog" where
  "handleUpdatePort S J r idp portp =
     with_instance S idp (\<lambda>i.
       case uuid_Parse S portp of
         None \<Rightarrow> ret invalid_port_id
       | Some portID \<Rightarrow>
           (case dec_update_port J (rq_body r) of
              Decoded req \<Rightarrow> respond 200 BPort (UpdatePortMapping S (i_id i) portID req)
            | _ \<Rightarrow> ret invalid_json))"

definition handleRemovePort :: "('r, 'i, 'e) sys \<Rightarrow> string \<Rightarrow> string \<Rightarrow> (('r, 'i, 'e) world, response) prog" where
  "handleRemovePort S idp portp =
     with_instance S idp (\<lambda>i.
       case uuid_Parse S portp of
         None \<Rightarrow> ret invalid_port_id
       | Some portID \<Rightarrow> respond 204 (\<lambda>_. NoBody) (RemovePortMapping S (i_id i) portID))"

section \<open>Routes\<close>

datatype route =
    RHealth
  | RAllMetrics
  | RHostStats
  | RList
  | RCreate
  | RGet string
  | RResources string
  | RUsage string
  | RMetrics string
  | RDelete string
  | RStart string
  | RStop string
  | RRestart string
  | RRepair string
  | RResetPassword string
  | RAddPort string
  | RUpdatePort string string
  | RRemovePort string string

text \<open>The routes under \<open>/instances/{id}\<close>, by method and the rest of the path.\<close>

definition instance_route :: "string \<Rightarrow> string \<Rightarrow> string list \<Rightarrow> route option" where
  "instance_route m idp rest =
     (if m = ''GET'' \<and> (rest = [] \<or> rest = ['''']) then Some (RGet idp)
      else if m = ''GET'' \<and> rest = [''resources''] then Some (RResources idp)
      else if m = ''GET'' \<and> rest = [''usage''] then Some (RUsage idp)
      else if m = ''GET'' \<and> rest = [''metrics''] then Some (RMetrics idp)
      else if m = ''DELETE'' \<and> (rest = [] \<or> rest = ['''']) then Some (RDelete idp)
      else if m = ''POST'' \<and> rest = [''start''] then Some (RStart idp)
      else if m = ''POST'' \<and> rest = [''stop''] then Some (RStop idp)
      else if m = ''POST'' \<and> rest = [''restart''] then Some (RRestart idp)
      else if m = ''POST'' \<and> rest = [''repair''] then Some (RRepair idp)
      else if m = ''POST'' \<and> rest = [''reset-password''] then Some (RResetPassword idp)
      else if m = ''POST'' \<and> rest = [''ports''] then Some (RAddPort idp)
      else if m = ''PATCH'' \<and> length rest = 2 \<and> hd rest = ''ports'' \<and> last rest \<noteq> ''''
        then Some (RUpdatePort idp (last rest))
      else if m = ''DELETE'' \<and> length rest = 2 \<and> hd rest = ''ports'' \<and> last rest \<noteq> ''''
        then Some (RRemovePort idp (last rest))
      else None)"

definition route_of :: "http_request \<Rightarrow> route option" where
  "route_of r =
     (let m = rq_method r; segs = strings_Split (rq_path r) (CHR ''/'') in
      if m = ''GET'' \<and> public_path (rq_path r) then Some RHealth
      else if take 3 segs \<noteq> ['''', ''api'', ''v1''] then None
      else
        let segs = drop 3 segs in
        if m = ''GET'' \<and> segs = [''metrics''] then Some RAllMetrics
        else if m = ''GET'' \<and> segs = [''hoststats''] then Some RHostStats
        else if segs = [''instances''] \<or> segs = [''instances'', ''''] then
          (if m = ''GET'' then Some RList else if m = ''POST'' then Some RCreate else None)
        else if 2 \<le> length segs \<and> hd segs = ''instances'' then instance_route m (segs ! 1) (drop 2 segs)
        else None)"

fun dispatch ::
    "('r, 'i, 'e) sys \<Rightarrow> json_codec \<Rightarrow> http_request \<Rightarrow> route \<Rightarrow> (('r, 'i, 'e) world, response) prog" where
  "dispatch S J r RHealth = handleHealth S"
| "dispatch S J r RAllMetrics = handleGetAllMetrics S r"
| "dispatch S J r RHostStats = handleGetHostStats S"
| "dispatch S J r RList = handleListInstances S"
| "dispatch S J r RCreate = handleCreateInstance S J r"
| "dispatch S J r (RGet idp) = handleGetInstance S idp"
| "dispatch S J r (RResources idp) = handleGetInstanceResources S idp"
| "dispatch S J r (RUsage idp) = handleGetInstanceUsage S r idp"
| "dispatch S J r (RMetrics idp) = handleGetInstanceMetrics S r idp"
| "dispatch S J r (RDelete idp) = handleDeleteInstance S idp"
| "dispatch S J r (RStart idp) = handleStartInstance S idp"
| "dispatch S J r (RStop idp) = handleStopInstance S idp"
| "dispatch S J r (RRestart idp) = handleRestartInstance S idp"
| "dispatch S J r (RRepair idp) = handleRepairInstance S idp"
| "dispatch S J r (RResetPassword idp) = handleResetPassword S J r idp"
| "dispatch S J r (RAddPort idp) = handleAddPort S J r idp"
| "dispatch S J r (RUpdatePort idp portp) = handleUpdatePort S J r idp portp"
| "dispatch S J r (RRemovePort idp portp) = handleRemovePort S idp portp"

text \<open>
  The router: the middleware, then the handler of the route. What the router answers when no route matches
  (\<open>fallback\<close>) is the router library's.
\<close>

definition Router ::
    "('r, 'i, 'e) sys \<Rightarrow> json_codec \<Rightarrow> (http_request \<Rightarrow> response) \<Rightarrow> http_request \<Rightarrow> time \<Rightarrow> time \<Rightarrow>
     auth_limiter \<Rightarrow> ('r, 'i, 'e) world \<Rightarrow> (error + response) \<times> auth_limiter \<times> ('r, 'i, 'e) world" where
  "Router S J fallback r t1 t2 l w =
     (case APIKeyAuth (sys_cfg S) r t1 t2 l of (d, l') \<Rightarrow>
        if d = Limited
        then (Inr (writeError 429 (ErrText ''rate limit exceeded: too many failed auth attempts'')), l', w)
        else if d = Unauthorized
        then (Inr (writeError 401 (ErrText ''unauthorized: provide Authorization: Bearer <api_key> or X-API-Key'')), l', w)
        else
          (case route_of r of
             None \<Rightarrow> (Inr (fallback r), l', w)
           | Some rt \<Rightarrow> (case dispatch S J r rt w of (x, w') \<Rightarrow> (x, l', w'))))"

section \<open>Frames\<close>

lemma snd_respond [simp]: "snd (respond st enc f w) = snd (f w)"
  by (simp add: respond_def split: prod.split sum.split)

context frame
begin

lemma steps_respond [frame_rules]: "steps R f \<Longrightarrow> steps R (respond st enc f)"
  by (simp add: steps_def)

end

context sys_frame
begin

lemma steps_with_instance [frame_rules]:
  assumes "\<And>i. steps R (k i)"
  shows "steps R (with_instance S idp k)"
proof -
  have eq: "snd (with_instance S idp k w) =
      snd (andThen (ResolveInstance S idp) k w)" for w
    by (simp add: with_instance_def andThen_def split: prod.split sum.split)
  have "steps R (andThen (ResolveInstance S idp) k)" using assms by (intro frame_rules)
  then show ?thesis by (simp add: steps_def eq)
qed

lemma steps_list_handler: "steps R (handleListInstances S)"
proof -
  have "snd (handleListInstances S w) = snd (ListInstances S w)" for w
    by (simp add: handleListInstances_def split: prod.split sum.split)
  then show ?thesis using steps_get(3) by (simp add: steps_def)
qed

lemma steps_case_decoded [frame_rules]:
  "(\<And>x. d = Decoded x \<Longrightarrow> steps R (f x)) \<Longrightarrow> (d = DecodeEOF \<Longrightarrow> steps R g) \<Longrightarrow> (d = DecodeError \<Longrightarrow> steps R h) \<Longrightarrow>
   steps R (case d of Decoded x \<Rightarrow> f x | DecodeEOF \<Rightarrow> g | DecodeError \<Rightarrow> h)"
  by (cases d) simp_all

lemmas handler_defs = handleHealth_def handleCreateInstance_def handleGetInstance_def
  handleGetInstanceResources_def handleGetInstanceUsage_def handleGetAllMetrics_def handleGetHostStats_def
  handleGetInstanceMetrics_def handleDeleteInstance_def handleStartInstance_def handleStopInstance_def
  handleRestartInstance_def handleRepairInstance_def handleResetPassword_def handleAddPort_def
  handleUpdatePort_def handleRemovePort_def

lemma steps_dispatch: "steps R (dispatch S J r rt)"
  by (cases rt)
    (simp_all only: dispatch.simps handler_defs steps_list_handler,
     (intro frame_rules steps_Health steps_CreateInstance steps_metrics steps_GetInstanceResources steps_GetHostStats steps_GetUsageChart
       steps_DeleteInstance steps_StartInstance steps_power steps_port_mappings)+)

end

section \<open>Properties\<close>

text \<open>C7. Without one of the configured keys, a request to anything but the health paths is answered
401 or 429 and reaches no handler: tables, Redis, Incus and the rest of the world are exactly as before.\<close>

theorem unauthenticated_has_no_effect:
  assumes "\<not> public_path (rq_path r)" and "extractAPIKey r \<notin> set (c_api_keys (sys_cfg S)) \<or> extractAPIKey r = ''''"
  shows "\<exists>st l'. Router S J fallback r t1 t2 l w = (Inr st, l', w) \<and> (fst st = 401 \<or> fst st = 429)"
  using assms
  by (auto simp: Router_def APIKeyAuth_def Let_def ValidAPIKey_iff writeError_def split: prod.split)

text \<open>A decoder for the examples: every creation request asks for the name of the existing instance.\<close>

definition ref_codec :: json_codec where
  "ref_codec = \<lparr>dec_create = (\<lambda>_. Decoded (ref_request\<lparr>cr_name := ''web''\<rparr>)),
     dec_reset = (\<lambda>_. DecodeEOF), dec_add_port = (\<lambda>_. DecodeEOF), dec_update_port = (\<lambda>_. DecodeEOF)\<rparr>"

theorem unauthenticated_has_no_effect_witness:
  "\<exists>st l'. Router (ref_sys Default) ref_codec (\<lambda>_. (404, NoBody)) (guess_from ''a'') 0 0 server_limiter (ref_world one_db)
      = (Inr st, l', ref_world one_db)
     \<and> (fst st = 401 \<or> fst st = 429)"
  by (rule unauthenticated_has_no_effect) (simp_all add: guess_from_def public_path_def Default_def ref_sys_def)

text \<open>Listing instances never exports a root password.\<close>

theorem list_hides_passwords:
  assumes "dispatch S J r RList w = (Inr (st, BInstances list), w')"
  shows "st = 200 \<and> (\<forall>i \<in> set list. i_password i = '''')"
  using assms by (auto simp: handleListInstances_def writeError_def split: prod.splits sum.splits)

theorem list_hides_passwords_witness:
  "\<exists>list w'. dispatch (ref_sys Default) ref_codec (guess_from ''a'') RList (ref_world one_db) = (Inr (200, BInstances list), w')
     \<and> length list = 1 \<and> i_password (hd list) = ''''"
proof -
  have "\<exists>i w'. ListInstances (ref_sys Default) (ref_world one_db) = (Inr [i], w')"
    by (simp add: ListInstances_def db_ListInstances_def db_ListPorts_def andThen_def ref_simps select_live_instances_def
        ref_world_def one_db_def live_def ref_inst_def ret_def syncStatusFromIncus_def mid_transition_def
        attempt_def on_incus_def ref_incus_client_def)
  then obtain i w' where "dispatch (ref_sys Default) ref_codec (guess_from ''a'') RList (ref_world one_db) =
      (Inr (200, BInstances [i\<lparr>i_password := ''''\<rparr>]), w')"
    by (auto simp: handleListInstances_def)
  from this list_hides_passwords [OF this] show ?thesis by auto
qed

fun route_instance :: "route \<Rightarrow> string option" where
  "route_instance (RGet s) = Some s"
| "route_instance (RResources s) = Some s"
| "route_instance (RUsage s) = Some s"
| "route_instance (RMetrics s) = Some s"
| "route_instance (RDelete s) = Some s"
| "route_instance (RStart s) = Some s"
| "route_instance (RStop s) = Some s"
| "route_instance (RRestart s) = Some s"
| "route_instance (RRepair s) = Some s"
| "route_instance (RResetPassword s) = Some s"
| "route_instance (RAddPort s) = Some s"
| "route_instance (RUpdatePort s p) = Some s"
| "route_instance (RRemovePort s p) = Some s"
| "route_instance _ = None"

lemma dispatch_unresolved:
  assumes "route_instance rt = Some idp" and "ResolveInstance S idp w = (Inl e, w')"
  shows "dispatch S J r rt w = (Inr (writeServiceError e), w')"
  using assms(1)
  by (cases rt) (simp_all add: handleGetInstance_def handleGetInstanceResources_def handleGetInstanceUsage_def
      handleGetInstanceMetrics_def handleDeleteInstance_def handleStartInstance_def handleStopInstance_def
      handleRestartInstance_def handleRepairInstance_def handleResetPassword_def handleAddPort_def
      handleUpdatePort_def handleRemovePort_def with_instance_def assms(2))

lemma ResolveInstance_unknown:
  assumes "pg_up S" "uuid_Parse S idp = Some iid" "select_instance iid (w_db w) = None"
  shows "\<exists>e. ResolveInstance S idp w = (Inl ErrNotFound, w\<lparr>w_env := e\<rparr>)"
proof -
  obtain e where "query S (select_instance iid) w = (Inr None, w\<lparr>w_env := e\<rparr>)"
    using query_up [OF assms(1), of "select_instance iid" w] assms(3) by auto
  then have "ResolveInstance S idp w = (Inl ErrNotFound, w\<lparr>w_env := e\<rparr>)"
    by (simp add: ResolveInstance_def assms(2) GetInstance_def db_GetInstance_def andThen_def orNotFound_def
        found_def throw_def)
  then show ?thesis by blast
qed

text \<open>Every route of an instance answers 404 "not found" for an id that no live row has, and
changes nothing: not the tables, not Redis, not Incus.\<close>

theorem unknown_instance_not_found:
  assumes "pg_up S" and "route_instance rt = Some idp" and "uuid_Parse S idp = Some iid"
    and "select_instance iid (w_db w) = None"
  shows "\<exists>e. dispatch S J r rt w = (Inr (404, BError ''not found''), w\<lparr>w_env := e\<rparr>)"
  using ResolveInstance_unknown [OF assms(1,3,4)] dispatch_unresolved [OF assms(2)]
  by (fastforce simp: writeServiceError_def writeError_def service_status_def)

theorem unknown_instance_not_found_witness:
  "\<exists>e. dispatch (ref_sys Default) ref_codec (guess_from ''a'') (RDelete (canonical_uuid 5)) (ref_world one_db) =
     (Inr (404, BError ''not found''), (ref_world one_db)\<lparr>w_env := e\<rparr>)"
proof (rule unknown_instance_not_found [where iid = 5])
  have "parse_uuid (canonical_uuid 5) = Some 5" by code_simp
  then show "uuid_Parse (ref_sys Default) (canonical_uuid 5) = Some 5" by (simp add: ref_sys_def)
  show "select_instance 5 (w_db (ref_world one_db)) = None"
    by (simp add: select_instance_def ref_world_def one_db_def ref_inst_def)
qed simp_all

text \<open>A request for an instance whose name a live instance has is answered 409, and no row is
written.\<close>

theorem create_taken_name_conflicts:
  assumes "pg_up S" and "dec_create J (rq_body r) = Decoded req" and "namePattern (request_name req)"
    and "select_instance_by_name (request_name req) (w_db w) = Some i"
  shows "\<exists>e. dispatch S J r RCreate w = (Inr (409, BError ''conflict: instance name already exists''), w\<lparr>w_env := e\<rparr>)"
proof -
  obtain e where row: "query S (select_instance_by_name (request_name req)) w = (Inr (Some i), w\<lparr>w_env := e\<rparr>)"
    using query_up [OF assms(1), of "select_instance_by_name (request_name req)" w] assms(4) by auto
  obtain e' where ports: "query S (select_ports (i_id i)) (w\<lparr>w_env := e\<rparr>) = (Inr (select_ports (i_id i) (w_db w)), w\<lparr>w_env := e'\<rparr>)"
    using query_up [OF assms(1), of "select_ports (i_id i)" "w\<lparr>w_env := e\<rparr>"] by auto
  have "check_name_free S (request_name req) w =
      (Inl (ErrWrap '''' ErrConflict '': instance name already exists''), w\<lparr>w_env := e'\<rparr>)"
    using row ports
    by (simp add: check_name_free_def andThen_def attempt_def db_GetInstanceByName_def db_ListPorts_def
        found_def throw_def ret_def)
  then have "CreateInstance S req w = (Inl (ErrWrap '''' ErrConflict '': instance name already exists''), w\<lparr>w_env := e'\<rparr>)"
    using assms(3) by (simp add: CreateInstance_def request_name_def Let_def andThen_def)
  then show ?thesis
    using assms(2) by (auto simp: handleCreateInstance_def respond_def writeServiceError_def writeError_def service_status_def)
qed

theorem create_taken_name_conflicts_witness:
  "\<exists>e. dispatch (ref_sys Default) ref_codec (guess_from ''a'') RCreate (ref_world one_db) =
     (Inr (409, BError ''conflict: instance name already exists''), (ref_world one_db)\<lparr>w_env := e\<rparr>)"
proof (rule create_taken_name_conflicts [where req = "ref_request\<lparr>cr_name := ''web''\<rparr>" and i = ref_inst])
  have n: "request_name (ref_request\<lparr>cr_name := ''web''\<rparr>) = ''web''" by code_simp
  show "namePattern (request_name (ref_request\<lparr>cr_name := ''web''\<rparr>))" unfolding n by code_simp
  show "select_instance_by_name (request_name (ref_request\<lparr>cr_name := ''web''\<rparr>)) (w_db (ref_world one_db)) = Some ref_inst"
    unfolding n by (simp add: select_instance_by_name_def ref_world_def one_db_def ref_inst_def live_def)
qed (simp_all add: ref_codec_def)

end
