(* ===== verification/Url.thy ===== *)
theory Url imports Prelude begin

text \<open>
  What the program uses of Go's \<open>net/url\<close>: percent-escaping of a path segment on the side of the command-line client,
  and on the side of the server the path the router sees and the first value of a query parameter. Texts are bytes.
\<close>

section \<open>Escaping\<close>

definition unreserved :: "char \<Rightarrow> bool" where
  "unreserved c \<longleftrightarrow>
     (let n = (of_char c :: nat) in 48 \<le> n \<and> n \<le> 57 \<or> 65 \<le> n \<and> n \<le> 90 \<or> 97 \<le> n \<and> n \<le> 122) \<or> c \<in> set ''-_.~''"

definition segment_keeps :: "char \<Rightarrow> bool" where
  "segment_keeps c \<longleftrightarrow> unreserved c \<or> c \<in> set ''$&+=:@''"

definition path_keeps :: "char \<Rightarrow> bool" where
  "path_keeps c \<longleftrightarrow> unreserved c \<or> c \<in> set ''$&+,/:;=@''"

definition hex_upper :: "nat \<Rightarrow> char" where
  "hex_upper i = (if i < 10 then char_of (48 + i) else char_of (55 + i))"

definition escape_char :: "char \<Rightarrow> string" where
  "escape_char c = [CHR ''%'', hex_upper (of_char c div 16), hex_upper (of_char c mod 16)]"

definition url_escape :: "(char \<Rightarrow> bool) \<Rightarrow> string \<Rightarrow> string" where
  "url_escape keeps s = concat (map (\<lambda>c. if keeps c then [c] else escape_char c) s)"

definition url_PathEscape :: "string \<Rightarrow> string" where
  "url_PathEscape = url_escape segment_keeps"

definition unhex :: "char \<Rightarrow> nat option" where
  "unhex c = (let n = of_char c in
     if 48 \<le> n \<and> n \<le> 57 then Some (n - 48)
     else if 97 \<le> n \<and> n \<le> 102 then Some (n - 87)
     else if 65 \<le> n \<and> n \<le> 70 then Some (n - 55) else None)"

fun url_unescape :: "string \<Rightarrow> string option" where
  "url_unescape [] = Some []"
| "url_unescape (c # s) =
     (if c = CHR ''%'' then
        (case s of
           a # b # t \<Rightarrow>
             (case (unhex a, unhex b) of
                (Some x, Some y) \<Rightarrow> map_option (Cons (char_of (16 * x + y))) (url_unescape t)
              | _ \<Rightarrow> None)
         | _ \<Rightarrow> None)
      else map_option (Cons c) (url_unescape s))"

section \<open>A request target at the server\<close>

text \<open>\<open>strings.Cut\<close>: what comes before the separator and what comes after it.\<close>

definition cut :: "char \<Rightarrow> string \<Rightarrow> string \<times> string" where
  "cut sep s = (let a = takeWhile (\<lambda>c. c \<noteq> sep) s in (a, drop (length a + 1) s))"

text \<open>
  The path the router matches: the decoded one, unless the text on the wire is not its default encoding; then the
  router sees the text on the wire. A path with a broken escape is refused before the router.
\<close>

definition route_path :: "string \<Rightarrow> string option" where
  "route_path p =
     map_option (\<lambda>path. if url_escape path_keeps path = p then path else p) (url_unescape p)"

definition query_unescape :: "string \<Rightarrow> string option" where
  "query_unescape s = url_unescape (map (\<lambda>c. if c = CHR ''+'' then CHR '' '' else c) s)"

definition query_pair :: "string \<Rightarrow> (string \<times> string) option" where
  "query_pair piece =
     (if piece = '''' \<or> CHR '';'' \<in> set piece then None
      else case cut (CHR ''='') piece of (k, v) \<Rightarrow>
        (case (query_unescape k, query_unescape v) of (Some k, Some v) \<Rightarrow> Some (k, v) | _ \<Rightarrow> None))"

definition query_Get :: "string \<Rightarrow> string \<Rightarrow> string" where
  "query_Get rawquery name =
     (case List.find (\<lambda>(k, _). k = name) (List.map_filter query_pair (strings_Split rawquery (CHR ''&''))) of
        None \<Rightarrow> '''' | Some (_, v) \<Rightarrow> v)"

section \<open>Decoding undoes escaping\<close>

lemma of_char_256: "(of_char c :: nat) < 256"
  by simp

lemma of_hex_upper: "i < 16 \<Longrightarrow> (of_char (hex_upper i) :: nat) = (if i < 10 then 48 + i else 55 + i)"
  by (simp add: hex_upper_def)

lemma hex_upper_cases: "i < 16 \<Longrightarrow> unhex (hex_upper i) = Some i"
  by (simp add: unhex_def of_hex_upper Let_def)

lemma unescape_escape_char: "url_unescape (escape_char c @ s) = map_option (Cons c) (url_unescape s)"
proof -
  have c: "(of_char c :: nat) < 256" by (rule of_char_256)
  have "(of_char c :: nat) div 16 < 16" "(of_char c :: nat) mod 16 < 16" using c by (simp_all only: less_mult_imp_div_less mod_less_divisor)
  moreover have "char_of (16 * (of_char c div 16) + of_char c mod 16 :: nat) = c"
    by (simp only: mult_div_mod_eq) simp
  ultimately show ?thesis by (simp add: escape_char_def hex_upper_cases)
qed

lemma unescape_escape: "\<not> keeps (CHR ''%'') \<Longrightarrow> url_unescape (url_escape keeps s @ t) = map_option ((@) s) (url_unescape t)"
proof (induction s)
  case Nil
  then show ?case by (cases "url_unescape t") (simp_all add: url_escape_def)
next
  case (Cons c s)
  have "url_unescape ((if keeps c then [c] else escape_char c) @ u) = map_option (Cons c) (url_unescape u)" for u
    using Cons.prems by (auto simp: unescape_escape_char)
  then show ?case using Cons by (simp add: url_escape_def option.map_comp comp_def)
qed

lemma escape_append: "url_escape keeps (a @ b) = url_escape keeps a @ url_escape keeps b"
  by (simp add: url_escape_def)

lemma escape_kept: "list_all keeps s \<Longrightarrow> url_escape keeps s = s"
  by (induction s) (simp_all add: url_escape_def)

lemma unescape_plain: "CHR ''%'' \<notin> set s \<Longrightarrow> url_unescape (s @ t) = map_option ((@) s) (url_unescape t)"
proof (induction s)
  case Nil
  then show ?case by (cases "url_unescape t") simp_all
next
  case (Cons c s)
  then have "c \<noteq> CHR ''%''" "url_unescape (s @ t) = map_option ((@) s) (url_unescape t)" by auto
  then show ?case by (cases "url_unescape t") simp_all
qed

text \<open>A segment without \<open>/\<close>, \<open>;\<close> and \<open>,\<close> is escaped the way the server would escape the decoded path.\<close>

definition plain_segment :: "string \<Rightarrow> bool" where
  "plain_segment s \<longleftrightarrow> s \<noteq> '''' \<and> CHR ''/'' \<notin> set s \<and> CHR '';'' \<notin> set s \<and> CHR '','' \<notin> set s"

lemma escape_cong: "(\<And>c. c \<in> set s \<Longrightarrow> p c = q c) \<Longrightarrow> url_escape p s = url_escape q s"
  unfolding url_escape_def by (rule arg_cong [where f = concat], rule map_cong) auto

lemma escape_plain_segment: "plain_segment s \<Longrightarrow> url_escape path_keeps s = url_PathEscape s"
  unfolding url_PathEscape_def
  by (rule escape_cong) (auto simp: plain_segment_def path_keeps_def segment_keeps_def)

lemma percent_not_kept: "\<not> segment_keeps (CHR ''%'')" "\<not> path_keeps (CHR ''%'')"
  by code_simp+

lemma kept_not_percent: "list_all path_keeps s \<Longrightarrow> CHR ''%'' \<notin> set s"
  using percent_not_kept by (auto simp: list_all_iff)

text \<open>The router sees a path with an escaped segment inside as the client meant it.\<close>

lemma route_path_segment:
  assumes "list_all path_keeps a" "plain_segment s" "list_all path_keeps b"
  shows "route_path (a @ url_PathEscape s @ b) = Some (a @ s @ b)"
proof -
  have "url_unescape (a @ url_PathEscape s @ b) = Some (a @ s @ b)"
    using unescape_plain [OF kept_not_percent [OF assms(1)]] unescape_plain [OF kept_not_percent [OF assms(3)], of "[]"]
    by (simp add: url_PathEscape_def unescape_escape percent_not_kept)
  then show ?thesis
    using assms by (simp add: route_path_def escape_append escape_kept escape_plain_segment)
qed

lemma route_path_plain: "list_all path_keeps a \<Longrightarrow> route_path a = Some a"
  using unescape_plain [OF kept_not_percent, of a "[]"] by (simp add: route_path_def escape_kept)

text \<open>An escaped segment holds no \<open>?\<close>, so cutting off the query leaves the path whole.\<close>

lemma hex_upper_not: "i < 16 \<Longrightarrow> hex_upper i \<noteq> CHR ''?''"
  using of_hex_upper [of i] by (auto split: if_splits)

lemma escaped_no_query: "CHR ''?'' \<notin> set (url_PathEscape s)"
proof -
  have no: "\<not> segment_keeps (CHR ''?'')" by code_simp
  have "CHR ''?'' \<notin> set (if segment_keeps c then [c] else escape_char c)" for c
  proof -
    have c: "(of_char c :: nat) < 256" by (rule of_char_256)
    have "(of_char c :: nat) div 16 < 16" "(of_char c :: nat) mod 16 < 16" using c by (simp_all only: less_mult_imp_div_less mod_less_divisor)
    from this [THEN hex_upper_not] show ?thesis using no by (auto simp: escape_char_def)
  qed
  then show ?thesis unfolding url_PathEscape_def url_escape_def set_concat set_map by blast
qed

lemma cut_at: "sep \<notin> set a \<Longrightarrow> cut sep (a @ sep # b) = (a, b)"
proof -
  assume "sep \<notin> set a"
  then have "takeWhile (\<lambda>c. c \<noteq> sep) (a @ sep # b) = a" by (subst takeWhile_append2) auto
  then show ?thesis by (simp add: cut_def)
qed

lemma cut_none: "sep \<notin> set a \<Longrightarrow> cut sep a = (a, '''')"
proof -
  assume "sep \<notin> set a"
  then have "takeWhile (\<lambda>c. c \<noteq> sep) a = a" by (auto simp: takeWhile_eq_all_conv)
  then show ?thesis by (simp only: cut_def Let_def) simp
qed

text \<open>A number written into the query is read back.\<close>

lemma digit_not:
  assumes "is_digit c" shows "c \<notin> set ''&;=+%-''"
  using assms by (auto simp: is_digit_def)

lemma query_Get_number:
  assumes "list_all is_digit v" "v \<noteq> ''''" "list_all unreserved k" "k \<noteq> ''''"
  shows "query_Get (k @ CHR ''='' # v) k = v"
proof -
  have u: "c \<notin> set ''&;=+%''" if "unreserved c" for c
    using that by (auto simp: unreserved_def)
  have k: "c \<notin> set ''&;=+%''" if "c \<in> set k" for c using assms(3) that u by (auto simp: list_all_iff)
  have v: "c \<notin> set ''&;=+%''" if "c \<in> set v" for c using assms(1) that digit_not by (fastforce simp: list_all_iff)
  have same: "query_unescape s = Some s" if "\<And>c. c \<in> set s \<Longrightarrow> c \<notin> set ''&;=+%''" for s
  proof -
    have "map (\<lambda>c. if c = CHR ''+'' then CHR '' '' else c) s = s" using that by (intro map_idI) auto
    moreover have "CHR ''%'' \<notin> set s" using that by auto
    ultimately show ?thesis using unescape_plain [of s "[]"] by (simp add: query_unescape_def)
  qed
  have "cut (CHR ''='') (k @ CHR ''='' # v) = (k, v)" using k by (intro cut_at) auto
  moreover have "CHR '';'' \<notin> set (k @ CHR ''='' # v)" using k v by auto
  ultimately have "query_pair (k @ CHR ''='' # v) = Some (k, v)"
    using assms(4) same [OF k] same [OF v] by (simp add: query_pair_def)
  moreover have "strings_Split (k @ CHR ''='' # v) (CHR ''&'') = [k @ CHR ''='' # v]"
    using k v by (intro strings_Split_single) auto
  ultimately show ?thesis by (simp add: query_Get_def map_filter_simps)
qed

end
