(* ===== verification/ApiClient.thy ===== *)
theory ApiClient imports Server Url begin

text \<open>
  \<open>internal/apicli/client.go\<close>: the HTTP client behind the command line.

  The HTTP exchange acts on an opaque state \<open>'s\<close> (\<open>http_client\<close>): what \<open>http.NewRequest\<close> refuses, what \<open>Do\<close>
  answers (a status, and the body or the error of reading it), the clock and \<open>time.After\<close>. The JSON decoder of the
  client is a parameter too (\<open>api_json\<close>). A call whose response has no content leaves its result at the zero value;
  that is \<open>None\<close>. All callers pass the background context, which is never done.
\<close>

section \<open>The client\<close>

record api_client =
  ac_base :: string
  ac_key :: string

record api_options =
  ao_url :: string
  ao_key :: string
  ao_config :: string

definition strings_TrimRight :: "string \<Rightarrow> char \<Rightarrow> string" where
  "strings_TrimRight s c = rev (dropWhile (\<lambda>x. x = c) (rev s))"

definition DefaultConfigPath :: string where
  "DefaultConfigPath = ''/etc/goincus/config.yaml''"

text \<open>\<open>yaml_keys\<close> is what the YAML decoder reads at \<open>auth.api_keys\<close>.\<close>

definition usable_key :: "string \<Rightarrow> bool" where
  "usable_key k \<longleftrightarrow> k \<noteq> '''' \<and> \<not> strings_HasPrefix k ''REPLACE_''"

definition apiKeyFromConfig ::
    "(string \<Rightarrow> error + string) \<Rightarrow> (string \<Rightarrow> error + string list) \<Rightarrow> string \<Rightarrow> error + string" where
  "apiKeyFromConfig readFile yaml_keys path =
     (case readFile path of
        Inl e \<Rightarrow> Inl e
      | Inr data \<Rightarrow>
          (case yaml_keys data of
             Inl e \<Rightarrow> Inl e
           | Inr keys \<Rightarrow>
               (case List.find usable_key (map strings_TrimSpace keys) of
                  None \<Rightarrow> Inl (ErrText (''no api_keys in '' @ path))
                | Some k \<Rightarrow> Inr k)))"

text \<open>The first of the texts that is not blank, trimmed, or the last resort.\<close>

definition first_set :: "string list \<Rightarrow> string \<Rightarrow> string" where
  "first_set texts dflt =
     (case List.find (\<lambda>t. t \<noteq> '''') (map strings_TrimSpace texts) of None \<Rightarrow> dflt | Some t \<Rightarrow> t)"

definition api_New ::
    "(string \<Rightarrow> string) \<Rightarrow> (string \<Rightarrow> error + string) \<Rightarrow> (string \<Rightarrow> error + string list) \<Rightarrow> api_options \<Rightarrow>
     error + api_client" where
  "api_New getenv readFile yaml_keys opts =
     (let base = strings_TrimRight (first_set [ao_url opts, getenv ''GOINCUS_URL''] ''http://127.0.0.1:9603'') (CHR ''/'');
          cfgPath = first_set [ao_config opts, getenv ''GOINCUS_CONFIG''] DefaultConfigPath;
          given = first_set [ao_key opts, getenv ''GOINCUS_API_KEY''] '''';
          key = (if given = '''' then (case apiKeyFromConfig readFile yaml_keys cfgPath of Inl _ \<Rightarrow> '''' | Inr k \<Rightarrow> k)
                 else given) in
      if key = ''''
      then Inl (ErrText (''API key required: pass -key, set GOINCUS_API_KEY, or use '' @ cfgPath))
      else Inr \<lparr>ac_base = base, ac_key = key\<rparr>)"

section \<open>One exchange\<close>

record api_request =
  ar_method :: string
  ar_url :: string
  ar_headers :: "(string \<times> string) list"
  ar_body :: "string option"

record 's http_client =
  hc_NewRequest :: "string \<Rightarrow> string \<Rightarrow> error option"
  hc_Do :: "api_request \<Rightarrow> ('s, nat \<times> (error + string)) prog"
  hc_Now :: "'s \<Rightarrow> time \<times> 's"
  hc_After :: "int \<Rightarrow> 's \<Rightarrow> 's"

record api_json =
  aj_create :: "create_request \<Rightarrow> error + string"
  aj_reset :: "reset_password_request \<Rightarrow> error + string"
  aj_update_port :: "update_port_request \<Rightarrow> error + string"
  aj_error :: "string \<Rightarrow> string option"
  aj_health :: "string \<Rightarrow> error + health_response"
  aj_instances :: "string \<Rightarrow> error + inst list"
  aj_instance :: "string \<Rightarrow> error + inst"
  aj_resources :: "string \<Rightarrow> error + instance_resources_response"
  aj_usage :: "string \<Rightarrow> error + usage_chart_response"
  aj_metrics :: "string \<Rightarrow> error + metrics_chart_response"
  aj_host_stats :: "string \<Rightarrow> error + host_stats_response"
  aj_port :: "string \<Rightarrow> error + port_mapping"

definition max_reply :: nat where
  "max_reply = 4194304"

definition request_headers :: "api_client \<Rightarrow> bool \<Rightarrow> bool \<Rightarrow> (string \<times> string) list" where
  "request_headers c with_body auth =
     [(''Accept'', ''application/json'')]
     @ (if with_body then [(''Content-Type'', ''application/json'')] else [])
     @ (if auth then [(''Authorization'', ''Bearer '' @ ac_key c)] else [])"

text \<open>What the client makes of a response whose body was read.\<close>

definition read_reply ::
    "api_json \<Rightarrow> string \<Rightarrow> string \<Rightarrow> (string \<Rightarrow> error + 'a) \<Rightarrow> nat \<Rightarrow> string \<Rightarrow> error + 'a option" where
  "read_reply J m path decode status body =
     (let raw_body = take max_reply body; head = ''HTTP '' @ nat_str status in
      if status = 204 \<or> raw_body = '''' then
        (if 200 \<le> status \<and> status < 300 then Inr None else Inl (ErrText (head @ '' '' @ m @ '' '' @ path)))
      else if 300 \<le> status then
        Inl (ErrText
          (case aj_error J raw_body of
             Some msg \<Rightarrow>
               if msg \<noteq> '''' then head @ '': '' @ msg
               else head @ '' '' @ m @ '' '' @ path @ '': '' @ strings_TrimSpace raw_body
           | None \<Rightarrow> head @ '' '' @ m @ '' '' @ path @ '': '' @ strings_TrimSpace raw_body))
      else (case decode raw_body of Inl e \<Rightarrow> Inl (ErrWrap ''decode response: '' e '''') | Inr x \<Rightarrow> Inr (Some x)))"

definition api_do ::
    "'s http_client \<Rightarrow> api_json \<Rightarrow> api_client \<Rightarrow> string \<Rightarrow> string \<Rightarrow> (error + string) option \<Rightarrow> (string \<Rightarrow> error + 'a) \<Rightarrow>
     bool \<Rightarrow> ('s, 'a option) prog" where
  "api_do H J c m path body decode auth =
     (case body of
        Some (Inl e) \<Rightarrow> throw e
      | _ \<Rightarrow>
        let text = (case body of Some (Inr b) \<Rightarrow> Some b | _ \<Rightarrow> None) in
        case hc_NewRequest H m (ac_base c @ path) of
          Some e \<Rightarrow> throw e
        | None \<Rightarrow>
            andThen (hc_Do H \<lparr>ar_method = m, ar_url = ac_base c @ path,
                ar_headers = request_headers c (text \<noteq> None) auth, ar_body = text\<rparr>) (\<lambda>(status, reading).
            case reading of
              Inl e \<Rightarrow> throw e
            | Inr whole \<Rightarrow>
                (case read_reply J m path decode status whole of Inl e \<Rightarrow> throw e | Inr x \<Rightarrow> ret x)))"

section \<open>The calls\<close>

definition instances_path :: string where
  "instances_path = ''/api/v1/instances/''"

definition api_Health :: "'s http_client \<Rightarrow> api_json \<Rightarrow> api_client \<Rightarrow> ('s, health_response option) prog" where
  "api_Health H J c = api_do H J c ''GET'' ''/healthz'' None (aj_health J) False"

definition api_ListInstances :: "'s http_client \<Rightarrow> api_json \<Rightarrow> api_client \<Rightarrow> ('s, inst list) prog" where
  "api_ListInstances H J c =
     andThen (api_do H J c ''GET'' instances_path None (aj_instances J) True) (\<lambda>out.
     ret (case out of None \<Rightarrow> [] | Some list \<Rightarrow> list))"

definition api_GetInstance :: "'s http_client \<Rightarrow> api_json \<Rightarrow> api_client \<Rightarrow> string \<Rightarrow> ('s, inst option) prog" where
  "api_GetInstance H J c idOrName =
     api_do H J c ''GET'' (instances_path @ url_PathEscape idOrName) None (aj_instance J) True"

definition api_GetInstanceResources ::
    "'s http_client \<Rightarrow> api_json \<Rightarrow> api_client \<Rightarrow> string \<Rightarrow> ('s, instance_resources_response option) prog" where
  "api_GetInstanceResources H J c idOrName =
     api_do H J c ''GET'' (instances_path @ url_PathEscape idOrName @ ''/resources'') None (aj_resources J) True"

text \<open>\<open>?days=N\<close> or \<open>?hours=N\<close>, when the number is positive.\<close>

definition count_query :: "string \<Rightarrow> int \<Rightarrow> string" where
  "count_query name n = (if 0 < n then CHR ''?'' # name @ CHR ''='' # itoa n else '''')"

definition api_GetInstanceUsage ::
    "'s http_client \<Rightarrow> api_json \<Rightarrow> api_client \<Rightarrow> string \<Rightarrow> int \<Rightarrow> ('s, usage_chart_response option) prog" where
  "api_GetInstanceUsage H J c idOrName days =
     api_do H J c ''GET'' (instances_path @ url_PathEscape idOrName @ ''/usage'' @ count_query ''days'' days)
       None (aj_usage J) True"

definition metrics_path :: "string \<Rightarrow> string" where
  "metrics_path idOrName =
     (if strings_TrimSpace idOrName = '''' then ''/api/v1/metrics''
      else instances_path @ url_PathEscape idOrName @ ''/metrics'')"

definition api_GetMetrics ::
    "'s http_client \<Rightarrow> api_json \<Rightarrow> api_client \<Rightarrow> string \<Rightarrow> int \<Rightarrow> ('s, metrics_chart_response option) prog" where
  "api_GetMetrics H J c idOrName hours =
     api_do H J c ''GET'' (metrics_path idOrName @ count_query ''hours'' hours) None (aj_metrics J) True"

definition api_GetHostStats :: "'s http_client \<Rightarrow> api_json \<Rightarrow> api_client \<Rightarrow> ('s, host_stats_response option) prog" where
  "api_GetHostStats H J c = api_do H J c ''GET'' ''/api/v1/hoststats'' None (aj_host_stats J) True"

definition api_CreateInstance ::
    "'s http_client \<Rightarrow> api_json \<Rightarrow> api_client \<Rightarrow> create_request \<Rightarrow> ('s, inst option) prog" where
  "api_CreateInstance H J c req =
     api_do H J c ''POST'' instances_path (Some (aj_create J req)) (aj_instance J) True"

definition api_DeleteInstance :: "'s http_client \<Rightarrow> api_json \<Rightarrow> api_client \<Rightarrow> string \<Rightarrow> ('s, unit) prog" where
  "api_DeleteInstance H J c idOrName =
     andThen (api_do H J c ''DELETE'' (instances_path @ url_PathEscape idOrName) None (\<lambda>_. Inr ()) True) (\<lambda>_. ret ())"

definition api_action ::
    "'s http_client \<Rightarrow> api_json \<Rightarrow> api_client \<Rightarrow> string \<Rightarrow> string \<Rightarrow> ('s, inst option) prog" where
  "api_action H J c idOrName action =
     api_do H J c ''POST'' (instances_path @ url_PathEscape idOrName @ CHR ''/'' # action) None (aj_instance J) True"

definition api_StartInstance :: "'s http_client \<Rightarrow> api_json \<Rightarrow> api_client \<Rightarrow> string \<Rightarrow> ('s, inst option) prog" where
  "api_StartInstance H J c idOrName = api_action H J c idOrName ''start''"

definition api_StopInstance :: "'s http_client \<Rightarrow> api_json \<Rightarrow> api_client \<Rightarrow> string \<Rightarrow> ('s, inst option) prog" where
  "api_StopInstance H J c idOrName = api_action H J c idOrName ''stop''"

definition api_RestartInstance :: "'s http_client \<Rightarrow> api_json \<Rightarrow> api_client \<Rightarrow> string \<Rightarrow> ('s, inst option) prog" where
  "api_RestartInstance H J c idOrName = api_action H J c idOrName ''restart''"

definition api_RepairInstance :: "'s http_client \<Rightarrow> api_json \<Rightarrow> api_client \<Rightarrow> string \<Rightarrow> ('s, inst option) prog" where
  "api_RepairInstance H J c idOrName = api_action H J c idOrName ''repair''"

definition api_ResetPassword ::
    "'s http_client \<Rightarrow> api_json \<Rightarrow> api_client \<Rightarrow> string \<Rightarrow> reset_password_request \<Rightarrow> ('s, inst option) prog" where
  "api_ResetPassword H J c idOrName req =
     api_do H J c ''POST'' (instances_path @ url_PathEscape idOrName @ ''/reset-password'') (Some (aj_reset J req))
       (aj_instance J) True"

definition api_UpdatePort ::
    "'s http_client \<Rightarrow> api_json \<Rightarrow> api_client \<Rightarrow> string \<Rightarrow> string \<Rightarrow> update_port_request \<Rightarrow> ('s, port_mapping option) prog" where
  "api_UpdatePort H J c idOrName portID req =
     api_do H J c ''PATCH'' (instances_path @ url_PathEscape idOrName @ ''/ports/'' @ url_PathEscape portID)
       (Some (aj_update_port J req)) (aj_port J) True"

section \<open>Waiting for a new instance\<close>

text \<open>
  The answer of \<open>GetInstance\<close> is a pointer to an instance, at its zero value when the response had no content.
  \<open>WaitRunning\<close> returns the last instance it saw, if any, together with its error, if any.
\<close>

definition ports_of :: "inst option \<Rightarrow> port_mapping list" where
  "ports_of i = (case i of None \<Rightarrow> [] | Some x \<Rightarrow> i_ports x)"

definition status_of :: "inst option \<Rightarrow> string" where
  "status_of i = (case i of None \<Rightarrow> '''' | Some x \<Rightarrow> status_text (i_status x))"

type_synonym waited = "inst option option \<times> error option"

text \<open>The switch on the status: what to return, or nothing when the loop goes on.\<close>

definition wait_verdict :: "inst option \<Rightarrow> error option option" where
  "wait_verdict got =
     (case got of
        None \<Rightarrow> None
      | Some i \<Rightarrow>
          if i_status i = StatusRunning \<and> i_ports i \<noteq> [] then Some None
          else if i_status i = StatusError then
            Some (Some (ErrText (''instance '' @ i_name i @ '' failed: '' @ (if i_error i = '''' then ''error'' else i_error i))))
          else None)"

definition wait_timeout :: "string \<Rightarrow> inst option option \<Rightarrow> error" where
  "wait_timeout idOrName last_seen =
     ErrText (''timeout waiting for '' @ idOrName @
       (case last_seen of
          None \<Rightarrow> ''''
        | Some i \<Rightarrow> '' (status='' @ status_of i @ '' ports='' @ nat_str (length (ports_of i)) @ '')''))"

partial_function (option) wait_running_loop ::
    "'s http_client \<Rightarrow> api_json \<Rightarrow> api_client \<Rightarrow> string \<Rightarrow> int \<Rightarrow> inst option option \<Rightarrow> 's \<Rightarrow> (waited \<times> 's) option" where
  "wait_running_loop H J c idOrName deadline last_seen s =
     (case hc_Now H s of (now, s) \<Rightarrow>
        if now < deadline then
          (case api_GetInstance H J c idOrName s of (r, s) \<Rightarrow>
             case r of
               Inl e \<Rightarrow> Some ((None, Some e), s)
             | Inr got \<Rightarrow>
                 (case wait_verdict got of
                    Some res \<Rightarrow> Some ((Some got, res), s)
                  | None \<Rightarrow> wait_running_loop H J c idOrName deadline (Some got) (hc_After H 2000000000 s)))
        else Some ((last_seen, Some (wait_timeout idOrName last_seen)), s))"

declare wait_running_loop.simps [code]

definition api_WaitRunning ::
    "'s http_client \<Rightarrow> api_json \<Rightarrow> api_client \<Rightarrow> string \<Rightarrow> int \<Rightarrow> 's \<Rightarrow> (waited \<times> 's) option" where
  "api_WaitRunning H J c idOrName timeout s =
     (case hc_Now H s of (now, s) \<Rightarrow> wait_running_loop H J c idOrName (now + timeout) None s)"

section \<open>Ports of an instance\<close>

definition api_SSHPort :: "inst option \<Rightarrow> int" where
  "api_SSHPort i =
     (case ports_of i of [] \<Rightarrow> 0 | p # ps \<Rightarrow> foldl (\<lambda>m q. if p_host q < m then p_host q else m) (p_host p) ps)"

definition port_bounds :: "port_mapping \<Rightarrow> port_mapping list \<Rightarrow> int \<times> int" where
  "port_bounds p ps =
     foldl (\<lambda>(lo, hi) q. (if p_host q < lo then p_host q else lo, if p_host q > hi then p_host q else hi))
       (p_host p, p_host p) ps"

definition api_PortRange :: "inst option \<Rightarrow> string" where
  "api_PortRange i =
     (case ports_of i of
        [] \<Rightarrow> ''-''
      | p # ps \<Rightarrow> (case port_bounds p ps of (lo, hi) \<Rightarrow> if lo = hi then itoa lo else itoa lo @ CHR ''-'' # itoa hi))"


section \<open>Waiting ends\<close>

definition clock_moves :: "'s http_client \<Rightarrow> ('s \<Rightarrow> int) \<Rightarrow> bool" where
  "clock_moves H t \<longleftrightarrow>
     (\<forall>s. fst (hc_Now H s) = t s \<and> t s \<le> t (snd (hc_Now H s)))
   \<and> (\<forall>rq s. t s \<le> t (snd (hc_Do H rq s)))
   \<and> (\<forall>ns s. t s + ns \<le> t (hc_After H ns s))"

lemma snd_throw [simp]: "snd (throw e s) = s" and snd_ret [simp]: "snd (ret x s) = s"
  by (simp_all add: throw_def ret_def)

lemma api_do_time:
  assumes "clock_moves H t"
  shows "t s \<le> t (snd (api_do H J c m path body decode auth s))"
proof -
  have "t s \<le> t (snd (hc_Do H rq s))" for rq using assms by (simp add: clock_moves_def)
  then show ?thesis
    by (auto simp: api_do_def andThen_def Let_def split_beta split: option.split sum.split)
qed

text \<open>How a wait that is over can have ended.\<close>

definition wait_ended ::
    "'s http_client \<Rightarrow> api_json \<Rightarrow> api_client \<Rightarrow> string \<Rightarrow> ('s \<Rightarrow> int) \<Rightarrow> int \<Rightarrow> waited \<Rightarrow> 's \<Rightarrow> bool" where
  "wait_ended H J c idOrName t deadline res s' \<longleftrightarrow>
     (\<exists>i s. res = (Some (Some i), None) \<and> api_GetInstance H J c idOrName s = (Inr (Some i), s')
        \<and> i_status i = StatusRunning \<and> i_ports i \<noteq> [])
   \<or> (\<exists>i e s. res = (Some (Some i), Some e) \<and> api_GetInstance H J c idOrName s = (Inr (Some i), s')
        \<and> i_status i = StatusError)
   \<or> (\<exists>e s. res = (None, Some e) \<and> api_GetInstance H J c idOrName s = (Inl e, s'))
   \<or> (\<exists>got. res = (got, Some (wait_timeout idOrName got)) \<and> deadline \<le> t s')"

lemma wait_verdict_ended:
  assumes "wait_verdict got = Some res" "api_GetInstance H J c idOrName s = (Inr got, s')"
  shows "wait_ended H J c idOrName t deadline (Some got, res) s'"
  using assms by (auto simp: wait_verdict_def wait_ended_def split: option.splits if_splits)

lemma wait_running_loop_ends:
  assumes "clock_moves H t"
  shows "\<exists>res s'. wait_running_loop H J c idOrName deadline last_seen s = Some (res, s')
    \<and> wait_ended H J c idOrName t deadline res s'"
proof (induction "nat (deadline - t s)" arbitrary: s last_seen rule: less_induct)
  case less
  obtain now s1 where now: "hc_Now H s = (now, s1)" by fastforce
  then have 1: "now = t s" "t s \<le> t s1" using assms unfolding clock_moves_def by (metis fst_conv snd_conv)+
  show ?case
  proof (cases "now < deadline")
    case False
    then have "wait_ended H J c idOrName t deadline (last_seen, Some (wait_timeout idOrName last_seen)) s1"
      using 1 by (auto simp: wait_ended_def)
    then show ?thesis using now False by (subst wait_running_loop.simps) simp
  next
    case True
    obtain r s2 where r: "api_GetInstance H J c idOrName s1 = (r, s2)" by fastforce
    show ?thesis
    proof (cases r)
      case (Inl e)
      then show ?thesis using now True r by (subst wait_running_loop.simps) (auto simp: wait_ended_def)
    next
      case (Inr got)
      show ?thesis
      proof (cases "wait_verdict got")
        case (Some res)
        with wait_verdict_ended [OF Some, of H J c idOrName s1 s2 t deadline] show ?thesis
          using now True r Inr by (subst wait_running_loop.simps) simp
      next
        case None
        have "t s1 \<le> t s2" using api_do_time [OF assms] r unfolding api_GetInstance_def by (metis snd_conv)
        moreover have "t s2 + 2000000000 \<le> t (hc_After H 2000000000 s2)" using assms by (simp add: clock_moves_def)
        ultimately have "nat (deadline - t (hc_After H 2000000000 s2)) < nat (deadline - t s)" using 1 True by simp
        from less.hyps [OF this] show ?thesis using now True r Inr None by (subst wait_running_loop.simps) simp
      qed
    qed
  qed
qed

text \<open>C20. With a clock that moves, waiting for a new instance ends: without an error only when the server has just
reported it running with at least one port; otherwise the server reported an error or failed to answer, or the whole
time has passed, and then the error names what was last seen.\<close>

theorem WaitRunning_ends:
  assumes "clock_moves H t"
  shows "\<exists>res s'. api_WaitRunning H J c idOrName timeout s = Some (res, s')
    \<and> wait_ended H J c idOrName t (t s + timeout) res s'"
proof -
  obtain now s1 where "hc_Now H s = (now, s1)" "now = t s"
    using assms unfolding clock_moves_def by (metis prod.collapse)
  then show ?thesis
    using wait_running_loop_ends [OF assms, of J c idOrName "t s + timeout" None s1] by (simp add: api_WaitRunning_def)
qed

text \<open>A server that answers every request with an empty body after a second.\<close>

definition slow_server :: "int http_client" where
  "slow_server = \<lparr>hc_NewRequest = (\<lambda>_ _. None), hc_Do = (\<lambda>_ s. (Inr (200, Inr ''''), s + 1000000000)),
     hc_Now = (\<lambda>s. (s, s)), hc_After = (\<lambda>ns s. s + ns)\<rparr>"

theorem WaitRunning_ends_witness:
  "\<forall>J c. \<exists>res s'. api_WaitRunning slow_server J c ''web'' 600000000000 0 = Some (res, s')
    \<and> wait_ended slow_server J c ''web'' id 600000000000 res s'"
  using WaitRunning_ends [of slow_server id _ _ "''web''" 600000000000 0]
  by (simp add: clock_moves_def slow_server_def)

section \<open>The ports the client shows\<close>

lemma foldl_min_port: "foldl (\<lambda>m q. if p_host q < m then p_host q else m) x ps = fold min (map p_host ps) x"
  by (induction ps arbitrary: x) (simp_all add: min_def)

lemma api_SSHPort_Min: "ps \<noteq> [] \<Longrightarrow> i_ports i = ps \<Longrightarrow> api_SSHPort (Some i) = Min (p_host ` set ps)"
  by (cases ps) (simp_all add: api_SSHPort_def ports_of_def foldl_min_port Min.set_eq_fold [symmetric])

end
