(* ===== verification/Format.thy ===== *)
theory Format imports Models begin

text \<open>
  How \<open>cmd/goincus/cli.go\<close> writes numbers: bytes, cores, bandwidth and traffic, over Go's \<open>%.2f\<close>, \<open>%g\<close> and
  \<open>%.2g\<close>. A \<open>float64\<close> is an exact rational; rounding to two places is to the nearest, ties to even, as
  \<open>strconv\<close> does it.
\<close>

section \<open>Go's number formats\<close>

definition round_half_even :: "rat \<Rightarrow> int" where
  "round_half_even x =
     (let f = floor x; d = x - of_int f in
      if d < 1 / 2 then f else if d > 1 / 2 then f + 1 else if even f then f else f + 1)"

text \<open>\<open>%.pf\<close>\<close>

definition pad_zeros :: "nat \<Rightarrow> string \<Rightarrow> string" where
  "pad_zeros n s = replicate (n - length s) (CHR ''0'') @ s"

definition fmt_fixed :: "nat \<Rightarrow> rat \<Rightarrow> string" where
  "fmt_fixed p x =
     (let m = nat (round_half_even (\<bar>x\<bar> * 10 ^ p));
          whole = nat_str (m div 10 ^ p);
          text = (if p = 0 then whole else whole @ CHR ''.'' # pad_zeros p (nat_str (m mod 10 ^ p))) in
      if x < 0 then CHR ''-'' # text else text)"

text \<open>The exponent form: digits \<open>d.ddd\<close>, and at least two digits of exponent (never negative here).\<close>

definition fmt_exp :: "string \<Rightarrow> nat \<Rightarrow> string" where
  "fmt_exp digits e = hd digits # (if tl digits = [] then [] else CHR ''.'' # tl digits) @ ''e+'' @ pad_zeros 2 (nat_str e)"

definition strip_zeros :: "string \<Rightarrow> string" where
  "strip_zeros s = rev (dropWhile (\<lambda>c. c = CHR ''0'') (rev s))"

text \<open>\<open>%g\<close> of a whole number: from a million on in exponent form.\<close>

definition fmt_g_int :: "int \<Rightarrow> string" where
  "fmt_g_int n =
     (if \<bar>n\<bar> < 1000000 then itoa n
      else let ds = nat_str (nat \<bar>n\<bar>) in
        (if n < 0 then ''-'' else '''') @ fmt_exp (strip_zeros ds) (length ds - 1))"

text \<open>
  The decimal exponent of a positive number: \<open>10 ^ e \<le> x < 10 ^ (e + 1)\<close>. No \<open>float64\<close> is below \<open>10 ^ -330\<close>.
\<close>

definition dec_exp :: "rat \<Rightarrow> int" where
  "dec_exp x =
     (if 1 \<le> x then int (length (nat_str (nat (floor x)))) - 1
      else (case List.find (\<lambda>k. 1 \<le> x * 10 ^ k) [1..<330] of None \<Rightarrow> -330 | Some k \<Rightarrow> - int k))"

definition scale10 :: "rat \<Rightarrow> int \<Rightarrow> rat" where
  "scale10 x e = (if 0 \<le> e then x * 10 ^ nat e else x / 10 ^ nat (- e))"

text \<open>
  \<open>%.2g\<close> of a positive number: two significant digits, trailing zeros dropped. Below \<open>10 ^ -4\<close> the exponent is
  negative.
\<close>

definition fmt_2g :: "rat \<Rightarrow> string" where
  "fmt_2g x =
     (let e0 = dec_exp x;
          m0 = round_half_even (scale10 x (1 - e0));
          e = (if m0 = 100 then e0 + 1 else e0);
          m = (if m0 = 100 then 10 else nat m0);
          digits = strip_zeros (nat_str m);
          eprec = (if length digits < 2 \<and> e + 1 \<le> int (length digits) then int (length digits) else 2) in
      if e < -4 then
        hd digits # (if tl digits = [] then [] else CHR ''.'' # tl digits) @ ''e-'' @ pad_zeros 2 (nat_str (nat (- e)))
      else if eprec \<le> e then fmt_exp digits (nat e)
      else fmt_fixed (nat (max (int (length digits) - (e + 1)) 0)) (scale10 (of_nat m) (e - 1)))"

section \<open>The formats of the command line\<close>

definition formatCPU :: "rat \<Rightarrow> string" where
  "formatCPU v =
     (if v = of_int (floor v) then fmt_g_int (floor v)
      else if v < 0 then CHR ''-'' # fmt_2g (- v) else fmt_2g v)"

definition formatBandwidth :: "int \<Rightarrow> string" where
  "formatBandwidth mbps = (if mbps \<le> 0 then ''unlimited'' else itoa mbps @ ''Mbit'')"

fun format_units :: "rat \<Rightarrow> string list \<Rightarrow> string" where
  "format_units v [] = fmt_fixed 2 (v / 1024) @ ''TiB''"
| "format_units v (u # us) = (let v = v / 1024 in if v < 1024 then fmt_fixed 2 v @ u else format_units v us)"

definition formatBytes :: "int64 \<Rightarrow> string" where
  "formatBytes n =
     (if sint n < 1024 then itoa (sint n) @ ''B''
      else format_units (of_int (sint n)) [''KiB'', ''MiB'', ''GiB'', ''TiB''])"

definition traffic_text :: "int64 \<Rightarrow> int \<Rightarrow> bool \<Rightarrow> string" where
  "traffic_text used limit_gb throttled =
     fmt_fixed 2 (of_int (sint used) / 1073741824) @ CHR ''/'' #
     (if limit_gb \<le> 0 then infinity_sign else itoa limit_gb) @ '' GiB'' @ (if throttled then '' throttled'' else '''')"

definition shortID :: "string \<Rightarrow> string" where
  "shortID s = (if length s > 8 then take 8 s else s)"

section \<open>What the texts say\<close>

lemma round_half_even_near: "\<bar>of_int (round_half_even x) - x\<bar> \<le> 1 / 2"
proof -
  have "of_int (floor x) \<le> x" "x < of_int (floor x) + 1" by linarith+
  then show ?thesis by (simp add: round_half_even_def Let_def abs_le_iff not_less)
qed

definition unit_bytes :: "string \<Rightarrow> int" where
  "unit_bytes u = (if u = ''KiB'' then 2 ^ 10 else if u = ''MiB'' then 2 ^ 20 else if u = ''GiB'' then 2 ^ 30
     else if u = ''TiB'' then 2 ^ 40 else 1)"

lemma format_units_steps:
  fixes x :: rat
  shows "x < 2 ^ 20 \<Longrightarrow> format_units x [''KiB'', ''MiB'', ''GiB'', ''TiB''] = fmt_fixed 2 (x / 2 ^ 10) @ ''KiB''"
    "2 ^ 20 \<le> x \<Longrightarrow> x < 2 ^ 30 \<Longrightarrow> format_units x [''KiB'', ''MiB'', ''GiB'', ''TiB''] = fmt_fixed 2 (x / 2 ^ 20) @ ''MiB''"
    "2 ^ 30 \<le> x \<Longrightarrow> x < 2 ^ 40 \<Longrightarrow> format_units x [''KiB'', ''MiB'', ''GiB'', ''TiB''] = fmt_fixed 2 (x / 2 ^ 30) @ ''GiB''"
    "2 ^ 40 \<le> x \<Longrightarrow> x < 2 ^ 50 \<Longrightarrow> format_units x [''KiB'', ''MiB'', ''GiB'', ''TiB''] = fmt_fixed 2 (x / 2 ^ 40) @ ''TiB''"
    "2 ^ 50 \<le> x \<Longrightarrow> format_units x [''KiB'', ''MiB'', ''GiB'', ''TiB''] = fmt_fixed 2 (x / 2 ^ 50) @ ''TiB''"
  by (simp_all add: Let_def not_less divide_less_eq)

lemma format_units_shows:
  assumes "1024 \<le> x" "x < 2 ^ 50"
  shows "\<exists>u v. format_units (of_int x) [''KiB'', ''MiB'', ''GiB'', ''TiB''] = fmt_fixed 2 v @ u
    \<and> v * of_int (unit_bytes u) = of_int x \<and> 1 \<le> v \<and> v < 1024 \<and> u \<in> {''KiB'', ''MiB'', ''GiB'', ''TiB''}"
proof -
  have shown: ?thesis
    if "u \<in> {''KiB'', ''MiB'', ''GiB'', ''TiB''}" "unit_bytes u = b" "0 < b" "b \<le> x" "x < 1024 * b"
      "format_units (of_int x) [''KiB'', ''MiB'', ''GiB'', ''TiB''] = fmt_fixed 2 (of_int x / of_int b) @ u" for u b
  proof (intro exI conjI)
    show "format_units (of_int x) [''KiB'', ''MiB'', ''GiB'', ''TiB''] = fmt_fixed 2 (of_int x / of_int b) @ u" by fact
    have "of_int b \<le> (of_int x :: rat)" "(of_int x :: rat) < of_int (1024 * b)" using that(4,5) by (simp_all only: of_int_le_iff of_int_less_iff)
    then show "1 \<le> (of_int x / of_int b :: rat)" "(of_int x / of_int b :: rat) < 1024" using that(3) by (simp_all add: field_simps)
  qed (use that in simp_all)
  have le: "((2::rat) ^ k \<le> of_int x) = (2 ^ k \<le> x)" "(of_int x < (2::rat) ^ k) = (x < 2 ^ k)" for k
    by (metis of_int_le_iff of_int_numeral of_int_power) (metis of_int_less_iff of_int_numeral of_int_power)
  consider "x < 2 ^ 20" | "2 ^ 20 \<le> x" "x < 2 ^ 30" | "2 ^ 30 \<le> x" "x < 2 ^ 40" | "2 ^ 40 \<le> x" by linarith
  then show ?thesis
  proof cases
    case 1
    show ?thesis by (rule shown [of "''KiB''" "2 ^ 10"]) (use 1 assms in \<open>simp_all add: format_units_steps le unit_bytes_def\<close>)
  next
    case 2
    show ?thesis by (rule shown [of "''MiB''" "2 ^ 20"]) (use 2 in \<open>simp_all add: format_units_steps le unit_bytes_def\<close>)
  next
    case 3
    show ?thesis by (rule shown [of "''GiB''" "2 ^ 30"]) (use 3 in \<open>simp_all add: format_units_steps le unit_bytes_def\<close>)
  next
    case 4
    show ?thesis by (rule shown [of "''TiB''" "2 ^ 40"]) (use 4 assms in \<open>simp_all add: format_units_steps le unit_bytes_def\<close>)
  qed
qed

text \<open>C38. Below one PiB a number of bytes is shown in the largest unit that leaves at least one, to two places; from
one PiB on the last division has no unit of its own, and the text is the number divided by \<open>1024\<close> too often:
two PiB read as two TiB.\<close>

theorem formatBytes_shows:
  "(sint n < 1024 \<longrightarrow> formatBytes n = itoa (sint n) @ ''B'')
   \<and> (1024 \<le> sint n \<and> sint n < 2 ^ 50 \<longrightarrow>
       (\<exists>u v. formatBytes n = fmt_fixed 2 v @ u \<and> v * of_int (unit_bytes u) = of_int (sint n) \<and> 1 \<le> v \<and> v < 1024
          \<and> u \<in> {''KiB'', ''MiB'', ''GiB'', ''TiB''}))
   \<and> (2 ^ 50 \<le> sint n \<longrightarrow> formatBytes n = fmt_fixed 2 (of_int (sint n) / 2 ^ 50) @ ''TiB'')"
proof -
  have "of_int (2 ^ 50) \<le> (of_int (sint n) :: rat)" if "2 ^ 50 \<le> sint n"
    using that by (simp only: of_int_le_iff)
  then have "format_units (of_int (sint n)) [''KiB'', ''MiB'', ''GiB'', ''TiB''] = fmt_fixed 2 (of_int (sint n) / 2 ^ 50) @ ''TiB''"
    if "2 ^ 50 \<le> sint n" using that by (intro format_units_steps(5)) (simp only: of_int_power of_int_numeral)
  then show ?thesis
    unfolding formatBytes_def using format_units_shows [of "sint n"] by (auto simp del: of_int_sint format_units.simps)
qed

theorem formatBytes_shows_witness:
  "formatBytes (2 ^ 51) = ''2.00TiB'' \<and> formatBytes 1023 = ''1023B''"
proof -
  have n: "sint (2 ^ 51 :: int64) = 2 ^ 51" "sint (1023 :: int64) = 1023" by simp_all
  have "fmt_fixed 2 (of_int (2 ^ 51) / 2 ^ 50) = ''2.00''" "itoa 1023 = ''1023''" by code_simp+
  then show ?thesis
    using formatBytes_shows [of "2 ^ 51"] formatBytes_shows [of 1023] n by simp
qed

text \<open>\<open>%.2g\<close> keeps two digits: twelve and a half cores are shown as twelve, a hundred and a half as \<open>1e+02\<close>.\<close>

lemma formatCPU_examples:
  "formatCPU (1 / 2) = ''0.5''" "formatCPU 2 = ''2''" "formatCPU (25 / 2) = ''12''" "formatCPU (201 / 2) = ''1e+02''"
  by code_simp+

end

