(* ===== verification/IncusConfig.thy ===== *)
theory IncusConfig imports Secrets Config "HOL-Library.AList" begin

text \<open>
  The pure half of \<open>internal/incusclient\<close>: the configuration keys and devices the client writes for an
  instance, the choice of profiles and pools, and the arithmetic on IPv4 networks.

  A Go map with string keys is an association list; writing and deleting a key are \<open>AList.update\<close>
  and \<open>AList.delete\<close>, reading an absent key gives the empty string. A nil map is the empty one.
\<close>

section \<open>String maps\<close>

type_synonym config_map = "(string \<times> string) list"
type_synonym devices = "(string \<times> config_map) list"

definition get :: "config_map \<Rightarrow> string \<Rightarrow> string" where
  "get m k = (case map_of m k of None \<Rightarrow> '''' | Some v \<Rightarrow> v)"

text \<open>\<open>for k, v := range b { a[k] = v }\<close>\<close>

definition overlay :: "config_map \<Rightarrow> config_map \<Rightarrow> config_map" where
  "overlay b a = fold (\<lambda>(k, v). AList.update k v) b a"

definition mergeConfig :: "config_map \<Rightarrow> config_map \<Rightarrow> config_map" where
  "mergeConfig a b = overlay b (overlay a [])"

lemma get_update [simp]: "get (AList.update k v m) k' = (if k' = k then v else get m k')"
  by (simp add: get_def update_conv')

lemma get_delete [simp]: "get (AList.delete k m) k' = (if k' = k then '''' else get m k')"
  by (simp add: get_def delete_conv')

lemma get_Nil [simp]: "get [] k = ''''"
  by (simp add: get_def)

lemma get_Cons [simp]: "get ((k, v) # m) k' = (if k' = k then v else get m k')"
  by (simp add: get_def)

lemma map_of_overlay: "distinct (map fst b) \<Longrightarrow> map_of (overlay b a) = map_of a ++ map_of b"
  unfolding overlay_def
proof (induction b arbitrary: a)
  case (Cons p b)
  obtain k v where p: "p = (k, v)" by fastforce
  have "map_of b k = None" using Cons.prems p by (simp add: map_of_eq_None_iff)
  then show ?case using Cons p
    by (auto simp: update_conv' map_add_def fun_eq_iff split: option.split)
qed simp

lemma get_overlay:
  "distinct (map fst b) \<Longrightarrow> get (overlay b a) k = (case map_of b k of None \<Rightarrow> get a k | Some v \<Rightarrow> v)"
  by (simp add: get_def map_of_overlay map_add_def split: option.split)

lemma get_mergeConfig:
  assumes "distinct (map fst a)" "distinct (map fst b)"
  shows "get (mergeConfig a b) k = (case map_of b k of None \<Rightarrow> get a k | Some v \<Rightarrow> v)"
  using assms by (simp add: mergeConfig_def get_def map_of_overlay map_add_def split: option.split)

section \<open>Confinement of the guest\<close>

definition nl :: char where "nl = CHR 0x0A"

definition isolation_line :: "string \<Rightarrow> string" where
  "isolation_line dir = ''lxc.mount.entry = tmpfs '' @ dir @ '' tmpfs ro,size=64k,mode=755,create=dir 0 0''"

definition diskIsolationRawLXC :: string where
  "diskIsolationRawLXC = isolation_line ''sys/block'' @ [nl] @ isolation_line ''sys/dev/block'' @ [nl]
     @ isolation_line ''sys/class/block'' @ [nl]"

definition HardenedInstanceConfig :: config_map where
  "HardenedInstanceConfig = [
     (''security.privileged'', ''false''),
     (''security.nesting'', ''false''),
     (''security.idmap.isolated'', ''true''),
     (''security.guestapi'', ''false''),
     (''security.syscalls.deny_default'', ''true''),
     (''security.syscalls.deny_compat'', ''true''),
     (''security.syscalls.intercept.bpf'', ''false''),
     (''security.syscalls.intercept.mknod'', ''false''),
     (''security.syscalls.intercept.mount'', ''false''),
     (''security.syscalls.intercept.setxattr'', ''false''),
     (''security.syscalls.intercept.sysinfo'', ''false''),
     (''security.syscalls.intercept.sched_setscheduler'', ''false''),
     (''linux.kernel_modules'', ''''),
     (''raw.lxc'', diskIsolationRawLXC)]"

definition isolation_needles :: "string list" where
  "isolation_needles = [''tmpfs sys/block tmpfs'', ''tmpfs sys/dev/block tmpfs'', ''tmpfs sys/class/block tmpfs'']"

definition isolation_lines :: "string list" where
  "isolation_lines = strings_Split (strings_TrimSpace diskIsolationRawLXC) nl"

text \<open>\<open>if out != "" && !strings.HasSuffix(out, "\n") { out += "\n" }\<close>\<close>

definition end_line :: "string \<Rightarrow> string" where
  "end_line out = (if out \<noteq> '''' \<and> \<not> strings_HasSuffix out [nl] then out @ [nl] else out)"

definition merge_needle :: "string \<times> string \<Rightarrow> string \<Rightarrow> string" where
  "merge_needle nd out = (case nd of (needle, line) \<Rightarrow>
     if strings_Contains out needle then out else end_line out @ line @ [nl])"

definition MergeDiskIsolationRawLXC :: "string \<Rightarrow> string" where
  "MergeDiskIsolationRawLXC existing =
     end_line (fold merge_needle (zip isolation_needles isolation_lines) (strings_TrimSpace existing))"

section \<open>The network device\<close>

definition HardenedNIC :: "string \<Rightarrow> string \<Rightarrow> config_map" where
  "HardenedNIC network ipv4 =
     [(''type'', ''nic''), (''network'', network), (''name'', ''eth0''),
      (''security.mac_filtering'', ''true''), (''security.ipv4_filtering'', ''true''),
      (''security.ipv6_filtering'', ''true''), (''security.port_isolation'', ''true'')]
     @ (if ipv4 \<noteq> '''' then [(''ipv4.address'', ipv4)] else [])"

definition OverQuotaThrottleLimit :: string where "OverQuotaThrottleLimit = ''8kbit''"

definition ApplyNICBandwidth :: "config_map \<Rightarrow> int \<Rightarrow> config_map" where
  "ApplyNICBandwidth nic mbps =
     (let nic = AList.delete ''limits.egress'' (AList.delete ''limits.ingress'' nic) in
      if mbps \<le> 0 then AList.delete ''limits.max'' nic
      else AList.update ''limits.max'' (itoa mbps @ ''Mbit'') nic)"

definition ApplyNICNetworkPolicy :: "config_map \<Rightarrow> int \<Rightarrow> bool \<Rightarrow> config_map" where
  "ApplyNICNetworkPolicy nic mbps throttled =
     (if throttled
      then AList.update ''limits.max'' OverQuotaThrottleLimit
             (AList.delete ''limits.egress'' (AList.delete ''limits.ingress'' nic))
      else ApplyNICBandwidth nic mbps)"

section \<open>Profiles, pools, disks\<close>

definition UnprivilegedProfile :: string where "UnprivilegedProfile = ''goincus-unprivileged''"

definition add_profile :: "string \<Rightarrow> string list \<Rightarrow> string list" where
  "add_profile name out =
     (if name = '''' \<or> name = ''default'' then out else if name \<in> set out then out else out @ [name])"

definition sanitizeProfiles :: "string list \<Rightarrow> string list" where
  "sanitizeProfiles profiles =
     (let out = fold add_profile profiles (add_profile UnprivilegedProfile []) in
      if out = [] then [UnprivilegedProfile] else out)"

definition quotaStoragePool :: string where "quotaStoragePool = ''goincus''"

definition uniquePoolNames :: "string list \<Rightarrow> string list" where
  "uniquePoolNames names = fold add_profile (map strings_TrimSpace names) []"

definition isDFIsolatingDriver :: "string \<Rightarrow> bool" where
  "isDFIsolatingDriver driver \<longleftrightarrow>
     strings_ToLower driver \<in> {''zfs'', ''lvm'', ''lvmcluster'', ''ceph'', ''cephfs''}"

definition RootDiskDevice :: "incus_config \<Rightarrow> int \<Rightarrow> config_map" where
  "RootDiskDevice cfg storageGB =
     [(''type'', ''disk''),
      (''pool'', if n_pool cfg = '''' then quotaStoragePool else n_pool cfg),
      (''path'', ''/''),
      (''size'', itoa (if storageGB < 1 then 10 else storageGB) @ ''GiB'')]"

text \<open>\<open>math.Round\<close> of a non-negative number.\<close>

definition math_Round :: "rat \<Rightarrow> int" where
  "math_Round x = \<lfloor>x + 1 / 2\<rfloor>"

definition ResourceConfig :: "rat \<Rightarrow> int \<Rightarrow> int \<Rightarrow> config_map" where
  "ResourceConfig cpuCores memoryMB processes =
     (let cpu = (if cpuCores < 1 / 10 then 1 / 10 else cpuCores);
          memory = (if memoryMB < 64 then 64 else memoryMB);
          procs = (if processes < 64 then 64 else processes);
          pin = \<lceil>cpu - 1 / 1000000000\<rceil>;
          pin = (if pin < 1 then 1 else pin);
          milli = math_Round (cpu * 100);
          milli = (if milli < 10 then 10 else milli) in
      [(''limits.cpu'', itoa pin), (''limits.memory'', itoa memory @ ''MiB''),
       (''limits.memory.swap'', ''false''), (''limits.processes'', itoa procs)]
      @ (if milli mod 100 \<noteq> 0 then [(''limits.cpu.allowance'', itoa milli @ ''ms/100ms'')] else []))"

text \<open>The error text that \<open>IsolationError\<close> adds a hint to.\<close>

definition IsolationError :: "error \<Rightarrow> error" where
  "IsolationError e =
     (let msg = error_text e in
      if strings_Contains msg ''idmap'' \<or> strings_Contains msg ''newuidmap'' \<or> strings_Contains msg ''subuid''
      then ErrWrap '''' e '' (ensure /etc/subuid and /etc/subgid give root a large range, e.g. root:1000000:1000000000)''
      else e)"


section \<open>What the merge of \<open>raw.lxc\<close> guarantees\<close>

lemma isolation_lines_eq:
  "isolation_lines = [isolation_line ''sys/block'', isolation_line ''sys/dev/block'', isolation_line ''sys/class/block'']"
  by code_simp

lemma trim_spaceless:
  assumes "s \<noteq> []" "\<not> is_space (hd s)" "\<not> is_space (last s)"
  shows "strings_TrimSpace s = s" "strings_TrimSpace (s @ [nl]) = s"
proof -
  have 1: "dropWhile is_space s = s" using assms by (cases s) auto
  have 2: "dropWhile is_space (rev s) = rev s" using assms by (cases "rev s") (auto simp: last_rev hd_rev)
  show "strings_TrimSpace s = s" by (simp add: strings_TrimSpace_def 1 2)
  have "dropWhile is_space (s @ [nl]) = s @ [nl]" using assms by (cases s) auto
  moreover have "is_space nl" by code_simp
  ultimately show "strings_TrimSpace (s @ [nl]) = s" by (simp add: strings_TrimSpace_def 2)
qed

lemma trim_ends:
  "strings_TrimSpace s = [] \<or> (\<not> is_space (hd (strings_TrimSpace s)) \<and> \<not> is_space (last (strings_TrimSpace s)))"
proof (cases "strings_TrimSpace s = []")
  case False
  define t where "t = dropWhile is_space s"
  have eq: "strings_TrimSpace s = rev (dropWhile is_space (rev t))" by (simp add: strings_TrimSpace_def t_def)
  have ne: "dropWhile is_space (rev t) \<noteq> []" using False eq by auto
  have last: "\<not> is_space (last (strings_TrimSpace s))"
    using hd_dropWhile [OF ne] by (simp add: eq last_rev)
  obtain us where us: "rev t = us @ dropWhile is_space (rev t)" by (metis takeWhile_dropWhile_id)
  have "t = strings_TrimSpace s @ rev us" using arg_cong [OF us, of rev] eq by simp
  moreover have "t \<noteq> []" using ne by auto
  then have "\<not> is_space (hd t)" unfolding t_def by (rule hd_dropWhile)
  ultimately have "\<not> is_space (hd (strings_TrimSpace s))" using False by (metis hd_append2)
  then show ?thesis using last by blast
qed simp

text \<open>A text is tidy when it is one or more lines, without space at the ends but for the last line feed.\<close>

definition tidy :: "string \<Rightarrow> bool" where
  "tidy s \<longleftrightarrow> (\<exists>x. s = x @ [nl] \<and> x \<noteq> [] \<and> \<not> is_space (hd x) \<and> \<not> is_space (last x))"

lemma tidy_trim: "tidy s \<Longrightarrow> strings_TrimSpace s @ [nl] = s"
  by (auto simp: tidy_def trim_spaceless)

lemma suffix_nl: "strings_HasSuffix s [nl] \<longleftrightarrow> s \<noteq> [] \<and> last s = nl"
  by (cases s rule: rev_cases) (auto simp: strings_HasSuffix_def strings_HasPrefix_def)

lemma merge_needle_keeps: "strings_Contains s x \<Longrightarrow> strings_Contains (merge_needle nd s) x"
proof -
  assume "strings_Contains s x"
  then obtain a b where s: "s = a @ x @ b" by (auto simp: strings_Contains_iff)
  have "\<exists>t. merge_needle nd s = s @ t" by (auto simp: merge_needle_def end_line_def split: prod.split)
  then obtain t where "merge_needle nd s = a @ x @ (b @ t)" using s by auto
  then show ?thesis unfolding strings_Contains_iff by blast
qed

lemma merge_needle_adds:
  "strings_Contains line needle \<Longrightarrow> strings_Contains (merge_needle (needle, line) s) needle"
proof -
  assume "strings_Contains line needle"
  then obtain a b where "line = a @ needle @ b" by (auto simp: strings_Contains_iff)
  then have "end_line s @ line @ [nl] = (end_line s @ a) @ needle @ (b @ [nl])" by simp
  then show ?thesis unfolding merge_needle_def prod.case strings_Contains_iff by metis
qed

text \<open>What is appended is a line of its own; nothing that was there is lost.\<close>

definition clean :: "string \<Rightarrow> bool" where
  "clean s \<longleftrightarrow> s = [] \<or> tidy s \<or> (\<not> is_space (hd s) \<and> \<not> is_space (last s))"

lemma nl_space [simp]: "is_space nl"
  by code_simp

lemma clean_end_line: "clean s \<Longrightarrow> end_line s = [] \<or> tidy (end_line s)"
  by (auto simp: clean_def end_line_def suffix_nl tidy_def)

lemma clean_merge:
  assumes "clean s" "line \<noteq> []" "\<not> is_space (hd line)" "\<not> is_space (last line)"
  shows "clean (merge_needle (needle, line) s)"
proof -
  have "tidy (end_line s @ line @ [nl])"
    using clean_end_line [OF assms(1)]
  proof
    assume "end_line s = []"
    then show ?thesis using assms(2-4) by (simp add: tidy_def)
  next
    assume "tidy (end_line s)"
    then obtain x where x: "end_line s = x @ [nl]" "x \<noteq> []" "\<not> is_space (hd x)" by (auto simp: tidy_def)
    then have "end_line s @ line @ [nl] = (x @ [nl] @ line) @ [nl]" by simp
    then show ?thesis using x assms(2-4) unfolding tidy_def by (intro exI [of _ "x @ [nl] @ line"]) auto
  qed
  then show ?thesis using assms(1) by (simp add: merge_needle_def clean_def)
qed

lemma contains_trim:
  assumes "tidy s" "strings_Contains s x" "x \<noteq> []" "\<not> is_space (last x)"
  shows "strings_Contains (strings_TrimSpace s) x"
proof -
  obtain t where t: "s = t @ [nl]" "strings_TrimSpace s = t" using assms(1) by (auto simp: tidy_def trim_spaceless)
  obtain a b where ab: "t @ [nl] = a @ x @ b" using assms(2) t by (auto simp: strings_Contains_iff)
  have "b \<noteq> []"
  proof
    assume "b = []"
    then have "last (t @ [nl]) = last x" using ab assms(3) by (simp del: last_snoc)
    then show False using assms(4) by simp
  qed
  then have "t = a @ x @ butlast b" using arg_cong [OF ab, of butlast] by (simp add: butlast_append)
  then show ?thesis using t unfolding strings_Contains_iff by blast
qed

lemma prefix_end_line: "strings_HasPrefix s p \<Longrightarrow> strings_HasPrefix (end_line s) p"
  by (auto simp: end_line_def strings_HasPrefix_iff)

lemma prefix_merge_needle: "strings_HasPrefix s p \<Longrightarrow> strings_HasPrefix (merge_needle nd s) p"
  using prefix_end_line [of s p] by (auto simp: merge_needle_def strings_HasPrefix_iff split: prod.split)

lemma contains_append: "strings_Contains s x \<Longrightarrow> strings_Contains (s @ t) x"
proof -
  assume "strings_Contains s x"
  then obtain a b where "s = a @ x @ b" by (auto simp: strings_Contains_iff)
  then have "s @ t = a @ x @ (b @ t)" by simp
  then show ?thesis unfolding strings_Contains_iff by blast
qed

definition merge_all :: "string \<Rightarrow> string" where
  "merge_all s = fold merge_needle (zip isolation_needles isolation_lines) s"

lemma merge_all_eq:
  "merge_all s = merge_needle (''tmpfs sys/class/block tmpfs'', isolation_line ''sys/class/block'')
     (merge_needle (''tmpfs sys/dev/block tmpfs'', isolation_line ''sys/dev/block'')
       (merge_needle (''tmpfs sys/block tmpfs'', isolation_line ''sys/block'') s))"
  by (simp add: merge_all_def isolation_needles_def isolation_lines_eq)

lemma needles_in_lines:
  "strings_Contains (isolation_line ''sys/block'') ''tmpfs sys/block tmpfs''"
  "strings_Contains (isolation_line ''sys/dev/block'') ''tmpfs sys/dev/block tmpfs''"
  "strings_Contains (isolation_line ''sys/class/block'') ''tmpfs sys/class/block tmpfs''"
  by code_simp+

lemma mounts_in_merge_all: "list_all (strings_Contains (merge_all s)) isolation_needles"
  by (simp add: merge_all_eq isolation_needles_def merge_needle_keeps merge_needle_adds needles_in_lines)

lemma mounts_merged: "list_all (strings_Contains (MergeDiskIsolationRawLXC s)) isolation_needles"
proof -
  have "\<exists>u. end_line x = x @ u" for x by (auto simp: end_line_def)
  then obtain u where "MergeDiskIsolationRawLXC s = merge_all (strings_TrimSpace s) @ u"
    by (metis MergeDiskIsolationRawLXC_def merge_all_def)
  then show ?thesis using mounts_in_merge_all [of "strings_TrimSpace s"] by (auto simp: list_all_iff intro: contains_append)
qed

text \<open>The merge adds what hides the host's disks from the guest, once: all three mount entries are in the
result whatever the setting was, what was there before is kept in front, and merging again changes nothing.\<close>

theorem MergeDiskIsolation_correct:
  "list_all (strings_Contains (MergeDiskIsolationRawLXC e)) isolation_needles
   \<and> strings_HasPrefix (MergeDiskIsolationRawLXC e) (strings_TrimSpace e)
   \<and> MergeDiskIsolationRawLXC (MergeDiskIsolationRawLXC e) = MergeDiskIsolationRawLXC e"
proof -
  have ends: "isolation_line d \<noteq> [] \<and> \<not> is_space (hd (isolation_line d)) \<and> \<not> is_space (last (isolation_line d))" for d
    by (simp add: isolation_line_def is_space_def)
  have merged_clean: "clean (merge_all s)" if "clean s" for s
    unfolding merge_all_eq by (intro clean_merge that) (use ends in auto)
  have "clean (strings_TrimSpace e)" using trim_ends [of e] by (auto simp: clean_def)
  note c = merged_clean [OF this]
  define out where "out = MergeDiskIsolationRawLXC e"
  have out: "out = end_line (merge_all (strings_TrimSpace e))" by (simp add: out_def MergeDiskIsolationRawLXC_def merge_all_def)
  have ne: "merge_all (strings_TrimSpace e) \<noteq> []"
    using mounts_in_merge_all [of "strings_TrimSpace e"] by (auto simp: isolation_needles_def)
  have tidy: "tidy out" using clean_end_line [OF c] ne unfolding out by (auto simp: end_line_def)
  have pre: "strings_HasPrefix out (strings_TrimSpace e)"
    unfolding out merge_all_eq by (intro prefix_end_line prefix_merge_needle) (simp add: strings_HasPrefix_iff)
  have in_out: "list_all (strings_Contains out) isolation_needles" unfolding out_def by (rule mounts_merged)
  have in_trim: "strings_Contains (strings_TrimSpace out) n" if "n \<in> set isolation_needles" for n
    using contains_trim [OF tidy, of n] in_out that by (auto simp: list_all_iff isolation_needles_def is_space_def)
  have "merge_all (strings_TrimSpace out) = strings_TrimSpace out"
    using in_trim by (simp add: merge_all_eq merge_needle_def isolation_needles_def)
  moreover have "end_line (strings_TrimSpace out) = out"
  proof -
    obtain x where x: "out = x @ [nl]" "x \<noteq> []" "\<not> is_space (last x)" "strings_TrimSpace out = x"
      using tidy by (auto simp: tidy_def trim_spaceless)
    then show ?thesis by (auto simp: end_line_def suffix_nl)
  qed
  ultimately have "MergeDiskIsolationRawLXC out = out" by (simp add: MergeDiskIsolationRawLXC_def merge_all_def)
  then show ?thesis using in_out pre unfolding out_def by blast
qed


section \<open>Resource limits\<close>

text \<open>The limits grant exactly the cores of the plan, for every plan of the database (hundredths of a core):
whole cores are pinned without a quota; a plan with a fraction gets a hard quota of exactly its hundredths,
and just enough pinned cores to use it.\<close>

theorem ResourceConfig_cpu:
  assumes "10 \<le> n" and "cpu = of_int n / 100"
  shows "get (ResourceConfig cpu mem procs) ''limits.cpu'' = itoa \<lceil>cpu\<rceil>
    \<and> get (ResourceConfig cpu mem procs) ''limits.cpu.allowance'' = (if n mod 100 = 0 then '''' else itoa n @ ''ms/100ms'')
    \<and> cpu \<le> of_int \<lceil>cpu\<rceil> \<and> of_int \<lceil>cpu\<rceil> < cpu + 1"
proof -
  have round: "math_Round (cpu * 100) = n"
  proof -
    have "cpu * 100 + 1 / 2 = of_int n + 1 / 2" using assms(2) by simp
    moreover have "\<lfloor>(of_int n :: rat) + 1 / 2\<rfloor> = n" by linarith
    ultimately show ?thesis by (simp add: math_Round_def)
  qed
  have pin: "\<lceil>cpu - 1 / 1000000000\<rceil> = \<lceil>cpu\<rceil>"
  proof (rule ceiling_unique)
    show "cpu - 1 / 1000000000 \<le> of_int \<lceil>cpu\<rceil>" by linarith
    define c where "c = \<lceil>cpu\<rceil>"
    have n: "(of_int n :: rat) = 100 * cpu" using assms(2) by simp
    have c: "of_int c - 1 < cpu" unfolding c_def by linarith
    have "(of_int (100 * c - 100) :: rat) < of_int n" unfolding n of_int_diff of_int_mult using c by simp
    then have "100 * c - 99 \<le> n" unfolding of_int_less_iff by simp
    then have "(of_int (100 * c - 99) :: rat) \<le> of_int n" unfolding of_int_le_iff .
    then have "of_int \<lceil>cpu\<rceil> - 1 + 1 / 100 \<le> cpu" unfolding n of_int_diff of_int_mult c_def by simp
    then show "of_int \<lceil>cpu\<rceil> - 1 < cpu - 1 / 1000000000" by linarith
  qed
  have ge: "1 / 10 \<le> cpu"
  proof -
    have "(10 :: rat) \<le> of_int n" using assms(1) by simp
    then show ?thesis using assms(2) by simp
  qed
  then have "1 \<le> \<lceil>cpu\<rceil>" by linarith
  then show ?thesis
    using ge assms(1) by (simp add: ResourceConfig_def Let_def round pin) linarith
qed

theorem ResourceConfig_cpu_witness:
  "get (ResourceConfig (3 / 2) 512 256) ''limits.cpu'' = ''2''
   \<and> get (ResourceConfig (3 / 2) 512 256) ''limits.cpu.allowance'' = ''150ms/100ms''"
proof -
  have 1: "itoa \<lceil>3 / 2 :: rat\<rceil> = ''2''" "itoa 150 = ''150''" by code_simp+
  from ResourceConfig_cpu [of 150 "3 / 2" 512 256] show ?thesis by (simp add: 1)
qed

end
