(* ===== verification/Scripts.thy ===== *)
theory Scripts imports IncusConfig begin

text \<open>
  The texts the client hands to a shell of the host, to a shell in the guest and to cloud-init, as the code
  composes them. In \<open>raw\<close> texts a tilde stands for the double quote and a grave accent for the backslash;
  the texts use neither.
\<close>

definition raw :: "string \<Rightarrow> string" where
  "raw s = map (\<lambda>c. if c = CHR ''~'' then CHR 0x22 else if c = CHR ''`'' then CHR 0x5C else c) s"

definition text_lines :: "string list \<Rightarrow> string" where
  "text_lines ls = concat (map (\<lambda>l. l @ [nl]) ls)"

text \<open>The rules for the traffic of a bridge (\<open>EnsureHostOutboundNAT\<close>).\<close>

definition outbound_script :: "string \<Rightarrow> string \<Rightarrow> string" where
  "outbound_script bridge subnet = text_lines [
    '''',
    ''set -e'',
    ''BR='' @ go_quote bridge,
    ''SUBNET='' @ go_quote subnet,
    ''# Prefer iptables-nft when present.'',
    raw ''IPT=~$(command -v iptables-nft || command -v iptables || true)~'',
    raw ''if [ -z ~$IPT~ ]; then'',
    ''  exit 0'',
    ''fi'',
    ''# MASQUERADE guest traffic leaving the host.'',
    raw ''$IPT -t nat -C POSTROUTING -s ~$SUBNET~ ! -d ~$SUBNET~ -j MASQUERADE 2>/dev/null `'',
    raw ''  || $IPT -t nat -A POSTROUTING -s ~$SUBNET~ ! -d ~$SUBNET~ -j MASQUERADE'',
    ''# Replace legacy broad FORWARD accepts (they expose Docker/Pterodactyl DNAT).'',
    raw ''while $IPT -D FORWARD -i ~$BR~ -j ACCEPT 2>/dev/null; do :; done'',
    raw ''while $IPT -D FORWARD -o ~$BR~ -j ACCEPT 2>/dev/null; do :; done'',
    raw ''while $IPT -D FORWARD -i ~$BR~ -j GOINCUS-BRIDGE-FWD 2>/dev/null; do :; done'',
    raw ''while $IPT -D FORWARD -o ~$BR~ -j GOINCUS-BRIDGE-REV 2>/dev/null; do :; done'',
    ''$IPT -N GOINCUS-BRIDGE-FWD 2>/dev/null || true'',
    ''$IPT -F GOINCUS-BRIDGE-FWD'',
    ''$IPT -A GOINCUS-BRIDGE-FWD -d 10.0.0.0/8 -j DROP'',
    ''$IPT -A GOINCUS-BRIDGE-FWD -d 172.16.0.0/12 -j DROP'',
    ''$IPT -A GOINCUS-BRIDGE-FWD -d 192.168.0.0/16 -j DROP'',
    ''$IPT -A GOINCUS-BRIDGE-FWD -d 100.64.0.0/10 -j DROP'',
    ''$IPT -A GOINCUS-BRIDGE-FWD -d 169.254.0.0/16 -j DROP'',
    ''$IPT -A GOINCUS-BRIDGE-FWD -d 127.0.0.0/8 -j DROP'',
    ''$IPT -A GOINCUS-BRIDGE-FWD -j ACCEPT'',
    raw ''$IPT -I FORWARD 1 -i ~$BR~ -j GOINCUS-BRIDGE-FWD'',
    ''$IPT -N GOINCUS-BRIDGE-REV 2>/dev/null || true'',
    ''$IPT -F GOINCUS-BRIDGE-REV'',
    ''if ! $IPT -A GOINCUS-BRIDGE-REV -m conntrack --ctstate RELATED,ESTABLISHED -j ACCEPT 2>/dev/null; then'',
    ''  $IPT -A GOINCUS-BRIDGE-REV -m state --state RELATED,ESTABLISHED -j ACCEPT'',
    ''fi'',
    ''$IPT -A GOINCUS-BRIDGE-REV -j DROP'',
    raw ''$IPT -I FORWARD 1 -o ~$BR~ -j GOINCUS-BRIDGE-REV'',
    ''if $IPT -L DOCKER-USER -n >/dev/null 2>&1; then'',
    raw ''  while $IPT -D DOCKER-USER -i ~$BR~ -j ACCEPT 2>/dev/null; do :; done'',
    raw ''  while $IPT -D DOCKER-USER -o ~$BR~ -j ACCEPT 2>/dev/null; do :; done'',
    raw ''  while $IPT -D DOCKER-USER -i ~$BR~ -j DROP 2>/dev/null; do :; done'',
    raw ''  while $IPT -D DOCKER-USER -o ~$BR~ -j DROP 2>/dev/null; do :; done'',
    raw ''  $IPT -I DOCKER-USER 1 -i ~$BR~ -j DROP'',
    raw ''  $IPT -I DOCKER-USER 1 -o ~$BR~ -j DROP'',
    ''fi'',
    ''# Block guest '' @ arrow @ '' host management path on the bridge (SSH/API/DB).'',
    ''# Keep DHCP/DNS so Incus dnsmasq still works.'',
    ''$IPT -N GOINCUS-BRIDGE-IN 2>/dev/null || true'',
    ''$IPT -F GOINCUS-BRIDGE-IN'',
    ''if ! $IPT -A GOINCUS-BRIDGE-IN -m conntrack --ctstate RELATED,ESTABLISHED -j ACCEPT 2>/dev/null; then'',
    ''  $IPT -A GOINCUS-BRIDGE-IN -m state --state RELATED,ESTABLISHED -j ACCEPT'',
    ''fi'',
    ''$IPT -A GOINCUS-BRIDGE-IN -p udp --dport 67 -j ACCEPT'',
    ''$IPT -A GOINCUS-BRIDGE-IN -p udp --dport 53 -j ACCEPT'',
    ''$IPT -A GOINCUS-BRIDGE-IN -p tcp --dport 53 -j ACCEPT'',
    ''$IPT -A GOINCUS-BRIDGE-IN -j DROP'',
    raw ''$IPT -C INPUT -i ~$BR~ -j GOINCUS-BRIDGE-IN 2>/dev/null `'',
    raw ''  || $IPT -I INPUT 1 -i ~$BR~ -j GOINCUS-BRIDGE-IN'']"

text \<open>\<open>ApplyGuestStaticIPv4\<close>.\<close>

definition static_ipv4_script :: "string \<Rightarrow> string \<Rightarrow> string \<Rightarrow> string \<Rightarrow> string" where
  "static_ipv4_script ip gw bits netmask = text_lines [
    ''set -eux'',
    ''IP='' @ go_quote ip,
    ''GW='' @ go_quote gw,
    ''MASK='' @ go_quote bits,
    ''NETMASK='' @ go_quote netmask,
    raw ''IFACE=~~'',
    ''for cand in eth0 enp0s3; do'',
    raw ''  if ip link show ~$cand~ >/dev/null 2>&1; then'',
    raw ''    IFACE=~$cand~'',
    ''    break'',
    ''  fi'',
    ''done'',
    raw ''if [ -z ~$IFACE~ ]; then'',
    raw ''  IFACE=~$(ip -o link show | awk -F': ' '$2!=~lo~{print $2; exit}')~'',
    ''fi'',
    raw ''test -n ~$IFACE~'',
    '''',
    ''# resolv.conf is often a symlink into /run/systemd/resolve (missing early in boot).'',
    ''umount /etc/resolv.conf 2>/dev/null || true'',
    ''rm -f /etc/resolv.conf'',
    ''mkdir -p /etc /run/systemd/resolve'',
    raw ''printf 'nameserver 1.1.1.1`nnameserver 8.8.8.8`nnameserver %s`n' ~$GW~ > /etc/resolv.conf'',
    '''',
    ''if command -v netplan >/dev/null 2>&1 || [ -d /etc/netplan ]; then'',
    ''  mkdir -p /etc/netplan'',
    ''  # Disable cloud-init DHCP so it cannot fight our static address.'',
    ''  if [ -d /etc/cloud ]; then'',
    ''    mkdir -p /etc/cloud/cloud.cfg.d'',
    raw ''    printf 'network: {config: disabled}`n' > /etc/cloud/cloud.cfg.d/99-goincus-disable-network.cfg'',
    ''  fi'',
    ''  # Neutralize common DHCP netplan snippets (keep files, override with higher priority).'',
    ''  cat > /etc/netplan/99-goincus.yaml <<EOF'',
    ''network:'',
    ''  version: 2'',
    ''  renderer: networkd'',
    ''  ethernets:'',
    ''    $IFACE:'',
    ''      dhcp4: false'',
    ''      dhcp6: false'',
    ''      optional: true'',
    ''      addresses: [$IP/$MASK]'',
    ''      routes:'',
    ''        - to: default'',
    ''          via: $GW'',
    ''      nameservers:'',
    ''        addresses: [1.1.1.1, 8.8.8.8, $GW]'',
    ''EOF'',
    ''  chmod 600 /etc/netplan/99-goincus.yaml'',
    ''  # netplan apply often flaps the NIC and drops manual addresses '' @ em_dash @ '' OK, we re-add below.'',
    ''  netplan apply 2>/dev/null || true'',
    ''elif [ -d /etc/network ]; then'',
    ''  mkdir -p /etc/network/interfaces.d'',
    ''  cat > /etc/network/interfaces.d/99-goincus <<EOF'',
    ''auto $IFACE'',
    ''iface $IFACE inet static'',
    ''    address $IP'',
    ''    netmask $NETMASK'',
    ''    gateway $GW'',
    ''    dns-nameservers 1.1.1.1 8.8.8.8 $GW'',
    ''EOF'',
    ''elif [ -d /etc/systemd/network ] || command -v networkctl >/dev/null 2>&1; then'',
    ''  mkdir -p /etc/systemd/network'',
    ''  cat > /etc/systemd/network/10-goincus.network <<EOF'',
    ''[Match]'',
    ''Name=$IFACE'',
    '''',
    ''[Network]'',
    ''DHCP=no'',
    ''Address=$IP/$MASK'',
    ''Gateway=$GW'',
    ''DNS=1.1.1.1'',
    ''DNS=8.8.8.8'',
    ''DNS=$GW'',
    ''EOF'',
    ''  systemctl restart systemd-networkd 2>/dev/null || true'',
    ''fi'',
    '''',
    ''# Always force the runtime address LAST '' @ em_dash @ '' netplan/networkd may have just wiped eth0.'',
    ''apply_runtime() {'',
    raw ''  ip link set ~$IFACE~ up || true'',
    raw ''  ip -4 addr flush dev ~$IFACE~ || true'',
    raw ''  ip addr add ~$IP/$MASK~ dev ~$IFACE~ || ip addr replace ~$IP/$MASK~ dev ~$IFACE~'',
    raw ''  ip route replace default via ~$GW~ dev ~$IFACE~ || true'',
    ''}'',
    ''apply_runtime'',
    '''',
    ''# Brief settle; retry if address or default route is missing.'',
    ''for _ in 1 2 3 4 5; do'',
    raw ''  if ip -4 addr show dev ~$IFACE~ | grep -Fq ~$IP~ && ip -4 route show default | grep -Fq ~$GW~; then'',
    ''    exit 0'',
    ''  fi'',
    ''  sleep 1'',
    ''  apply_runtime'',
    ''done'',
    raw ''ip -4 addr show dev ~$IFACE~ || true'',
    ''ip -4 route || true'',
    ''exit 1'']"

text \<open>\<open>CloudInitUserData\<close>: the password in Base64, the port in decimal.\<close>

definition cloud_init_text :: "string \<Rightarrow> string \<Rightarrow> string" where
  "cloud_init_text b64 port = text_lines [
    ''#cloud-config'',
    ''package_update: true'',
    ''packages:'',
    ''  - openssh-server'',
    ''ssh_pwauth: true'',
    ''disable_root: false'',
    ''manage_resolv_conf: true'',
    ''resolv_conf:'',
    ''  nameservers: ['1.1.1.1', '8.8.8.8']'',
    ''runcmd:'',
    raw ''  - [ bash, -lc, ~PASS=$(echo '' @ [CHR 0x27] @ b64 @ [CHR 0x27] @ raw '' | base64 -d); echo root:$PASS | chpasswd; unset PASS~ ]'',
    raw ''  - [ bash, -lc, ~ssh-keygen -A~ ]'',
    raw ''  - [ bash, -lc, ~mkdir -p /etc/ssh/sshd_config.d; printf '%s``n' 'Port '' @ port @ [CHR 0x27] @ raw '' 'PermitRootLogin yes' 'PasswordAuthentication yes' 'AddressFamily inet' 'ListenAddress 0.0.0.0' 'ListenAddress 127.0.0.1' 'MaxAuthTries 4' 'LoginGraceTime 30' 'PermitEmptyPasswords no' 'X11Forwarding no' > /etc/ssh/sshd_config.d/99-goincus.conf~ ]'',
    raw ''  - [ bash, -lc, ~systemctl disable --now ssh.socket 2>/dev/null || true; systemctl enable ssh 2>/dev/null || systemctl enable sshd 2>/dev/null || true; systemctl restart ssh 2>/dev/null || systemctl restart sshd 2>/dev/null || true~ ]'']"

text \<open>\<open>EnsureSSH\<close>.\<close>

definition ensure_ssh_script :: "string \<Rightarrow> string \<Rightarrow> string" where
  "ensure_ssh_script b64 port = text_lines [
    ''set -eu'',
    raw ''PASS=~$(echo '' @ [CHR 0x27] @ b64 @ [CHR 0x27] @ raw '' | base64 -d)~'',
    raw ''echo ~root:${PASS}~ | chpasswd'',
    ''unset PASS'',
    ''ssh-keygen -A'',
    ''mkdir -p /etc/ssh/sshd_config.d /run/sshd'',
    ''cat > /etc/ssh/sshd_config.d/99-goincus.conf <<EOF'',
    ''Port '' @ port,
    ''PermitRootLogin yes'',
    ''PasswordAuthentication yes'',
    ''KbdInteractiveAuthentication yes'',
    ''UsePAM yes'',
    ''AddressFamily inet'',
    ''ListenAddress 0.0.0.0'',
    ''ListenAddress 127.0.0.1'',
    ''MaxAuthTries 4'',
    ''LoginGraceTime 30'',
    ''MaxStartups 10:30:60'',
    ''ClientAliveInterval 30'',
    ''ClientAliveCountMax 3'',
    ''X11Forwarding no'',
    ''AllowTcpForwarding no'',
    ''PermitEmptyPasswords no'',
    ''EOF'',
    ''# Drop default Port 22 from main config if present so only our Port applies.'',
    ''if [ -f /etc/ssh/sshd_config ]; then'',
    ''  sed -i -E 's/^[#[:space:]'' @ '']*Port['' @ ''[:space:]'' @ ''].*/# Port overridden by 99-goincus.conf/' /etc/ssh/sshd_config || true'',
    ''fi'',
    ''systemctl disable --now ssh.socket 2>/dev/null || true'',
    ''systemctl disable --now sshd.socket 2>/dev/null || true'',
    ''systemctl unmask ssh 2>/dev/null || true'',
    ''systemctl unmask sshd 2>/dev/null || true'',
    ''systemctl enable ssh 2>/dev/null || systemctl enable sshd 2>/dev/null || true'',
    ''systemctl restart ssh 2>/dev/null || systemctl restart sshd 2>/dev/null || service ssh restart 2>/dev/null || service sshd restart 2>/dev/null || /usr/sbin/sshd || true'',
    ''sshd -t || /usr/sbin/sshd -t || true'',
    ''for i in $(seq 1 30); do'',
    ''  if ss -ltn | grep -E '[:.]'' @ port @ ''['' @ ''[:space:]'' @ '']' >/dev/null 2>&1; then'',
    ''    exit 0'',
    ''  fi'',
    raw ''  if [ ~$i~ = ~5~ ] || [ ~$i~ = ~15~ ]; then'',
    ''    /usr/sbin/sshd || true'',
    ''  fi'',
    ''  sleep 1'',
    ''done'',
    raw ''echo ~sshd failed to listen on :'' @ port @ raw ''~ >&2'',
    ''ss -ltn || true'',
    ''systemctl status ssh --no-pager 2>/dev/null || systemctl status sshd --no-pager 2>/dev/null || true'',
    ''exit 1'']"

text \<open>\<open>SetRootPassword\<close>.\<close>

definition set_password_script :: "string \<Rightarrow> string" where
  "set_password_script b64 = text_lines [
    ''set -eu'',
    raw ''PASS=~$(echo '' @ [CHR 0x27] @ b64 @ [CHR 0x27] @ raw '' | base64 -d)~'',
    raw ''echo ~root:${PASS}~ | chpasswd'',
    ''unset PASS'']"

text \<open>\<open>installOpenSSHViaApt\<close>.\<close>

definition apt_script :: "string" where
  "apt_script = text_lines [
    '''',
    ''set -eux'',
    ''export DEBIAN_FRONTEND=noninteractive'',
    ''getent hosts archive.ubuntu.com >/dev/null || getent hosts deb.debian.org >/dev/null'',
    ''if command -v apt-get >/dev/null 2>&1; then'',
    ''  apt-get update -y'',
    ''  apt-get install -y openssh-server openssh-client iproute2'',
    ''elif command -v dnf >/dev/null 2>&1; then'',
    ''  dnf install -y openssh-server iproute'',
    ''elif command -v apk >/dev/null 2>&1; then'',
    ''  apk add --no-cache openssh openssh-server iproute2'',
    ''else'',
    ''  exit 1'',
    ''fi'',
    ''command -v sshd >/dev/null || test -x /usr/sbin/sshd'']"

text \<open>\<open>ConfigureGuestDNS\<close>, before and after the line for the bridge.\<close>

definition dns_script :: "string" where
  "dns_script = text_lines [
    ''set -eux'',
    ''for iface in eth0 enp0s3; do'',
    raw ''  ip link set ~$iface~ up 2>/dev/null || true'',
    ''done'',
    ''for i in $(seq 1 15); do'',
    ''  if ip -4 -o addr show scope global 2>/dev/null | grep -q .; then'',
    ''    break'',
    ''  fi'',
    ''  command -v dhclient >/dev/null 2>&1 && dhclient -1 eth0 2>/dev/null || true'',
    ''  sleep 1'',
    ''done'',
    ''umount /etc/resolv.conf 2>/dev/null || true'',
    ''rm -f /etc/resolv.conf'',
    ''cat > /etc/resolv.conf <<'EOF'' @ [CHR 0x27],
    ''nameserver 1.1.1.1'',
    ''nameserver 8.8.8.8'',
    ''EOF'']"

definition gai_script :: "string" where
  "gai_script = text_lines [
    '''',
    ''mkdir -p /etc'',
    ''touch /etc/gai.conf'',
    ''grep -q '^precedence ::ffff:0:0/96  100' /etc/gai.conf 2>/dev/null || echo 'precedence ::ffff:0:0/96  100' >> /etc/gai.conf'']"

text \<open>\<open>detectGuestOS\<close>.\<close>

definition detect_os_script :: "string" where
  "detect_os_script = text_lines [
    '''',
    ''set -e'',
    ''. /etc/os-release'',
    raw ''echo ~ID=${ID:-}~'',
    raw ''echo ~VERSION_CODENAME=${VERSION_CODENAME:-}~'',
    raw ''echo ~ARCH=$(dpkg --print-architecture 2>/dev/null || uname -m)~'']"

text \<open>\<open>InstallOpenSSHFromHost\<close>.\<close>

definition dpkg_script :: "string" where
  "dpkg_script = text_lines [
    '''',
    ''set -eux'',
    ''export DEBIAN_FRONTEND=noninteractive'',
    ''dpkg -i /var/tmp/goincus-debs/*.deb'',
    ''test -x /usr/sbin/sshd || command -v sshd >/dev/null'']"

end
