(* ===== verification/SetupTexts.thy ===== *)
theory SetupTexts imports Scripts begin

text \<open>
  The texts that \<open>goincus init\<close> (\<open>internal/setup/init_linux.go\<close>) writes to files or hands to a shell, and the
  help of the command line, with the conventions of theory \<open>Scripts\<close>.
\<close>

text \<open>\<open>installIncusZabbly\<close> on a machine with \<open>apt\<close>.\<close>

definition incus_apt_script :: "string" where
  "incus_apt_script = text_lines [
    '''',
    ''set -euo pipefail'',
    ''mkdir -p /etc/apt/keyrings'',
    ''curl -fsSL https://pkgs.zabbly.com/key.asc | gpg --dearmor -o /etc/apt/keyrings/zabbly.gpg'',
    ''. /etc/os-release'',
    raw ''arch=~$(dpkg --print-architecture)~'',
    ''cat >/etc/apt/sources.list.d/zabbly-incus-stable.sources <<EOF'',
    ''Enabled: yes'',
    ''Types: deb'',
    ''URIs: https://pkgs.zabbly.com/incus/stable'',
    ''Suites: ${VERSION_CODENAME}'',
    ''Components: main'',
    ''Architectures: ${arch}'',
    ''Signed-By: /etc/apt/keyrings/zabbly.gpg'',
    ''EOF'',
    ''apt-get update -y'',
    ''DEBIAN_FRONTEND=noninteractive apt-get install -y incus'']"

text \<open>\<open>configurePostgreSQL\<close>: the settings of the server.\<close>

definition pg_drop_in :: "string \<Rightarrow> string" where
  "pg_drop_in port = text_lines [
    ''# Managed by goincus init'',
    ''listen_addresses = '127.0.0.1'' @ [CHR 0x27],
    ''port = '' @ port,
    ''password_encryption = scram-sha-256'']"

text \<open>\<open>configureRedis\<close>.\<close>

definition redis_drop_in :: "string \<Rightarrow> string \<Rightarrow> string" where
  "redis_drop_in port password = text_lines [
    ''# Managed by goincus init'',
    ''bind 127.0.0.1 -::1'',
    ''port '' @ port,
    ''protected-mode yes'',
    ''requirepass '' @ password,
    ''supervised systemd'',
    ''daemonize no'']"

text \<open>\<open>configureIncus\<close>: what \<open>incus admin init\<close> reads.\<close>

definition preseed :: "string" where
  "preseed = text_lines [
    ''config: {}'',
    ''networks:'',
    ''- config:'',
    ''    ipv4.address: auto'',
    raw ''    ipv4.nat: ~true~'',
    ''    ipv6.address: none'',
    raw ''  description: ~~'',
    ''  name: incusbr0'',
    ''  type: bridge'',
    ''storage_pools:'',
    ''- config: {}'',
    raw ''  description: ~~'',
    ''  name: default'',
    ''  driver: dir'',
    ''profiles:'',
    ''- config: {}'',
    raw ''  description: ~~'',
    ''  devices:'',
    ''    eth0:'',
    ''      name: eth0'',
    ''      network: incusbr0'',
    ''      type: nic'',
    ''    root:'',
    ''      path: /'',
    ''      pool: default'',
    ''      type: disk'',
    ''  name: default'',
    ''projects: []'',
    ''cluster: null'']"

text \<open>\<open>installSupportFiles\<close>: the units and the boot scripts.\<close>

definition service_unit :: "string" where
  "service_unit = text_lines [
    ''[Unit]'',
    ''Description=goincus '' @ em_dash @ '' Incus NAT VPS provisioning API'',
    ''Documentation=https://github.com/hdmain/goincus'',
    ''After=network-online.target postgresql.service redis-server.service redis.service incus.service goincus-net.service'',
    ''Wants=network-online.target goincus-net.service'',
    ''Requires=incus.service'',
    '''',
    ''[Service]'',
    ''Type=simple'',
    ''User=root'',
    ''Group=root'',
    ''WorkingDirectory=/opt/goincus'',
    ''ExecStart=/usr/local/bin/goincus serve -config /etc/goincus/config.yaml -migrations /usr/share/goincus/migrations'',
    ''Restart=on-failure'',
    ''RestartSec=5s'',
    ''TimeoutStopSec=30s'',
    ''PrivateTmp=true'',
    ''ProtectHome=true'',
    ''LockPersonality=true'',
    ''RestrictSUIDSGID=true'',
    ''RestrictRealtime=true'',
    ''ReadWritePaths=/var/lib/incus /run/incus /var/log/goincus /etc/goincus /etc/sysctl.d /etc/modules-load.d /etc/subuid /etc/subgid /var/lib/goincus'',
    ''StandardOutput=journal'',
    ''StandardError=journal'',
    ''SyslogIdentifier=goincus'',
    '''',
    ''[Install]'',
    ''WantedBy=multi-user.target'']"

definition nat_script :: "string" where
  "nat_script = text_lines [
    ''#!/bin/sh'',
    ''# Persistable host egress for goincus Incus bridge (survives reboot; Docker-safe).'',
    ''# Portable: reads bridge/ports from env or /etc/goincus/config.yaml when present.'',
    ''set -eu'',
    raw ''CFG=~${GOINCUS_CONFIG:-/etc/goincus/config.yaml}~'',
    ''yaml_get() {'',
    raw ''  parent=~$1~'',
    raw ''  child=~$2~'',
    raw ''  [ -f ~$CFG~ ] || return 0'',
    raw ''  awk -v p=~$parent~ -v c=~$child~ '' @ [CHR 0x27],
    ''    $0 '' @ [CHR 0x7E] @ raw '' ~^~p~:~ { insec=1; next }'',
    ''    insec && /^[^[:space:]#]/ { insec=0 }'',
    raw ''    insec && $1 == c~:~ {'',
    ''      v=$2'',
    raw ''      gsub(/~/, ~~, v)'',
    ''      print v'',
    ''      exit'',
    ''    }'',
    raw ''  ' ~$CFG~'',
    ''}'',
    raw ''BR=~${GOINCUS_BRIDGE:-$(yaml_get incus network)}~'',
    raw ''BR=~${BR:-incusbr0}~'',
    raw ''SUBNET=~${GOINCUS_SUBNET:-10.72.160.0/24}~'',
    raw ''PORT_START=~${GOINCUS_PORT_START:-$(yaml_get ports host_range_start)}~'',
    raw ''PORT_END=~${GOINCUS_PORT_END:-$(yaml_get ports host_range_end)}~'',
    raw ''PORT_START=~${PORT_START:-20000}~'',
    raw ''PORT_END=~${PORT_END:-29999}~'',
    raw ''API_PORT=~${GOINCUS_API_PORT:-$(yaml_get server port)}~'',
    raw ''API_PORT=~${API_PORT:-9603}~'',
    ''mkdir -p /etc/modules-load.d'',
    raw ''printf 'br_netfilter`n' > /etc/modules-load.d/goincus-br-netfilter.conf'',
    ''modprobe br_netfilter 2>/dev/null || true'',
    ''sysctl -w net.ipv4.ip_forward=1 >/dev/null'',
    ''sysctl -w net.bridge.bridge-nf-call-iptables=1 >/dev/null 2>&1 || true'',
    ''sysctl -w net.bridge.bridge-nf-call-ip6tables=1 >/dev/null 2>&1 || true'',
    ''sysctl -w net.bridge.bridge-nf-call-arptables=1 >/dev/null 2>&1 || true'',
    ''mkdir -p /etc/sysctl.d'',
    raw ''printf 'net.ipv4.ip_forward=1`n' > /etc/sysctl.d/99-goincus-forward.conf'',
    raw ''printf '%s`n' `'',
    raw ''  'net.bridge.bridge-nf-call-iptables = 1' `'',
    raw ''  'net.bridge.bridge-nf-call-ip6tables = 1' `'',
    raw ''  'net.bridge.bridge-nf-call-arptables = 1' `'',
    ''  > /etc/sysctl.d/99-goincus-br-netfilter.conf'',
    raw ''IPT=~$(command -v iptables-nft 2>/dev/null || command -v iptables || true)~'',
    raw ''[ -n ~$IPT~ ] || exit 0'',
    raw ''$IPT -t nat -C POSTROUTING -s ~$SUBNET~ ! -d ~$SUBNET~ -j MASQUERADE 2>/dev/null `'',
    raw ''  || $IPT -t nat -A POSTROUTING -s ~$SUBNET~ ! -d ~$SUBNET~ -j MASQUERADE'',
    raw ''while $IPT -D FORWARD -i ~$BR~ -j ACCEPT 2>/dev/null; do :; done'',
    raw ''while $IPT -D FORWARD -o ~$BR~ -j ACCEPT 2>/dev/null; do :; done'',
    raw ''while $IPT -D FORWARD -i ~$BR~ -j GOINCUS-BRIDGE-FWD 2>/dev/null; do :; done'',
    raw ''while $IPT -D FORWARD -o ~$BR~ -j GOINCUS-BRIDGE-REV 2>/dev/null; do :; done'',
    ''$IPT -N GOINCUS-BRIDGE-FWD 2>/dev/null || true'',
    ''$IPT -F GOINCUS-BRIDGE-FWD'',
    ''$IPT -A GOINCUS-BRIDGE-FWD -d 10.0.0.0/8 -j DROP'',
    ''$IPT -A GOINCUS-BRIDGE-FWD -d 172.16.0.0/12 -j DROP'',
    ''$IPT -A GOINCUS-BRIDGE-FWD -d 192.168.0.0/16 -j DROP'',
    ''$IPT -A GOINCUS-BRIDGE-FWD -d 100.64.0.0/10 -j DROP'',
    ''$IPT -A GOINCUS-BRIDGE-FWD -d 169.254.0.0/16 -j DROP'',
    ''$IPT -A GOINCUS-BRIDGE-FWD -d 127.0.0.0/8 -j DROP'',
    ''$IPT -A GOINCUS-BRIDGE-FWD -j ACCEPT'',
    raw ''$IPT -I FORWARD 1 -i ~$BR~ -j GOINCUS-BRIDGE-FWD'',
    ''$IPT -N GOINCUS-BRIDGE-REV 2>/dev/null || true'',
    ''$IPT -F GOINCUS-BRIDGE-REV'',
    ''if ! $IPT -A GOINCUS-BRIDGE-REV -m conntrack --ctstate RELATED,ESTABLISHED -j ACCEPT 2>/dev/null; then'',
    ''  $IPT -A GOINCUS-BRIDGE-REV -m state --state RELATED,ESTABLISHED -j ACCEPT'',
    ''fi'',
    ''$IPT -A GOINCUS-BRIDGE-REV -j DROP'',
    raw ''$IPT -I FORWARD 1 -o ~$BR~ -j GOINCUS-BRIDGE-REV'',
    ''if $IPT -L DOCKER-USER -n >/dev/null 2>&1; then'',
    raw ''  while $IPT -D DOCKER-USER -i ~$BR~ -j ACCEPT 2>/dev/null; do :; done'',
    raw ''  while $IPT -D DOCKER-USER -o ~$BR~ -j ACCEPT 2>/dev/null; do :; done'',
    raw ''  while $IPT -D DOCKER-USER -i ~$BR~ -j DROP 2>/dev/null; do :; done'',
    raw ''  while $IPT -D DOCKER-USER -o ~$BR~ -j DROP 2>/dev/null; do :; done'',
    raw ''  $IPT -I DOCKER-USER 1 -i ~$BR~ -j DROP'',
    raw ''  $IPT -I DOCKER-USER 1 -o ~$BR~ -j DROP'',
    ''fi'',
    ''# Guests must not reach host SSH/API/DB via the bridge gateway.'',
    ''$IPT -N GOINCUS-BRIDGE-IN 2>/dev/null || true'',
    ''$IPT -F GOINCUS-BRIDGE-IN'',
    ''if ! $IPT -A GOINCUS-BRIDGE-IN -m conntrack --ctstate RELATED,ESTABLISHED -j ACCEPT 2>/dev/null; then'',
    ''  $IPT -A GOINCUS-BRIDGE-IN -m state --state RELATED,ESTABLISHED -j ACCEPT'',
    ''fi'',
    ''$IPT -A GOINCUS-BRIDGE-IN -p udp --dport 67 -j ACCEPT'',
    ''$IPT -A GOINCUS-BRIDGE-IN -p udp --dport 53 -j ACCEPT'',
    ''$IPT -A GOINCUS-BRIDGE-IN -p tcp --dport 53 -j ACCEPT'',
    ''$IPT -A GOINCUS-BRIDGE-IN -j DROP'',
    raw ''$IPT -C INPUT -i ~$BR~ -j GOINCUS-BRIDGE-IN 2>/dev/null `'',
    raw ''  || $IPT -I INPUT 1 -i ~$BR~ -j GOINCUS-BRIDGE-IN'',
    ''if command -v ufw >/dev/null 2>&1 && ufw status 2>/dev/null | grep -qi 'Status: active'; then'',
    raw ''  ufw allow ~${PORT_START}:${PORT_END}/tcp~ comment 'goincus NAT VPS ports' >/dev/null 2>&1 || true'',
    raw ''  ufw allow ~${PORT_START}:${PORT_END}/udp~ comment 'goincus NAT VPS ports udp' >/dev/null 2>&1 || true'',
    raw ''  ufw allow ~${API_PORT}/tcp~ comment 'goincus API' >/dev/null 2>&1 || true'',
    ''fi'',
    ''if command -v firewall-cmd >/dev/null 2>&1 && firewall-cmd --state 2>/dev/null | grep -qi running; then'',
    raw ''  firewall-cmd --permanent --add-port=~${PORT_START}-${PORT_END}/tcp~ >/dev/null 2>&1 || true'',
    raw ''  firewall-cmd --permanent --add-port=~${PORT_START}-${PORT_END}/udp~ >/dev/null 2>&1 || true'',
    raw ''  firewall-cmd --permanent --add-port=~${API_PORT}/tcp~ >/dev/null 2>&1 || true'',
    ''  firewall-cmd --reload >/dev/null 2>&1 || true'',
    ''fi'',
    ''exit 0'']"

definition storage_script :: "string" where
  "storage_script = text_lines [
    ''#!/bin/sh'',
    ''set -eu'',
    raw ''POOL_LVM=~${GOINCUS_STORAGE_POOL:-goincus-lvm}~'',
    raw ''POOL_ZFS=~${GOINCUS_STORAGE_POOL_ZFS:-goincus-zfs}~'',
    raw ''SIZE=~${GOINCUS_STORAGE_SIZE:-200GiB}~'',
    raw ''log() { echo ~goincus-storage: $*~; }'',
    raw ''have_bin() { command -v ~$1~ >/dev/null 2>&1; }'',
    ''install_pkgs() {'',
    ''  if have_bin lvcreate && have_bin vgcreate; then return 0; fi'',
    raw ''  [ ~$(id -u)~ -eq 0 ] || return 1'',
    ''  export DEBIAN_FRONTEND=noninteractive'',
    ''  if have_bin apt-get; then'',
    raw ''    log ~installing lvm2 thin-provisioning-tools~'',
    ''    apt-get update -y >/dev/null 2>&1 || true'',
    ''    apt-get install -y lvm2 thin-provisioning-tools'',
    ''    apt-get install -y zfsutils-linux >/dev/null 2>&1 || true'',
    ''  elif have_bin dnf; then dnf install -y lvm2'',
    ''  elif have_bin yum; then yum install -y lvm2'',
    ''  else return 1'',
    ''  fi'',
    ''}'',
    raw ''pool_driver() { incus storage show ~$1~ 2>/dev/null | awk -F': ' '/^driver:/{print $2; exit}'; }'',
    raw ''is_good_driver() { case ~$1~ in zfs|lvm|lvmcluster|ceph) return 0 ;; *) return 1 ;; esac; }'',
    ''ensure_pool() {'',
    raw ''  name=~$1~; driver=~$2~'',
    raw ''  cur=~$(pool_driver ~$name~ || true)~'',
    raw ''  if [ -n ~$cur~ ]; then'',
    raw ''    is_good_driver ~$cur~ && { log ~pool $name already ok ($cur)~; return 0; }'',
    ''    return 1'',
    ''  fi'',
    ''  have_bin incus || return 1'',
    raw ''  case ~$driver~ in lvm) have_bin lvcreate || return 1 ;; zfs) have_bin zpool || return 1 ;; esac'',
    raw ''  log ~creating pool $name ($driver size=$SIZE)~'',
    raw ''  incus storage create ~$name~ ~$driver~ ~size=$SIZE~'',
    ''}'',
    ''install_pkgs || true'',
    raw ''for name in goincus ~$POOL_LVM~ ~$POOL_ZFS~; do'',
    raw ''  d=~$(pool_driver ~$name~ || true)~'',
    raw ''  is_good_driver ~$d~ && { log ~ready: $name ($d)~; exit 0; }'',
    ''done'',
    raw ''ensure_pool ~$POOL_LVM~ lvm && exit 0'',
    ''ensure_pool goincus lvm && exit 0'',
    raw ''ensure_pool ~$POOL_ZFS~ zfs && exit 0'',
    ''ensure_pool goincus zfs && exit 0'',
    raw ''log ~failed to create zfs/lvm pool~'',
    ''exit 1'']"

definition net_unit :: "string" where
  "net_unit = text_lines [
    ''[Unit]'',
    ''Description=goincus host NAT/FORWARD + storage pool bootstrap (Docker-safe)'',
    ''After=network-online.target incus.service docker.service'',
    ''Wants=network-online.target'',
    ''Wants=incus.service'',
    '''',
    ''[Service]'',
    ''Type=oneshot'',
    ''RemainAfterExit=yes'',
    ''ExecStart=/usr/local/libexec/goincus/ensure-host-storage.sh'',
    ''ExecStart=/usr/local/libexec/goincus/ensure-host-nat.sh'',
    '''',
    ''[Install]'',
    ''WantedBy=multi-user.target'']"

text \<open>\<open>printUsage\<close> of \<open>cmd/goincus/main.go\<close>.\<close>

definition main_usage :: "string" where
  "main_usage = text_lines [
    ''goincus '' @ em_dash @ '' Incus NAT VPS provisioning API + CLI'',
    '''',
    ''Usage:'',
    ''  goincus init [--force] [--skip-install] [--config PATH]'',
    ''  goincus serve [-config PATH] [-migrations DIR]'',
    ''  goincus health|list|get|create|delete|start|stop|restart|repair|reset-password|ssh|usage|metrics|hoststats|resources ...'',
    ''  goincus version'',
    '''',
    ''Server:'',
    ''  init      Install PostgreSQL, Redis, and Incus; generate config + API keys'',
    ''  serve     Start the HTTP API (0.0.0.0:9603)'',
    '''',
    ''CLI (talks to API; key from -key, GOINCUS_API_KEY, or /etc/goincus/config.yaml):'',
    ''  health                 Check API / DB / Redis / Incus'',
    ''  list, ls               List instances'',
    ''  get, show <name|id>    Show instance (incl. password + ports)'',
    ''  create <name>          Create NAT VPS (-cpu -memory -disk -image -wait)'',
    ''  delete, rm <name|id>   Delete instance (-y to skip confirm)'',
    ''  start|stop|restart|repair <name|id>'',
    ''  reset-password, passwd <name|id>  Generate new root password (-password to set)'',
    ''  ssh <name|id>          Print ssh command + password (-host IP)'',
    ''  usage <name|id>        Daily disk + bandwidth chart data (-days 30)'',
    ''  metrics [name|id]      Hourly CPU/RAM/disk/bandwidth (-hours 24; omit name = all)'',
    ''  resources, stats <name|id>  Live CPU/RAM/disk/bandwidth usage'',
    ''  hoststats              Free host ports + free storage-pool disk'',
    '''',
    ''Common flags: -url -key -config -json'',
    ''Env: GOINCUS_URL GOINCUS_API_KEY GOINCUS_CONFIG GOINCUS_SSH_HOST'',
    '''']"

end
