(* ===== verification/Durations.thy ===== *)
theory Durations imports Config begin

text \<open>
  \<open>internal/config/duration.go\<close>: durations in the configuration file, with the part of Go's \<open>time\<close> it uses,
  \<open>Duration.String\<close> and \<open>ParseDuration\<close>.

  A duration is a number of nanoseconds that fits into 64 bits. The functions of the library work on \<open>uint64\<close>, whose range
  they test themselves and never leave; here that is \<open>int\<close>, never negative. The one product they compute as \<open>float64\<close>, of a fraction and
  its unit, is the exact quotient.
\<close>

section \<open>Printing\<close>

text \<open>\<open>fmtFrac\<close>: the last digits of a number as a fraction in front of a text, without trailing zeros.\<close>

primrec frac_loop :: "nat \<Rightarrow> bool \<Rightarrow> int \<Rightarrow> string \<Rightarrow> bool \<times> int \<times> string" where
  "frac_loop 0 printing v buf = (printing, v, buf)"
| "frac_loop (Suc n) printing v buf =
     (let printing = (printing \<or> v mod 10 \<noteq> 0) in
      frac_loop n printing (v div 10) (if printing then digit_char (nat (v mod 10)) # buf else buf))"

definition fmtFrac :: "nat \<Rightarrow> int \<Rightarrow> string \<Rightarrow> int \<times> string" where
  "fmtFrac prec v buf =
     (case frac_loop prec False v buf of (printing, v, buf) \<Rightarrow> (v, if printing then CHR ''.'' # buf else buf))"

definition micro_sign :: string where "micro_sign = [CHR 0xC2, CHR 0xB5]"

definition small_unit :: "int \<Rightarrow> nat \<times> string" where
  "small_unit u =
     (if u < 1000 then (0, ''ns'') else if u < 1000000 then (3, micro_sign @ ''s'') else (6, ''ms''))"

definition print_seconds :: "int \<Rightarrow> string" where
  "print_seconds u =
     (case fmtFrac 9 u ''s'' of (secs, buf) \<Rightarrow>
      let buf = itoa (secs mod 60) @ buf; mins = secs div 60 in
      if mins = 0 then buf
      else
        let buf = itoa (mins mod 60) @ ''m'' @ buf; hours = mins div 60 in
        if hours = 0 then buf else itoa hours @ ''h'' @ buf)"

definition Duration_String :: "int \<Rightarrow> string" where
  "Duration_String d =
     (let u = \<bar>d\<bar>;
          text = (if u = 0 then ''0s''
                  else if u < 1000000000
                  then (case small_unit u of (prec, unit) \<Rightarrow> case fmtFrac prec u unit of (v, buf) \<Rightarrow> itoa v @ buf)
                  else print_seconds u) in
      if d < 0 then CHR ''-'' # text else text)"

section \<open>Reading\<close>

text \<open>\<open>leadingInt\<close> fails on a number beyond \<open>2 ^ 63\<close>; \<open>leadingFraction\<close> drops the digits that do not fit.\<close>

definition int_step :: "int option \<Rightarrow> char \<Rightarrow> int option" where
  "int_step x c =
     (case x of None \<Rightarrow> None | Some a \<Rightarrow>
        if 2 ^ 63 div 10 < a then None
        else let b = 10 * a + int (char_digit c) in if 2 ^ 63 < b then None else Some b)"

definition leadingInt :: "string \<Rightarrow> int option \<times> string" where
  "leadingInt s = (foldl int_step (Some 0) (takeWhile is_digit s), dropWhile is_digit s)"

definition frac_step :: "int \<times> int \<times> bool \<Rightarrow> char \<Rightarrow> int \<times> int \<times> bool" where
  "frac_step st c =
     (case st of (x, scale, overflow) \<Rightarrow>
        if overflow \<or> (2 ^ 63 - 1) div 10 < x then (x, scale, True)
        else let y = 10 * x + int (char_digit c) in if 2 ^ 63 < y then (x, scale, True) else (y, 10 * scale, False))"

definition leadingFraction :: "string \<Rightarrow> int \<times> int \<times> string" where
  "leadingFraction s =
     (case foldl frac_step (0, 1, False) (takeWhile is_digit s) of (x, scale, _) \<Rightarrow> (x, scale, dropWhile is_digit s))"

definition unit_of :: "string \<Rightarrow> int option" where
  "unit_of s = map_of [(''ns'', 1), (''us'', 1000), (micro_sign @ ''s'', 1000), ([CHR 0xCE, CHR 0xBC] @ ''s'', 1000),
     (''ms'', 1000000), (''s'', 1000000000), (''m'', 60000000000), (''h'', 3600000000000)] s"

definition number_char :: "char \<Rightarrow> bool" where
  "number_char c \<longleftrightarrow> c = CHR ''.'' \<or> is_digit c"

text \<open>The optional fraction: its digits as a number, the scale, whether there were any digits, and the rest.\<close>

definition read_fraction :: "string \<Rightarrow> int \<times> int \<times> bool \<times> string" where
  "read_fraction s =
     (if s \<noteq> [] \<and> hd s = CHR ''.''
      then (case leadingFraction (tl s) of (f, scale, rest) \<Rightarrow> (f, scale, length rest \<noteq> length (tl s), rest))
      else (0, 1, False, s))"

text \<open>One round of the loop: a number and its unit, as nanoseconds. The errors quote the text as a whole.\<close>

definition invalid_duration :: "string \<Rightarrow> error" where
  "invalid_duration s = ErrText (''time: invalid duration '' @ go_quote s)"

definition read_part :: "string \<Rightarrow> string \<Rightarrow> error + int \<times> string" where
  "read_part orig s =
     (if s = [] \<or> \<not> number_char (hd s) then Inl (invalid_duration orig)
      else case leadingInt s of (n, s1) \<Rightarrow>
        (case n of
           None \<Rightarrow> Inl (invalid_duration orig)
         | Some v \<Rightarrow>
             (case read_fraction s1 of (f, scale, post, s2) \<Rightarrow>
              if length s1 = length s \<and> \<not> post then Inl (invalid_duration orig)
              else
              let u = takeWhile (\<lambda>c. \<not> number_char c) s2; rest = dropWhile (\<lambda>c. \<not> number_char c) s2 in
              if u = [] then Inl (ErrText (''time: missing unit in duration '' @ go_quote orig))
              else
              (case unit_of u of
                 None \<Rightarrow> Inl (ErrText (''time: unknown unit '' @ go_quote u @ '' in duration '' @ go_quote orig))
               | Some unit \<Rightarrow>
                   if 2 ^ 63 div unit < v then Inl (invalid_duration orig)
                   else
                   let v = v * unit + (if 0 < f then f * unit div scale else 0) in
                   if 2 ^ 63 < v then Inl (invalid_duration orig) else Inr (v, rest)))))"

lemma length_dropWhile_lt: "xs \<noteq> [] \<Longrightarrow> P (hd xs) \<Longrightarrow> length (dropWhile P xs) < length xs"
  by (cases xs) (auto intro: le_less_trans [OF length_dropWhile_le])

lemma read_fraction_shorter: "read_fraction s = (f, scale, post, rest) \<Longrightarrow> length rest \<le> length s"
  by (auto simp: read_fraction_def leadingFraction_def split: prod.splits if_splits
      intro: le_trans [OF length_dropWhile_le])

lemma read_part_shorter:
  assumes "read_part orig s = Inr (v, rest)"
  shows "length rest < length s"
proof -
  obtain n s1 where 1: "leadingInt s = (n, s1)" by fastforce
  obtain f scale post s2 where 2: "read_fraction s1 = (f, scale, post, s2)" by (metis prod_cases4)
  let ?p = "\<lambda>c. \<not> number_char c"
  have "rest = dropWhile ?p s2" "takeWhile ?p s2 \<noteq> []"
    using assms by (auto simp: read_part_def 1 2 Let_def split: if_splits option.splits)
  then have "length rest < length s2"
    using length_dropWhile_lt [of s2 ?p] by (cases s2) (auto split: if_splits)
  moreover have "length s2 \<le> length s1" by (rule read_fraction_shorter [OF 2])
  moreover have "length s1 \<le> length s" using 1 by (auto simp: leadingInt_def length_dropWhile_le)
  ultimately show ?thesis by simp
qed

function read_parts :: "string \<Rightarrow> int \<Rightarrow> string \<Rightarrow> error + int" where
  "read_parts orig d s =
     (if s = [] then Inr d
      else (case read_part orig s of
              Inl e \<Rightarrow> Inl e
            | Inr (v, rest) \<Rightarrow> if 2 ^ 63 < d + v then Inl (invalid_duration orig) else read_parts orig (d + v) rest))"
  by pat_completeness auto
termination by (relation "measure (\<lambda>(_, _, s). length s)") (auto dest: read_part_shorter)

declare read_parts.simps [simp del]

definition ParseDuration :: "string \<Rightarrow> error + int" where
  "ParseDuration orig =
     (let neg = (orig \<noteq> [] \<and> hd orig = CHR ''-'');
          s = (if orig \<noteq> [] \<and> hd orig \<in> {CHR ''-'', CHR ''+''} then tl orig else orig) in
      if s = ''0'' then Inr 0
      else if s = [] then Inl (invalid_duration orig)
      else (case read_parts orig 0 s of
              Inl e \<Rightarrow> Inl e
            | Inr d \<Rightarrow>
                if neg then Inr (- d)
                else if 2 ^ 63 - 1 < d then Inl (invalid_duration orig) else Inr d))"

section \<open>Durations in the file\<close>

text \<open>
  A duration is written with \<open>time.Duration.String\<close>, and read as such a text or, where the decoder does not give a text, as
  a number of nanoseconds. What the decoder gives for a scalar is \<open>yaml_scalar\<close>.
\<close>

record yaml_scalar =
  y_string :: "error + string"
  y_int64 :: "error + int"

definition Duration_UnmarshalYAML :: "yaml_scalar \<Rightarrow> error + int" where
  "Duration_UnmarshalYAML y =
     (case y_string y of
        Inr s \<Rightarrow>
          (case ParseDuration s of
             Inl e \<Rightarrow> Inl (ErrWrap (''invalid duration '' @ go_quote s @ '': '') e '''')
           | Inr d \<Rightarrow> Inr d)
      | Inl _ \<Rightarrow> y_int64 y)"

definition Duration_MarshalYAML :: "int \<Rightarrow> string" where
  "Duration_MarshalYAML d = Duration_String d"

section \<open>What is printed is read back\<close>

primrec digits :: "nat \<Rightarrow> int \<Rightarrow> string" where
  "digits 0 v = []"
| "digits (Suc n) v = digits n (v div 10) @ [digit_char (nat (v mod 10))]"

lemma nat_mod_10 [simp]: "nat (v mod 10) < 10"
  by simp

lemma digits_digits [simp]: "list_all is_digit (digits n v)"
  by (induction n arbitrary: v) simp_all

lemma digits_Nil [simp]: "digits n v = [] \<longleftrightarrow> n = 0"
  by (cases n) simp_all

lemma mod_power_Suc: "(v :: int) mod 10 ^ Suc n = 10 * (v div 10 mod 10 ^ n) + v mod 10"
  using mod_mult2_eq' [of v 10 "10 ^ n"] by simp

lemma div_power_Suc: "(v :: int) div 10 ^ Suc n = v div 10 div 10 ^ n"
  using div_mult2_eq' [of v 10 "10 ^ n"] by simp

lemma frac_loop_True: "frac_loop n True v buf = (True, v div 10 ^ n, digits n v @ buf)"
  by (induction n arbitrary: v buf) (simp_all add: div_power_Suc Let_def del: power_Suc)

lemma frac_loop_False:
  "\<exists>k \<le> n. frac_loop n False v buf = (0 < k, v div 10 ^ n, digits k (v div 10 ^ (n - k)) @ buf)
     \<and> v mod 10 ^ n = 10 ^ (n - k) * (v div 10 ^ (n - k) mod 10 ^ k)"
proof (induction n arbitrary: v buf)
  case (Suc n)
  show ?case
  proof (cases "v mod 10 = 0")
    case False
    then show ?thesis
      by (intro exI [of _ "Suc n"]) (simp add: frac_loop_True div_power_Suc Let_def del: power_Suc)
  next
    case True
    obtain k where k: "k \<le> n" "frac_loop n False (v div 10) buf =
        (0 < k, v div 10 div 10 ^ n, digits k (v div 10 div 10 ^ (n - k)) @ buf)"
      "v div 10 mod 10 ^ n = 10 ^ (n - k) * (v div 10 div 10 ^ (n - k) mod 10 ^ k)"
      using Suc.IH [of "v div 10" buf] by blast
    have "Suc n - k = Suc (n - k)" using k(1) by simp
    then show ?thesis
      using True k by (intro exI [of _ k]) (simp add: div_power_Suc mod_power_Suc Let_def del: power_Suc, simp)
  qed
qed simp

lemma read_digits:
  "0 \<le> x \<Longrightarrow> x * 10 ^ k + v mod 10 ^ k \<le> 2 ^ 63 - 1 \<Longrightarrow>
   foldl frac_step (x, scale, False) (digits k v) = (x * 10 ^ k + v mod 10 ^ k, scale * 10 ^ k, False)"
proof (induction k arbitrary: v)
  case (Suc k)
  let ?y = "x * 10 ^ k + v div 10 mod 10 ^ k"
  have y: "x * 10 ^ Suc k + v mod 10 ^ Suc k = 10 * ?y + v mod 10" by (simp add: mod_power_Suc del: power_Suc) simp
  then have "10 * ?y \<le> 2 ^ 63 - 1" using Suc.prems(2) by (smt (verit) pos_mod_sign)
  moreover have "0 \<le> ?y" using Suc.prems(1) by simp
  ultimately have "?y \<le> 2 ^ 63 - 1" "\<not> (2 ^ 63 - 1) div 10 < ?y" by simp_all
  then show ?case
    using Suc.IH [OF Suc.prems(1), of "v div 10"] Suc.prems(2) unfolding y
    by (simp add: frac_step_def Let_def algebra_simps)
qed simp

lemma int_step_Some:
  "a \<le> 2 ^ 63 div 10 \<Longrightarrow> 10 * a + int (char_digit c) \<le> 2 ^ 63 \<Longrightarrow> int_step (Some a) c = Some (10 * a + int (char_digit c))"
  by (simp add: int_step_def Let_def)

lemma int_steps: "int n \<le> 2 ^ 63 \<Longrightarrow> foldl int_step (Some 0) (nat_str n) = Some (int n)"
proof (induction n rule: nat_str.induct)
  case (1 n)
  show ?case
  proof (cases "n < 10")
    case True
    then show ?thesis by (subst nat_str.simps) (simp add: int_step_Some)
  next
    case False
    have "n = 10 * (n div 10) + n mod 10" by simp
    then have "int n = 10 * int (n div 10) + int (n mod 10)" by linarith
    then have n: "int (n div 10) \<le> 2 ^ 63 div 10" "10 * int (n div 10) + int (char_digit (digit_char (n mod 10))) \<le> 2 ^ 63"
      "10 * int (n div 10) + int (char_digit (digit_char (n mod 10))) = int n"
      using 1(2) by simp_all
    have "int (n div 10) \<le> 2 ^ 63" using n(1) by simp
    then have "foldl int_step (Some 0) (nat_str (n div 10)) = Some (int (n div 10))" by (rule 1(1) [OF False])
    then show ?thesis using False int_step_Some [OF n(1,2)] n(3)
      by (subst nat_str.simps) (simp only: if_False foldl_append foldl.simps)
  qed
qed

lemma itoa_digits: "0 \<le> v \<Longrightarrow> list_all is_digit (itoa v) \<and> itoa v \<noteq> []"
  by (simp add: itoa_def nat_str_digits)

text \<open>What follows a number must not go on with a digit, what follows a unit must start with one.\<close>

lemma take_digits:
  assumes "list_all is_digit ds" and "rest = [] \<or> \<not> is_digit (hd rest)"
  shows "takeWhile is_digit (ds @ rest) = ds" "dropWhile is_digit (ds @ rest) = rest"
proof -
  have "takeWhile is_digit rest = []" "dropWhile is_digit rest = rest" using assms(2) by (cases rest; simp)+
  then show "takeWhile is_digit (ds @ rest) = ds" "dropWhile is_digit (ds @ rest) = rest"
    using assms(1) by (simp_all add: list_all_iff)
qed

lemma leadingInt_itoa:
  "0 \<le> v \<Longrightarrow> v \<le> 2 ^ 63 \<Longrightarrow> rest = [] \<or> \<not> is_digit (hd rest) \<Longrightarrow> leadingInt (itoa v @ rest) = (Some v, rest)"
  using int_steps [of "nat v"] itoa_digits [of v] by (simp add: leadingInt_def take_digits) (simp add: itoa_def)

definition is_unit :: "string \<Rightarrow> bool" where
  "is_unit u \<longleftrightarrow> u \<noteq> [] \<and> list_all (\<lambda>c. \<not> number_char c) u"

definition unit_rest :: "string \<Rightarrow> bool" where
  "unit_rest rest \<longleftrightarrow> rest = [] \<or> is_digit (hd rest)"

lemma take_unit:
  assumes "is_unit u" and "unit_rest rest"
  shows "takeWhile (\<lambda>c. \<not> number_char c) (u @ rest) = u" "dropWhile (\<lambda>c. \<not> number_char c) (u @ rest) = rest"
proof -
  have "takeWhile (\<lambda>c. \<not> number_char c) rest = []" "dropWhile (\<lambda>c. \<not> number_char c) rest = rest"
    using assms(2) by (cases rest; simp add: unit_rest_def number_char_def)+
  then show "takeWhile (\<lambda>c. \<not> number_char c) (u @ rest) = u" "dropWhile (\<lambda>c. \<not> number_char c) (u @ rest) = rest"
    using assms(1) by (simp_all add: is_unit_def list_all_iff)
qed

lemma unit_not_digit: "is_unit u \<Longrightarrow> u \<noteq> [] \<and> \<not> is_digit (hd u) \<and> hd u \<noteq> CHR ''.''"
  by (cases u) (simp_all add: is_unit_def number_char_def)

text \<open>A number, perhaps a fraction, and a unit, with any further part behind them, are read as their product.\<close>

lemma read_part_printed:
  assumes v: "0 \<le> v" "v * unit + part \<le> 2 ^ 63" and unit: "0 < unit" "is_unit u" "unit_of u = Some unit" "unit_rest rest"
    and fr: "fr = [] \<and> part = 0 \<or> (\<exists>k w. 0 < k \<and> k \<le> 9 \<and> fr = CHR ''.'' # digits k w \<and> part = w mod 10 ^ k * unit div 10 ^ k)"
  shows "read_part orig (itoa v @ fr @ u @ rest) = Inr (v * unit + part, rest)"
proof -
  obtain f scale post where 2: "read_fraction (fr @ u @ rest) = (f, scale, post, u @ rest)"
      "part = (if 0 < f then f * unit div scale else 0)" "0 \<le> part"
  proof (cases "fr = []")
    case True
    then show ?thesis
      using that [of 0 1 False] fr unit_not_digit [OF unit(2)] by (simp add: read_fraction_def)
  next
    case False
    then obtain k w where k: "0 < k" "k \<le> 9" "fr = CHR ''.'' # digits k w" "part = w mod 10 ^ k * unit div 10 ^ k"
      using fr by blast
    have "w mod 10 ^ k < 10 ^ k" by simp
    moreover have "(10 :: int) ^ k \<le> 1000000000" using power_increasing [of k 9 "10 :: int"] k(2) by simp
    ultimately have "w mod 10 ^ k < 1000000000" by linarith
    then have "w mod 10 ^ k \<le> 2 ^ 63 - 1" by simp
    then have "leadingFraction (digits k w @ u @ rest) = (w mod 10 ^ k, 10 ^ k, u @ rest)"
      using read_digits [of 0 k w 1] unit_not_digit [OF unit(2)]
      by (simp add: leadingFraction_def take_digits)
    then have "read_fraction (fr @ u @ rest) = (w mod 10 ^ k, 10 ^ k, True, u @ rest)"
      using k(1) by (simp add: read_fraction_def k(3))
    moreover have "0 \<le> w mod 10 ^ k" by simp
    moreover from this have "0 \<le> part" using unit(1) by (simp add: k(4) pos_imp_zdiv_nonneg_iff)
    moreover have "part = (if 0 < w mod 10 ^ k then w mod 10 ^ k * unit div 10 ^ k else 0)"
      using \<open>0 \<le> w mod 10 ^ k\<close> by (cases "w mod 10 ^ k = 0") (simp_all only: k(4) order_le_less, simp_all)
    ultimately show ?thesis using that by blast
  qed
  have 3: "fr @ u @ rest = [] \<or> \<not> is_digit (hd (fr @ u @ rest))"
    using fr unit_not_digit [OF unit(2)] by (auto simp: is_digit_def)
  have "v * 1 \<le> v * unit" using v(1) unit(1) by (intro mult_left_mono) simp_all
  then have "v \<le> 2 ^ 63" using v 2(3) by linarith
  then have 1: "leadingInt (itoa v @ fr @ u @ rest) = (Some v, fr @ u @ rest)" by (rule leadingInt_itoa [OF v(1) _ 3])
  have "v * unit \<le> 2 ^ 63" using v(2) 2(3) by linarith
  then have "v * unit div unit \<le> 2 ^ 63 div unit" using unit(1) by (intro zdiv_mono1)
  then have "\<not> 2 ^ 63 div unit < v" using unit(1) by simp
  moreover have "itoa v \<noteq> [] \<and> is_digit (hd (itoa v))" using itoa_digits [OF v(1)] by (cases "itoa v") auto
  ultimately show ?thesis
    using v(2) 2(2) unit
    by (auto simp: read_part_def number_char_def [of "hd (itoa v)"] 1 2(1) take_unit Let_def is_unit_def)
qed

lemma fmtFrac_printed:
  assumes "fmtFrac prec u unit = (v, buf)" and "prec \<le> 9" and "unit_of unit = Some (10 ^ prec)" and "is_unit unit"
  shows "v = u div 10 ^ prec \<and> (\<forall>m rest. 0 \<le> m \<and> m * 10 ^ prec + u mod 10 ^ prec \<le> 2 ^ 63 \<and> unit_rest rest \<longrightarrow>
    read_part orig (itoa m @ buf @ rest) = Inr (m * 10 ^ prec + u mod 10 ^ prec, rest))"
proof -
  obtain k where k: "k \<le> prec" "frac_loop prec False u unit = (0 < k, u div 10 ^ prec, digits k (u div 10 ^ (prec - k)) @ unit)"
    "u mod 10 ^ prec = 10 ^ (prec - k) * (u div 10 ^ (prec - k) mod 10 ^ k)"
    using frac_loop_False by blast
  let ?fr = "if 0 < k then CHR ''.'' # digits k (u div 10 ^ (prec - k)) else []"
  have buf: "v = u div 10 ^ prec" "buf = ?fr @ unit" using assms(1) k(2) by (auto simp: fmtFrac_def)
  have "(10 :: int) ^ prec = 10 ^ (prec - k) * 10 ^ k" using k(1) by (simp flip: power_add)
  then have "x * 10 ^ prec div 10 ^ k = 10 ^ (prec - k) * x" for x :: int by (simp add: ac_simps)
  then have "u div 10 ^ (prec - k) mod 10 ^ k * 10 ^ prec div 10 ^ k = u mod 10 ^ prec" unfolding k(3) by blast
  then have "?fr = [] \<and> u mod 10 ^ prec = 0 \<or> (\<exists>k w. 0 < k \<and> k \<le> 9 \<and> ?fr = CHR ''.'' # digits k w
      \<and> u mod 10 ^ prec = w mod 10 ^ k * 10 ^ prec div 10 ^ k)"
    using k assms(2)
    by (cases "k = 0") (simp, intro disjI2 exI [of _ k] exI [of _ "u div 10 ^ (prec - k)"], simp)
  from read_part_printed [OF _ _ _ assms(4,3) _ this] buf show ?thesis by auto
qed

lemma read_parts_printed:
  assumes "read_part orig (s @ rest) = Inr (v, rest)" and "s \<noteq> []" and "d + v \<le> 2 ^ 63"
  shows "read_parts orig d (s @ rest) = read_parts orig (d + v) rest"
  using assms by (subst read_parts.simps) simp

lemma read_parts_end [simp]: "read_parts orig d [] = Inr d"
  by (simp add: read_parts.simps)

lemma units:
  "is_unit ''ns''" "is_unit (micro_sign @ ''s'')" "is_unit ''ms''" "is_unit ''s''" "is_unit ''m''" "is_unit ''h''"
  "unit_of ''ns'' = Some (10 ^ 0)" "unit_of (micro_sign @ ''s'') = Some (10 ^ 3)" "unit_of ''ms'' = Some (10 ^ 6)"
  "unit_of ''s'' = Some (10 ^ 9)" "unit_of ''m'' = Some 60000000000" "unit_of ''h'' = Some 3600000000000"
  by code_simp+

lemma unit_rest_itoa: "0 \<le> v \<Longrightarrow> unit_rest (itoa v @ s)"
  using itoa_digits [of v] by (cases "itoa v") (simp_all add: unit_rest_def)

lemma unit_rest_Nil: "unit_rest []"
  by (simp add: unit_rest_def)

lemma read_small:
  assumes "0 < u" and "u < 1000000000" and "small_unit u = (prec, unit)" and "fmtFrac prec u unit = (v, buf)"
  shows "read_parts orig 0 (itoa v @ buf) = Inr u"
proof -
  have p: "prec \<le> 9" "unit_of unit = Some (10 ^ prec)" "is_unit unit"
    using assms(3) units by (auto simp: small_unit_def split: if_splits)
  have v: "v = u div 10 ^ prec" and read: "0 \<le> v \<Longrightarrow> v * 10 ^ prec + u mod 10 ^ prec \<le> 2 ^ 63 \<Longrightarrow>
      read_part orig (itoa v @ buf @ []) = Inr (v * 10 ^ prec + u mod 10 ^ prec, [])"
    using fmtFrac_printed [OF assms(4) p] unit_rest_Nil by blast+
  have sum: "v * 10 ^ prec + u mod 10 ^ prec = u" unfolding v by (rule div_mult_mod_eq)
  have nn: "0 \<le> v" using assms(1) unfolding v by (simp add: pos_imp_zdiv_nonneg_iff)
  have "read_part orig ((itoa v @ buf) @ []) = Inr (u, [])" using read [OF nn] assms(2) unfolding sum by simp
  then have "read_parts orig 0 ((itoa v @ buf) @ []) = read_parts orig (0 + u) []"
    by (rule read_parts_printed) (use assms(2) itoa_digits [OF nn] in auto)
  then show ?thesis by simp
qed

lemma read_large:
  assumes "1000000000 \<le> u" and "u \<le> 2 ^ 63"
  shows "read_parts orig 0 (print_seconds u) = Inr u"
proof -
  obtain secs buf where f: "fmtFrac 9 u ''s'' = (secs, buf)" by fastforce
  define s m h where "s = secs mod 60" and "m = secs div 60 mod 60" and "h = secs div 60 div 60"
  have secs: "secs = u div 10 ^ 9" and read: "\<And>n rest. 0 \<le> n \<Longrightarrow> n * 10 ^ 9 + u mod 10 ^ 9 \<le> 2 ^ 63 \<Longrightarrow> unit_rest rest \<Longrightarrow>
      read_part orig (itoa n @ buf @ rest) = Inr (n * 10 ^ 9 + u mod 10 ^ 9, rest)"
    using fmtFrac_printed [OF f _ units(10,4)] by simp_all
  have nn: "0 \<le> s" "0 \<le> m" "0 \<le> h" using assms(1) by (simp_all add: s_def m_def h_def secs)
  have u: "h * 3600000000000 + m * 60000000000 + (s * 10 ^ 9 + u mod 10 ^ 9) = u"
  proof -
    have "u = 10 ^ 9 * secs + u mod 10 ^ 9" "secs = 60 * (secs div 60) + s" "secs div 60 = 60 * h + m"
      by (simp_all add: secs s_def m_def h_def)
    then show ?thesis by simp
  qed
  define part where "part = s * 10 ^ 9 + u mod 10 ^ 9"
  have bounds: "h * 3600000000000 \<le> 2 ^ 63" "m * 60000000000 \<le> 2 ^ 63" "part \<le> 2 ^ 63"
    "0 \<le> part"
    using u nn assms(2) by (simp_all add: part_def)
  have H: "read_part orig (itoa h @ [] @ ''h'' @ rest) = Inr (h * 3600000000000 + 0, rest)" if "unit_rest rest" for rest
    by (rule read_part_printed) (use nn bounds units that in simp_all)
  have M: "read_part orig (itoa m @ [] @ ''m'' @ rest) = Inr (m * 60000000000 + 0, rest)" if "unit_rest rest" for rest
    by (rule read_part_printed) (use nn bounds units that in simp_all)
  have S: "read_parts orig (u - (part)) (itoa s @ buf) = Inr u"
    using read_parts_printed [of orig "itoa s @ buf" "[]" "part"] read [OF nn(1) _ unit_rest_Nil] bounds(3)
      itoa_digits [OF nn(1)] assms(2) by (simp add: part_def)
  have MS: "read_parts orig (u - (m * 60000000000 + (part))) (itoa m @ ''m'' @ itoa s @ buf) = Inr u"
    using read_parts_printed [of orig "itoa m @ ''m''" "itoa s @ buf" "m * 60000000000"] M [OF unit_rest_itoa [OF nn(1)]]
      itoa_digits [OF nn(2)] S assms(2) bounds(4) by simp
  have "u - (m * 60000000000 + part) = h * 3600000000000" using u by (simp add: part_def)
  note MS' = MS [unfolded this]
  have HMS: "read_parts orig 0 (itoa h @ ''h'' @ itoa m @ ''m'' @ itoa s @ buf) = Inr u"
    using read_parts_printed [of orig "itoa h @ ''h''" "itoa m @ ''m'' @ itoa s @ buf" "h * 3600000000000" 0]
      H [OF unit_rest_itoa [OF nn(2)]] itoa_digits [OF nn(3)] MS' bounds(1) by simp
  have shown: "print_seconds u = (if secs div 60 = 0 then itoa s @ buf else if h = 0 then itoa m @ ''m'' @ itoa s @ buf
      else itoa h @ ''h'' @ itoa m @ ''m'' @ itoa s @ buf)"
    by (simp add: print_seconds_def f Let_def s_def m_def h_def)
  show ?thesis
  proof (cases "h = 0")
    case True
    then have m: "secs div 60 = m" by (simp add: h_def m_def)
    show ?thesis
    proof (cases "m = 0")
      case True
      have "u - part = 0" using True u \<open>h = 0\<close> by (simp add: part_def)
      have "print_seconds u = itoa s @ buf" by (simp add: shown m True)
      then show ?thesis using S by (simp only: \<open>u - part = 0\<close>)
    next
      case False
      then show ?thesis using MS' by (simp add: shown m \<open>h = 0\<close>)
    qed
  next
    case False
    then have "secs div 60 \<noteq> 0" by (auto simp: h_def)
    then show ?thesis using False HMS by (simp add: shown)
  qed
qed

lemma print_starts:
  assumes "0 < u"
  shows "1000000000 \<le> u \<Longrightarrow> \<exists>v s. 0 \<le> v \<and> print_seconds u = itoa v @ s \<and> s \<noteq> []"
    and "fmtFrac prec u unit = (v, buf) \<Longrightarrow> unit \<noteq> [] \<Longrightarrow> 0 \<le> v \<and> buf \<noteq> []"
proof -
  have frac: "0 \<le> v \<and> buf \<noteq> []" if "fmtFrac prec u unit = (v, buf)" "unit \<noteq> []" for prec unit v buf
    using that frac_loop_False [of prec u unit] assms by (auto simp: fmtFrac_def pos_imp_zdiv_nonneg_iff split: prod.splits if_splits)
  show "fmtFrac prec u unit = (v, buf) \<Longrightarrow> unit \<noteq> [] \<Longrightarrow> 0 \<le> v \<and> buf \<noteq> []" by (rule frac)
  have key: "\<exists>v. 0 \<le> v \<and> (\<exists>s. itoa w @ r = itoa v @ s \<and> s \<noteq> [])" if "0 \<le> w" "r \<noteq> []" for w r
    using that by blast
  obtain secs buf where f: "fmtFrac 9 u ''s'' = (secs, buf)" by fastforce
  then show "\<exists>v s. 0 \<le> v \<and> print_seconds u = itoa v @ s \<and> s \<noteq> []"
    using frac [OF f] by (auto simp: print_seconds_def Let_def pos_imp_zdiv_nonneg_iff simp del: append.simps append_assoc intro!: key)
qed

text \<open>C22. Every duration that fits into 64 bits, from the least negative to the largest, is read back from the file as it was
written there.\<close>

theorem duration_roundtrip:
  assumes "- (2 ^ 63) \<le> d" and "d < 2 ^ 63"
  shows "Duration_UnmarshalYAML \<lparr>y_string = Inr (Duration_MarshalYAML d), y_int64 = n\<rparr> = Inr d"
proof (cases "d = 0")
  case True
  then show ?thesis by (simp add: Duration_UnmarshalYAML_def Duration_MarshalYAML_def) code_simp
next
  case False
  define u where "u = \<bar>d\<bar>"
  have u: "0 < u" "u \<le> 2 ^ 63" using False assms by (auto simp: u_def)
  obtain v s where shown: "Duration_String d = (if d < 0 then CHR ''-'' # itoa v @ s else itoa v @ s)"
      "0 \<le> v" "s \<noteq> []" "\<And>orig. read_parts orig 0 (itoa v @ s) = Inr u"
  proof (cases "u < 1000000000")
    case True
    obtain prec unit w buf where p: "small_unit u = (prec, unit)" "fmtFrac prec u unit = (w, buf)" by fastforce
    then have "unit \<noteq> []" by (auto simp: small_unit_def split: if_splits)
    from print_starts(2) [OF u(1) p(2) this] show ?thesis
      using that [of w buf] read_small [OF u(1) True p] u(1) True p by (simp add: Duration_String_def Let_def flip: u_def)
  next
    case False
    then obtain w r where "0 \<le> w" "print_seconds u = itoa w @ r" "r \<noteq> []" using print_starts(1) [OF u(1)] by auto
    then show ?thesis
      using that [of w r] read_large [of u] u False by (simp add: Duration_String_def Let_def flip: u_def)
  qed
  have hd: "is_digit (hd (itoa v @ s))" using itoa_digits [OF shown(2)] by (cases "itoa v") auto
  then have "hd (itoa v @ s) \<noteq> CHR ''-'' \<and> hd (itoa v @ s) \<noteq> CHR ''+''" by (auto simp: is_digit_def)
  moreover have "itoa v @ s \<noteq> ''0'' \<and> itoa v @ s \<noteq> []"
    using shown(3) itoa_digits [OF shown(2)] by (cases "itoa v") auto
  ultimately have "ParseDuration (Duration_String d) = Inr d"
    using shown(1,4) u_def assms u(2) by (auto simp: ParseDuration_def Let_def)
  then show ?thesis by (simp add: Duration_UnmarshalYAML_def Duration_MarshalYAML_def)
qed

theorem duration_roundtrip_witness:
  "Duration_UnmarshalYAML \<lparr>y_string = Inr (Duration_MarshalYAML (- 5400000000001)), y_int64 = Inr 0\<rparr> = Inr (- 5400000000001)
   \<and> Duration_MarshalYAML (- 5400000000001) = ''-1h30m0.000000001s''"
  using duration_roundtrip [of "- 5400000000001" "Inr 0"] by (simp, code_simp)

text \<open>A text that the decoder hands over is never read as a number of nanoseconds, even if it looks like one.\<close>

lemma plain_number_refused: "\<exists>e. Duration_UnmarshalYAML \<lparr>y_string = Inr ''3600'', y_int64 = Inr 3600\<rparr> = Inl e"
proof -
  have "case ParseDuration ''3600'' of Inl _ \<Rightarrow> True | Inr _ \<Rightarrow> False" by code_simp
  then show ?thesis by (auto simp: Duration_UnmarshalYAML_def split: sum.splits)
qed

end
