(* ===== verification/Cli.thy ===== *)
theory Cli imports ApiClient Format SetupTexts Durations begin

text \<open>
  \<open>cmd/goincus/cli.go\<close> and the command table of \<open>main.go\<close>: flags, the commands as programs over the HTTP client,
  what they print and their exit codes.

  The process is \<open>cli_env\<close>: environment variables and files, what the user answers to a prompt, and the parts of
  Go's standard library the commands only hand values to (JSON printing, the table writer, the number parsers of the
  flag package). The messages the flag package prints itself are left out. A command returns its output and its exit
  code; only \<open>create\<close> can wait, so it may not return when the clock stands still (\<open>None\<close>).
\<close>

section \<open>The process\<close>

datatype shown =
    ShowHealth "health_response option"
  | ShowInstances "inst list"
  | ShowInstance "inst option"
  | ShowUsage "usage_chart_response option"
  | ShowMetrics "metrics_chart_response option"
  | ShowResources "instance_resources_response option"
  | ShowHostStats "host_stats_response option"
  | ShowSSH string int "inst option"

record cli_env =
  ce_getenv :: "string \<Rightarrow> string"
  ce_readFile :: "string \<Rightarrow> error + string"
  ce_yaml_keys :: "string \<Rightarrow> error + string list"
  ce_answer :: string
  ce_json :: "shown \<Rightarrow> error + string"
  ce_table :: "string list list \<Rightarrow> string"
  ce_uuid :: "uuid \<Rightarrow> string"
  ce_ParseInt :: "string \<Rightarrow> int option"
  ce_ParseFloat :: "string \<Rightarrow> rat option"

record cli_output =
  co_out :: string
  co_err :: string
  co_code :: int

definition newline :: string where "newline = [CHR 0x0A]"

definition exits :: "int \<Rightarrow> cli_output" where
  "exits code = \<lparr>co_out = '''', co_err = '''', co_code = code\<rparr>"

definition printed :: "string \<Rightarrow> cli_output" where
  "printed text = \<lparr>co_out = text, co_err = '''', co_code = 0\<rparr>"

definition usage_error :: "string \<Rightarrow> cli_output" where
  "usage_error text = \<lparr>co_out = '''', co_err = text @ newline, co_code = 2\<rparr>"

definition cliErr :: "error \<Rightarrow> cli_output" where
  "cliErr e = \<lparr>co_out = '''', co_err = ''error: '' @ error_text e @ newline, co_code = 1\<rparr>"

definition printJSON :: "cli_env \<Rightarrow> shown \<Rightarrow> cli_output" where
  "printJSON E v = (case ce_json E v of Inl e \<Rightarrow> cliErr e | Inr text \<Rightarrow> printed text)"

section \<open>Flags\<close>

datatype flag_kind = StringFlag | BoolFlag | IntFlag | FloatFlag | DurationFlag

type_synonym flag_spec = "(string \<times> flag_kind) list"

definition ParseBool :: "string \<Rightarrow> bool option" where
  "ParseBool s =
     (if s \<in> {''1'', ''t'', ''T'', ''TRUE'', ''true'', ''True''} then Some True
      else if s \<in> {''0'', ''f'', ''F'', ''FALSE'', ''false'', ''False''} then Some False else None)"

definition flag_accepts :: "cli_env \<Rightarrow> flag_kind \<Rightarrow> string \<Rightarrow> bool" where
  "flag_accepts E kind v =
     (case kind of
        StringFlag \<Rightarrow> True
      | BoolFlag \<Rightarrow> ParseBool v \<noteq> None
      | IntFlag \<Rightarrow> ce_ParseInt E v \<noteq> None
      | FloatFlag \<Rightarrow> ce_ParseFloat E v \<noteq> None
      | DurationFlag \<Rightarrow> (case ParseDuration v of Inl _ \<Rightarrow> False | Inr _ \<Rightarrow> True))"

text \<open>
  \<open>flag.Parse\<close> with \<open>ExitOnError\<close>: flags up to the first argument that is none or up to \<open>--\<close>; the exit code is 0
  for a request for help and 2 for anything wrong. The value of a flag is the text given last.
\<close>

definition flag_name :: "string \<Rightarrow> string" where
  "flag_name a = drop (if take 2 a = ''--'' then 2 else 1) a"

definition cut_value :: "string \<Rightarrow> string \<times> string option" where
  "cut_value name =
     (if CHR ''='' \<in> set (tl name)
      then let n = hd name # takeWhile (\<lambda>c. c \<noteq> CHR ''='') (tl name) in (n, Some (drop (length n + 1) name))
      else (name, None))"

fun flag_Parse ::
    "cli_env \<Rightarrow> flag_spec \<Rightarrow> string list \<Rightarrow> (string \<times> string) list \<Rightarrow> int + (string \<times> string) list \<times> string list" where
  "flag_Parse E spec [] acc = Inr (acc, [])"
| "flag_Parse E spec (a # rest) acc =
     (if length a < 2 \<or> hd a \<noteq> CHR ''-'' then Inr (acc, a # rest)
      else if a = ''--'' then Inr (acc, rest)
      else if flag_name a = '''' \<or> hd (flag_name a) \<in> {CHR ''-'', CHR ''=''} then Inl 2
      else case cut_value (flag_name a) of (n, v) \<Rightarrow>
        (case map_of spec n of
           None \<Rightarrow> Inl (if n = ''help'' \<or> n = ''h'' then 0 else 2)
         | Some kind \<Rightarrow>
             (case v of
                Some t \<Rightarrow> if flag_accepts E kind t then flag_Parse E spec rest (acc @ [(n, t)]) else Inl 2
              | None \<Rightarrow>
                  if kind = BoolFlag then flag_Parse E spec rest (acc @ [(n, ''true'')])
                  else (case rest of
                          [] \<Rightarrow> Inl 2
                        | t # rest' \<Rightarrow>
                            if flag_accepts E kind t then flag_Parse E spec rest' (acc @ [(n, t)]) else Inl 2))))"

definition flag_text :: "(string \<times> string) list \<Rightarrow> string \<Rightarrow> string option" where
  "flag_text vals n = map_of (rev vals) n"

definition flag_string :: "(string \<times> string) list \<Rightarrow> string \<Rightarrow> string" where
  "flag_string vals n = (case flag_text vals n of None \<Rightarrow> '''' | Some v \<Rightarrow> v)"

definition flag_bool :: "(string \<times> string) list \<Rightarrow> string \<Rightarrow> bool \<Rightarrow> bool" where
  "flag_bool vals n dflt = (case flag_text vals n of None \<Rightarrow> dflt | Some v \<Rightarrow> ParseBool v = Some True)"

definition flag_int :: "cli_env \<Rightarrow> (string \<times> string) list \<Rightarrow> string \<Rightarrow> int \<Rightarrow> int" where
  "flag_int E vals n dflt =
     (case flag_text vals n of None \<Rightarrow> dflt | Some v \<Rightarrow> (case ce_ParseInt E v of None \<Rightarrow> dflt | Some x \<Rightarrow> x))"

definition flag_float :: "cli_env \<Rightarrow> (string \<times> string) list \<Rightarrow> string \<Rightarrow> rat" where
  "flag_float E vals n =
     (case flag_text vals n of None \<Rightarrow> 0 | Some v \<Rightarrow> (case ce_ParseFloat E v of None \<Rightarrow> 0 | Some x \<Rightarrow> x))"

definition flag_duration :: "cli_env \<Rightarrow> (string \<times> string) list \<Rightarrow> string \<Rightarrow> int \<Rightarrow> int" where
  "flag_duration E vals n dflt =
     (case flag_text vals n of None \<Rightarrow> dflt | Some v \<Rightarrow> (case ParseDuration v of Inl _ \<Rightarrow> dflt | Inr x \<Rightarrow> x))"

record cli_flags =
  cf_url :: string
  cf_key :: string
  cf_config :: string
  cf_json :: bool

definition common_flags :: flag_spec where
  "common_flags = [(''url'', StringFlag), (''key'', StringFlag), (''config'', StringFlag), (''json'', BoolFlag)]"

definition parseCLIFlags ::
    "cli_env \<Rightarrow> flag_spec \<Rightarrow> string list \<Rightarrow> int + (string \<times> string) list \<times> cli_flags \<times> string list" where
  "parseCLIFlags E extra args =
     (case flag_Parse E (extra @ common_flags) args [] of
        Inl code \<Rightarrow> Inl code
      | Inr (vals, rest) \<Rightarrow>
          Inr (vals, \<lparr>cf_url = flag_string vals ''url'', cf_key = flag_string vals ''key'',
            cf_config = flag_string vals ''config'', cf_json = flag_bool vals ''json'' False\<rparr>, rest))"

definition newAPIClient :: "cli_env \<Rightarrow> cli_flags \<Rightarrow> error + api_client" where
  "newAPIClient E f =
     api_New (ce_getenv E) (ce_readFile E) (ce_yaml_keys E)
       \<lparr>ao_url = cf_url f, ao_key = cf_key f, ao_config = cf_config f\<rparr>"

text \<open>A leading positional name, so that flags may follow it.\<close>

definition splitNameAndFlags :: "string list \<Rightarrow> string \<times> string list" where
  "splitNameAndFlags args =
     (case args of [] \<Rightarrow> ('''', []) | a # rest \<Rightarrow> if strings_HasPrefix a ''-'' then ('''', args) else (a, rest))"

section \<open>The shape of a command\<close>

text \<open>Output of a program over the state of the HTTP client.\<close>

type_synonym 's command = "'s \<Rightarrow> cli_output \<times> 's"

definition done_with :: "cli_output \<Rightarrow> 's command" where
  "done_with out s = (out, s)"

text \<open>\<open>if err != nil { return cliErr(err) }\<close>\<close>

definition orFail :: "('s, 'a) prog \<Rightarrow> ('a \<Rightarrow> 's command) \<Rightarrow> 's command" where
  "orFail f k s = (case f s of (r, s') \<Rightarrow> (case r of Inl e \<Rightarrow> (cliErr e, s') | Inr x \<Rightarrow> k x s'))"

definition with_client :: "cli_env \<Rightarrow> cli_flags \<Rightarrow> (api_client \<Rightarrow> 's command) \<Rightarrow> 's command" where
  "with_client E f k = (case newAPIClient E f of Inl e \<Rightarrow> done_with (cliErr e) | Inr c \<Rightarrow> k c)"

text \<open>A command without a name, and a command on one instance named before or after the flags.\<close>

definition plain_command ::
    "cli_env \<Rightarrow> string list \<Rightarrow> (cli_flags \<Rightarrow> api_client \<Rightarrow> 's command) \<Rightarrow> 's command" where
  "plain_command E args k =
     (case parseCLIFlags E [] args of
        Inl code \<Rightarrow> done_with (exits code)
      | Inr (vals, f, rest) \<Rightarrow> with_client E f (k f))"

definition given_name :: "string \<Rightarrow> string list \<Rightarrow> string" where
  "given_name name rest = (if name = '''' \<and> rest \<noteq> [] then hd rest else name)"

definition named_command ::
    "cli_env \<Rightarrow> flag_spec \<Rightarrow> string \<Rightarrow> string list \<Rightarrow>
     (string \<Rightarrow> (string \<times> string) list \<Rightarrow> cli_flags \<Rightarrow> 's command) \<Rightarrow> 's command" where
  "named_command E extra usage args k =
     (case splitNameAndFlags args of (name, flagArgs) \<Rightarrow>
        (case parseCLIFlags E extra flagArgs of
           Inl code \<Rightarrow> done_with (exits code)
         | Inr (vals, f, rest) \<Rightarrow>
             let name = given_name name rest in
             if name = '''' then done_with (usage_error usage) else k name vals f))"

definition show_result :: "cli_env \<Rightarrow> cli_flags \<Rightarrow> shown \<Rightarrow> string \<Rightarrow> 's command" where
  "show_result E f v text = done_with (if cf_json f then printJSON E v else printed text)"

section \<open>What is printed\<close>

text \<open>A field of a result, which is at its zero value when the response had no content.\<close>

definition fld :: "('b \<Rightarrow> 'a) \<Rightarrow> 'a \<Rightarrow> 'b option \<Rightarrow> 'a" where
  "fld f zero x = (case x of None \<Rightarrow> zero | Some y \<Rightarrow> f y)"

definition line :: "string list \<Rightarrow> string" where
  "line parts = concat parts @ newline"

definition formatTraffic :: "inst option \<Rightarrow> string" where
  "formatTraffic i = traffic_text (fld i_traffic_used 0 i) (fld i_traffic_gb 0 i) (fld i_throttled False i)"

definition instance_text :: "cli_env \<Rightarrow> inst option \<Rightarrow> string" where
  "instance_text E i = concat [
     line [''name:       '', fld i_name '''' i],
     line [''id:         '', ce_uuid E (fld i_id 0 i)],
     line [''incus:      '', fld i_incus '''' i],
     line [''status:     '', status_of i],
     line [''image:      '', fld i_image '''' i],
     line [''resources:  '', formatCPU (fld i_cpu 0 i), '' CPU / '', itoa (fld i_memory 0 i), '' MiB / '',
       itoa (fld i_storage 0 i), '' GiB / '', formatBandwidth (fld i_bandwidth 0 i)],
     line [''traffic:    '', formatTraffic i, '' ('', fld i_traffic_period '''' i, '')''],
     line [''ports:      '', api_PortRange i, '' ('', nat_str (length (ports_of i)), '' mapped)''],
     (if 0 < api_SSHPort i then line [''ssh_port:   '', itoa (api_SSHPort i)] else ''''),
     (if fld i_password '''' i \<noteq> '''' then line [''password:   '', fld i_password '''' i] else ''''),
     (if fld i_error '''' i \<noteq> '''' then line [''error:      '', fld i_error '''' i] else '''')]"

text \<open>The host to show in an \<open>ssh\<close> command.\<close>

definition TrimPrefix :: "string \<Rightarrow> string \<Rightarrow> string" where
  "TrimPrefix s p = (if strings_HasPrefix s p then drop (length p) s else s)"

definition sshHostHint :: "cli_env \<Rightarrow> string \<Rightarrow> string \<Rightarrow> string" where
  "sshHostHint E flagURL baseURL =
     (let h = ce_getenv E ''GOINCUS_SSH_HOST'' in
      if h \<noteq> '''' then h
      else
        let u = (if flagURL = '''' then baseURL else flagURL);
            u = TrimPrefix (TrimPrefix u ''http://'') ''https://'';
            u = takeWhile (\<lambda>c. c \<noteq> CHR ''/'') u;
            u = takeWhile (\<lambda>c. c \<noteq> CHR '':'') u in
        if u = '''' \<or> u = ''127.0.0.1'' \<or> u = ''localhost'' \<or> u = ''0.0.0.0'' then ''127.0.0.1'' else u)"

definition ssh_command :: "string \<Rightarrow> int \<Rightarrow> string" where
  "ssh_command host port = ''ssh root@'' @ host @ '' -p '' @ itoa port"


section \<open>The commands\<close>

definition runHealth :: "cli_env \<Rightarrow> 's http_client \<Rightarrow> api_json \<Rightarrow> string list \<Rightarrow> 's command" where
  "runHealth E H J args =
     plain_command E args (\<lambda>f c.
     orFail (api_Health H J c) (\<lambda>h.
     if cf_json f then done_with (printJSON E (ShowHealth h))
     else done_with \<lparr>
       co_out = line [''status='', fld h_status '''' h, '' database='', fld h_database '''' h,
           '' redis='', fld h_redis '''' h, '' incus='', fld h_incus '''' h]
         @ concat (map (\<lambda>(k, v). line [''  '', k, '': '', v]) (fld h_checks [] h)),
       co_err = '''', co_code = (if fld h_status '''' h \<noteq> ''ok'' then 1 else 0)\<rparr>))"

definition list_row :: "cli_env \<Rightarrow> inst \<Rightarrow> string list" where
  "list_row E i =
     [i_name i, status_text (i_status i), formatCPU (i_cpu i), itoa (i_memory i) @ ''MB'', itoa (i_storage i) @ ''GB'',
      formatBandwidth (i_bandwidth i), formatTraffic (Some i), api_PortRange (Some i), shortID (ce_uuid E (i_id i))]"

definition runList :: "cli_env \<Rightarrow> 's http_client \<Rightarrow> api_json \<Rightarrow> string list \<Rightarrow> 's command" where
  "runList E H J args =
     plain_command E args (\<lambda>f c.
     orFail (api_ListInstances H J c) (\<lambda>list.
     show_result E f (ShowInstances list)
       (ce_table E ([''NAME'', ''STATUS'', ''CPU'', ''MEM'', ''DISK'', ''BW'', ''TRAFFIC'', ''PORTS'', ''ID'']
          # map (list_row E) list))))"

definition runGet :: "cli_env \<Rightarrow> 's http_client \<Rightarrow> api_json \<Rightarrow> string list \<Rightarrow> 's command" where
  "runGet E H J args =
     named_command E [] ''usage: goincus get <name-or-id> [flags]'' args (\<lambda>name vals f.
     with_client E f (\<lambda>c.
     orFail (api_GetInstance H J c name) (\<lambda>i.
     show_result E f (ShowInstance i) (instance_text E i))))"

definition create_flags :: flag_spec where
  "create_flags = [(''cpu'', FloatFlag), (''memory'', IntFlag), (''disk'', IntFlag), (''bandwidth'', IntFlag),
     (''traffic'', IntFlag), (''image'', StringFlag), (''wait'', BoolFlag), (''timeout'', DurationFlag)]"

definition create_usage :: string where
  "create_usage = ''usage: goincus create <name> [-cpu 0.5|1|2] [-memory MiB] [-disk GiB] [-bandwidth Mbit] [-traffic GiB] [-image ALIAS] [-wait=false]''"

definition create_request_of :: "cli_env \<Rightarrow> string \<Rightarrow> (string \<times> string) list \<Rightarrow> create_request" where
  "create_request_of E name vals =
     \<lparr>cr_name = name, cr_image = flag_string vals ''image'', cr_cpu = flag_float E vals ''cpu'',
      cr_memory = flag_int E vals ''memory'' 0, cr_storage = flag_int E vals ''disk'' 0, cr_processes = 0,
      cr_bandwidth = flag_int E vals ''bandwidth'' 0, cr_traffic_gb = flag_int E vals ''traffic'' 0\<rparr>"

text \<open>The text after a successful creation.\<close>

definition created_text :: "cli_env \<Rightarrow> cli_flags \<Rightarrow> api_client \<Rightarrow> inst option \<Rightarrow> string" where
  "created_text E f c i =
     instance_text E i
     @ (if 0 < api_SSHPort i then
          newline @ ssh_command (sshHostHint E (cf_url f) (ac_base c)) (api_SSHPort i) @ newline
          @ (if fld i_password '''' i \<noteq> '''' then line [''password: '', fld i_password '''' i] else '''')
        else '''')"

text \<open>What is left to do once the instance, if any, and the error of the wait, if any, are known.\<close>

definition create_result ::
    "cli_env \<Rightarrow> cli_flags \<Rightarrow> api_client \<Rightarrow> string \<Rightarrow> waited \<Rightarrow> cli_output" where
  "create_result E f c err res =
     (case res of
        (got, Some e) \<Rightarrow>
          \<lparr>co_out = (case got of Some i \<Rightarrow> if cf_json f then '''' else instance_text E i | None \<Rightarrow> ''''),
           co_err = err @ co_err (cliErr e), co_code = 1\<rparr>
      | (got, None) \<Rightarrow>
          (let i = (case got of None \<Rightarrow> None | Some i \<Rightarrow> i);
               out = (if cf_json f then printJSON E (ShowInstance i) else printed (created_text E f c i)) in
           out\<lparr>co_err := err @ co_err out\<rparr>))"

definition runCreate ::
    "cli_env \<Rightarrow> 's http_client \<Rightarrow> api_json \<Rightarrow> string list \<Rightarrow> 's \<Rightarrow> (cli_output \<times> 's) option" where
  "runCreate E H J args s =
     (case splitNameAndFlags args of (name, flagArgs) \<Rightarrow>
      case parseCLIFlags E create_flags flagArgs of
        Inl code \<Rightarrow> Some (exits code, s)
      | Inr (vals, f, rest) \<Rightarrow>
          let name = given_name name rest in
          if name = '''' then Some (usage_error create_usage, s)
          else
            (case newAPIClient E f of
               Inl e \<Rightarrow> Some (cliErr e, s)
             | Inr c \<Rightarrow>
                 (case api_CreateInstance H J c (create_request_of E name vals) s of (r, s) \<Rightarrow>
                    case r of
                      Inl e \<Rightarrow> Some (cliErr e, s)
                    | Inr i \<Rightarrow>
                        if flag_bool vals ''wait'' True then
                          (case api_WaitRunning H J c (ce_uuid E (fld i_id 0 i)) (flag_duration E vals ''timeout'' 600000000000) s of
                             None \<Rightarrow> None
                           | Some (res, s) \<Rightarrow>
                               Some (create_result E f c (line [''creating '', fld i_name '''' i, '' '', ellipsis]) res, s))
                        else Some (create_result E f c '''' (Some i, None), s))))"

definition delete_usage :: string where
  "delete_usage = ''usage: goincus delete <name-or-id> [-y]''"

text \<open>Whether the user agreed: the flag, or an answer of \<open>y\<close> or \<open>yes\<close>.\<close>

definition consents :: "cli_env \<Rightarrow> bool" where
  "consents E \<longleftrightarrow> (let ans = strings_ToLower (strings_TrimSpace (ce_answer E)) in ans = ''y'' \<or> ans = ''yes'')"

definition runDelete :: "cli_env \<Rightarrow> 's http_client \<Rightarrow> api_json \<Rightarrow> string list \<Rightarrow> 's command" where
  "runDelete E H J args =
     named_command E [(''y'', BoolFlag)] delete_usage args (\<lambda>name vals f.
     let yes = flag_bool vals ''y'' False; prompt = (if yes then '''' else ''delete '' @ name @ ''? [y/N] '') in
     if \<not> yes \<and> \<not> consents E
     then done_with \<lparr>co_out = '''', co_err = prompt @ ''aborted'' @ newline, co_code = 1\<rparr>
     else (\<lambda>s.
       case with_client E f (\<lambda>c.
         orFail (api_DeleteInstance H J c name) (\<lambda>_. done_with (printed (line [''deleted '', name])))) s of
         (out, s) \<Rightarrow> (out\<lparr>co_err := prompt @ co_err out\<rparr>, s)))"

definition action_call ::
    "'s http_client \<Rightarrow> api_json \<Rightarrow> api_client \<Rightarrow> string \<Rightarrow> string \<Rightarrow> ('s, inst option) prog" where
  "action_call H J c action name =
     (if action = ''start'' then api_StartInstance H J c name
      else if action = ''stop'' then api_StopInstance H J c name
      else if action = ''restart'' then api_RestartInstance H J c name
      else if action = ''repair'' then api_RepairInstance H J c name
      else throw (ErrText (''unknown action '' @ action)))"

definition runAction :: "cli_env \<Rightarrow> 's http_client \<Rightarrow> api_json \<Rightarrow> string \<Rightarrow> string list \<Rightarrow> 's command" where
  "runAction E H J action args =
     named_command E [] (''usage: goincus '' @ action @ '' <name-or-id>'') args (\<lambda>name vals f.
     with_client E f (\<lambda>c.
     orFail (action_call H J c action name) (\<lambda>i.
     show_result E f (ShowInstance i) (instance_text E i))))"

definition runStart :: "cli_env \<Rightarrow> 's http_client \<Rightarrow> api_json \<Rightarrow> string list \<Rightarrow> 's command" where
  "runStart E H J = runAction E H J ''start''"

definition runStop :: "cli_env \<Rightarrow> 's http_client \<Rightarrow> api_json \<Rightarrow> string list \<Rightarrow> 's command" where
  "runStop E H J = runAction E H J ''stop''"

definition runRestart :: "cli_env \<Rightarrow> 's http_client \<Rightarrow> api_json \<Rightarrow> string list \<Rightarrow> 's command" where
  "runRestart E H J = runAction E H J ''restart''"

definition runRepair :: "cli_env \<Rightarrow> 's http_client \<Rightarrow> api_json \<Rightarrow> string list \<Rightarrow> 's command" where
  "runRepair E H J = runAction E H J ''repair''"

definition runResetPassword :: "cli_env \<Rightarrow> 's http_client \<Rightarrow> api_json \<Rightarrow> string list \<Rightarrow> 's command" where
  "runResetPassword E H J args =
     named_command E [(''password'', StringFlag)] ''usage: goincus reset-password <name-or-id> [-password SECRET]'' args
       (\<lambda>name vals f.
     with_client E f (\<lambda>c.
     orFail (api_ResetPassword H J c name \<lparr>rp_password = flag_string vals ''password''\<rparr>) (\<lambda>i.
     show_result E f (ShowInstance i)
       (line [''instance: '', fld i_name '''' i, '' ('', ce_uuid E (fld i_id 0 i), '')'']
        @ line [''root_password: '', fld i_password '''' i]))))"

definition metrics_row :: "hourly_metrics_point \<Rightarrow> string list" where
  "metrics_row p =
     [hm_hour p, fmt_fixed 2 (hm_cpu p), formatBytes (hm_mem_used p) @ ''/'' @ formatBytes (hm_mem_total p),
      formatBytes (hm_disk_used p) @ ''/'' @ formatBytes (hm_disk_total p), formatBytes (hm_bandwidth p)]"

definition metrics_text :: "cli_env \<Rightarrow> metrics_chart_response option \<Rightarrow> string" where
  "metrics_text E out =
     line [''range: '', fld mc_from '''' out, '' '', arrow, '' '', fld mc_to '''' out, '' ('', itoa (fld mc_hours 0 out), '' hours)'']
     @ concat (map (\<lambda>m.
         newline @ line [ms_name m, '' ('', ce_uuid E (ms_instance m), '') '', em_dash, '' '',
           nat_str (length (ms_points m)), '' points'']
         @ ce_table E ([''HOUR'', ''CPU%'', ''RAM'', ''DISK'', ''BANDWIDTH''] # map metrics_row (ms_points m)))
       (fld mc_items [] out))"

text \<open>Here the name may be missing: then the metrics of all instances are shown.\<close>

definition runMetrics :: "cli_env \<Rightarrow> 's http_client \<Rightarrow> api_json \<Rightarrow> string list \<Rightarrow> 's command" where
  "runMetrics E H J args =
     (case splitNameAndFlags args of (name, flagArgs) \<Rightarrow>
        (case parseCLIFlags E [(''hours'', IntFlag)] flagArgs of
           Inl code \<Rightarrow> done_with (exits code)
         | Inr (vals, f, rest) \<Rightarrow>
             with_client E f (\<lambda>c.
             orFail (api_GetMetrics H J c (given_name name rest) (flag_int E vals ''hours'' 24)) (\<lambda>out.
             show_result E f (ShowMetrics out) (metrics_text E out)))))"

definition resources_text :: "cli_env \<Rightarrow> instance_resources_response option \<Rightarrow> string" where
  "resources_text E r =
     (let bw = fld (rb_limit \<circ> ir_bandwidth) 0 r; month = fld (rb_monthly_limit \<circ> ir_bandwidth) 0 r;
          bwLimit = (if 0 < bw then itoa bw @ '' Mbit'' else ''unlimited'');
          monthLimit = (if 0 < month then itoa month @ '' GiB'' else ''unlimited'') in
      line [''instance: '', fld ir_name '''' r, '' ('', ce_uuid E (fld ir_instance 0 r), '') status='',
        fld (status_text \<circ> ir_status) '''' r, '' sampled='', fld ir_sampled_at '''' r]
      @ line [''cpu:    '', fmt_fixed 2 (fld (rc_percent \<circ> ir_cpu) 0 r), ''% of '',
          formatCPU (fld (rc_cores \<circ> ir_cpu) 0 r), '' cores'']
      @ line [''memory: '', formatBytes (fld (rm_used \<circ> ir_memory) 0 r), '' / '',
          formatBytes (fld (rm_total \<circ> ir_memory) 0 r), '' (limit '', itoa (fld (rm_limit \<circ> ir_memory) 0 r), '' MiB)'']
      @ line [''disk:   '', formatBytes (fld (rd_used \<circ> ir_disk) 0 r), '' / '',
          formatBytes (fld (rd_total \<circ> ir_disk) 0 r), '' (limit '', itoa (fld (rd_limit \<circ> ir_disk) 0 r), '' GiB)'']
      @ line [''bw:     rate '', bwLimit, ''; month '', formatBytes (fld (rb_monthly_used \<circ> ir_bandwidth) 0 r), '' / '',
          monthLimit, '' ('', fld (rb_period \<circ> ir_bandwidth) '''' r, '') throttled='',
          (if fld (rb_throttled \<circ> ir_bandwidth) False r then ''true'' else ''false''), ''; eth0 total '',
          formatBytes (fld (rb_total \<circ> ir_bandwidth) 0 r)])"

definition runResources :: "cli_env \<Rightarrow> 's http_client \<Rightarrow> api_json \<Rightarrow> string list \<Rightarrow> 's command" where
  "runResources E H J args =
     named_command E [] ''usage: goincus resources <name-or-id>'' args (\<lambda>name vals f.
     with_client E f (\<lambda>c.
     orFail (api_GetInstanceResources H J c name) (\<lambda>out.
     show_result E f (ShowResources out) (resources_text E out))))"

definition host_stats_text :: "host_stats_response option \<Rightarrow> string" where
  "host_stats_text out =
     line [''ports: '', itoa (fld (hp_free \<circ> hs_ports) 0 out), '' free / '', itoa (fld (hp_total \<circ> hs_ports) 0 out),
       '' total (used '', itoa (fld (hp_used \<circ> hs_ports) 0 out), '') range '', itoa (fld (hp_start \<circ> hs_ports) 0 out), ''-'',
       itoa (fld (hp_end \<circ> hs_ports) 0 out), '' ('', itoa (fld (hp_per_instance \<circ> hs_ports) 0 out), '' per instance)'']
     @ line [''disk:  '', formatBytes (fld (hd_free \<circ> hs_disk) 0 out), '' free / '',
       formatBytes (fld (hd_total \<circ> hs_disk) 0 out), '' total (used '', formatBytes (fld (hd_used \<circ> hs_disk) 0 out),
       '') pool '', fld (hd_pool \<circ> hs_disk) '''' out, '' ('', fld (hd_driver \<circ> hs_disk) '''' out, '')'']"

definition runHostStats :: "cli_env \<Rightarrow> 's http_client \<Rightarrow> api_json \<Rightarrow> string list \<Rightarrow> 's command" where
  "runHostStats E H J args =
     plain_command E args (\<lambda>f c.
     orFail (api_GetHostStats H J c) (\<lambda>out.
     show_result E f (ShowHostStats out) (host_stats_text out)))"

definition usage_row :: "daily_usage_point \<Rightarrow> string list" where
  "usage_row p = [du_date p, formatBytes (du_disk_used p), formatBytes (du_disk_total p), formatBytes (du_bandwidth p)]"

definition runUsage :: "cli_env \<Rightarrow> 's http_client \<Rightarrow> api_json \<Rightarrow> string list \<Rightarrow> 's command" where
  "runUsage E H J args =
     named_command E [(''days'', IntFlag)] ''usage: goincus usage <name-or-id> [-days 30]'' args (\<lambda>name vals f.
     with_client E f (\<lambda>c.
     orFail (api_GetInstanceUsage H J c name (flag_int E vals ''days'' 30)) (\<lambda>out.
     show_result E f (ShowUsage out)
       (line [''instance: '', fld uc_name '''' out, '' ('', ce_uuid E (fld uc_instance 0 out), '')'']
        @ line [''range:    '', fld uc_from '''' out, '' '', arrow, '' '', fld uc_to '''' out, '' ('',
            itoa (fld uc_days 0 out), '' days)'']
        @ ce_table E ([''DATE'', ''DISK_USED'', ''DISK_TOTAL'', ''BANDWIDTH''] # map usage_row (fld uc_points [] out))))))"

definition runSSHInfo :: "cli_env \<Rightarrow> 's http_client \<Rightarrow> api_json \<Rightarrow> string list \<Rightarrow> 's command" where
  "runSSHInfo E H J args =
     named_command E [(''host'', StringFlag)] ''usage: goincus ssh <name-or-id> [-host IP]'' args (\<lambda>name vals f.
     with_client E f (\<lambda>c.
     orFail (api_GetInstance H J c name) (\<lambda>i.
     let port = api_SSHPort i in
     if port = 0 then done_with (cliErr (ErrText (''instance has no ports yet (status='' @ status_of i @ '')'')))
     else
       let host = flag_string vals ''host'';
           host = (if host = '''' then ce_getenv E ''GOINCUS_SSH_HOST'' else host);
           host = (if host = '''' then sshHostHint E (cf_url f) (ac_base c) else host) in
       show_result E f (ShowSSH host port i)
         (ssh_command host port @ newline
          @ (if fld i_password '''' i \<noteq> '''' then line [''password: '', fld i_password '''' i] else '''')
          @ line [''ports: '', api_PortRange i]))))"


section \<open>The command table\<close>

text \<open>\<open>init\<close> and \<open>serve\<close> are not commands over the API; what they do is given by the parameters \<open>init\<close> and \<open>serve\<close>.\<close>

definition usage_exit :: "string \<Rightarrow> string \<Rightarrow> cli_output" where
  "usage_exit before usage = \<lparr>co_out = '''', co_err = before @ usage, co_code = 2\<rparr>"

definition commands ::
    "cli_env \<Rightarrow> 's http_client \<Rightarrow> api_json \<Rightarrow> (string \<times> (string list \<Rightarrow> 's \<Rightarrow> (cli_output \<times> 's) option)) list" where
  "commands E H J =
     (let total = (\<lambda>(f :: string list \<Rightarrow> 's command) args s. Some (f args s)) in
      [(''health'', total (runHealth E H J)), (''list'', total (runList E H J)), (''ls'', total (runList E H J)),
       (''get'', total (runGet E H J)), (''show'', total (runGet E H J)), (''create'', runCreate E H J),
       (''delete'', total (runDelete E H J)), (''rm'', total (runDelete E H J)), (''start'', total (runStart E H J)),
       (''stop'', total (runStop E H J)), (''restart'', total (runRestart E H J)), (''repair'', total (runRepair E H J)),
       (''reset-password'', total (runResetPassword E H J)), (''passwd'', total (runResetPassword E H J)),
       (''ssh'', total (runSSHInfo E H J)), (''usage'', total (runUsage E H J)), (''metrics'', total (runMetrics E H J)),
       (''hoststats'', total (runHostStats E H J)), (''resources'', total (runResources E H J)),
       (''stats'', total (runResources E H J))])"

definition goincus_main ::
    "cli_env \<Rightarrow> 's http_client \<Rightarrow> api_json \<Rightarrow> string \<Rightarrow> (string list \<Rightarrow> 's \<Rightarrow> (cli_output \<times> 's) option) \<Rightarrow>
     (string list \<Rightarrow> 's \<Rightarrow> (cli_output \<times> 's) option) \<Rightarrow> string list \<Rightarrow> 's \<Rightarrow> (cli_output \<times> 's) option" where
  "goincus_main E H J version init serve os_args s =
     (if length os_args < 2 then Some (usage_exit '''' main_usage, s)
      else
        let cmd = os_args ! 1; args = drop 2 os_args in
        if cmd = ''init'' then init args s
        else if cmd = ''serve'' \<or> cmd = ''run'' then serve args s
        else if cmd \<in> {''version'', ''-version'', ''--version''} then Some (printed (version @ newline), s)
        else if cmd \<in> {''help'', ''-h'', ''--help''} then Some (\<lparr>co_out = '''', co_err = main_usage, co_code = 0\<rparr>, s)
        else
          (case map_of (commands E H J) cmd of
             Some f \<Rightarrow> f args s
           | None \<Rightarrow> Some (usage_exit (''unknown command: '' @ cmd @ newline @ newline) main_usage, s)))"

section \<open>Properties\<close>

lemma with_client_zero:
  "with_client E f k s = (out, s') \<Longrightarrow> co_code out = 0 \<Longrightarrow> \<exists>c. newAPIClient E f = Inr c \<and> k c s = (out, s')"
  by (auto simp: with_client_def done_with_def cliErr_def split: sum.splits)

lemma orFail_zero:
  "orFail p k s = (out, s') \<Longrightarrow> co_code out = 0 \<Longrightarrow> \<exists>x s1. p s = (Inr x, s1) \<and> k x s1 = (out, s')"
  by (auto simp: orFail_def cliErr_def split: prod.splits sum.splits)

lemma runDelete_exits:
  assumes run: "runDelete E H J args s = (out, s')"
    and parsed: "parseCLIFlags E [(''y'', BoolFlag)] (snd (splitNameAndFlags args)) = Inr (vals, f, rest)"
  shows "(\<not> flag_bool vals ''y'' False \<and> \<not> consents E \<longrightarrow> s' = s \<and> co_code out \<noteq> 0)
    \<and> (co_code out = 0 \<longrightarrow> given_name (fst (splitNameAndFlags args)) rest \<noteq> ''''
        \<and> (\<exists>c. newAPIClient E f = Inr c
              \<and> api_DeleteInstance H J c (given_name (fst (splitNameAndFlags args)) rest) s = (Inr (), s')))"
proof -
  obtain name flagArgs where split: "splitNameAndFlags args = (name, flagArgs)" by fastforce
  have p: "parseCLIFlags E [(''y'', BoolFlag)] flagArgs = Inr (vals, f, rest)" using parsed split by simp
  let ?n = "given_name name rest"
  show ?thesis
  proof (cases "?n = '''' \<or> \<not> flag_bool vals ''y'' False \<and> \<not> consents E")
    case True
    then show ?thesis
      using run p
      by (auto simp: runDelete_def named_command_def split Let_def done_with_def usage_error_def split: if_splits)
  next
    case False
    define call where "call = with_client E f (\<lambda>c.
        orFail (api_DeleteInstance H J c ?n) (\<lambda>_. done_with (printed (line [''deleted '', ?n]))))"
    obtain out0 s0 where call: "call s = (out0, s0)" by fastforce
    have same: "s' = s0" "co_code out = co_code out0"
      using run p False call
      by (auto simp: runDelete_def named_command_def split Let_def call_def)
    have "\<exists>c. newAPIClient E f = Inr c \<and> api_DeleteInstance H J c ?n s = (Inr (), s0)" if ok: "co_code out0 = 0"
    proof -
      obtain c where c: "newAPIClient E f = Inr c"
        and rest: "orFail (api_DeleteInstance H J c ?n) (\<lambda>_. done_with (printed (line [''deleted '', ?n]))) s = (out0, s0)"
        using with_client_zero [OF call [unfolded call_def] ok] by blast
      from orFail_zero [OF rest ok] c show ?thesis by (auto simp: done_with_def)
    qed
    then show ?thesis using False same split by auto
  qed
qed

text \<open>\<open>goincus delete\<close> sends nothing without the user's consent: unless \<open>-y\<close> is given or the answer to the prompt is
\<open>y\<close> or \<open>yes\<close>, the server is not contacted; and it exits with 0 only when the server confirmed the deletion of the
instance named (or when only help was asked for).\<close>

theorem runDelete_needs_consent:
  assumes run: "runDelete E H J args s = (out, s')"
    and parsed: "parseCLIFlags E [(''y'', BoolFlag)] (snd (splitNameAndFlags args)) = Inr (vals, f, rest)"
  shows "(\<not> flag_bool vals ''y'' False \<and> \<not> consents E \<longrightarrow> s' = s \<and> co_code out \<noteq> 0)
    \<and> (co_code out = 0 \<longrightarrow> given_name (fst (splitNameAndFlags args)) rest \<noteq> ''''
        \<and> (\<exists>c. newAPIClient E f = Inr c
              \<and> api_DeleteInstance H J c (given_name (fst (splitNameAndFlags args)) rest) s = (Inr (), s')))"
  using assms by (rule runDelete_exits)

text \<open>A process without environment, whose user does not answer the prompt.\<close>

definition ref_process :: "string \<Rightarrow> cli_env" where
  "ref_process answer = \<lparr>ce_getenv = (\<lambda>_. ''''), ce_readFile = (\<lambda>_. Inl (ErrText ''no such file'')),
     ce_yaml_keys = (\<lambda>_. Inr []), ce_answer = answer, ce_json = (\<lambda>_. Inr ''{}''), ce_table = concat \<circ> concat,
     ce_uuid = (\<lambda>_. ''''), ce_ParseInt = decimal, ce_ParseFloat = (\<lambda>_. None)\<rparr>"

definition obliging_server :: "nat http_client" where
  "obliging_server = \<lparr>hc_NewRequest = (\<lambda>_ _. None), hc_Do = (\<lambda>_ n. (Inr (204, Inr ''''), n + 1)),
     hc_Now = (\<lambda>n. (0, n)), hc_After = (\<lambda>_ n. n)\<rparr>"

theorem runDelete_needs_consent_witness:
  "\<forall>J. \<exists>out. runDelete (ref_process ''no'') obliging_server J [''web'', ''-key'', ''gic_k''] 0 = (out, 0) \<and> co_code out \<noteq> 0"
proof
  fix J
  let ?E = "ref_process ''no''"
  obtain out n where run: "runDelete ?E obliging_server J [''web'', ''-key'', ''gic_k''] 0 = (out, n)" by fastforce
  have p: "parseCLIFlags ?E [(''y'', BoolFlag)] (snd (splitNameAndFlags [''web'', ''-key'', ''gic_k''])) =
      Inr ([(''key'', ''gic_k'')], \<lparr>cf_url = '''', cf_key = ''gic_k'', cf_config = '''', cf_json = False\<rparr>, [])"
    by code_simp
  have "\<not> flag_bool [(''key'', ''gic_k'')] ''y'' False" "\<not> consents ?E" by code_simp+
  then show "\<exists>out. runDelete ?E obliging_server J [''web'', ''-key'', ''gic_k''] 0 = (out, 0) \<and> co_code out \<noteq> 0"
    using runDelete_needs_consent [OF run p] run by blast
qed

text \<open>
  Flags are read up to the first argument that is none: with a flag before the name, the flags after it are dropped
  without a word, and the instance gets the server's default instead of what was asked for.
\<close>

lemma flags_after_name_dropped:
  "flag_Parse (ref_process '''') (create_flags @ common_flags) [''-disk'', ''20'', ''web'', ''-memory'', ''512''] [] =
     Inr ([(''disk'', ''20'')], [''web'', ''-memory'', ''512''])"
  "cr_memory (create_request_of (ref_process '''') ''web'' [(''disk'', ''20'')]) = 0"
  by code_simp+

end
