(* ===== verification/Host.thy ===== *)
theory Host imports Prelude begin

text \<open>
  What the program asks of the machine it runs on: files, commands, the package mirrors, the clock. The
  operations act on an opaque state \<open>'d\<close>, and nothing is known of them but what a theorem assumes.
\<close>

text \<open>The body of a reply: the text that could be read, and the error that ended the reading early.\<close>

record http_body =
  bd_text :: string
  bd_error :: "error option"

record 'd host =
  h_ReadFile :: "string \<Rightarrow> ('d, string option) prog"
  h_WriteFile :: "string \<Rightarrow> string \<Rightarrow> ('d, unit) prog"
  h_MkdirAll :: "string \<Rightarrow> ('d, unit) prog"
  h_Rename :: "string \<Rightarrow> string \<Rightarrow> ('d, unit) prog"
  h_Remove :: "string \<Rightarrow> ('d, unit) prog"
  h_NonEmpty :: "string \<Rightarrow> 'd \<Rightarrow> bool \<times> 'd"
  h_Glob :: "string \<Rightarrow> 'd \<Rightarrow> string list \<times> 'd"
  h_Run :: "(string \<times> string) list \<Rightarrow> string list \<Rightarrow> 'd \<Rightarrow> (string \<times> error option) \<times> 'd"
  h_LookPath :: "string \<Rightarrow> 'd \<Rightarrow> bool \<times> 'd"
  h_IsRoot :: "'d \<Rightarrow> bool \<times> 'd"
  h_HttpGet :: "string \<Rightarrow> ('d, http_body) prog"
  h_Gunzip :: "http_body \<Rightarrow> error + http_body"
  h_Now :: "'d \<Rightarrow> int \<times> 'd"
  h_Sleep :: "int \<Rightarrow> 'd \<Rightarrow> 'd"

text \<open>A call that cannot fail, as a step of a program.\<close>

definition sure :: "('w \<Rightarrow> 'a \<times> 'w) \<Rightarrow> ('w, 'a) prog" where
  "sure f w = (case f w of (x, w') \<Rightarrow> (Inr x, w'))"

definition pause :: "'d host \<Rightarrow> int \<Rightarrow> ('d, unit) prog" where
  "pause H ns w = (Inr (), h_Sleep H ns w)"

lemma sure_eq: "sure f w = (r, w') \<longleftrightarrow> (\<exists>x. f w = (x, w') \<and> r = Inr x)"
  by (auto simp: sure_def split: prod.splits)

lemma answers_sure [answer_rules]: "answers (sure f)"
  by (simp add: answers_def sure_def split_beta)

text \<open>A command whose failure is an error: \<open>runEnv\<close> of \<open>storage.go\<close>.\<close>

definition runEnv :: "'d host \<Rightarrow> (string \<times> string) list \<Rightarrow> string list \<Rightarrow> ('d, unit) prog" where
  "runEnv H env cmd =
     andThen (sure (h_Run H env cmd)) (\<lambda>(out, e).
     case e of
       None \<Rightarrow> ret ()
     | Some e \<Rightarrow>
         let msg = strings_TrimSpace out in
         if msg = '''' then throw e else throw (ErrWrap '''' e ('': '' @ msg)))"

end
