(* ===== verification/Debs.thy ===== *)
theory Debs imports Host "HOL-Library.AList" "HOL-Library.Char_ord" "HOL-Library.List_Lexorder" begin

text \<open>
  \<open>internal/incusclient/netboot.go\<close>, the part that runs on the host: reading the package indexes of the
  guest's distribution, choosing the OpenSSH packages with their dependencies, downloading them.

  Maps keyed by package name are association lists. \<open>parseDepNames\<close> can panic; a panic is the value
  \<open>None\<close> of the outcome.
\<close>

section \<open>The guest's distribution\<close>

record guestOS =
  g_id :: string
  g_codename :: string
  g_arch :: string

definition hostDebCacheRoot :: string where
  "hostDebCacheRoot = ''/var/cache/goincus/debs''"

definition or_else :: "string \<Rightarrow> string \<Rightarrow> string" where
  "or_else s dflt = (if s = '''' then dflt else s)"

text \<open>\<open>filepath.Join\<close> of clean components.\<close>

definition cacheDir :: "guestOS \<Rightarrow> string" where
  "cacheDir g = hostDebCacheRoot @ ''/'' @ or_else (g_id g) ''unknown'' @ ''-'' @ or_else (g_codename g) ''unknown''
     @ ''-'' @ or_else (g_arch g) ''amd64''"

definition strings_TrimPrefix :: "string \<Rightarrow> string \<Rightarrow> string" where
  "strings_TrimPrefix s p = (if strings_HasPrefix s p then drop (length p) s else s)"

definition trim_quotes :: "string \<Rightarrow> string" where
  "trim_quotes s = rev (dropWhile (\<lambda>c. c = CHR 0x22) (rev (dropWhile (\<lambda>c. c = CHR 0x22) s)))"

definition os_line :: "string \<Rightarrow> guestOS \<Rightarrow> guestOS" where
  "os_line l g =
     (let line = strings_TrimSpace l in
      if strings_HasPrefix line ''ID='' then g\<lparr>g_id := trim_quotes (strings_TrimPrefix line ''ID='')\<rparr>
      else if strings_HasPrefix line ''VERSION_CODENAME=''
      then g\<lparr>g_codename := trim_quotes (strings_TrimPrefix line ''VERSION_CODENAME='')\<rparr>
      else if strings_HasPrefix line ''ARCH=''
      then (let arch = strings_TrimPrefix line ''ARCH='' in
            if arch = ''x86_64'' then g\<lparr>g_arch := ''amd64''\<rparr>
            else if arch = ''aarch64'' then g\<lparr>g_arch := ''arm64''\<rparr>
            else if arch \<noteq> '''' then g\<lparr>g_arch := arch\<rparr> else g)
      else g)"

definition parse_os :: "string \<Rightarrow> error + guestOS" where
  "parse_os stdout =
     (let g = fold os_line (strings_Split stdout (CHR 0x0A)) \<lparr>g_id = '''', g_codename = '''', g_arch = ''amd64''\<rparr> in
      if g_id g = '''' \<or> g_codename g = ''''
      then Inl (ErrText (''incomplete guest os-release (id='' @ go_quote (g_id g) @ '' codename='' @ go_quote (g_codename g) @ '')''))
      else Inr g)"

section \<open>Mirrors and indexes\<close>

definition guestMirrorRoots :: "guestOS \<Rightarrow> error + string list" where
  "guestMirrorRoots g =
     (if g_id g = ''ubuntu'' then
        (if g_arch g = ''arm64'' \<or> g_arch g = ''armhf'' then Inr [''http://ports.ubuntu.com/ubuntu-ports'']
         else Inr [''http://archive.ubuntu.com/ubuntu'', ''http://security.ubuntu.com/ubuntu''])
      else if g_id g = ''debian'' then
        Inr [''http://deb.debian.org/debian'', ''http://security.debian.org/debian-security'']
      else Inl (ErrText (''unsupported guest os '' @ go_quote (g_id g) @ '' for offline openssh install'')))"

definition index_url :: "guestOS \<Rightarrow> string \<Rightarrow> string \<Rightarrow> string \<Rightarrow> string" where
  "index_url g root suite part = root @ ''/dists/'' @ suite @ ''/'' @ part @ ''/binary-'' @ g_arch g @ ''/Packages.gz''"

definition guestIndexURLs :: "guestOS \<Rightarrow> error + string list" where
  "guestIndexURLs g =
     (case guestMirrorRoots g of
        Inl e \<Rightarrow> Inl e
      | Inr roots \<Rightarrow> Inr
          (if g_id g = ''ubuntu'' then
             concat (map (\<lambda>root. concat (map (\<lambda>suite. map (index_url g root suite) [''main'', ''universe''])
               [g_codename g, g_codename g @ ''-updates'', g_codename g @ ''-security''])) roots)
           else if g_id g = ''debian'' then
             concat (map (\<lambda>root.
               if strings_Contains root ''security'' then [index_url g root (g_codename g @ ''-security'') ''main'']
               else map (\<lambda>suite. index_url g root suite ''main'') [g_codename g, g_codename g @ ''-updates'']) roots)
           else []))"

section \<open>Versions\<close>

definition splitEpoch :: "string \<Rightarrow> int \<times> string" where
  "splitEpoch v =
     (if CHR '':'' \<in> set v
      then (case Sscanf_d (takeWhile (\<lambda>c. c \<noteq> CHR '':'') v) of None \<Rightarrow> 0 | Some e \<Rightarrow> e,
            tl (dropWhile (\<lambda>c. c \<noteq> CHR '':'') v))
      else (0, v))"

definition debVersionPrefer :: "string \<Rightarrow> string \<Rightarrow> bool" where
  "debVersionPrefer a b \<longleftrightarrow>
     (if a = b then False
      else (let (ae, ar) = splitEpoch a; (be, br) = splitEpoch b in
            if ae \<noteq> be then ae > be else ar > br))"

section \<open>Package indexes\<close>

record debPkg =
  d_name :: string
  d_version :: string
  d_filename :: string
  d_depends :: string
  d_predep :: string
  d_mirror :: string

definition no_pkg :: debPkg where
  "no_pkg = \<lparr>d_name = '''', d_version = '''', d_filename = '''', d_depends = '''', d_predep = '''', d_mirror = ''''\<rparr>"

type_synonym pkg_index = "(string \<times> debPkg) list"

definition flush :: "pkg_index \<times> debPkg \<Rightarrow> pkg_index \<times> debPkg" where
  "flush s = (case s of (out, cur) \<Rightarrow>
     if d_name cur = '''' \<or> d_filename cur = '''' then (out, no_pkg) else (AList.update (d_name cur) cur out, no_pkg))"

definition pkg_field :: "string \<Rightarrow> string \<Rightarrow> pkg_index \<times> debPkg \<Rightarrow> pkg_index \<times> debPkg" where
  "pkg_field key val s =
     (if key = ''Package'' then
        (let (out, cur) = (if d_name (snd s) \<noteq> '''' then flush s else s) in (out, cur\<lparr>d_name := val\<rparr>))
      else if key = ''Version'' then (fst s, (snd s)\<lparr>d_version := val\<rparr>)
      else if key = ''Filename'' then (fst s, (snd s)\<lparr>d_filename := val\<rparr>)
      else if key = ''Depends'' then (fst s, (snd s)\<lparr>d_depends := val\<rparr>)
      else if key = ''Pre-Depends'' then (fst s, (snd s)\<lparr>d_predep := val\<rparr>)
      else s)"

definition pkg_line :: "string \<Rightarrow> pkg_index \<times> debPkg \<Rightarrow> pkg_index \<times> debPkg" where
  "pkg_line line s =
     (if line = '''' then flush s
      else if hd line = CHR '' '' \<or> hd line = CHR 0x09 then s
      else if CHR '':'' \<notin> set line then s
      else pkg_field (takeWhile (\<lambda>c. c \<noteq> CHR '':'') line)
             (strings_TrimSpace (tl (dropWhile (\<lambda>c. c \<noteq> CHR '':'') line))) s)"

text \<open>The lines a \<open>bufio.Scanner\<close> yields: without the line feed, a carriage return before it dropped,
and no empty last line.\<close>

definition drop_cr :: "string \<Rightarrow> string" where
  "drop_cr l = (if l \<noteq> [] \<and> last l = CHR 0x0D then butlast l else l)"

definition scan_lines :: "string \<Rightarrow> string list" where
  "scan_lines text =
     (let ls = strings_Split text (CHR 0x0A) in map drop_cr (if last ls = '''' then butlast ls else ls))"

definition max_line :: nat where "max_line = 1024 * 1024"

text \<open>A line that does not fit the buffer ends the scan with an error, as a failed read does.\<close>

definition parse_pkg_lines :: "string list \<Rightarrow> pkg_index" where
  "parse_pkg_lines ls = fst (flush (fold pkg_line ls ([], no_pkg)))"

definition parsePackages :: "http_body \<Rightarrow> error + pkg_index" where
  "parsePackages b =
     (if list_ex (\<lambda>l. max_line \<le> length l) (strings_Split (bd_text b) (CHR 0x0A))
      then Inl (ErrText ''bufio.Scanner: token too long'')
      else (case bd_error b of
              Some e \<Rightarrow> Inl e
            | None \<Rightarrow> Inr (parse_pkg_lines (scan_lines (bd_text b)))))"

section \<open>Loading the indexes\<close>

definition mirror_of :: "string \<Rightarrow> string" where
  "mirror_of u = (case List.find (\<lambda>n. strings_HasPrefix (drop n u) ''/dists/'') [0..<length u] of
     None \<Rightarrow> u | Some n \<Rightarrow> take n u)"

definition prefer_pkg :: "string \<Rightarrow> string \<times> debPkg \<Rightarrow> pkg_index \<Rightarrow> pkg_index" where
  "prefer_pkg u np out =
     (case np of (name, pkg) \<Rightarrow>
        let pkg = pkg\<lparr>d_mirror := mirror_of u\<rparr> in
        case map_of out name of
          None \<Rightarrow> AList.update name pkg out
        | Some prev \<Rightarrow> if debVersionPrefer (d_version pkg) (d_version prev) then AList.update name pkg out else out)"

definition fetch_index :: "'d host \<Rightarrow> string \<Rightarrow> ('d, pkg_index) prog" where
  "fetch_index H u =
     andThen (h_HttpGet H u) (\<lambda>body.
     case h_Gunzip H body of
       Inl e \<Rightarrow> throw e
     | Inr text \<Rightarrow> (case parsePackages text of Inl e \<Rightarrow> throw e | Inr pkgs \<Rightarrow> ret pkgs))"

primrec load_urls :: "'d host \<Rightarrow> string list \<Rightarrow> pkg_index \<Rightarrow> string list \<Rightarrow> ('d, pkg_index \<times> string list) prog" where
  "load_urls H [] out errs = ret (out, errs)"
| "load_urls H (u # us) out errs =
     andThen (attempt (fetch_index H u)) (\<lambda>r.
     case r of
       Inl e \<Rightarrow> load_urls H us out (errs @ [error_text e])
     | Inr pkgs \<Rightarrow> load_urls H us (fold (prefer_pkg u) pkgs out) errs)"

definition loadPackagesIndex :: "'d host \<Rightarrow> guestOS \<Rightarrow> ('d, pkg_index) prog" where
  "loadPackagesIndex H g =
     (case guestIndexURLs g of
        Inl e \<Rightarrow> throw e
      | Inr urls \<Rightarrow>
          andThen (load_urls H urls [] []) (\<lambda>(out, errs).
          if out = []
          then throw (ErrText (''no package indexes loaded for '' @ g_id g @ ''/'' @ g_codename g @ '': '' @ strings_Join errs ''; ''))
          else ret out))"


section \<open>Dependencies\<close>

function strings_Fields :: "string \<Rightarrow> string list" where
  "strings_Fields s =
     (let t = dropWhile is_space s in
      if t = [] then [] else takeWhile (\<lambda>c. \<not> is_space c) t # strings_Fields (dropWhile (\<lambda>c. \<not> is_space c) t))"
  by pat_completeness auto
termination
proof (relation "measure length")
  fix s t :: string
  assume t: "t = dropWhile is_space s" "t \<noteq> []"
  then have "\<not> is_space (hd t)" using hd_dropWhile [of is_space s] by simp
  then have "length (dropWhile (\<lambda>c. \<not> is_space c) t) < length t"
    using t(2) length_dropWhile_le [of "\<lambda>c. \<not> is_space c" "tl t"] by (cases t) auto
  also have "\<dots> \<le> length s" using t(1) length_dropWhile_le [of is_space s] by simp
  finally show "(dropWhile (\<lambda>c. \<not> is_space c) t, s) \<in> measure length" by simp
qed simp

declare strings_Fields.simps [simp del]

text \<open>The name of one dependency: its first alternative up to white space. \<open>None\<close> is the panic of
\<open>strings.Fields(part)[0]\<close> on a blank alternative.\<close>

definition first_alternative :: "string \<Rightarrow> string" where
  "first_alternative part = strings_TrimSpace (takeWhile (\<lambda>c. c \<noteq> CHR ''|'') part)"

fun dep_names :: "string list \<Rightarrow> string list option" where
  "dep_names [] = Some []"
| "dep_names (p # ps) =
     (let part = strings_TrimSpace p in
      if part = '''' then dep_names ps
      else (case strings_Fields (first_alternative part) of
              [] \<Rightarrow> None
            | name # _ \<Rightarrow> map_option (\<lambda>ns. name # ns) (dep_names ps)))"

definition parseDepNames :: "string \<Rightarrow> string list option" where
  "parseDepNames s = (if s = '''' then Some [] else dep_names (strings_Split s (CHR '','')))"

definition baseDebSkip :: "string list" where
  "baseDebSkip = [''libc6'', ''libgcc-s1'', ''base-files'', ''bash'', ''coreutils'',
     ''debianutils'', ''sed'', ''grep'', ''awk'', ''perl'', ''perl-base'',
     ''init-system-helpers'', ''libpam0g'', ''libpam-modules'', ''libpam-runtime'',
     ''libselinux1'', ''libaudit1'', ''libcrypt1'', ''zlib1g'', ''adduser'',
     ''passwd'', ''login'', ''util-linux'', ''libsystemd0'', ''libudev1'',
     ''ucf'', ''debconf'', ''lsb-base'', ''sysvinit-utils'',
     ''libgssapi-krb5-2'', ''libkrb5-3'', ''libkeyutils1'', ''libnsl2'',
     ''libtirpc3'', ''libbsd0'', ''libedit2'', ''libmd0'', ''libssl3'',
     ''libssl3t64'', ''libcap-ng0'', ''libkrb5support0'', ''libk5crypto3'']"

definition openssh_roots :: "string list" where
  "openssh_roots = [''openssh-server'', ''openssh-client'', ''openssh-sftp-server'', ''libwrap0'']"

definition required :: "string \<Rightarrow> bool" where
  "required name \<longleftrightarrow> name = ''openssh-server'' \<or> name = ''openssh-client'' \<or> name = ''openssh-sftp-server''"

definition pkg_deps :: "debPkg \<Rightarrow> string list option" where
  "pkg_deps pkg = parseDepNames (d_depends pkg @ '','' @ d_predep pkg)"

text \<open>The work list: \<open>need\<close> in the order of the code, \<open>seen\<close> and \<open>out\<close> so far.\<close>

function resolve_loop :: "pkg_index \<Rightarrow> string list \<Rightarrow> string list \<Rightarrow> debPkg list \<Rightarrow> (error + debPkg list) option" where
  "resolve_loop index [] seen out = Some (Inr out)"
| "resolve_loop index (name # need) seen out =
     (if name \<in> set seen \<or> name \<in> set baseDebSkip \<or> strings_HasPrefix name ''libc6''
      then resolve_loop index need seen out
      else (case map_of index name of
              None \<Rightarrow>
                if required name then Some (Inl (ErrText (''package '' @ go_quote name @ '' not found in guest indexes'')))
                else resolve_loop index need seen out
            | Some pkg \<Rightarrow>
                (case pkg_deps pkg of
                   None \<Rightarrow> None
                 | Some deps \<Rightarrow>
                     resolve_loop index
                       (need @ filter (\<lambda>dep. dep \<notin> set (name # seen) \<and> dep \<notin> set baseDebSkip) deps)
                       (name # seen) (out @ [pkg]))))"
  by pat_completeness auto
termination
proof (relation "measures [\<lambda>(index, need, seen, out). card (dom (map_of index) - set seen),
    \<lambda>(index, need, seen, out). length need]", goal_cases)
  case (4 index name need seen out pkg deps)
  have "dom (map_of index) - set (name # seen) \<subset> dom (map_of index) - set seen"
    using 4 by (auto simp: dom_def)
  then have "card (dom (map_of index) - set (name # seen)) < card (dom (map_of index) - set seen)"
    by (rule psubset_card_mono [rotated]) (simp add: finite_dom_map_of)
  then show ?case by simp
qed simp_all

definition resolveOpenSSHDebs :: "pkg_index \<Rightarrow> (error + debPkg list) option" where
  "resolveOpenSSHDebs index = resolve_loop index openssh_roots [] []"


section \<open>The resolution is the closure under dependencies\<close>

definition eligible :: "string \<Rightarrow> bool" where
  "eligible n \<longleftrightarrow> n \<notin> set baseDebSkip \<and> \<not> strings_HasPrefix n ''libc6''"

text \<open>The specification: what is needed to install OpenSSH on the base system.\<close>

inductive wanted :: "pkg_index \<Rightarrow> string \<Rightarrow> bool" for index :: pkg_index where
  wanted_root: "n \<in> set openssh_roots \<Longrightarrow> eligible n \<Longrightarrow> wanted index n"
| wanted_dep: "wanted index m \<Longrightarrow> map_of index m = Some pkg \<Longrightarrow> pkg_deps pkg = Some deps \<Longrightarrow> n \<in> set deps \<Longrightarrow>
    eligible n \<Longrightarrow> wanted index n"

definition available :: "pkg_index \<Rightarrow> string set" where
  "available index = {n. wanted index n \<and> map_of index n \<noteq> None}"

definition resolve_inv :: "pkg_index \<Rightarrow> string list \<Rightarrow> string list \<Rightarrow> debPkg list \<Rightarrow> bool" where
  "resolve_inv index need seen out \<longleftrightarrow>
     distinct seen \<and> set seen \<subseteq> available index \<and> out = map (the \<circ> map_of index) (rev seen)
   \<and> (\<forall>n \<in> set need. eligible n \<longrightarrow> wanted index n)
   \<and> (\<forall>n \<in> set openssh_roots. eligible n \<longrightarrow> map_of index n \<noteq> None \<longrightarrow> n \<in> set seen \<union> set need)
   \<and> (\<forall>m \<in> set seen. \<exists>deps. pkg_deps (the (map_of index m)) = Some deps
        \<and> (\<forall>n \<in> set deps. eligible n \<longrightarrow> map_of index n \<noteq> None \<longrightarrow> n \<in> set seen \<union> set need))"

lemma resolve_inv_skip:
  assumes "resolve_inv index (name # need) seen out" "name \<in> set seen \<or> \<not> eligible name \<or> map_of index name = None"
  shows "resolve_inv index need seen out"
  using assms unfolding resolve_inv_def by (intro conjI ballI) (fastforce+)

lemma resolve_inv_take:
  assumes inv: "resolve_inv index (name # need) seen out" and n: "name \<notin> set seen" "eligible name"
    and pkg: "map_of index name = Some pkg" and deps: "pkg_deps pkg = Some deps"
  shows "resolve_inv index (need @ filter (\<lambda>dep. dep \<notin> set (name # seen) \<and> dep \<notin> set baseDebSkip) deps)
    (name # seen) (out @ [pkg])"
proof -
  let ?new = "filter (\<lambda>dep. dep \<notin> set (name # seen) \<and> dep \<notin> set baseDebSkip) deps"
  have w: "wanted index name" using inv n by (simp add: resolve_inv_def)
  have "\<forall>n \<in> set deps. eligible n \<longrightarrow> n \<in> set (name # seen) \<union> set ?new" by (auto simp: eligible_def)
  moreover have "\<forall>n \<in> set ?new. eligible n \<longrightarrow> wanted index n" using wanted_dep [OF w pkg deps] by auto
  note new = this calculation
  note old = inv [unfolded resolve_inv_def]
  show ?thesis
    unfolding resolve_inv_def
  proof (intro conjI ballI impI)
    show "distinct (name # seen)" using old n by simp
    show "set (name # seen) \<subseteq> available index" using old w pkg by (simp add: available_def)
    show "out @ [pkg] = map (the \<circ> map_of index) (rev (name # seen))" using old pkg by simp
    show "wanted index x" if "x \<in> set (need @ ?new)" "eligible x" for x using old new that by auto
    show "x \<in> set (name # seen) \<union> set (need @ ?new)"
      if "x \<in> set openssh_roots" "eligible x" "map_of index x \<noteq> None" for x using old that by auto
    fix m assume "m \<in> set (name # seen)"
    then consider "m = name" | "m \<in> set seen" by auto
    then show "\<exists>deps. pkg_deps (the (map_of index m)) = Some deps \<and>
        (\<forall>n\<in>set deps. eligible n \<longrightarrow> map_of index n \<noteq> None \<longrightarrow> n \<in> set (name # seen) \<union> set (need @ ?new))"
    proof cases
      case 1
      then show ?thesis using new(2) pkg deps by auto
    next
      case 2
      then obtain ds where "pkg_deps (the (map_of index m)) = Some ds"
        and "\<forall>n\<in>set ds. eligible n \<longrightarrow> map_of index n \<noteq> None \<longrightarrow> n \<in> set seen \<union> set (name # need)"
        using old by blast
      then show ?thesis by (intro exI [of _ ds]) auto
    qed
  qed
qed


lemma resolve_loop_inv:
  "resolve_loop index need seen out = Some (Inr pkgs) \<Longrightarrow> resolve_inv index need seen out \<Longrightarrow>
   \<exists>names. resolve_inv index [] names pkgs"
proof (induction index need seen out rule: resolve_loop.induct)
  case (1 index seen out)
  then show ?case by auto
next
  case (2 index name need seen out)
  note inv = 2(5)
  show ?case
  proof (cases "name \<in> set seen \<or> name \<in> set baseDebSkip \<or> strings_HasPrefix name ''libc6''")
    case True
    then show ?thesis using 2(1) [OF True] 2(4) resolve_inv_skip [OF inv] by (auto simp: eligible_def)
  next
    case False
    then have n: "name \<notin> set seen" "eligible name" by (auto simp: eligible_def)
    show ?thesis
    proof (cases "map_of index name")
      case None
      then have "\<not> required name" using 2(4) False by auto
      then show ?thesis using 2(2) [OF False None] 2(4) False None resolve_inv_skip [OF inv] by auto
    next
      case (Some pkg)
      then obtain deps where deps: "pkg_deps pkg = Some deps" using 2(4) False by (auto split: option.splits)
      show ?thesis
        using 2(3) [OF False Some deps] 2(4) False Some deps resolve_inv_take [OF inv n Some deps] by auto
    qed
  qed
qed

lemma resolve_inv_start: "resolve_inv index openssh_roots [] []"
  by (auto simp: resolve_inv_def intro: wanted_root)

lemma resolve_inv_end:
  assumes "resolve_inv index [] names pkgs"
  shows "set names = available index"
proof
  show "set names \<subseteq> available index" using assms by (simp add: resolve_inv_def)
  have "n \<in> set names" if "wanted index n" "map_of index n \<noteq> None" for n
    using that
  proof (induction rule: wanted.induct)
    case (wanted_root n)
    then show ?case using assms by (auto simp: resolve_inv_def)
  next
    case (wanted_dep m pkg deps n)
    then have "m \<in> set names" by auto
    then show ?case using assms wanted_dep by (force simp: resolve_inv_def)
  qed
  then show "available index \<subseteq> set names" by (auto simp: available_def)
qed

lemma resolve_loop_required:
  "resolve_loop index need seen out = Some (Inr pkgs) \<Longrightarrow> n \<in> set need \<Longrightarrow> required n \<Longrightarrow> eligible n \<Longrightarrow>
   n \<in> set seen \<or> map_of index n \<noteq> None"
proof (induction index need seen out rule: resolve_loop.induct)
  case (2 index name need seen out)
  show ?case
  proof (cases "n = name")
    case True
    then show ?thesis using 2(4-7) by (auto simp: eligible_def split: if_splits option.splits)
  next
    case False
    then show ?thesis using 2 by (auto split: if_splits option.splits)
  qed
qed simp

text \<open>C34. \<open>resolveOpenSSHDebs\<close> ends on every index, and when it returns packages they are those of the index that
OpenSSH needs, no more and no less: the closure of the root packages under first-alternative dependencies, but
for the base system, each package once, with the server, the client and the sftp server among them.\<close>

theorem resolveOpenSSHDebs_closure:
  assumes "resolveOpenSSHDebs index = Some (Inr pkgs)"
  shows "\<exists>names. pkgs = map (the \<circ> map_of index) names \<and> distinct names
    \<and> set names = {n. wanted index n \<and> n \<in> dom (map_of index)}
    \<and> {''openssh-server'', ''openssh-client'', ''openssh-sftp-server''} \<subseteq> set names"
proof -
  obtain names where inv: "resolve_inv index [] names pkgs"
    using resolve_loop_inv [OF assms [unfolded resolveOpenSSHDebs_def] resolve_inv_start] by blast
  have req: "n \<in> set names" if "n \<in> {''openssh-server'', ''openssh-client'', ''openssh-sftp-server''}" for n
  proof -
    have n: "n \<in> set openssh_roots" "required n" "eligible n"
      using that by (auto simp: openssh_roots_def required_def eligible_def baseDebSkip_def strings_HasPrefix_def)
    have "map_of index n \<noteq> None"
      using resolve_loop_required [OF assms [unfolded resolveOpenSSHDebs_def] n] by simp
    then show ?thesis using resolve_inv_end [OF inv] wanted_root [OF n(1,3)] by (auto simp: available_def)
  qed
  show ?thesis
    using inv resolve_inv_end [OF inv] req
    by (intro exI [of _ "rev names"]) (auto simp: resolve_inv_def available_def dom_def)
qed

definition ref_pkg :: "string \<Rightarrow> string \<Rightarrow> debPkg" where
  "ref_pkg name deps = \<lparr>d_name = name, d_version = ''1'', d_filename = ''pool/'' @ name @ ''.deb'', d_depends = deps,
     d_predep = '''', d_mirror = ''http://archive.ubuntu.com/ubuntu''\<rparr>"

definition ref_index :: pkg_index where
  "ref_index = map (\<lambda>(n, ds). (n, ref_pkg n ds))
     [(''openssh-server'', ''openssh-client (= 1), libc6 (>= 2), libcom-err2 | other''),
      (''openssh-client'', ''passwd''), (''openssh-sftp-server'', ''''), (''libcom-err2'', ''''), (''vim'', '''')]"

definition ref_names :: "string list" where
  "ref_names = [''openssh-server'', ''openssh-client'', ''openssh-sftp-server'', ''libcom-err2'']"

lemma ref_resolve: "resolveOpenSSHDebs ref_index = Some (Inr (map (\<lambda>n. the (map_of ref_index n)) ref_names))"
  by code_simp

theorem resolveOpenSSHDebs_closure_witness:
  "\<exists>names. length names = 4 \<and> distinct names \<and> set names = {n. wanted ref_index n \<and> n \<in> dom (map_of ref_index)}"
proof -
  obtain names where "map (\<lambda>n. the (map_of ref_index n)) ref_names = map (the \<circ> map_of ref_index) names"
    and "distinct names" "set names = {n. wanted ref_index n \<and> n \<in> dom (map_of ref_index)}"
    using resolveOpenSSHDebs_closure [OF ref_resolve] by blast
  moreover from this(1) have "length ref_names = length names" by (rule map_eq_imp_length_eq)
  ultimately show ?thesis by (intro exI [of _ names]) (simp add: ref_names_def)
qed


section \<open>When reading dependencies panics\<close>

lemma Fields_Nil: "strings_Fields s = [] \<longleftrightarrow> list_all is_space s"
  by (subst strings_Fields.simps) (auto simp: Let_def list_all_iff)

lemma trim_Nil: "strings_TrimSpace s = [] \<longleftrightarrow> list_all is_space s"
proof -
  have "dropWhile is_space s = [] \<longleftrightarrow> list_all is_space s" by (auto simp: list_all_iff)
  moreover have "strings_TrimSpace s = [] \<longleftrightarrow> dropWhile is_space s = []"
    by (auto simp: strings_TrimSpace_def dest: set_dropWhileD) (metis dropWhile_eq_Nil_conv hd_dropWhile hd_in_set)
  ultimately show ?thesis by simp
qed

lemma all_space_trim [simp]: "list_all is_space (strings_TrimSpace s) \<longleftrightarrow> strings_TrimSpace s = []"
proof
  assume "list_all is_space (strings_TrimSpace s)"
  then have "set (strings_TrimSpace s) \<subseteq> Collect is_space" by (auto simp: list_all_iff)
  then show "strings_TrimSpace s = []"
    unfolding strings_TrimSpace_def by (metis (no_types, lifting) dropWhile_eq_Nil_conv hd_dropWhile hd_in_set
        mem_Collect_eq rev_is_Nil_conv set_rev subset_iff)
qed simp

lemma dep_names_None:
  "dep_names ps = None \<longleftrightarrow> (\<exists>p \<in> set ps. strings_TrimSpace p \<noteq> '''' \<and> first_alternative (strings_TrimSpace p) = '''')"
proof (induction ps)
  case (Cons p ps)
  have "strings_Fields (first_alternative q) = [] \<longleftrightarrow> first_alternative q = ''''" for q
    by (simp add: Fields_Nil first_alternative_def)
  note f = this [of "strings_TrimSpace p"]
  show ?case
  proof (cases "strings_Fields (first_alternative (strings_TrimSpace p))")
    case Nil
    then show ?thesis using Cons f by (simp add: Let_def)
  next
    case (Cons name rest)
    then show ?thesis using Cons.IH f by (simp add: Let_def)
  qed
qed simp

text \<open>Reading a dependency field panics exactly when one of its comma-separated parts is not blank but has a
blank first alternative, as in "a, | b": \<open>strings.Fields(part)[0]\<close> is then out of range.\<close>

theorem parseDepNames_panics:
  "parseDepNames s = None \<longleftrightarrow>
   (\<exists>p \<in> set (strings_Split s (CHR '','')). strings_TrimSpace p \<noteq> '''' \<and> first_alternative (strings_TrimSpace p) = '''')"
proof (cases "s = ''''")
  case True
  then show ?thesis by (simp add: parseDepNames_def strings_TrimSpace_def)
next
  case False
  then show ?thesis by (simp add: parseDepNames_def dep_names_None)
qed

section \<open>Reading back a package index\<close>

definition render_pkg :: "debPkg \<Rightarrow> string list" where
  "render_pkg p = [''Package: '' @ d_name p, ''Version: '' @ d_version p, ''Pre-Depends: '' @ d_predep p,
     ''Depends: '' @ d_depends p, ''Filename: '' @ d_filename p, '''']"

definition plain_pkg :: "debPkg \<Rightarrow> bool" where
  "plain_pkg p \<longleftrightarrow> d_name p \<noteq> '''' \<and> d_filename p \<noteq> '''' \<and> d_mirror p = ''''
     \<and> list_all (\<lambda>v. strings_TrimSpace v = v) [d_name p, d_version p, d_filename p, d_depends p, d_predep p]"

lemma trim_space_Cons: "strings_TrimSpace (CHR '' '' # v) = strings_TrimSpace v"
proof -
  have "is_space (CHR '' '')" by code_simp
  then show ?thesis by (simp add: strings_TrimSpace_def)
qed

lemma pkg_lines_render:
  assumes "plain_pkg p"
  shows "fold pkg_line (render_pkg p) (out, no_pkg) = (AList.update (d_name p) p out, no_pkg)"
proof -
  have p: "p = \<lparr>d_name = d_name p, d_version = d_version p, d_filename = d_filename p, d_depends = d_depends p,
      d_predep = d_predep p, d_mirror = ''''\<rparr>"
    using assms by (simp add: plain_pkg_def)
  show ?thesis
    unfolding render_pkg_def using assms
    by (simp add: pkg_line_def pkg_field_def no_pkg_def flush_def plain_pkg_def trim_space_Cons) (subst (4) p, simp)
qed

lemma update_fresh: "k \<notin> fst ` set m \<Longrightarrow> AList.update k v m = m @ [(k, v)]"
  by (induction m) auto




section \<open>Downloading\<close>

definition trim_right_slash :: "string \<Rightarrow> string" where
  "trim_right_slash s = rev (dropWhile (\<lambda>c. c = CHR ''/'') (rev s))"

definition trim_left_slash :: "string \<Rightarrow> string" where
  "trim_left_slash s = dropWhile (\<lambda>c. c = CHR ''/'') s"

text \<open>\<open>path.Base\<close>\<close>

definition path_Base :: "string \<Rightarrow> string" where
  "path_Base s =
     (if s = '''' then ''.''
      else (let t = trim_right_slash s in
            if t = '''' then ''/'' else rev (takeWhile (\<lambda>c. c \<noteq> CHR ''/'') (rev t))))"

text \<open>One mirror: \<open>Inr\<close> ends the loop with its result, \<open>Inl\<close> is the error to remember.\<close>

definition try_mirror :: "'d host \<Rightarrow> string \<Rightarrow> string \<Rightarrow> ('d, error + unit) prog" where
  "try_mirror H url dest =
     (let tmp = dest @ ''.partial'' in
      andThen (attempt (h_HttpGet H url)) (\<lambda>r.
      case r of
        Inl e \<Rightarrow> ret (Inl e)
      | Inr body \<Rightarrow>
          andThen (h_WriteFile H tmp '''') (\<lambda>_.
          andThen (attempt (h_WriteFile H tmp (bd_text body))) (\<lambda>w.
          case (case w of Inl e \<Rightarrow> Some e | Inr _ \<Rightarrow> bd_error body) of
            Some e \<Rightarrow> andThen (ignore (h_Remove H tmp)) (\<lambda>_. ret (Inl e))
          | None \<Rightarrow>
              andThen (attempt (h_Rename H tmp dest)) (\<lambda>r.
              case r of
                Inl e \<Rightarrow> andThen (ignore (h_Remove H tmp)) (\<lambda>_. throw e)
              | Inr _ \<Rightarrow> ret (Inr ()))))))"

primrec try_mirrors :: "'d host \<Rightarrow> debPkg \<Rightarrow> string \<Rightarrow> string list \<Rightarrow> string list \<Rightarrow> error option \<Rightarrow> ('d, unit) prog" where
  "try_mirrors H pkg dest [] seen lastErr =
     throw (ErrText (''download '' @ d_filename pkg @ '': ''
       @ (case lastErr of None \<Rightarrow> ''<nil>'' | Some e \<Rightarrow> error_text e)))"
| "try_mirrors H pkg dest (r # roots) seen lastErr =
     (let root = trim_right_slash r in
      if root \<in> set seen then try_mirrors H pkg dest roots seen lastErr
      else
        andThen (try_mirror H (root @ ''/'' @ trim_left_slash (d_filename pkg)) dest) (\<lambda>x.
        case x of
          Inl e \<Rightarrow> try_mirrors H pkg dest roots (root # seen) (Some e)
        | Inr _ \<Rightarrow> ret ()))"

definition downloadDebFile :: "'d host \<Rightarrow> string list \<Rightarrow> debPkg \<Rightarrow> string \<Rightarrow> ('d, unit) prog" where
  "downloadDebFile H mirrorRoots pkg destDir =
     (let dest = destDir @ ''/'' @ path_Base (d_filename pkg) in
      andThen (sure (h_NonEmpty H dest)) (\<lambda>have.
      if have then ret ()
      else try_mirrors H pkg dest ((if d_mirror pkg \<noteq> '''' then [d_mirror pkg] else []) @ mirrorRoots) [] None))"

text \<open>The value of a computation that may fail or panic; a panic is an error here, where in the program it ends
the process.\<close>

definition or_panic :: "(error + 'a) option \<Rightarrow> ('w, 'a) prog" where
  "or_panic x = (case x of
     None \<Rightarrow> throw (ErrText ''runtime error: index out of range [0] with length 0'')
   | Some (Inl e) \<Rightarrow> throw e
   | Some (Inr y) \<Rightarrow> ret y)"

definition server_pattern :: "guestOS \<Rightarrow> string" where
  "server_pattern g = cacheDir g @ ''/openssh-server_*.deb''"

definition EnsureOpenSSHDebs :: "'d host \<Rightarrow> guestOS \<Rightarrow> ('d, unit) prog" where
  "EnsureOpenSSHDebs H g =
     (let dir = cacheDir g in
      andThen (h_MkdirAll H dir) (\<lambda>_.
      andThen (sure (h_Glob H (server_pattern g))) (\<lambda>matches.
      if matches \<noteq> [] then ret ()
      else
      andThen (loadPackagesIndex H g) (\<lambda>index.
      andThen (or_panic (resolveOpenSSHDebs index)) (\<lambda>pkgs.
      case guestMirrorRoots g of
        Inl e \<Rightarrow> throw e
      | Inr roots \<Rightarrow>
          andThen (forEach (\<lambda>pkg. wrapErr (''fetch '' @ d_name pkg @ '': '') (downloadDebFile H roots pkg dir)) pkgs) (\<lambda>_.
          andThen (sure (h_Glob H (server_pattern g))) (\<lambda>matches.
          if matches = [] then throw (ErrText (''openssh-server deb missing after download in '' @ dir))
          else ret ())))))))"

text \<open>The warm-up for the default guest.\<close>

definition EnsureHostOpenSSHDebs :: "'d host \<Rightarrow> ('d, unit) prog" where
  "EnsureHostOpenSSHDebs H = EnsureOpenSSHDebs H \<lparr>g_id = ''ubuntu'', g_codename = ''noble'', g_arch = ''amd64''\<rparr>"

text \<open>The presence of the server's package alone counts as a complete cache: once it is there, as after a run
that failed at a later package, \<open>EnsureOpenSSHDebs\<close> reports success without looking at the index or at any
other package.\<close>

theorem EnsureOpenSSHDebs_trusts_server_package:
  assumes "h_MkdirAll H (cacheDir g) d = (Inr (), d1)" and "h_Glob H (server_pattern g) d1 = (m # ms, d2)"
  shows "EnsureOpenSSHDebs H g d = (Inr (), d2)"
  using assms by (simp add: EnsureOpenSSHDebs_def Let_def andThen_def sure_def ret_def)

section \<open>The order on versions\<close>

text \<open>The preference is a strict order, so the version a load ends with does not depend on how often an index is
read; but it is not the order of Debian: release 10 of a package loses against its release 9.\<close>

theorem debVersionPrefer_order:
  "\<not> debVersionPrefer a a
   \<and> \<not> (debVersionPrefer a b \<and> debVersionPrefer b c \<and> \<not> debVersionPrefer a c)
   \<and> debVersionPrefer ''1:9.6p1-9'' ''1:9.6p1-10''"
proof (intro conjI)
  show "\<not> debVersionPrefer a a" by (simp add: debVersionPrefer_def)
  show "\<not> (debVersionPrefer a b \<and> debVersionPrefer b c \<and> \<not> debVersionPrefer a c)"
    by (cases "splitEpoch a"; cases "splitEpoch b"; cases "splitEpoch c")
      (auto simp: debVersionPrefer_def split: if_splits)
  show "debVersionPrefer ''1:9.6p1-9'' ''1:9.6p1-10''" by code_simp
qed

text \<open>A reference host for the example: its state is the list of its files.\<close>

definition glob_match :: "string \<Rightarrow> string \<Rightarrow> bool" where
  "glob_match pat s = (let pre = takeWhile (\<lambda>c. c \<noteq> CHR ''*'') pat; post = tl (dropWhile (\<lambda>c. c \<noteq> CHR ''*'') pat) in
     strings_HasPrefix s pre \<and> strings_HasSuffix (drop (length pre) s) post)"

definition ref_host :: "string list host" where
  "ref_host = \<lparr>
     h_ReadFile = (\<lambda>f. ret None),
     h_WriteFile = (\<lambda>f t fs. (Inr (), f # fs)),
     h_MkdirAll = (\<lambda>f. ret ()),
     h_Rename = (\<lambda>f g fs. (Inr (), g # removeAll f fs)),
     h_Remove = (\<lambda>f fs. (Inr (), removeAll f fs)),
     h_NonEmpty = (\<lambda>f fs. (f \<in> set fs, fs)),
     h_Glob = (\<lambda>pat fs. (filter (glob_match pat) fs, fs)),
     h_Run = (\<lambda>env cmd fs. (('''', None), fs)),
     h_LookPath = (\<lambda>b fs. (True, fs)),
     h_IsRoot = (\<lambda>fs. (True, fs)),
     h_HttpGet = (\<lambda>u. throw (ErrText ''no route to host'')),
     h_Gunzip = Inr,
     h_Now = (\<lambda>fs. (0, fs)),
     h_Sleep = (\<lambda>ns fs. fs)\<rparr>"

definition ref_guest :: guestOS where
  "ref_guest = \<lparr>g_id = ''ubuntu'', g_codename = ''noble'', g_arch = ''amd64''\<rparr>"

theorem EnsureOpenSSHDebs_trusts_server_package_witness:
  "EnsureOpenSSHDebs ref_host ref_guest [cacheDir ref_guest @ ''/openssh-server_1_amd64.deb''] =
     (Inr (), [cacheDir ref_guest @ ''/openssh-server_1_amd64.deb''])"
proof (rule EnsureOpenSSHDebs_trusts_server_package)
  show "h_MkdirAll ref_host (cacheDir ref_guest) [cacheDir ref_guest @ ''/openssh-server_1_amd64.deb''] =
      (Inr (), [cacheDir ref_guest @ ''/openssh-server_1_amd64.deb''])"
    by (simp add: ref_host_def)
  show "h_Glob ref_host (server_pattern ref_guest) [cacheDir ref_guest @ ''/openssh-server_1_amd64.deb''] =
      ([cacheDir ref_guest @ ''/openssh-server_1_amd64.deb''], [cacheDir ref_guest @ ''/openssh-server_1_amd64.deb''])"
    by code_simp
qed

end
