(* ===== verification/RedisSetup.thy ===== *)
theory RedisSetup imports Config Debs begin

text \<open>
  \<open>internal/setup/redis_linux.go\<close>: finding a Redis server that is already there, from the listening sockets, the
  configuration files and a \<open>PING\<close>.

  The machine (\<open>machine\<close>) adds to \<open>host\<close> what only \<open>init\<close> needs: directory listings, files written with a mode,
  commands that share the terminal or read a text, connection attempts. Whether \<open>net.ParseIP\<close> reads a text as a
  loopback or unspecified address is a parameter (\<open>mc_local_ip\<close>).
\<close>

section \<open>The machine\<close>

record 'd machine =
  mc_host :: "'d host"
  mc_Stat :: "string \<Rightarrow> 'd \<Rightarrow> bool \<times> 'd"
  mc_ReadDir :: "string \<Rightarrow> ('d, (string \<times> bool) list) prog"
  mc_WriteFile :: "string \<Rightarrow> string \<Rightarrow> nat \<Rightarrow> ('d, unit) prog"
  mc_Attached :: "(string \<times> string) list \<Rightarrow> string list \<Rightarrow> ('d, unit) prog"
  mc_WithInput :: "string list \<Rightarrow> string \<Rightarrow> ('d, unit) prog"
  mc_Output :: "string list \<Rightarrow> 'd \<Rightarrow> (string \<times> error option) \<times> 'd"
  mc_Dial :: "string \<Rightarrow> int \<Rightarrow> 'd \<Rightarrow> bool \<times> 'd"
  mc_Executable :: "('d, string) prog"
  mc_local_ip :: "string \<Rightarrow> bool"

definition look :: "'d machine \<Rightarrow> string \<Rightarrow> ('d, bool) prog" where
  "look M bin = sure (h_LookPath (mc_host M) bin)"

record redis_endpoint =
  re_host :: string
  re_port :: int
  re_password :: string
  re_source :: string

section \<open>The patterns\<close>

text \<open>\<open>\s\<close> of the regular expressions.\<close>

definition re_space :: "char \<Rightarrow> bool" where
  "re_space c \<longleftrightarrow> (let n = (of_char c :: nat) in n = 9 \<or> n = 10 \<or> n = 12 \<or> n = 13 \<or> n = 32)"

text \<open>What follows a keyword (in any case) and at least one blank at the beginning of a line.\<close>

definition after_keyword :: "string \<Rightarrow> string \<Rightarrow> string option" where
  "after_keyword key s =
     (let t = dropWhile re_space s; rest = drop (length key) t in
      if strings_EqualFold (take (length key) t) key \<and> rest \<noteq> '''' \<and> re_space (hd rest)
      then Some (dropWhile re_space rest) else None)"

definition trim_right :: "string \<Rightarrow> string" where
  "trim_right s = rev (dropWhile re_space (rev s))"

definition redisPortRe :: "string \<Rightarrow> string option" where
  "redisPortRe s =
     (case after_keyword ''port'' s of
        None \<Rightarrow> None
      | Some rest \<Rightarrow>
          (let t = trim_right rest in if t \<noteq> '''' \<and> list_all is_digit t then Some t else None))"

definition redisPassRe :: "string \<Rightarrow> string option" where
  "redisPassRe s =
     (case after_keyword ''requirepass'' s of
        None \<Rightarrow> None
      | Some rest \<Rightarrow>
          (let t = trim_right rest in if t \<noteq> '''' \<and> list_all (\<lambda>c. \<not> re_space c) t then Some t else None))"

definition redisBindRe :: "string \<Rightarrow> string option" where
  "redisBindRe s = (case after_keyword ''bind'' s of Some rest \<Rightarrow> if rest \<noteq> '''' then Some rest else None | None \<Rightarrow> None)"

definition ssListenRedisRe :: "string \<Rightarrow> bool" where
  "ssListenRedisRe s = strings_Contains (strings_ToLower s) ''redis''"

text \<open>All matches of \<open>:(\d+)\s\<close>, from left to right.\<close>

function ssPortRe :: "string \<Rightarrow> string list" where
  "ssPortRe s =
     (case s of
        [] \<Rightarrow> []
      | c # t \<Rightarrow>
          if c = CHR '':'' then
            (let ds = takeWhile is_digit t; rest = dropWhile is_digit t in
             if ds \<noteq> '''' \<and> rest \<noteq> '''' \<and> re_space (hd rest) then ds # ssPortRe (tl rest) else ssPortRe t)
          else ssPortRe t)"
  by pat_completeness auto
termination
proof (relation "measure length", goal_cases)
  case (2 s c t ds rest)
  have "length (dropWhile is_digit t) \<le> length t" by (rule length_dropWhile_le)
  then show ?case using 2 by simp
qed auto

declare ssPortRe.simps [simp del]

text \<open>\<open>strings.Trim(s, quotes)\<close> with the two kinds of quotes.\<close>

definition trim_quotes :: "string \<Rightarrow> string" where
  "trim_quotes s =
     (let q = (\<lambda>c. c = CHR 0x22 \<or> c = CHR 0x27) in rev (dropWhile q (rev (dropWhile q s))))"

section \<open>The configuration files\<close>

definition bind_is_local :: "'d machine \<Rightarrow> string \<Rightarrow> bool" where
  "bind_is_local M b \<longleftrightarrow>
     b \<in> {''127.0.0.1'', ''0.0.0.0'', ''::1'', ''*''} \<or> mc_local_ip M b"

text \<open>One line of a file: the endpoint so far, and whether anything was found in the file.\<close>

definition config_line :: "'d machine \<Rightarrow> string \<Rightarrow> redis_endpoint \<times> bool \<Rightarrow> redis_endpoint \<times> bool" where
  "config_line M text st =
     (let row = strings_TrimSpace text in
      if row = '''' \<or> strings_HasPrefix row ''#'' then st
      else
        let st = (case redisPortRe row of
                    None \<Rightarrow> st
                  | Some ds \<Rightarrow> (case Atoi ds of None \<Rightarrow> st | Some p \<Rightarrow> ((fst st)\<lparr>re_port := p\<rparr>, True)));
            st = (case redisPassRe row of
                    None \<Rightarrow> st | Some v \<Rightarrow> ((fst st)\<lparr>re_password := trim_quotes v\<rparr>, True)) in
        (case redisBindRe row of
           None \<Rightarrow> st
         | Some v \<Rightarrow>
             if list_ex (bind_is_local M) (strings_Fields v) then ((fst st)\<lparr>re_host := ''127.0.0.1''\<rparr>, True) else st))"

definition read_config :: "'d machine \<Rightarrow> string \<Rightarrow> redis_endpoint \<Rightarrow> redis_endpoint \<times> bool" where
  "read_config M text ep = fold (config_line M) (strings_Split text (CHR 0x0A)) (ep, False)"

text \<open>The files that can be opened, one after the other: later ones win.\<close>

primrec read_configs ::
    "'d machine \<Rightarrow> string list \<Rightarrow> redis_endpoint \<times> bool \<Rightarrow> ('d, redis_endpoint \<times> bool) prog" where
  "read_configs M [] st = ret st"
| "read_configs M (path # paths) st =
     andThen (attempt (h_ReadFile (mc_host M) path)) (\<lambda>r.
     read_configs M paths
       (case r of
          Inr (Some text) \<Rightarrow>
            (case read_config M text (fst st) of (ep, here) \<Rightarrow> (ep, snd st \<or> here))
        | _ \<Rightarrow> st))"

definition config_paths :: "'d machine \<Rightarrow> ('d, string list) prog" where
  "config_paths M =
     andThen (attempt (mc_ReadDir M ''/etc/redis'')) (\<lambda>r.
     ret ([''/etc/redis/redis.conf'', ''/etc/redis.conf'', ''/etc/redis/goincus.conf'']
       @ (case r of
            Inl _ \<Rightarrow> []
          | Inr entries \<Rightarrow>
              map (\<lambda>(name, _). ''/etc/redis/'' @ name)
                (filter (\<lambda>(name, dir). \<not> dir \<and> strings_HasSuffix name ''.conf'') entries))))"

definition redisFromConfigFiles :: "'d machine \<Rightarrow> ('d, redis_endpoint option) prog" where
  "redisFromConfigFiles M =
     andThen (config_paths M) (\<lambda>paths.
     andThen (read_configs M paths
       (\<lparr>re_host = ''127.0.0.1'', re_port = 6379, re_password = '''', re_source = ''config''\<rparr>, False)) (\<lambda>(ep, any).
     ret (if any then Some ep else None)))"

section \<open>Candidates\<close>

text \<open>The first occurrences, in order.\<close>

definition add_new :: "'a \<Rightarrow> 'a list \<Rightarrow> 'a list" where
  "add_new x xs = (if x \<in> set xs then xs else xs @ [x])"

definition listening_ports :: "string \<Rightarrow> int list" where
  "listening_ports out =
     fold (\<lambda>row ports.
       if ssListenRedisRe row
       then fold (\<lambda>ds ports. case Atoi ds of None \<Rightarrow> ports | Some p \<Rightarrow> add_new p ports) (ssPortRe row) ports
       else ports) (strings_Split out (CHR 0x0A)) []"

definition redisListeningPorts :: "'d machine \<Rightarrow> ('d, int list) prog" where
  "redisListeningPorts M =
     andThen (sure (h_Run (mc_host M) [] [''ss'', ''-ltnp''])) (\<lambda>(out, e).
     ret (case e of Some _ \<Rightarrow> [] | None \<Rightarrow> listening_ports out))"

definition add_port :: "int \<Rightarrow> int list \<Rightarrow> int list" where
  "add_port p ports = (if p \<le> 0 \<or> p > 65535 then ports else add_new p ports)"

definition collectRedisPortCandidates :: "'d machine \<Rightarrow> ('d, int list) prog" where
  "collectRedisPortCandidates M =
     andThen (redisListeningPorts M) (\<lambda>listening.
     andThen (redisFromConfigFiles M) (\<lambda>conf.
     ret (add_port 9602 (add_port 6379
       (case conf of None \<Rightarrow> fold add_port listening [] | Some ep \<Rightarrow> add_port (re_port ep) (fold add_port listening []))))))"

definition collectRedisPasswords :: "'d machine \<Rightarrow> ('d, string list) prog" where
  "collectRedisPasswords M =
     andThen (redisFromConfigFiles M) (\<lambda>conf.
     ret (case conf of
            None \<Rightarrow> []
          | Some ep \<Rightarrow> let p = trim_quotes (re_password ep) in if p = '''' then [] else [p]))"

section \<open>Probing\<close>

definition ping_command :: "string \<Rightarrow> int \<Rightarrow> string \<Rightarrow> string list" where
  "ping_command host port password =
     [''redis-cli'', ''-h'', host, ''-p'', itoa port]
     @ (if password \<noteq> '''' then [''-a'', password, ''--no-auth-warning''] else []) @ [''PING'']"

definition needs_auth :: "string \<Rightarrow> bool" where
  "needs_auth resp \<longleftrightarrow>
     (let lower = strings_ToLower resp in
      strings_Contains lower ''noauth'' \<or> strings_Contains lower ''authentication required'')"

definition probeRedis :: "'d machine \<Rightarrow> string \<Rightarrow> int \<Rightarrow> string \<Rightarrow> ('d, redis_endpoint option) prog" where
  "probeRedis M host port password =
     (let ep = (\<lambda>src. \<lparr>re_host = host, re_port = port, re_password = password, re_source = src\<rparr>) in
      andThen (sure (mc_Dial M (host @ '':'' @ itoa port) 400000000)) (\<lambda>reached.
      if \<not> reached then ret None
      else
      andThen (look M ''redis-cli'') (\<lambda>cli.
      if \<not> cli then ret (Some (ep ''listening''))
      else
      andThen (sure (h_Run (mc_host M) [] (ping_command host port password))) (\<lambda>(out, e).
      let resp = strings_TrimSpace out in
      ret
        (if e = None \<and> strings_EqualFold resp ''PONG''
         then Some (ep (if password \<noteq> '''' then ''running+auth'' else ''running''))
         else if needs_auth resp then Some (ep ''running-needs-auth'')
         else None)))))"

primrec first_answer :: "('a \<Rightarrow> ('d, 'b option) prog) \<Rightarrow> 'a list \<Rightarrow> ('d, 'b option) prog" where
  "first_answer f [] = ret None"
| "first_answer f (x # xs) =
     andThen (f x) (\<lambda>r. case r of Some y \<Rightarrow> ret (Some y) | None \<Rightarrow> first_answer f xs)"

definition redisBinaryPresent :: "'d machine \<Rightarrow> ('d, bool) prog" where
  "redisBinaryPresent M =
     andThen (look M ''redis-server'') (\<lambda>server. if server then ret True else look M ''redis-cli'')"

definition detectExistingRedis :: "'d machine \<Rightarrow> ('d, redis_endpoint option) prog" where
  "detectExistingRedis M =
     andThen (collectRedisPortCandidates M) (\<lambda>candidates.
     andThen (first_answer (\<lambda>port.
       andThen (probeRedis M ''127.0.0.1'' port '''') (\<lambda>r.
       case r of
         Some ep \<Rightarrow> ret (Some ep)
       | None \<Rightarrow>
           andThen (collectRedisPasswords M) (\<lambda>passwords.
           first_answer (probeRedis M ''127.0.0.1'' port) passwords))) candidates) (\<lambda>r.
     case r of
       Some ep \<Rightarrow> ret (Some ep)
     | None \<Rightarrow>
         andThen (redisFromConfigFiles M) (\<lambda>conf.
         case conf of
           None \<Rightarrow> ret None
         | Some ep \<Rightarrow>
             andThen (redisBinaryPresent M) (\<lambda>present. ret (if present then Some ep else None)))))"

definition applyExistingRedis :: "redis_endpoint \<Rightarrow> config \<Rightarrow> config" where
  "applyExistingRedis ep cfg =
     cfg\<lparr>c_redis := (c_redis cfg)\<lparr>r_host := re_host ep, r_port := re_port ep, r_password := re_password ep\<rparr>\<rparr>"

definition formatRedisAddr :: "config \<Rightarrow> string" where
  "formatRedisAddr cfg = r_host (c_redis cfg) @ '':'' @ itoa (r_port (c_redis cfg))"


section \<open>Properties\<close>

lemma candidates_in_range:
  assumes "collectRedisPortCandidates M d = (Inr ports, d')"
  shows "distinct ports \<and> set ports \<subseteq> {1..65535} \<and> {6379, 9602} \<subseteq> set ports"
proof -
  have add: "distinct (add_port p ps) \<and> set (add_port p ps) \<subseteq> {1..65535}" if "distinct ps \<and> set ps \<subseteq> {1..65535}" for p ps
    using that by (auto simp: add_port_def add_new_def)
  have fold: "distinct (fold add_port ls ps) \<and> set (fold add_port ls ps) \<subseteq> {1..65535}"
    if "distinct ps \<and> set ps \<subseteq> {1..65535}" for ls ps
    using that by (induction ls arbitrary: ps) (simp_all add: add)
  have mem: "p \<in> set (add_port p ps) \<or> \<not> (0 < p \<and> p \<le> 65535)" "set ps \<subseteq> set (add_port p ps)" for p ps
    by (auto simp: add_port_def add_new_def)
  obtain ps where ports: "ports = add_port 9602 (add_port 6379 ps)" and ps: "distinct ps \<and> set ps \<subseteq> {1..65535}"
    using assms fold [of "[]"] add
    by (auto simp: collectRedisPortCandidates_def andThen_Inr split: option.splits)
  show ?thesis using add [OF add [OF ps]] mem(1) [of 9602 "add_port 6379 ps"] mem(1) [of 6379 ps] mem(2) [of "add_port 6379 ps" 9602]
    by (auto simp: ports)
qed

text \<open>C27. A Redis server that asks for a password is taken as it is, without one: the first probe is sent without a
password, its refusal already counts as a hit, and the passwords found in the configuration files are never tried.
The configuration that results has no password, so the API cannot use the server.\<close>

theorem detect_skips_passwords:
  assumes "collectRedisPortCandidates M d = (Inr (port # ports), d1)"
    and "mc_Dial M (''127.0.0.1:'' @ itoa port) 400000000 d1 = (True, d2)"
    and "h_LookPath (mc_host M) ''redis-cli'' d2 = (True, d3)"
    and "h_Run (mc_host M) [] (ping_command ''127.0.0.1'' port '''') d3 = ((out, e), d4)"
    and "needs_auth (strings_TrimSpace out)" and "\<not> strings_EqualFold (strings_TrimSpace out) ''PONG''"
  shows "\<exists>ep. detectExistingRedis M d = (Inr (Some ep), d4) \<and> re_port ep = port \<and> re_password ep = ''''
    \<and> re_source ep = ''running-needs-auth'' \<and> r_password (c_redis (applyExistingRedis ep cfg)) = ''''"
  using assms
  by (simp add: detectExistingRedis_def probeRedis_def look_def andThen_def sure_def ret_def applyExistingRedis_def)

text \<open>A machine with a Redis server on its usual port, whose password is in its configuration file.\<close>

definition locked_redis :: "unit machine" where
  "locked_redis = \<lparr>
     mc_host = \<lparr>h_ReadFile = (\<lambda>p. ret (if p = ''/etc/redis/redis.conf'' then Some ''requirepass s3cret'' else None)),
       h_WriteFile = (\<lambda>_ _. ret ()), h_MkdirAll = (\<lambda>_. ret ()), h_Rename = (\<lambda>_ _. ret ()), h_Remove = (\<lambda>_. ret ()),
       h_NonEmpty = (\<lambda>_ d. (False, d)), h_Glob = (\<lambda>_ d. ([], d)),
       h_Run = (\<lambda>_ cmd d. (if cmd = ping_command ''127.0.0.1'' 6379 ''s3cret'' then (''PONG'', None)
         else if hd cmd = ''redis-cli'' then (''NOAUTH Authentication required.'', None)
         else ('''', Some (ErrText ''not found'')), d)),
       h_LookPath = (\<lambda>_ d. (True, d)), h_IsRoot = (\<lambda>d. (True, d)), h_HttpGet = (\<lambda>_. throw (ErrText ''no network'')),
       h_Gunzip = Inr, h_Now = (\<lambda>d. (0, d)), h_Sleep = (\<lambda>_ d. d)\<rparr>,
     mc_Stat = (\<lambda>_ d. (False, d)), mc_ReadDir = (\<lambda>_. ret []), mc_WriteFile = (\<lambda>_ _ _. ret ()),
     mc_Attached = (\<lambda>_ _. ret ()), mc_WithInput = (\<lambda>_ _. ret ()), mc_Output = (\<lambda>_ d. (('''', None), d)),
     mc_Dial = (\<lambda>_ _ d. (True, d)), mc_Executable = ret ''/usr/local/bin/goincus'', mc_local_ip = (\<lambda>_. False)\<rparr>"

theorem detect_skips_passwords_witness:
  "fst (collectRedisPasswords locked_redis ()) = Inr [''s3cret'']
   \<and> fst (probeRedis locked_redis ''127.0.0.1'' 6379 ''s3cret'' ()) =
       Inr (Some \<lparr>re_host = ''127.0.0.1'', re_port = 6379, re_password = ''s3cret'', re_source = ''running+auth''\<rparr>)
   \<and> (\<exists>ep. detectExistingRedis locked_redis () = (Inr (Some ep), ()) \<and> re_password ep = '''')"
proof -
  have 1: "fst (collectRedisPasswords locked_redis ()) = Inr [''s3cret'']"
    "fst (probeRedis locked_redis ''127.0.0.1'' 6379 ''s3cret'' ()) =
       Inr (Some \<lparr>re_host = ''127.0.0.1'', re_port = 6379, re_password = ''s3cret'', re_source = ''running+auth''\<rparr>)"
    by code_simp+
  have "fst (collectRedisPortCandidates locked_redis ()) = Inr [6379, 9602]" by code_simp
  then have c: "collectRedisPortCandidates locked_redis () = (Inr [6379, 9602], ())" by (simp add: prod_eq_iff)
  have "\<exists>ep. detectExistingRedis locked_redis () = (Inr (Some ep), ()) \<and> re_port ep = 6379 \<and> re_password ep = ''''
    \<and> re_source ep = ''running-needs-auth'' \<and> r_password (c_redis (applyExistingRedis ep Default)) = ''''"
  proof (rule detect_skips_passwords [OF c])
    show "h_Run (mc_host locked_redis) [] (ping_command ''127.0.0.1'' 6379 '''') () =
        ((''NOAUTH Authentication required.'', None), ())"
      by (simp add: locked_redis_def ping_command_def)
    show "needs_auth (strings_TrimSpace ''NOAUTH Authentication required.'')"
      "\<not> strings_EqualFold (strings_TrimSpace ''NOAUTH Authentication required.'') ''PONG''" by code_simp+
  qed (simp_all add: locked_redis_def)
  then show ?thesis using 1 by blast
qed

end
