(* ===== verification/Quoting.thy ===== *)
theory Quoting imports Prelude begin

text \<open>
  The two quotations of \<open>internal/setup/init_linux.go\<close>, against the grammars they are written for: a string constant
  of PostgreSQL, and the words of a POSIX shell command.
\<close>

section \<open>Quotation\<close>

text \<open>\<open>strings.ReplaceAll\<close> of one character.\<close>

definition replace_char :: "char \<Rightarrow> string \<Rightarrow> string \<Rightarrow> string" where
  "replace_char c r s = concat (map (\<lambda>x. if x = c then r else [x]) s)"

definition escapeSQL :: "string \<Rightarrow> string" where
  "escapeSQL s = replace_char (CHR 0x27) [CHR 0x27, CHR 0x27] s"

text \<open>A quote inside single quotes: close, an escaped quote, open again.\<close>

definition shell_quote :: "string \<Rightarrow> string" where
  "shell_quote a = CHR 0x27 # replace_char (CHR 0x27) [CHR 0x27, CHR 0x5C, CHR 0x27, CHR 0x27] a @ [CHR 0x27]"

definition shellQuoteAll :: "string list \<Rightarrow> string list" where
  "shellQuoteAll args = map shell_quote args"

section \<open>Reading them\<close>

text \<open>
  A string constant after its opening quote: a doubled quote is a quote, a single one ends it
  (\<open>standard_conforming_strings\<close>). The result is the value and what follows.
\<close>

fun sql_string :: "string \<Rightarrow> (string \<times> string) option" where
  "sql_string [] = None"
| "sql_string (c # s) =
     (if c = CHR 0x27 then
        (case s of
           d # t \<Rightarrow> if d = CHR 0x27 then map_option (\<lambda>(v, r). (CHR 0x27 # v, r)) (sql_string t) else Some ([], s)
         | [] \<Rightarrow> Some ([], []))
      else map_option (\<lambda>(v, r). (c # v, r)) (sql_string s))"

text \<open>
  The words of a command line of literal characters, blanks, single quotes and backslashes; other
  characters that mean something to the shell are not read (\<open>None\<close>). \<open>w\<close> is the word begun, if any.
\<close>

datatype sh_mode = Blank | InWord | InQuotes

definition sh_literal :: "char \<Rightarrow> bool" where
  "sh_literal c \<longleftrightarrow>
     (let n = (of_char c :: nat) in 48 \<le> n \<and> n \<le> 57 \<or> 65 \<le> n \<and> n \<le> 90 \<or> 97 \<le> n \<and> n \<le> 122) \<or> c \<in> set ''-_./:,+@%''"

fun sh_words :: "sh_mode \<Rightarrow> string \<Rightarrow> string \<Rightarrow> string list option" where
  "sh_words Blank w [] = Some []"
| "sh_words InWord w [] = Some [w]"
| "sh_words InQuotes w [] = None"
| "sh_words InQuotes w (c # s) =
     (if c = CHR 0x27 then sh_words InWord w s else sh_words InQuotes (w @ [c]) s)"
| "sh_words m w (c # s) =
     (if c = CHR '' '' then
        (case m of InWord \<Rightarrow> map_option (Cons w) (sh_words Blank [] s) | _ \<Rightarrow> sh_words Blank [] s)
      else if c = CHR 0x27 then sh_words InQuotes w s
      else if c = CHR 0x5C then
        (case s of [] \<Rightarrow> None | d # t \<Rightarrow> sh_words InWord (w @ [d]) t)
      else if sh_literal c then sh_words InWord (w @ [c]) s
      else None)"

section \<open>Every value survives\<close>

lemma sql_string_escaped:
  "s2 = [] \<or> hd s2 \<noteq> CHR 0x27 \<Longrightarrow> sql_string (escapeSQL s @ CHR 0x27 # s2) = Some (s, s2)"
  by (induction s) (auto simp: escapeSQL_def replace_char_def split: list.split)

lemma sh_words_body:
  "sh_words InQuotes w (replace_char (CHR 0x27) [CHR 0x27, CHR 0x5C, CHR 0x27, CHR 0x27] a @ s) =
   sh_words InQuotes (w @ a) s"
proof (induction a arbitrary: w)
  case Nil
  then show ?case by (simp add: replace_char_def)
next
  case (Cons c a)
  have step: "replace_char (CHR 0x27) r (c # a) = (if c = CHR 0x27 then r else [c]) @ replace_char (CHR 0x27) r a" for r
    by (simp add: replace_char_def)
  show ?case unfolding step using Cons.IH [of "w @ [c]"] by (cases "c = CHR 0x27") simp_all
qed

lemma sh_words_quoted: "sh_words Blank [] (shell_quote a @ s) = sh_words InWord a s"
  using sh_words_body [of "[]" a "CHR 0x27 # s"] by (simp add: shell_quote_def)

lemma sh_words_join: "sh_words Blank [] (strings_Join (shellQuoteAll args) '' '') = Some args"
proof (induction args)
  case Nil
  then show ?case by (simp add: shellQuoteAll_def)
next
  case (Cons a args)
  show ?case
  proof (cases args)
    case Nil
    then show ?thesis using sh_words_quoted [of a "[]"] by (simp add: shellQuoteAll_def)
  next
    case (Cons b bs)
    then have "strings_Join (shellQuoteAll (a # args)) '' '' = shell_quote a @ '' '' @ strings_Join (shellQuoteAll args) '' ''"
      by (simp add: shellQuoteAll_def)
    then show ?thesis using Cons.IH sh_words_quoted by simp
  qed
qed


lemma sh_words_name:
  "list_all sh_literal name \<Longrightarrow> sh_words InWord w (name @ CHR '' '' # s) = map_option (Cons (w @ name)) (sh_words Blank [] s)"
proof (induction name arbitrary: w)
  case (Cons c name)
  have "c \<noteq> CHR '' '' \<and> c \<noteq> CHR 0x27 \<and> c \<noteq> CHR 0x5C" using Cons.prems by (auto simp: sh_literal_def)
  then show ?case using Cons by simp
qed simp



end
