(* ===== verification/IPv4.thy ===== *)
theory IPv4 imports Prelude begin

text \<open>
  IPv4 addresses and networks as Go's \<open>net\<close> package reads and prints them, and the search for a free
  address of a network (\<open>internal/incusclient/network.go\<close>). An address is a 32-bit word. Reading an IPv6 network
  is left to a parameter (\<open>v6\<close>, the text of the network), since the code does not look inside.
\<close>

unbundle bit_operations_syntax

type_synonym ipv4 = "32 word"

section \<open>Text form\<close>

definition octet :: "ipv4 \<Rightarrow> nat \<Rightarrow> nat" where
  "octet w k = unat (drop_bit (8 * k) w AND 255)"

definition ipv4_String :: "ipv4 \<Rightarrow> string" where
  "ipv4_String w = nat_str (octet w 3) @ ''.'' @ nat_str (octet w 2) @ ''.'' @ nat_str (octet w 1) @ ''.'' @ nat_str (octet w 0)"

text \<open>A field: decimal digits, no superfluous zero, at most 255.\<close>

definition parse_octet :: "string \<Rightarrow> nat option" where
  "parse_octet s =
     (if s \<noteq> [] \<and> list_all is_digit s \<and> (length s = 1 \<or> hd s \<noteq> CHR ''0'') \<and> str_nat s \<le> 255
      then Some (str_nat s) else None)"

definition ipv4_of :: "nat \<Rightarrow> nat \<Rightarrow> nat \<Rightarrow> nat \<Rightarrow> ipv4" where
  "ipv4_of a b c d = push_bit 24 (of_nat a) OR push_bit 16 (of_nat b) OR push_bit 8 (of_nat c) OR of_nat d"

definition ParseIPv4 :: "string \<Rightarrow> ipv4 option" where
  "ParseIPv4 s =
     (case strings_Split s (CHR ''.'') of
        [a, b, c, d] \<Rightarrow>
          (case (parse_octet a, parse_octet b, parse_octet c, parse_octet d) of
             (Some a, Some b, Some c, Some d) \<Rightarrow> Some (ipv4_of a b c d)
           | _ \<Rightarrow> None)
      | _ \<Rightarrow> None)"

section \<open>Networks\<close>

datatype cidr = V4 ipv4 nat | V6 string

text \<open>\<open>net.ParseCIDR\<close>: the address as written and the length of the prefix, or the text of an IPv6 network.\<close>

definition parse_prefix :: "string \<Rightarrow> nat option" where
  "parse_prefix s = (if s \<noteq> [] \<and> list_all is_digit s \<and> str_nat s \<le> 32 then Some (str_nat s) else None)"

definition cut_at :: "char \<Rightarrow> string \<Rightarrow> (string \<times> string) option" where
  "cut_at c s = (if c \<in> set s then Some (takeWhile (\<lambda>x. x \<noteq> c) s, tl (dropWhile (\<lambda>x. x \<noteq> c) s)) else None)"

definition ParseCIDR :: "(string \<Rightarrow> string option) \<Rightarrow> string \<Rightarrow> cidr option" where
  "ParseCIDR v6 s =
     (case cut_at (CHR ''/'') s of
        None \<Rightarrow> None
      | Some (addr, prefix) \<Rightarrow>
          (case (ParseIPv4 addr, parse_prefix prefix) of
             (Some w, Some n) \<Rightarrow> Some (V4 w n)
           | (Some w, None) \<Rightarrow> None
           | (None, _) \<Rightarrow> map_option V6 (v6 s)))"

text \<open>The address of the network: the host bits cleared.\<close>

definition network_of :: "ipv4 \<Rightarrow> nat \<Rightarrow> ipv4" where
  "network_of w n = push_bit (32 - n) (drop_bit (32 - n) w)"

text \<open>\<open>parseHostFromCIDR\<close>: the address and the prefix as texts; no prefix stands for 24.\<close>

definition parseHostFromCIDR :: "string \<Rightarrow> error + string \<times> string" where
  "parseHostFromCIDR s =
     (let parts = strings_Split s (CHR ''/'') in
      if hd parts = '''' then Inl (ErrText (''bad cidr '' @ go_quote s))
      else Inr (hd parts, if 1 < length parts then parts ! 1 else ''24''))"

text \<open>\<open>ipNet.String()\<close>\<close>

definition subnet_String :: "cidr \<Rightarrow> string" where
  "subnet_String c = (case c of V4 w n \<Rightarrow> ipv4_String (network_of w n) @ ''/'' @ nat_str n | V6 s \<Rightarrow> s)"

text \<open>\<open>ipv4Netmask\<close>: the dotted mask of a prefix length; anything else stands for 24.\<close>

definition ipv4Netmask :: "string \<Rightarrow> string" where
  "ipv4Netmask prefixLen =
     (case Sscanf_d prefixLen of
        None \<Rightarrow> ''255.255.255.0''
      | Some bits \<Rightarrow> if bits < 0 \<or> bits > 32 then ''255.255.255.0'' else ipv4_String (network_of (- 1) (nat bits)))"

section \<open>The search for a free address\<close>

definition host_numbers :: "nat \<Rightarrow> nat list" where
  "host_numbers n = [2..<min (2 ^ (32 - n) - 1) 250]"

definition free_host :: "(string \<Rightarrow> bool) \<Rightarrow> ipv4 \<Rightarrow> nat \<Rightarrow> ipv4 option" where
  "free_host used base n =
     List.find (\<lambda>w. \<not> used (ipv4_String w)) (map (\<lambda>h. base + of_nat h) (host_numbers n))"

section \<open>Lemmas\<close>

lemma octet_less: "octet w k < 256"
proof -
  have "drop_bit (8 * k) w AND 255 \<le> 255" by (rule word_and_le1)
  then show ?thesis unfolding octet_def by (simp add: word_le_nat_alt)
qed

lemma parse_octet_nat_str: "n \<le> 255 \<Longrightarrow> parse_octet (nat_str n) = Some n"
proof -
  assume n: "n \<le> 255"
  have "length (nat_str n) = 1 \<or> hd (nat_str n) \<noteq> CHR ''0''"
  proof (cases "n < 10")
    case True
    then show ?thesis by (subst nat_str.simps) simp
  next
    case False
    have "hd (nat_str m) \<noteq> CHR ''0''" if "0 < m" for m
      using that
    proof (induction m rule: nat_str.induct)
      case (1 m)
      show ?case
      proof (cases "m < 10")
        case True
        have "(of_char (digit_char m) :: nat) = 48 + m" using True by (simp add: digit_char_def)
        moreover have "(of_char (CHR ''0'') :: nat) = 48" by simp
        ultimately have "digit_char m \<noteq> CHR ''0''" using 1(2) by auto
        then show ?thesis using True by (subst nat_str.simps) simp
      next
        case False
        then show ?thesis using 1 by (subst nat_str.simps) simp
      qed
    qed
    then show ?thesis using False by simp
  qed
  then show ?thesis using n by (simp add: parse_octet_def nat_str_digits str_nat_nat_str)
qed

lemma dot_not_digit: "CHR ''.'' \<notin> set (nat_str n)"
proof
  assume "CHR ''.'' \<in> set (nat_str n)"
  then have "is_digit (CHR ''.'')" using nat_str_digits [of n] by (auto simp: list_all_iff)
  then show False by (simp add: is_digit_def)
qed

lemma ipv4_of_octets: "ipv4_of (octet w 3) (octet w 2) (octet w 1) (octet w 0) = w"
proof -
  have m: "(255 :: ipv4) = mask 8" by (simp add: mask_eq_exp_minus_1)
  have u: "of_nat (unat x) = x" for x :: ipv4 by simp
  show ?thesis
    unfolding ipv4_of_def octet_def m u
  proof (rule bit_word_eqI)
    fix n assume "n < LENGTH(32)"
    then consider "n < 8" | "8 \<le> n" "n < 16" | "16 \<le> n" "n < 24" | "24 \<le> n" "n < 32" by fastforce
    then show "bit (push_bit 24 (drop_bit (8 * 3) w AND mask 8) OR push_bit 16 (drop_bit (8 * 2) w AND mask 8)
      OR push_bit 8 (drop_bit (8 * 1) w AND mask 8) OR drop_bit (8 * 0) w AND mask 8) n = bit w n"
      by cases (auto simp: bit_simps)
  qed
qed

text \<open>Printing an IPv4 address and reading it back gives the same address, so two addresses are the same
exactly when their texts are.\<close>

theorem ParseIPv4_String: "ParseIPv4 (ipv4_String w) = Some w"
proof -
  have "strings_Split (ipv4_String w) (CHR ''.'') = [nat_str (octet w 3), nat_str (octet w 2), nat_str (octet w 1), nat_str (octet w 0)]"
    by (simp add: ipv4_String_def strings_Split_append strings_Split_single dot_not_digit)
  moreover have "octet w k \<le> 255" for k using octet_less [of w k] by simp
  ultimately show ?thesis using ipv4_of_octets [of w] by (simp add: ParseIPv4_def parse_octet_nat_str)
qed


lemma bit_small: "h < 2 ^ k \<Longrightarrow> bit (of_nat h :: ipv4) i \<Longrightarrow> i < k"
proof -
  assume h: "h < 2 ^ k" and b: "bit (of_nat h :: ipv4) i"
  have "bit h i" using b by (simp add: bit_simps)
  moreover have "h = take_bit k h" using h by (simp add: take_bit_nat_eq_self)
  ultimately show "i < k" by (metis bit_take_bit_iff)
qed

lemma add_host: "h < 2 ^ k \<Longrightarrow> push_bit k a + of_nat h = push_bit k a OR (of_nat h :: ipv4)"
  by (rule disjunctive_add_eq_or) (auto simp: bit_eq_iff bit_simps dest: bit_small)

lemma network_of_host:
  assumes "h < 2 ^ (32 - n)"
  shows "network_of (network_of g n + of_nat h) n = network_of g n"
proof -
  have "\<not> bit (of_nat h :: ipv4) (32 - n + i)" for i using bit_small [OF assms] by force
  then have "drop_bit (32 - n) (push_bit (32 - n) a OR of_nat h) = drop_bit (32 - n) (push_bit (32 - n) a :: ipv4)" for a
    by (intro bit_word_eqI) (auto simp: bit_simps)
  then show ?thesis
    unfolding network_of_def add_host [OF assms] by (simp only:) (rule bit_word_eqI, auto simp: bit_simps)
qed

lemma free_host_Some:
  assumes "free_host used (network_of g n) n = Some w"
  shows "\<not> used (ipv4_String w) \<and> network_of w n = network_of g n
    \<and> (\<exists>h. w = network_of g n + of_nat h \<and> 2 \<le> h \<and> h < 2 ^ (32 - n) - 1 \<and> h < 250)"
proof -
  obtain h where h: "h \<in> set (host_numbers n)" "w = network_of g n + of_nat h" and "\<not> used (ipv4_String w)"
    using find_unique_some [OF assms [unfolded free_host_def]] by auto
  moreover have "h < 2 ^ (32 - n)" using h(1) by (auto simp: host_numbers_def)
  ultimately show ?thesis using network_of_host [of h n g] by (auto simp: host_numbers_def)
qed

lemma free_host_None:
  "free_host used base n = None \<longleftrightarrow> (\<forall>h \<in> set (host_numbers n). used (ipv4_String (base + of_nat h)))"
  by (auto simp: free_host_def find_None_iff)

end
