(* ===== verification/Daemon.thy ===== *)
theory Daemon imports Debs Scripts IPv4 begin

text \<open>
  The Incus daemon as the client library presents it, the state of \<open>incusclient.Client\<close>, and its calls.

  The daemon and the machine around it are an opaque state \<open>'d\<close>, known only through the operations of
  \<open>incus_server\<close>. An operation that the daemon runs in the background returns the operation to wait
  for: a program whose run is \<open>op.Wait()\<close>. The client's own state is its configuration, which the
  code changes while it prepares storage pool and network.
\<close>

section \<open>What the daemon stores\<close>

record profile =
  pr_description :: string
  pr_config :: config_map
  pr_devices :: devices

record network =
  nw_name :: string
  nw_type :: string
  nw_managed :: bool
  nw_config :: config_map

record incus_instance =
  in_status :: string
  in_running :: bool
  in_config :: config_map
  in_devices :: devices
  in_expanded :: devices

record instances_post =
  ip_name :: string
  ip_image :: string
  ip_server :: string
  ip_protocol :: string
  ip_profiles :: "string list"
  ip_config :: config_map
  ip_devices :: devices

record instance_state =
  st_cpu :: "64 word"
  st_mem_used :: "64 word"
  st_mem_total :: "64 word"
  st_disk :: "(string \<times> (64 word \<times> 64 word)) list"
  st_network :: "(string \<times> (64 word \<times> 64 word)) list"

text \<open>What a script run by \<open>bash -lc\<close> in a guest gives: output, errors and the exit code, when the daemon reports one.\<close>

record exec_out =
  xo_stdout :: string
  xo_stderr :: string
  xo_result :: "error + int option"

record 'd incus_server =
  sv_host :: "'d host"
  sv_v6net :: "string \<Rightarrow> string option"
  sv_is_ip :: "string \<Rightarrow> bool"
  sv_GetServer :: "('d, unit) prog"
  sv_GetProfile :: "string \<Rightarrow> ('d, profile \<times> string) prog"
  sv_CreateProfile :: "string \<Rightarrow> profile \<Rightarrow> ('d, unit) prog"
  sv_UpdateProfile :: "string \<Rightarrow> profile \<Rightarrow> string \<Rightarrow> ('d, unit) prog"
  sv_GetNetwork :: "string \<Rightarrow> ('d, network \<times> string) prog"
  sv_GetNetworks :: "('d, network list) prog"
  sv_CreateNetwork :: "network \<Rightarrow> ('d, unit) prog"
  sv_UpdateNetwork :: "string \<Rightarrow> network \<Rightarrow> string \<Rightarrow> ('d, unit) prog"
  sv_GetNetworkLeases :: "string \<Rightarrow> ('d, string list) prog"
  sv_GetStoragePool :: "string \<Rightarrow> ('d, string) prog"
  sv_GetStoragePoolResources :: "string \<Rightarrow> ('d, 64 word \<times> 64 word) prog"
  sv_CreateStoragePool :: "string \<Rightarrow> string \<Rightarrow> config_map \<Rightarrow> ('d, unit) prog"
  sv_GetInstance :: "string \<Rightarrow> ('d, incus_instance \<times> string) prog"
  sv_GetInstances :: "('d, incus_instance list) prog"
  sv_CreateInstance :: "instances_post \<Rightarrow> ('d, ('d, unit) prog) prog"
  sv_UpdateInstance :: "string \<Rightarrow> incus_instance \<Rightarrow> string \<Rightarrow> ('d, ('d, unit) prog) prog"
  sv_UpdateInstanceState :: "string \<Rightarrow> string \<Rightarrow> int \<Rightarrow> bool \<Rightarrow> ('d, ('d, unit) prog) prog"
  sv_DeleteInstance :: "string \<Rightarrow> ('d, ('d, unit) prog) prog"
  sv_GetInstanceState :: "string \<Rightarrow> ('d, instance_state option) prog"
  sv_GetInstanceLogfile :: "string \<Rightarrow> string \<Rightarrow> ('d, string) prog"
  sv_ExecInstance :: "string \<Rightarrow> string \<Rightarrow> 'd \<Rightarrow> exec_out \<times> 'd"
  sv_CreateInstanceFile :: "string \<Rightarrow> string \<Rightarrow> string \<Rightarrow> ('d, unit) prog"

section \<open>The client\<close>

record 'd icl =
  cl_cfg :: incus_config
  cl_out :: 'd

definition srv :: "('d, 'a) prog \<Rightarrow> ('d icl, 'a) prog" where
  "srv f c = (case f (cl_out c) of (r, d) \<Rightarrow> (r, c\<lparr>cl_out := d\<rparr>))"

lemma srv_eq: "srv f c = (r, c') \<longleftrightarrow> (\<exists>d. f (cl_out c) = (r, d) \<and> c' = c\<lparr>cl_out := d\<rparr>)"
  by (auto simp: srv_def split: prod.splits)

lemma yields_srv [yield_rules]: "yields P f \<Longrightarrow> yields P (srv f)"
  by (auto simp: yields_def srv_eq)

definition set_pool :: "string \<Rightarrow> ('d icl, unit) prog" where
  "set_pool name c = (Inr (), c\<lparr>cl_cfg := (cl_cfg c)\<lparr>n_pool := name\<rparr>\<rparr>)"

definition set_network :: "string \<Rightarrow> ('d icl, unit) prog" where
  "set_network name c = (Inr (), c\<lparr>cl_cfg := (cl_cfg c)\<lparr>n_network := name\<rparr>\<rparr>)"

definition cfg_pool :: "('d icl, string) prog" where "cfg_pool = asks (\<lambda>c. n_pool (cl_cfg c))"
definition cfg_network :: "('d icl, string) prog" where "cfg_network = asks (\<lambda>c. n_network (cl_cfg c))"

text \<open>\<open>op, err := f(); \<dots>; op.Wait()\<close>\<close>

definition and_wait :: "('d, ('d, unit) prog) prog \<Rightarrow> ('d, unit) prog" where
  "and_wait f = andThen f (\<lambda>op. op)"

definition failed :: "string \<Rightarrow> ('w, 'a) prog" where
  "failed msg = throw (ErrText msg)"

text \<open>What a case distinction that returned says.\<close>

lemma case_option_run:
  "case_option f g x w = (r, w') \<longleftrightarrow> (x = None \<and> f w = (r, w')) \<or> (\<exists>y. x = Some y \<and> g y w = (r, w'))"
  by (cases x) auto

lemma case_cidr_run:
  "case_cidr f g x w = (r, w') \<longleftrightarrow> (\<exists>a n. x = V4 a n \<and> f a n w = (r, w')) \<or> (\<exists>s. x = V6 s \<and> g s w = (r, w'))"
  by (cases x) auto

lemma failed_eq [simp]: "failed msg w = (r, w') \<longleftrightarrow> r = Inl (ErrText msg) \<and> w' = w"
  by (auto simp: failed_def)

section \<open>Requests that keep a guest confined\<close>

datatype request = NewInstance instances_post | PutProfile string profile

text \<open>
  What confines a guest, stated apart from the code's own table: an unprivileged container with an isolated range of
  ids, no nesting, no guest API, system calls denied by default and none intercepted, no kernel modules, and the
  host's disks hidden.
\<close>

definition confining_settings :: config_map where
  "confining_settings = [
     (''security.privileged'', ''false''), (''security.nesting'', ''false''), (''security.idmap.isolated'', ''true''),
     (''security.guestapi'', ''false''), (''security.syscalls.deny_default'', ''true''),
     (''security.syscalls.deny_compat'', ''true''), (''security.syscalls.intercept.bpf'', ''false''),
     (''security.syscalls.intercept.mknod'', ''false''), (''security.syscalls.intercept.mount'', ''false''),
     (''security.syscalls.intercept.setxattr'', ''false''), (''linux.kernel_modules'', '''')]"

definition hides_disks :: "string \<Rightarrow> bool" where
  "hides_disks lxc \<longleftrightarrow> list_all (strings_Contains lxc)
     [''tmpfs sys/block tmpfs'', ''tmpfs sys/dev/block tmpfs'', ''tmpfs sys/class/block tmpfs'']"

definition confined :: "config_map \<Rightarrow> bool" where
  "confined cfg \<longleftrightarrow> list_all (\<lambda>(k, v). get cfg k = v) confining_settings \<and> hides_disks (get cfg ''raw.lxc'')"

text \<open>Devices that give the guest a path or a device of the host.\<close>

definition unsafe_device :: "config_map \<Rightarrow> bool" where
  "unsafe_device dev \<longleftrightarrow>
     get dev ''type'' = ''disk'' \<and> get dev ''path'' \<noteq> '''' \<and> get dev ''path'' \<noteq> ''/'' \<and> get dev ''source'' \<noteq> ''''
   \<or> get dev ''type'' \<in> {''unix-char'', ''unix-block'', ''gpu'', ''infiniband''}"

definition filtered_nic :: "config_map \<Rightarrow> bool" where
  "filtered_nic dev \<longleftrightarrow> get dev ''type'' = ''nic'' \<and> get dev ''security.mac_filtering'' = ''true''
     \<and> get dev ''security.ipv4_filtering'' = ''true'' \<and> get dev ''security.ipv6_filtering'' = ''true''
     \<and> get dev ''ipv4.address'' \<noteq> ''''"

fun safe_request :: "request \<Rightarrow> bool" where
  "safe_request (NewInstance rq) \<longleftrightarrow>
     confined (ip_config rq) \<and> UnprivilegedProfile \<in> set (ip_profiles rq) \<and> ''default'' \<notin> set (ip_profiles rq)
     \<and> list_all (\<lambda>(_, dev). \<not> unsafe_device dev) (ip_devices rq)
     \<and> (case map_of (ip_devices rq) ''eth0'' of None \<Rightarrow> False | Some nic \<Rightarrow> filtered_nic nic)"
| "safe_request (PutProfile name p) \<longleftrightarrow>
     name = UnprivilegedProfile \<longrightarrow>
       confined (pr_config p) \<and> list_all (\<lambda>(_, dev). \<not> unsafe_device dev) (pr_devices p)"

section \<open>Relations that the daemon's operations respect\<close>

text \<open>
  \<open>daemon_respects V R\<close>: whatever the daemon and the host do, the state before and after are related by
  \<open>R\<close>, where of the requests that decide how a guest is confined this is only known when they are safe.
\<close>

definition host_respects :: "'d host \<Rightarrow> ('d \<Rightarrow> 'd \<Rightarrow> bool) \<Rightarrow> bool" where
  "host_respects H R \<longleftrightarrow>
     (\<forall>f. steps R (h_ReadFile H f)) \<and> (\<forall>f t. steps R (h_WriteFile H f t)) \<and> (\<forall>f. steps R (h_MkdirAll H f))
   \<and> (\<forall>f g. steps R (h_Rename H f g)) \<and> (\<forall>f. steps R (h_Remove H f)) \<and> (\<forall>f. steps R (sure (h_NonEmpty H f)))
   \<and> (\<forall>p. steps R (sure (h_Glob H p))) \<and> (\<forall>env cmd. steps R (sure (h_Run H env cmd)))
   \<and> (\<forall>b. steps R (sure (h_LookPath H b))) \<and> steps R (sure (h_IsRoot H)) \<and> (\<forall>u. steps R (h_HttpGet H u))
   \<and> steps R (sure (h_Now H)) \<and> (\<forall>ns. steps R (pause H ns))"

definition op_respects :: "('d \<Rightarrow> 'd \<Rightarrow> bool) \<Rightarrow> ('d, ('d, unit) prog) prog \<Rightarrow> bool" where
  "op_respects R f \<longleftrightarrow> steps R f \<and> yields (steps R) f"

definition daemon_respects :: "'d incus_server \<Rightarrow> ('d \<Rightarrow> 'd \<Rightarrow> bool) \<Rightarrow> bool" where
  "daemon_respects V R \<longleftrightarrow>
     host_respects (sv_host V) R
   \<and> steps R (sv_GetServer V) \<and> (\<forall>n. steps R (sv_GetProfile V n)) \<and> (\<forall>n p. safe_request (PutProfile n p) \<longrightarrow> steps R (sv_CreateProfile V n p))
   \<and> (\<forall>n p e. safe_request (PutProfile n p) \<longrightarrow> steps R (sv_UpdateProfile V n p e)) \<and> (\<forall>n. steps R (sv_GetNetwork V n)) \<and> steps R (sv_GetNetworks V)
   \<and> (\<forall>n. steps R (sv_CreateNetwork V n)) \<and> (\<forall>n w e. steps R (sv_UpdateNetwork V n w e))
   \<and> (\<forall>n. steps R (sv_GetNetworkLeases V n)) \<and> (\<forall>n. steps R (sv_GetStoragePool V n))
   \<and> (\<forall>n. steps R (sv_GetStoragePoolResources V n)) \<and> (\<forall>n dr c. steps R (sv_CreateStoragePool V n dr c))
   \<and> (\<forall>n. steps R (sv_GetInstance V n)) \<and> steps R (sv_GetInstances V)
   \<and> (\<forall>rq. safe_request (NewInstance rq) \<longrightarrow> op_respects R (sv_CreateInstance V rq))
   \<and> (\<forall>n i e. op_respects R (sv_UpdateInstance V n i e)) \<and> (\<forall>n a t f. op_respects R (sv_UpdateInstanceState V n a t f))
   \<and> (\<forall>n. op_respects R (sv_DeleteInstance V n)) \<and> (\<forall>n. steps R (sv_GetInstanceState V n))
   \<and> (\<forall>n l. steps R (sv_GetInstanceLogfile V n l)) \<and> (\<forall>n x. steps R (sure (sv_ExecInstance V n x)))
   \<and> (\<forall>n f t. steps R (sv_CreateInstanceFile V n f t))"

definition out_rel :: "('d \<Rightarrow> 'd \<Rightarrow> bool) \<Rightarrow> 'd icl \<Rightarrow> 'd icl \<Rightarrow> bool" where
  "out_rel R c c' \<longleftrightarrow> R (cl_out c) (cl_out c')"

context frame
begin

lemma steps_case_cidr [frame_rules]:
  "(\<And>w n. c = V4 w n \<Longrightarrow> steps R (f w n)) \<Longrightarrow> (\<And>s. c = V6 s \<Longrightarrow> steps R (g s)) \<Longrightarrow>
   steps R (case c of V4 w n \<Rightarrow> f w n | V6 s \<Rightarrow> g s)"
  by (cases c) simp_all

lemma steps_andThen_yields:
  assumes f: "steps R f" "yields P f" and g: "\<And>x. P x \<Longrightarrow> steps R (g x)"
  shows "steps R (andThen f g)"
proof (rule stepsI)
  fix w
  show "R w (snd (andThen f g w))"
  proof (cases "fst (f w)")
    case (Inl e)
    then show ?thesis using f(1) by (simp add: andThen_def split_beta steps_def)
  next
    case (Inr x)
    then have "f w = (Inr x, snd (f w))" by (simp add: prod_eq_iff)
    then have "P x" by (rule yieldsD [OF f(2)])
    then have "R (snd (f w)) (snd (g x (snd (f w))))" using g by (simp add: steps_def)
    moreover have "R w (snd (f w))" using f(1) by (simp add: steps_def)
    ultimately show ?thesis using Inr frame_trans by (simp add: andThen_def split_beta)
  qed
qed

end

text \<open>The interface of the daemon, for the lemmas on the client.\<close>

locale daemon = frame R for R :: "'d \<Rightarrow> 'd \<Rightarrow> bool" +
  fixes V :: "'d incus_server"
  assumes respects: "daemon_respects V R"
begin

sublocale client: frame "out_rel R"
  by unfold_locales (auto simp: out_rel_def intro: frame_refl frame_trans)

lemma host_calls [frame_rules]:
  "steps R (h_ReadFile (sv_host V) f)" "steps R (h_WriteFile (sv_host V) f t)" "steps R (h_MkdirAll (sv_host V) f)"
  "steps R (h_Rename (sv_host V) f g)" "steps R (h_Remove (sv_host V) f)" "steps R (sure (h_NonEmpty (sv_host V) f))"
  "steps R (sure (h_Glob (sv_host V) p))" "steps R (sure (h_Run (sv_host V) env cmd))"
  "steps R (sure (h_LookPath (sv_host V) b))" "steps R (sure (h_IsRoot (sv_host V)))" "steps R (h_HttpGet (sv_host V) u)"
  "steps R (sure (h_Now (sv_host V)))" "steps R (pause (sv_host V) ns)"
  using respects by (simp_all add: daemon_respects_def host_respects_def)

lemma daemon_calls [frame_rules]:
  "steps R (sv_GetServer V)" "steps R (sv_GetProfile V n)" "steps R (sv_GetNetwork V n)" "steps R (sv_GetNetworks V)"
  "steps R (sv_CreateNetwork V nw)" "steps R (sv_UpdateNetwork V n nw e)" "steps R (sv_GetNetworkLeases V n)"
  "steps R (sv_GetStoragePool V n)" "steps R (sv_GetStoragePoolResources V n)" "steps R (sv_CreateStoragePool V n dr c)"
  "steps R (sv_GetInstance V n)" "steps R (sv_GetInstances V)" "steps R (sv_GetInstanceState V n)"
  "steps R (sv_GetInstanceLogfile V n l)" "steps R (sure (sv_ExecInstance V n x))"
  "steps R (sv_CreateInstanceFile V n f t)"
  using respects by (simp_all add: daemon_respects_def)

lemma steps_and_wait: "op_respects R f \<Longrightarrow> steps R (and_wait f)"
  unfolding and_wait_def op_respects_def by (rule steps_andThen_yields [where P = "steps R"]) auto

lemma background_calls [frame_rules]:
  "steps R (and_wait (sv_UpdateInstance V n i e))" "steps R (and_wait (sv_UpdateInstanceState V n a t f))"
  "steps R (and_wait (sv_DeleteInstance V n))"
  using respects by (intro steps_and_wait; simp add: daemon_respects_def)+

lemma creation: "safe_request (NewInstance rq) \<Longrightarrow> op_respects R (sv_CreateInstance V rq)"
  using respects unfolding daemon_respects_def by blast

lemma profile_calls [frame_rules]:
  "safe_request (PutProfile n pr) \<Longrightarrow> steps R (sv_CreateProfile V n pr)"
  "safe_request (PutProfile n pr) \<Longrightarrow> steps R (sv_UpdateProfile V n pr e)"
  by (use respects in \<open>simp_all add: daemon_respects_def del: safe_request.simps\<close>)

lemma steps_srv [frame_rules]: "steps R f \<Longrightarrow> steps (out_rel R) (srv f)"
  by (auto simp: steps_def srv_def out_rel_def split: prod.split) (metis snd_conv)

lemma client_state [frame_rules]:
  "steps (out_rel R) (set_pool n)" "steps (out_rel R) (set_network n)" "steps (out_rel R) cfg_pool"
  "steps (out_rel R) cfg_network"
  by (simp_all add: steps_def set_pool_def set_network_def cfg_pool_def cfg_network_def asks_def out_rel_def frame_refl)

lemma steps_failed [frame_rules]: "steps R (failed msg)" "steps (out_rel R) (failed msg)"
  unfolding failed_def by (intro frame_rules)+

lemma steps_runEnv [frame_rules]: "steps R (runEnv (sv_host V) env cmd)"
  unfolding runEnv_def by (intro frame_rules)

end

section \<open>A daemon that records what it is asked\<close>

text \<open>
  Any daemon, with a log of the requests of \<open>request\<close> in front of it. The log grows by safe requests only
  when the client sends no other, whatever the daemon behind it answers.
\<close>

type_synonym 'd audited = "'d \<times> request list"

definition inside :: "('d, 'a) prog \<Rightarrow> ('d audited, 'a) prog" where
  "inside f w = (case f (fst w) of (r, d) \<Rightarrow> (r, d, snd w))"

definition inside_sure :: "('d \<Rightarrow> 'a \<times> 'd) \<Rightarrow> 'd audited \<Rightarrow> 'a \<times> 'd audited" where
  "inside_sure f w = (case f (fst w) of (r, d) \<Rightarrow> (r, d, snd w))"

definition inside_op :: "('d, ('d, unit) prog) prog \<Rightarrow> ('d audited, ('d audited, unit) prog) prog" where
  "inside_op f = andThen (inside f) (\<lambda>op. ret (inside op))"

definition record_request :: "request \<Rightarrow> ('d audited, unit) prog" where
  "record_request q w = (Inr (), fst w, snd w @ [q])"

definition audited_host :: "'d host \<Rightarrow> 'd audited host" where
  "audited_host H = \<lparr>
     h_ReadFile = (\<lambda>f. inside (h_ReadFile H f)), h_WriteFile = (\<lambda>f t. inside (h_WriteFile H f t)),
     h_MkdirAll = (\<lambda>f. inside (h_MkdirAll H f)), h_Rename = (\<lambda>f g. inside (h_Rename H f g)),
     h_Remove = (\<lambda>f. inside (h_Remove H f)), h_NonEmpty = (\<lambda>f. inside_sure (h_NonEmpty H f)),
     h_Glob = (\<lambda>p. inside_sure (h_Glob H p)), h_Run = (\<lambda>env cmd. inside_sure (h_Run H env cmd)),
     h_LookPath = (\<lambda>b. inside_sure (h_LookPath H b)), h_IsRoot = inside_sure (h_IsRoot H),
     h_HttpGet = (\<lambda>u. inside (h_HttpGet H u)), h_Gunzip = h_Gunzip H, h_Now = inside_sure (h_Now H),
     h_Sleep = (\<lambda>ns w. (h_Sleep H ns (fst w), snd w))\<rparr>"

definition audited :: "'d incus_server \<Rightarrow> 'd audited incus_server" where
  "audited V = \<lparr>
     sv_host = audited_host (sv_host V), sv_v6net = sv_v6net V, sv_is_ip = sv_is_ip V,
     sv_GetServer = inside (sv_GetServer V), sv_GetProfile = (\<lambda>n. inside (sv_GetProfile V n)),
     sv_CreateProfile = (\<lambda>n p. andThen (record_request (PutProfile n p)) (\<lambda>_. inside (sv_CreateProfile V n p))),
     sv_UpdateProfile = (\<lambda>n p e. andThen (record_request (PutProfile n p)) (\<lambda>_. inside (sv_UpdateProfile V n p e))),
     sv_GetNetwork = (\<lambda>n. inside (sv_GetNetwork V n)), sv_GetNetworks = inside (sv_GetNetworks V),
     sv_CreateNetwork = (\<lambda>n. inside (sv_CreateNetwork V n)),
     sv_UpdateNetwork = (\<lambda>n w e. inside (sv_UpdateNetwork V n w e)),
     sv_GetNetworkLeases = (\<lambda>n. inside (sv_GetNetworkLeases V n)),
     sv_GetStoragePool = (\<lambda>n. inside (sv_GetStoragePool V n)),
     sv_GetStoragePoolResources = (\<lambda>n. inside (sv_GetStoragePoolResources V n)),
     sv_CreateStoragePool = (\<lambda>n d c. inside (sv_CreateStoragePool V n d c)),
     sv_GetInstance = (\<lambda>n. inside (sv_GetInstance V n)), sv_GetInstances = inside (sv_GetInstances V),
     sv_CreateInstance = (\<lambda>rq. andThen (record_request (NewInstance rq)) (\<lambda>_. inside_op (sv_CreateInstance V rq))),
     sv_UpdateInstance = (\<lambda>n i e. inside_op (sv_UpdateInstance V n i e)),
     sv_UpdateInstanceState = (\<lambda>n a t f. inside_op (sv_UpdateInstanceState V n a t f)),
     sv_DeleteInstance = (\<lambda>n. inside_op (sv_DeleteInstance V n)),
     sv_GetInstanceState = (\<lambda>n. inside (sv_GetInstanceState V n)),
     sv_GetInstanceLogfile = (\<lambda>n l. inside (sv_GetInstanceLogfile V n l)),
     sv_ExecInstance = (\<lambda>n x. inside_sure (sv_ExecInstance V n x)),
     sv_CreateInstanceFile = (\<lambda>n f t. inside (sv_CreateInstanceFile V n f t))\<rparr>"

definition log_grows :: "'d audited \<Rightarrow> 'd audited \<Rightarrow> bool" where
  "log_grows w w' \<longleftrightarrow> (\<exists>new. snd w' = snd w @ new \<and> list_all safe_request new)"

lemma log_growsI: "snd w' = snd w \<Longrightarrow> log_grows w w'"
  by (simp add: log_grows_def)

interpretation log_frame: frame log_grows
  by unfold_locales (auto simp: log_grows_def)

lemma steps_inside: "steps log_grows (inside f)"
  by (auto simp: steps_def inside_def split_beta intro: log_growsI)

lemma steps_inside_sure: "steps log_grows (sure (inside_sure f))"
  by (auto simp: steps_def sure_def inside_sure_def split_beta intro: log_growsI)

lemma op_respects_inside: "op_respects log_grows (inside_op f)"
  unfolding op_respects_def inside_op_def
  by (intro conjI log_frame.steps_andThen yield_rules steps_inside log_frame.steps_ret)

lemma steps_record: "safe_request q \<Longrightarrow> steps log_grows (record_request q)"
  by (auto simp: steps_def record_request_def log_grows_def)

lemma op_respects_after: "steps log_grows f \<Longrightarrow> op_respects log_grows g \<Longrightarrow> op_respects log_grows (andThen f (\<lambda>_. g))"
  unfolding op_respects_def by (intro conjI log_frame.steps_andThen yield_rules) auto

lemma host_respects_audited: "host_respects (audited_host H) log_grows"
  by (auto simp: host_respects_def audited_host_def pause_def steps_def intro: log_growsI
      steps_inside [unfolded steps_def, rule_format] steps_inside_sure [unfolded steps_def, rule_format])

lemma daemon_respects_audited: "daemon_respects (audited V) log_grows"
  by (simp add: daemon_respects_def audited_def host_respects_audited steps_inside steps_inside_sure
      op_respects_inside op_respects_after steps_record log_frame.steps_andThen del: safe_request.simps)

interpretation audit: daemon log_grows "audited V" for V :: "'d incus_server"
  by unfold_locales (rule daemon_respects_audited)

end
