(* ===== verification/RefDaemon.thy ===== *)
theory RefDaemon imports Daemon begin

text \<open>
  A daemon in memory for the closed examples: it keeps profiles, networks, storage pools and instances, does
  what it is asked at once, and its host has every tool, no files and no packages. The commands in a guest
  succeed and print what a listening server shows.
\<close>

record ref_daemon =
  rd_profiles :: "(string \<times> profile) list"
  rd_networks :: "(string \<times> network) list"
  rd_pools :: "(string \<times> string) list"
  rd_instances :: "(string \<times> incus_instance) list"
  rd_clock :: int

definition found_or_not :: "'a option \<Rightarrow> (ref_daemon, 'a \<times> string) prog" where
  "found_or_not x = (case x of None \<Rightarrow> throw (ErrText ''not found'') | Some y \<Rightarrow> ret (y, ''1''))"

definition rd_host :: "ref_daemon host" where
  "rd_host = \<lparr>
     h_ReadFile = (\<lambda>f. ret None), h_WriteFile = (\<lambda>f t. ret ()), h_MkdirAll = (\<lambda>f. ret ()),
     h_Rename = (\<lambda>f g. ret ()), h_Remove = (\<lambda>f. ret ()), h_NonEmpty = (\<lambda>f d. (False, d)),
     h_Glob = (\<lambda>p d. ([], d)), h_Run = (\<lambda>env cmd d. (('''', None), d)), h_LookPath = (\<lambda>b d. (True, d)),
     h_IsRoot = (\<lambda>d. (True, d)), h_HttpGet = (\<lambda>u. throw (ErrText ''offline'')), h_Gunzip = Inr,
     h_Now = (\<lambda>d. (rd_clock d, d)), h_Sleep = (\<lambda>ns d. d\<lparr>rd_clock := rd_clock d + ns\<rparr>)\<rparr>"

definition instance_of :: "instances_post \<Rightarrow> incus_instance" where
  "instance_of rq = \<lparr>in_status = ''Stopped'', in_running = False, in_config = ip_config rq,
     in_devices = ip_devices rq, in_expanded = ip_devices rq\<rparr>"

definition put_instance :: "string \<Rightarrow> incus_instance \<Rightarrow> (ref_daemon, unit) prog" where
  "put_instance n i d = (Inr (), d\<lparr>rd_instances := AList.update n i (rd_instances d)\<rparr>)"

definition rd_server :: "ref_daemon incus_server" where
  "rd_server = \<lparr>
     sv_host = rd_host, sv_v6net = (\<lambda>s. None), sv_is_ip = (\<lambda>s. ParseIPv4 s \<noteq> None),
     sv_GetServer = ret (),
     sv_GetProfile = (\<lambda>n. andThen (asks (\<lambda>d. map_of (rd_profiles d) n)) found_or_not),
     sv_CreateProfile = (\<lambda>n p d. (Inr (), d\<lparr>rd_profiles := AList.update n p (rd_profiles d)\<rparr>)),
     sv_UpdateProfile = (\<lambda>n p e d. (Inr (), d\<lparr>rd_profiles := AList.update n p (rd_profiles d)\<rparr>)),
     sv_GetNetwork = (\<lambda>n. andThen (asks (\<lambda>d. map_of (rd_networks d) n)) found_or_not),
     sv_GetNetworks = asks (\<lambda>d. map snd (rd_networks d)),
     sv_CreateNetwork = (\<lambda>w d. (Inr (), d\<lparr>rd_networks := AList.update (nw_name w) w (rd_networks d)\<rparr>)),
     sv_UpdateNetwork = (\<lambda>n w e d. (Inr (), d\<lparr>rd_networks := AList.update n w (rd_networks d)\<rparr>)),
     sv_GetNetworkLeases = (\<lambda>n. ret []),
     sv_GetStoragePool = (\<lambda>n. andThen (asks (\<lambda>d. map_of (rd_pools d) n)) (\<lambda>x.
       case x of None \<Rightarrow> throw (ErrText ''not found'') | Some dr \<Rightarrow> ret dr)),
     sv_GetStoragePoolResources = (\<lambda>n. ret (1000, 100)),
     sv_CreateStoragePool = (\<lambda>n dr c d. (Inr (), d\<lparr>rd_pools := AList.update n dr (rd_pools d)\<rparr>)),
     sv_GetInstance = (\<lambda>n. andThen (asks (\<lambda>d. map_of (rd_instances d) n)) found_or_not),
     sv_GetInstances = asks (\<lambda>d. map snd (rd_instances d)),
     sv_CreateInstance = (\<lambda>rq. ret (put_instance (ip_name rq) (instance_of rq))),
     sv_UpdateInstance = (\<lambda>n i e. ret (put_instance n i)),
     sv_UpdateInstanceState = (\<lambda>n a t f. andThen (asks (\<lambda>d. map_of (rd_instances d) n)) (\<lambda>x.
       case x of
         None \<Rightarrow> throw (ErrText ''not found'')
       | Some i \<Rightarrow> ret (put_instance n (if a = ''stop'' then i\<lparr>in_status := ''Stopped'', in_running := False\<rparr>
           else i\<lparr>in_status := ''Running'', in_running := True\<rparr>)))),
     sv_DeleteInstance = (\<lambda>n. ret (\<lambda>d. (Inr (), d\<lparr>rd_instances := AList.delete n (rd_instances d)\<rparr>))),
     sv_GetInstanceState = (\<lambda>n. ret None),
     sv_GetInstanceLogfile = (\<lambda>n l. throw (ErrText ''no log'')),
     sv_ExecInstance = (\<lambda>n x d. (\<lparr>xo_stdout = ''LISTEN 0 128 0.0.0.0:20000 0.0.0.0:*'', xo_stderr = '''',
       xo_result = Inr (Some 0)\<rparr>, d)),
     sv_CreateInstanceFile = (\<lambda>n f t. ret ())\<rparr>"

definition rd_network :: network where
  "rd_network = \<lparr>nw_name = ''br0'', nw_type = ''bridge'', nw_managed = True,
     nw_config = [(''ipv4.address'', ''10.0.0.1/24''), (''ipv4.nat'', ''true''), (''ipv4.dhcp'', ''true''),
       (''dns.mode'', ''managed''), (''ipv6.address'', ''none'')]\<rparr>"

text \<open>A fresh host with a pool and a network, and a client of it.\<close>

definition rd_fresh :: ref_daemon where
  "rd_fresh = \<lparr>rd_profiles = [], rd_networks = [(''br0'', rd_network)], rd_pools = [(''goincus'', ''zfs'')],
     rd_instances = [], rd_clock = 0\<rparr>"

definition rd_client :: "'d \<Rightarrow> 'd icl" where
  "rd_client d = \<lparr>cl_cfg = \<lparr>n_socket = '''', n_project = ''default'', n_pool = ''goincus'', n_network = ''br0'',
     n_image_server = ''https://images'', n_image_protocol = ''simplestreams'', n_default_image = ''ubuntu/24.04'',
     n_profiles = []\<rparr>, cl_out = d\<rparr>"

end
