(* ===== verification/Infra.thy ===== *)
theory Infra imports RefDaemon begin

text \<open>
  What the client prepares before it creates containers (\<open>security.go\<close>, \<open>storage.go\<close>, \<open>network.go\<close> and the
  first part of \<open>client.go\<close>): the id maps and kernel settings of the host, the hardened profile, a storage
  pool that isolates disks, a managed network, a free address.
\<close>

section \<open>The host\<close>

definition idmap_entry :: string where "idmap_entry = ''root:1000000:1000000000''"

text \<open>A line \<open>root:start:size\<close> of at least a million ids. (\<open>Atoi\<close> saturates, so an overlong size counts.)\<close>

definition huge_map :: "string \<Rightarrow> bool" where
  "huge_map l =
     (let line = strings_TrimSpace l; parts = strings_Split line (CHR '':'') in
      strings_HasPrefix line ''root:'' \<and> length parts = 3
      \<and> (case decimal (parts ! 2) of None \<Rightarrow> False | Some n \<Rightarrow> 65536 * 16 \<le> n))"

definition has_large_map :: "string \<Rightarrow> bool" where
  "has_large_map text \<longleftrightarrow> strings_Contains text idmap_entry \<or> list_ex huge_map (strings_Split text nl)"

definition extend_map :: "string \<Rightarrow> string" where
  "extend_map text = end_line text @ idmap_entry @ [nl]"

definition ensure_map :: "'d host \<Rightarrow> string \<Rightarrow> ('d, unit) prog" where
  "ensure_map H path =
     andThen (h_ReadFile H path) (\<lambda>data.
     case data of
       None \<Rightarrow> h_WriteFile H path (idmap_entry @ [nl])
     | Some text \<Rightarrow> if has_large_map text then ret () else h_WriteFile H path (extend_map text))"

definition ensureLargeIDMap :: "'d host \<Rightarrow> ('d, unit) prog" where
  "ensureLargeIDMap H = forEach (ensure_map H) [''/etc/subuid'', ''/etc/subgid'']"

definition sysctl_settings :: "string list" where
  "sysctl_settings = [''net.bridge.bridge-nf-call-iptables'', ''net.bridge.bridge-nf-call-ip6tables'',
     ''net.bridge.bridge-nf-call-arptables'']"

definition netfilter_conf :: string where
  "netfilter_conf = ''# Managed by goincus '' @ em_dash @ '' required for Incus security.ipv4/ipv6_filtering'' @ [nl]
     @ concat (map (\<lambda>k. k @ '' = 1'' @ [nl]) sysctl_settings)"

definition ensureBridgeNetfilter :: "'d host \<Rightarrow> ('d, unit) prog" where
  "ensureBridgeNetfilter H =
     andThen (ignore (h_MkdirAll H ''/etc/modules-load.d'')) (\<lambda>_.
     andThen (ignore (h_WriteFile H ''/etc/modules-load.d/goincus-br-netfilter.conf'' (''br_netfilter'' @ [nl]))) (\<lambda>_.
     andThen (sure (h_Run H [] [''modprobe'', ''br_netfilter''])) (\<lambda>(out, e).
     case e of
       Some e \<Rightarrow> throw (ErrWrap ''modprobe br_netfilter: '' e ('' ('' @ strings_TrimSpace out @ '')''))
     | None \<Rightarrow>
         andThen (forEach (\<lambda>k. ignore (sure (h_Run H [] [''sysctl'', ''-w'', k @ ''=1'']))) sysctl_settings) (\<lambda>_.
         andThen (ignore (h_MkdirAll H ''/etc/sysctl.d'')) (\<lambda>_.
         ignore (h_WriteFile H ''/etc/sysctl.d/99-goincus-br-netfilter.conf'' netfilter_conf))))))"

definition isolation_conf :: string where
  "isolation_conf = concat (map (\<lambda>l. l @ [nl])
     [''# Managed by goincus '' @ em_dash @ '' reduce container escape / info-leak surface'',
      ''kernel.unprivileged_bpf_disabled = 1'', ''kernel.kptr_restrict = 2'', ''kernel.dmesg_restrict = 1'',
      ''kernel.yama.ptrace_scope = 1'', ''net.ipv4.conf.all.rp_filter = 1'', ''net.ipv4.conf.default.rp_filter = 1'',
      ''net.ipv4.conf.all.accept_redirects = 0'', ''net.ipv6.conf.all.accept_redirects = 0''])"

definition applyHostSysctlHardening :: "'d host \<Rightarrow> ('d, unit) prog" where
  "applyHostSysctlHardening H =
     andThen (ignore (h_MkdirAll H ''/etc/sysctl.d'')) (\<lambda>_.
     andThen (h_WriteFile H ''/etc/sysctl.d/99-goincus-isolation.conf'' isolation_conf) (\<lambda>_.
     ignore (sure (h_Run H [] [''sysctl'', ''--system'']))))"

definition EnsureHostIsolation :: "'d host \<Rightarrow> ('d, unit) prog" where
  "EnsureHostIsolation H =
     andThen (ensureLargeIDMap H) (\<lambda>_.
     andThen (ignore (ensureBridgeNetfilter H)) (\<lambda>_.
     ignore (applyHostSysctlHardening H)))"

section \<open>The hardened profile\<close>

definition profile_description :: string where
  "profile_description = ''goincus multi-tenant isolation '' @ em_dash @ '' unprivileged, no nesting, isolated idmap, filtered NIC''"

definition harden_profile :: "profile \<Rightarrow> profile" where
  "harden_profile p =
     (let cfg = overlay HardenedInstanceConfig (pr_config p);
          cfg = AList.update ''security.guestapi'' ''false'' (AList.update ''security.nesting'' ''false''
                 (AList.update ''security.privileged'' ''false'' cfg)) in
      \<lparr>pr_description = profile_description, pr_config = AList.delete ''limits.kernel.pid_max'' cfg,
       pr_devices = filter (\<lambda>(name, dev). \<not> unsafe_device dev) (pr_devices p)\<rparr>)"

definition EnsureUnprivilegedProfile :: "'d incus_server \<Rightarrow> ('d, unit) prog" where
  "EnsureUnprivilegedProfile V =
     andThen (ignore (EnsureHostIsolation (sv_host V))) (\<lambda>_.
     andThen (attempt (sv_GetProfile V UnprivilegedProfile)) (\<lambda>r.
     case r of
       Inl _ \<Rightarrow> sv_CreateProfile V UnprivilegedProfile
                 \<lparr>pr_description = profile_description, pr_config = HardenedInstanceConfig, pr_devices = []\<rparr>
     | Inr (existing, etag) \<Rightarrow> sv_UpdateProfile V UnprivilegedProfile (harden_profile existing) etag))"

section \<open>Storage\<close>

definition both_tools :: "'d host \<Rightarrow> string \<Rightarrow> string \<Rightarrow> ('d, bool) prog" where
  "both_tools H a b =
     andThen (sure (h_LookPath H a)) (\<lambda>x. andThen (sure (h_LookPath H b)) (\<lambda>y. ret (x \<and> y)))"

definition hasLVMTools :: "'d host \<Rightarrow> ('d, bool) prog" where
  "hasLVMTools H = both_tools H ''lvcreate'' ''vgcreate''"

definition hasZFSTools :: "'d host \<Rightarrow> ('d, bool) prog" where
  "hasZFSTools H = both_tools H ''zpool'' ''zfs''"

definition apt_env :: "(string \<times> string) list" where
  "apt_env = [(''DEBIAN_FRONTEND'', ''noninteractive''), (''NEEDRESTART_MODE'', ''a'')]"

definition install_lvm :: "'d host \<Rightarrow> ('d, unit) prog" where
  "install_lvm H =
     andThen (sure (h_LookPath H ''apt-get'')) (\<lambda>apt.
     if apt then
       andThen (ignore (runEnv H apt_env [''apt-get'', ''update'', ''-y''])) (\<lambda>_.
       andThen (wrapErr ''apt-get install lvm2: ''
         (runEnv H apt_env [''apt-get'', ''install'', ''-y'', ''lvm2'', ''thin-provisioning-tools''])) (\<lambda>_.
       ignore (runEnv H apt_env [''apt-get'', ''install'', ''-y'', ''zfsutils-linux''])))
     else
     andThen (sure (h_LookPath H ''dnf'')) (\<lambda>dnf.
     if dnf then wrapErr ''dnf install lvm2: '' (runEnv H [] [''dnf'', ''install'', ''-y'', ''lvm2''])
     else
     andThen (sure (h_LookPath H ''yum'')) (\<lambda>yum.
     if yum then wrapErr ''yum install lvm2: '' (runEnv H [] [''yum'', ''install'', ''-y'', ''lvm2''])
     else failed ''no apt-get/dnf/yum found to install lvm2'')))"

definition ensureStorageHostPackages :: "'d host \<Rightarrow> ('d, unit) prog" where
  "ensureStorageHostPackages H =
     andThen (hasLVMTools H) (\<lambda>have.
     if have then ret ()
     else
     andThen (sure (h_IsRoot H)) (\<lambda>root.
     if \<not> root then failed ''not root; cannot install lvm2''
     else
     andThen (install_lvm H) (\<lambda>_.
     andThen (pause H 500000000) (\<lambda>_.
     andThen (hasLVMTools H) (\<lambda>have.
     if have then ignore (hasZFSTools H) else failed ''lvm2 installed but lvcreate still not in PATH'')))))"

definition defaultPoolLoopSize :: string where "defaultPoolLoopSize = ''200GiB''"

primrec create_pool :: "'d incus_server \<Rightarrow> string \<Rightarrow> (string \<times> ('d, bool) prog) list \<Rightarrow> string list \<Rightarrow> ('d, unit) prog" where
  "create_pool V name [] errs = failed (''create storage pool '' @ go_quote name @ '': '' @ strings_Join errs ''; '')"
| "create_pool V name (c # cands) errs =
     andThen (snd c) (\<lambda>ready.
     if \<not> ready then create_pool V name cands (errs @ [fst c @ '': tools missing''])
     else
     andThen (attempt (sv_CreateStoragePool V name (fst c) [(''size'', defaultPoolLoopSize)])) (\<lambda>r.
     case r of
       Inl e \<Rightarrow> create_pool V name cands (errs @ [fst c @ '': '' @ error_text e])
     | Inr _ \<Rightarrow> ret ()))"

definition createQuotaStoragePool :: "'d incus_server \<Rightarrow> string \<Rightarrow> ('d, unit) prog" where
  "createQuotaStoragePool V name =
     create_pool V name [(''lvm'', hasLVMTools (sv_host V)), (''zfs'', hasZFSTools (sv_host V))] []"

definition ensureQuotaCapablePool :: "'d incus_server \<Rightarrow> string \<Rightarrow> ('d, unit) prog" where
  "ensureQuotaCapablePool V name =
     andThen (attempt (sv_GetStoragePool V name)) (\<lambda>r.
     case r of
       Inr driver \<Rightarrow>
         if isDFIsolatingDriver driver then ret ()
         else failed (''pool '' @ go_quote name @ '' uses '' @ driver @ '' (df shows host disk)'')
     | Inl _ \<Rightarrow> createQuotaStoragePool V name)"

primrec try_pools :: "'d incus_server \<Rightarrow> string list \<Rightarrow> error option \<Rightarrow> ('d icl, unit) prog" where
  "try_pools V [] lastErr =
     throw (ErrWrap ''could not prepare zfs/lvm storage pool automatically: ''
       (case lastErr of None \<Rightarrow> ErrText ''no suitable pool'' | Some e \<Rightarrow> e)
       '' (dir/btrfs always show host disk in guest df)'')"
| "try_pools V (name # names) lastErr =
     andThen (attempt (srv (ensureQuotaCapablePool V name))) (\<lambda>r.
     case r of
       Inl e \<Rightarrow> try_pools V names (Some e)
     | Inr _ \<Rightarrow> andThen (ignore (srv (sv_GetStoragePool V name))) (\<lambda>_. set_pool name))"

definition wanted_pool :: "string \<Rightarrow> string" where
  "wanted_pool configured = (let w = strings_TrimSpace configured in if w = '''' then quotaStoragePool else w)"

definition pool_names :: "string \<Rightarrow> string list" where
  "pool_names want = uniquePoolNames [want, quotaStoragePool, quotaStoragePool @ ''-lvm'', quotaStoragePool @ ''-zfs'']"

definition EnsureStoragePool :: "'d incus_server \<Rightarrow> ('d icl, unit) prog" where
  "EnsureStoragePool V =
     andThen cfg_pool (\<lambda>configured.
     let want = wanted_pool configured in
     andThen (attempt (srv (sv_GetStoragePool V want))) (\<lambda>r.
     if (case r of Inr driver \<Rightarrow> isDFIsolatingDriver driver | Inl _ \<Rightarrow> False) then set_pool want
     else
     andThen (ignore (srv (ensureStorageHostPackages (sv_host V)))) (\<lambda>_.
     try_pools V (pool_names want) None)))"

definition ActiveStoragePool :: "('d icl, string) prog" where
  "ActiveStoragePool = andThen cfg_pool (\<lambda>p. ret (strings_TrimSpace p))"

definition StoragePoolDriver :: "'d incus_server \<Rightarrow> ('d icl, string) prog" where
  "StoragePoolDriver V =
     andThen ActiveStoragePool (\<lambda>name.
     if name = '''' then ret ''''
     else andThen (attempt (srv (sv_GetStoragePool V name))) (\<lambda>r. case r of Inl _ \<Rightarrow> ret '''' | Inr d \<Rightarrow> ret d))"


section \<open>The network\<close>

definition defaultBridgeCIDR :: string where "defaultBridgeCIDR = ''10.72.160.1/24''"

text \<open>\<open>set\<close> of \<open>HardenNetwork\<close>: the configuration and whether it changed.\<close>

definition set_key :: "string \<Rightarrow> string \<Rightarrow> config_map \<times> bool \<Rightarrow> config_map \<times> bool" where
  "set_key k v s = (if get (fst s) k \<noteq> v then (AList.update k v (fst s), True) else s)"

definition bad_bridge_address :: "(string \<Rightarrow> string option) \<Rightarrow> string \<Rightarrow> bool" where
  "bad_bridge_address v6 addr \<longleftrightarrow>
     addr = '''' \<or> strings_EqualFold addr ''none'' \<or> strings_EqualFold addr ''auto'' \<or> ParseCIDR v6 addr = None"

definition harden_network :: "(string \<Rightarrow> string option) \<Rightarrow> config_map \<Rightarrow> config_map \<times> bool" where
  "harden_network v6 cfg =
     (let s = (cfg, False);
          s = (if bad_bridge_address v6 (strings_TrimSpace (get cfg ''ipv4.address''))
               then set_key ''ipv4.address'' defaultBridgeCIDR s else s);
          s = set_key ''ipv4.nat'' ''true'' s;
          s = set_key ''ipv4.dhcp'' ''true'' s;
          s = (if get (fst s) ''dns.mode'' = '''' then set_key ''dns.mode'' ''managed'' s else s) in
      set_key ''ipv6.address'' ''none'' s)"

definition outbound_subnet :: "(string \<Rightarrow> string option) \<Rightarrow> string \<Rightarrow> string" where
  "outbound_subnet v6 gatewayCIDR =
     (case ParseCIDR v6 gatewayCIDR of None \<Rightarrow> ''10.72.160.0/24'' | Some c \<Rightarrow> subnet_String c)"

definition EnsureHostOutboundNAT :: "'d incus_server \<Rightarrow> string \<Rightarrow> string \<Rightarrow> ('d, unit) prog" where
  "EnsureHostOutboundNAT V bridge gatewayCIDR =
     (let H = sv_host V in
      if bridge = '''' then ret ()
      else
      andThen (ignore (h_WriteFile H ''/etc/sysctl.d/99-goincus-forward.conf'' (''net.ipv4.ip_forward=1'' @ [nl]))) (\<lambda>_.
      andThen (ignore (sure (h_Run H [] [''sysctl'', ''-w'', ''net.ipv4.ip_forward=1'']))) (\<lambda>_.
      andThen (sure (h_Run H [] [''bash'', ''-lc'', outbound_script bridge (outbound_subnet (sv_v6net V) gatewayCIDR)])) (\<lambda>(out, e).
      case e of None \<Rightarrow> ret () | Some e \<Rightarrow> throw (ErrWrap ''host outbound nat: '' e ('' ('' @ out @ '')''))))))"

definition HardenNetwork :: "'d incus_server \<Rightarrow> string \<Rightarrow> ('d, unit) prog" where
  "HardenNetwork V name =
     andThen (sv_GetNetwork V name) (\<lambda>(n, etag).
     let (cfg, changed) = harden_network (sv_v6net V) (nw_config n); n = n\<lparr>nw_config := cfg\<rparr> in
     andThen
       (if changed then
          andThen (sv_UpdateNetwork V name n etag) (\<lambda>_.
          andThen (attempt (sv_GetNetwork V name)) (\<lambda>r. case r of Inl _ \<Rightarrow> ret n | Inr (refreshed, _) \<Rightarrow> ret refreshed))
        else ret n) (\<lambda>n.
     ignore (EnsureHostOutboundNAT V name (get (nw_config n) ''ipv4.address''))))"

definition new_network :: "string \<Rightarrow> network" where
  "new_network name = \<lparr>nw_name = name, nw_type = ''bridge'', nw_managed = True,
     nw_config = [(''ipv4.address'', defaultBridgeCIDR), (''ipv4.nat'', ''true''), (''ipv4.dhcp'', ''true''),
       (''dns.mode'', ''managed''), (''ipv6.address'', ''none'')]\<rparr>"

definition existing_network :: "network list \<Rightarrow> network option" where
  "existing_network ns =
     (case List.find (\<lambda>n. nw_type n = ''bridge'' \<and> nw_managed n) ns of
        Some n \<Rightarrow> Some n
      | None \<Rightarrow> List.find nw_managed ns)"

definition EnsureNetwork :: "'d incus_server \<Rightarrow> ('d icl, string) prog" where
  "EnsureNetwork V =
     andThen cfg_network (\<lambda>configured.
     let want = or_else configured ''incusbr0'' in
     andThen (attempt (srv (sv_GetNetwork V want))) (\<lambda>r.
     case r of
       Inr _ \<Rightarrow> andThen (ignore (srv (HardenNetwork V want))) (\<lambda>_. ret want)
     | Inl _ \<Rightarrow>
         andThen (attempt (srv (sv_GetNetworks V))) (\<lambda>r.
         case (case r of Inl _ \<Rightarrow> None | Inr ns \<Rightarrow> existing_network ns) of
           Some n \<Rightarrow> andThen (ignore (srv (HardenNetwork V (nw_name n)))) (\<lambda>_. ret (nw_name n))
         | None \<Rightarrow>
             andThen (wrapErr (''create network '' @ go_quote want @ '': '') (srv (sv_CreateNetwork V (new_network want)))) (\<lambda>_.
             andThen (ignore (srv (HardenNetwork V want))) (\<lambda>_.
             ret want)))))"

text \<open>The devices of the default profile with \<open>eth0\<close> on the network, if that is a change.\<close>

definition align_eth0 :: "string \<Rightarrow> devices \<Rightarrow> devices option" where
  "align_eth0 network devs =
     (case map_of devs ''eth0'' of
        None \<Rightarrow> Some (AList.update ''eth0'' [(''type'', ''nic''), (''network'', network), (''name'', ''eth0'')] devs)
      | Some eth0 \<Rightarrow>
          if get eth0 ''network'' = network then None
          else (let e = AList.update ''type'' ''nic'' (AList.update ''network'' network eth0);
                    e = (if get e ''name'' = '''' then AList.update ''name'' ''eth0'' e else e) in
                Some (AList.update ''eth0'' e devs)))"

definition alignDefaultProfileNetwork :: "'d incus_server \<Rightarrow> string \<Rightarrow> ('d, unit) prog" where
  "alignDefaultProfileNetwork V network =
     andThen (attempt (sv_GetProfile V ''default'')) (\<lambda>r.
     case r of
       Inl _ \<Rightarrow> ret ()
     | Inr (p, etag) \<Rightarrow>
         (case align_eth0 network (pr_devices p) of
            None \<Rightarrow> ret ()
          | Some devs \<Rightarrow> sv_UpdateProfile V ''default'' (p\<lparr>pr_devices := devs\<rparr>) etag))"

definition EnsureInfrastructure :: "'d incus_server \<Rightarrow> ('d icl, unit) prog" where
  "EnsureInfrastructure V =
     andThen (EnsureStoragePool V) (\<lambda>_.
     andThen (EnsureNetwork V) (\<lambda>network.
     andThen (set_network network) (\<lambda>_.
     srv (alignDefaultProfileNetwork V network))))"

section \<open>A free address\<close>

definition NetworkIPv4CIDR :: "'d incus_server \<Rightarrow> ('d icl, string) prog" where
  "NetworkIPv4CIDR V =
     andThen cfg_network (\<lambda>netName.
     if netName = '''' then failed ''no network configured''
     else
     andThen (srv (HardenNetwork V netName)) (\<lambda>_.
     andThen (srv (sv_GetNetwork V netName)) (\<lambda>(n, _).
     let cidr = strings_TrimSpace (get (nw_config n) ''ipv4.address'') in
     if ParseCIDR (sv_v6net V) cidr = None
     then failed (''network '' @ go_quote netName @ '' has unusable ipv4.address '' @ go_quote cidr)
     else ret cidr)))"

text \<open>The addresses of the network devices of the instances.\<close>

definition nic_addresses :: "incus_instance list \<Rightarrow> string list" where
  "nic_addresses insts =
     filter (\<lambda>a. a \<noteq> '''')
       (concat (map (\<lambda>i. concat (map (\<lambda>devs.
          map (\<lambda>(_, dev). hd (strings_Split (get dev ''ipv4.address'') (CHR ''/'')))
            (filter (\<lambda>(_, dev). get dev ''type'' = ''nic'') devs)) [in_devices i, in_expanded i])) insts))"

definition or_none :: "error + 'a list \<Rightarrow> 'a list" where
  "or_none r = (case r of Inl _ \<Rightarrow> [] | Inr xs \<Rightarrow> xs)"

definition used_addresses :: "string \<Rightarrow> string list \<Rightarrow> incus_instance list \<Rightarrow> string list" where
  "used_addresses cidr leases insts =
     (case parseHostFromCIDR cidr of Inl _ \<Rightarrow> [] | Inr (gw, _) \<Rightarrow> [gw])
     @ filter (\<lambda>a. a \<noteq> '''') leases @ nic_addresses insts"

definition AllocateContainerIPv4 :: "'d incus_server \<Rightarrow> ('d icl, string) prog" where
  "AllocateContainerIPv4 V =
     andThen cfg_network (\<lambda>netName.
     if netName = '''' then failed ''no network configured''
     else
     andThen (NetworkIPv4CIDR V) (\<lambda>cidr.
     case ParseCIDR (sv_v6net V) cidr of
       None \<Rightarrow> failed (''parse network cidr '' @ go_quote cidr)
     | Some net \<Rightarrow>
         andThen (attempt (srv (sv_GetNetworkLeases V netName))) (\<lambda>leases.
         andThen (attempt (srv (sv_GetInstances V))) (\<lambda>insts.
         let used = used_addresses cidr (or_none leases) (or_none insts) in
         case net of
           V6 s \<Rightarrow> failed (''not ipv4 network: '' @ cidr)
         | V4 w ones \<Rightarrow>
             if ones \<ge> 30 then failed (''unsupported ipv4 mask for '' @ go_quote cidr)
             else
             (case free_host (\<lambda>a. a \<in> set used) (network_of w ones) ones of
                None \<Rightarrow> failed (''no free ipv4 addresses on '' @ netName)
              | Some cand \<Rightarrow> ret (ipv4_String cand))))))"

section \<open>The hardened profile is safe\<close>

lemma hardened_keys_distinct: "distinct (map fst HardenedInstanceConfig)"
  by (simp add: HardenedInstanceConfig_def)

lemma get_overlay_hardened:
  "(k, v) \<in> set HardenedInstanceConfig \<Longrightarrow> get (overlay HardenedInstanceConfig cfg) k = v"
  by (simp add: get_overlay hardened_keys_distinct map_of_is_SomeI)

lemma hides_disks_needles: "hides_disks lxc \<longleftrightarrow> list_all (strings_Contains lxc) isolation_needles"
  by (simp add: hides_disks_def isolation_needles_def)

text \<open>The table of the code confines, and every setting that confines is in it.\<close>

lemma disks_hidden: "hides_disks diskIsolationRawLXC"
  by code_simp

lemma settings_hardened:
  "(k, v) \<in> set confining_settings \<Longrightarrow> (k, v) \<in> set HardenedInstanceConfig \<and> k \<noteq> ''raw.lxc''"
  by (auto simp: confining_settings_def HardenedInstanceConfig_def)

lemma confinedI: "(\<And>k v. (k, v) \<in> set HardenedInstanceConfig \<Longrightarrow> get cfg k = v) \<Longrightarrow> confined cfg"
  by (auto simp: confined_def list_all_iff dest: settings_hardened intro!: disks_hidden)
    (simp add: HardenedInstanceConfig_def disks_hidden)

lemma hardened_confined: "confined (HardenedInstanceConfig @ rest)"
  by (rule confinedI) (auto simp: get_def map_add_Some_iff map_of_append hardened_keys_distinct)

lemma confined_cong:
  assumes "confined cfg" "\<And>k v. (k, v) \<in> set confining_settings \<Longrightarrow> get cfg' k = get cfg k"
    "get cfg' ''raw.lxc'' = get cfg ''raw.lxc''"
  shows "confined cfg'"
  using assms by (auto simp: confined_def list_all_iff)

lemma confined_update:
  "confined cfg \<Longrightarrow> k \<notin> fst ` set HardenedInstanceConfig \<Longrightarrow> confined (AList.update k v cfg)"
  by (rule confined_cong, assumption) (auto simp: get_update HardenedInstanceConfig_def dest: settings_hardened)

lemma confined_keep:
  "confined cfg \<Longrightarrow> (k, v) \<in> set confining_settings \<Longrightarrow> confined (AList.update k v cfg)"
  by (rule confined_cong, assumption) (auto simp: get_update confined_def list_all_iff dest: settings_hardened)

lemma confined_delete:
  "confined cfg \<Longrightarrow> k \<notin> fst ` set HardenedInstanceConfig \<Longrightarrow> confined (AList.delete k cfg)"
  by (rule confined_cong, assumption) (auto simp: get_delete HardenedInstanceConfig_def dest: settings_hardened)

lemma harden_profile_safe: "safe_request (PutProfile UnprivilegedProfile (harden_profile p))"
proof -
  have "confined (overlay HardenedInstanceConfig (pr_config p))"
    by (intro confinedI get_overlay_hardened)
  then have "confined (pr_config (harden_profile p))"
    unfolding harden_profile_def Let_def profile.simps
    by (intro confined_delete confined_keep) (auto simp: HardenedInstanceConfig_def confining_settings_def)
  moreover have "list_all (\<lambda>(_, dev). \<not> unsafe_device dev) (pr_devices (harden_profile p))"
    by (auto simp: harden_profile_def list_all_iff)
  ultimately show ?thesis by simp
qed

lemma new_profile_safe:
  "safe_request (PutProfile n \<lparr>pr_description = d, pr_config = HardenedInstanceConfig, pr_devices = []\<rparr>)"
  by (simp, intro impI) code_simp

lemma default_profile_safe: "safe_request (PutProfile ''default'' p)"
  by (simp add: UnprivilegedProfile_def)

section \<open>What the preparation respects\<close>

context daemon
begin

lemma steps_ensureBridgeNetfilter [frame_rules]: "steps R (ensureBridgeNetfilter (sv_host V))"
  unfolding ensureBridgeNetfilter_def by (intro frame_rules)

lemma steps_EnsureHostIsolation [frame_rules]: "steps R (EnsureHostIsolation (sv_host V))"
  unfolding EnsureHostIsolation_def ensureLargeIDMap_def ensure_map_def applyHostSysctlHardening_def
  by (intro frame_rules)

lemma steps_EnsureUnprivilegedProfile [frame_rules]: "steps R (EnsureUnprivilegedProfile V)"
  unfolding EnsureUnprivilegedProfile_def by (intro frame_rules harden_profile_safe new_profile_safe)

lemma steps_tools [frame_rules]: "steps R (both_tools (sv_host V) a b)"
  unfolding both_tools_def by (intro frame_rules)

lemma steps_ensureStorageHostPackages [frame_rules]: "steps R (ensureStorageHostPackages (sv_host V))"
  unfolding ensureStorageHostPackages_def hasLVMTools_def hasZFSTools_def install_lvm_def by (intro frame_rules)

lemma steps_create_pool: "list_all (\<lambda>c. steps R (snd c)) cands \<Longrightarrow> steps R (create_pool V name cands errs)"
proof (induction cands arbitrary: errs)
  case (Cons c cands)
  then show ?case by (auto intro!: frame_rules)
qed (auto intro!: frame_rules)

lemma steps_ensureQuotaCapablePool [frame_rules]: "steps R (ensureQuotaCapablePool V name)"
  unfolding ensureQuotaCapablePool_def createQuotaStoragePool_def
  by (intro frame_rules steps_create_pool) (auto simp: hasLVMTools_def hasZFSTools_def intro: frame_rules)

lemma steps_try_pools [frame_rules]: "steps (out_rel R) (try_pools V names e)"
  by (induction names arbitrary: e) (auto intro!: frame_rules)

lemma steps_EnsureStoragePool [frame_rules]: "steps (out_rel R) (EnsureStoragePool V)"
  unfolding EnsureStoragePool_def by (intro frame_rules)

lemma steps_HardenNetwork [frame_rules]: "steps R (HardenNetwork V n)"
  unfolding HardenNetwork_def EnsureHostOutboundNAT_def Let_def by (intro frame_rules)

lemma steps_EnsureNetwork [frame_rules]: "steps (out_rel R) (EnsureNetwork V)"
  unfolding EnsureNetwork_def by (intro frame_rules)

lemma steps_alignDefaultProfileNetwork [frame_rules]: "steps R (alignDefaultProfileNetwork V n)"
  unfolding alignDefaultProfileNetwork_def by (intro frame_rules default_profile_safe)

lemma steps_EnsureInfrastructure [frame_rules]: "steps (out_rel R) (EnsureInfrastructure V)"
  unfolding EnsureInfrastructure_def by (intro frame_rules)

lemma steps_AllocateContainerIPv4 [frame_rules]: "steps (out_rel R) (AllocateContainerIPv4 V)"
  unfolding AllocateContainerIPv4_def NetworkIPv4CIDR_def by (intro frame_rules)

end

section \<open>The address of a new container\<close>

lemma ipv4_String_nonempty [simp]: "ipv4_String w \<noteq> ''''"
  by (simp add: ipv4_String_def)

lemma AllocateContainerIPv4_nonempty: "yields (\<lambda>a. a \<noteq> '''') (AllocateContainerIPv4 V)"
  unfolding AllocateContainerIPv4_def failed_def
  by (intro yield_rules) (auto intro!: yield_rules split: cidr.split option.split)



end
