(* ===== verification/Containers.thy ===== *)
theory Containers imports Infra World begin

text \<open>
  The life of a container (\<open>client.go\<close>): its creation, its power states, the diagnostics from its log.

  Operations that leave the client's own configuration alone act on the daemon only.
\<close>

section \<open>Errors\<close>

text \<open>\<open>if err := f(); err != nil { return h(err) }\<close>\<close>

definition mapErr :: "(error \<Rightarrow> error) \<Rightarrow> ('w, 'a) prog \<Rightarrow> ('w, 'a) prog" where
  "mapErr h f w = (case f w of (r, w') \<Rightarrow> (case r of Inl e \<Rightarrow> (Inl (h e), w') | Inr x \<Rightarrow> (Inr x, w')))"

lemma snd_mapErr [simp]: "snd (mapErr h f w) = snd (f w)"
  by (simp add: mapErr_def split: prod.split sum.split)

lemma mapErr_Inr: "mapErr h f w = (Inr x, w') \<longleftrightarrow> f w = (Inr x, w')"
  by (auto simp: mapErr_def split: prod.splits sum.splits)

context frame
begin

lemma steps_mapErr [frame_rules]: "steps R f \<Longrightarrow> steps R (mapErr h f)"
  by (simp add: steps_def)

end

section \<open>Creation\<close>

definition filterAvailableProfiles :: "'d incus_server \<Rightarrow> string list \<Rightarrow> ('d, string list) prog" where
  "filterAvailableProfiles V profiles =
     andThen (mapEach (\<lambda>name. andThen (attempt (sv_GetProfile V name)) (\<lambda>r.
       ret (case r of Inl _ \<Rightarrow> [] | Inr _ \<Rightarrow> [name]))) profiles) (\<lambda>found.
     let out = concat found in ret (if out = [] then [UnprivilegedProfile] else out))"

definition string_bytes :: "string \<Rightarrow> byte list" where
  "string_bytes s = map of_char s"

definition CloudInitUserData :: "string \<Rightarrow> int \<Rightarrow> string" where
  "CloudInitUserData rootPassword sshPort =
     cloud_init_text (std_encode (string_bytes rootPassword)) (itoa (if sshPort \<le> 0 then 22 else sshPort))"

definition create_config :: "create_args \<Rightarrow> config_map" where
  "create_config a =
     (let cfg = mergeConfig HardenedInstanceConfig (ResourceConfig (a_cpu a) (a_memory a) (a_processes a)) in
      if a_password a \<noteq> ''''
      then AList.update ''cloud-init.user-data'' (CloudInitUserData (a_password a) (a_ssh_port a)) cfg
      else cfg)"

definition instance_request :: "incus_config \<Rightarrow> create_args \<Rightarrow> string list \<Rightarrow> config_map \<Rightarrow> instances_post" where
  "instance_request cfg a profiles eth0 = \<lparr>
     ip_name = a_name a,
     ip_image = or_else (a_image a) (n_default_image cfg),
     ip_server = n_image_server cfg,
     ip_protocol = n_image_protocol cfg,
     ip_profiles = profiles,
     ip_config = create_config a,
     ip_devices = [(''root'', RootDiskDevice cfg (a_storage a)), (''eth0'', eth0)]\<rparr>"

text \<open>An older daemon may not know port isolation: the request is sent again without it.\<close>

definition lacks_port_isolation :: "error \<Rightarrow> bool" where
  "lacks_port_isolation e \<longleftrightarrow>
     strings_Contains (error_text e) ''port_isolation'' \<or> strings_Contains (error_text e) ''Invalid device''"

definition finish_request ::
    "'d incus_server \<Rightarrow> instances_post \<Rightarrow> error + ('d, unit) prog \<Rightarrow> ('d, unit) prog" where
  "finish_request V again r =
     (let not_created = (\<lambda>e. IsolationError (ErrWrap ''create instance: '' e '''')) in
      andThen
        (case r of
           Inr op \<Rightarrow> ret op
         | Inl e \<Rightarrow>
             if lacks_port_isolation e then mapErr not_created (sv_CreateInstance V again)
             else throw (not_created e)) (\<lambda>op.
      mapErr (\<lambda>e. IsolationError (ErrWrap ''wait create instance: '' e '''')) op))"

definition send_request ::
    "'d incus_server \<Rightarrow> incus_config \<Rightarrow> create_args \<Rightarrow> string list \<Rightarrow> config_map \<Rightarrow> ('d, unit) prog" where
  "send_request V cfg a profiles eth0 =
     andThen (attempt (sv_CreateInstance V (instance_request cfg a profiles eth0)))
       (finish_request V (instance_request cfg a profiles (AList.delete ''security.port_isolation'' eth0)))"

definition CreateContainer :: "'d incus_server \<Rightarrow> create_args \<Rightarrow> ('d icl, unit) prog" where
  "CreateContainer V a =
     andThen (EnsureInfrastructure V) (\<lambda>_.
     andThen (asks cl_cfg) (\<lambda>cfg.
     andThen (srv (filterAvailableProfiles V (if a_profiles a = [] then n_profiles cfg else a_profiles a))) (\<lambda>available.
     andThen (wrapErr ''allocate static ipv4: '' (AllocateContainerIPv4 V)) (\<lambda>ip.
     andThen (asks cl_cfg) (\<lambda>cfg.
     let eth0 = ApplyNICNetworkPolicy (HardenedNIC (n_network cfg) ip) (a_bandwidth a) False in
     srv (send_request V cfg a (sanitizeProfiles available) eth0))))))"

section \<open>The connection\<close>

definition Ping :: "'d incus_server \<Rightarrow> ('d, unit) prog" where
  "Ping V = sv_GetServer V"

text \<open>What \<open>Connect\<close> prepares once it has reached the daemon.\<close>

definition prepare :: "'d incus_server \<Rightarrow> ('d icl, unit) prog" where
  "prepare V =
     andThen (srv (EnsureHostIsolation (sv_host V))) (\<lambda>_.
     andThen (srv (EnsureUnprivilegedProfile V)) (\<lambda>_.
     andThen (EnsureInfrastructure V) (\<lambda>_.
     ignore (srv (EnsureHostOpenSSHDebs (sv_host V))))))"

text \<open>\<open>dial\<close> is \<open>incus.ConnectIncusUnix\<close>; what it gives is the server for a project, if one is chosen.\<close>

definition Connect ::
    "(string \<Rightarrow> ('d, string option \<Rightarrow> 'd incus_server) prog) \<Rightarrow> incus_config \<Rightarrow> ('d, 'd incus_server \<times> incus_config) prog" where
  "Connect dial cfg =
     andThen (wrapErr ''connect incus: '' (dial (n_socket cfg))) (\<lambda>project d.
     let V = project (if n_project cfg \<noteq> '''' \<and> n_project cfg \<noteq> ''default'' then Some (n_project cfg) else None) in
     (case prepare V \<lparr>cl_cfg = cfg, cl_out = d\<rparr> of
        (Inl e, c) \<Rightarrow> (Inl e, cl_out c)
      | (Inr _, c) \<Rightarrow> (Inr (V, cl_cfg c), cl_out c)))"

section \<open>Power states\<close>

definition updateState :: "'d incus_server \<Rightarrow> string \<Rightarrow> string \<Rightarrow> ('d, unit) prog" where
  "updateState V name action =
     andThen (wrapErr (action @ '' instance: '') (sv_UpdateInstanceState V name action 120 False)) (\<lambda>op.
     wrapErr (''wait '' @ action @ '' instance: '') op)"

text \<open>The end of a log: its last twenty lines in one, at most 1500 characters.\<close>

definition last_n :: "nat \<Rightarrow> 'a list \<Rightarrow> 'a list" where
  "last_n n xs = drop (length xs - n) xs"

definition snippet_of :: "string \<Rightarrow> string" where
  "snippet_of data =
     (let ls = strings_Split (strings_TrimSpace data) nl;
          ls = (if length ls > 20 then last_n 20 ls else ls);
          out = map (\<lambda>c. if c = nl then CHR '' '' else c) (strings_Join ls '' | '') in
      if length out > 1500 then ''...'' @ last_n 1500 out else out)"

definition InstanceLogSnippet :: "'d incus_server \<Rightarrow> string \<Rightarrow> ('d, string) prog" where
  "InstanceLogSnippet V name =
     andThen (attempt (sv_GetInstanceLogfile V name ''lxc.log'')) (\<lambda>r.
     case r of
       Inl _ \<Rightarrow> ret ''''
     | Inr data \<Rightarrow> let data = take (64 * 1024) data in ret (if data = '''' then '''' else snippet_of data))"

definition logSuffix :: "'d incus_server \<Rightarrow> string \<Rightarrow> ('d, string) prog" where
  "logSuffix V name =
     andThen (InstanceLogSnippet V name) (\<lambda>s. ret (if s = '''' then '''' else ''; lxc.log: '' @ s))"

text \<open>\<open>if err := f(); err != nil { return fmt.Errorf("pre%w%s", err, c.logSuffix(name)) }\<close>\<close>

definition with_log :: "'d incus_server \<Rightarrow> string \<Rightarrow> string \<Rightarrow> ('d, unit) prog \<Rightarrow> ('d, unit) prog" where
  "with_log V name pre f =
     andThen (attempt f) (\<lambda>r.
     case r of
       Inr _ \<Rightarrow> ret ()
     | Inl e \<Rightarrow> andThen (logSuffix V name) (\<lambda>suffix. throw (ErrWrap pre e suffix)))"

definition StartContainer :: "'d incus_server \<Rightarrow> string \<Rightarrow> ('d, unit) prog" where
  "StartContainer V name = with_log V name '''' (updateState V name ''start'')"

definition StopContainer :: "'d incus_server \<Rightarrow> string \<Rightarrow> bool \<Rightarrow> ('d, unit) prog" where
  "StopContainer V name force =
     andThen (wrapErr ''stop instance: '' (sv_UpdateInstanceState V name ''stop'' 30 force)) (\<lambda>op.
     with_log V name ''wait stop instance: '' op)"

definition RestartContainer :: "'d incus_server \<Rightarrow> string \<Rightarrow> ('d, unit) prog" where
  "RestartContainer V name = with_log V name '''' (updateState V name ''restart'')"

definition DeleteContainer :: "'d incus_server \<Rightarrow> string \<Rightarrow> ('d, unit) prog" where
  "DeleteContainer V name =
     andThen (attempt (sv_GetInstance V name)) (\<lambda>r.
     andThen
       (case r of
          Inl _ \<Rightarrow> ret ()
        | Inr (i, _) \<Rightarrow> if in_running i then ignore (StopContainer V name True) else ret ()) (\<lambda>_.
     andThen (wrapErr ''delete instance: '' (sv_DeleteInstance V name)) (\<lambda>op. op)))"

definition GetStatus :: "'d incus_server \<Rightarrow> string \<Rightarrow> ('d, string) prog" where
  "GetStatus V name = andThen (sv_GetInstance V name) (\<lambda>(i, _). ret (in_status i))"

definition IsRunning :: "'d incus_server \<Rightarrow> string \<Rightarrow> 'd \<Rightarrow> bool \<times> 'd" where
  "IsRunning V name d =
     (case GetStatus V name d of (r, d') \<Rightarrow>
        (case r of Inl _ \<Rightarrow> False | Inr status \<Rightarrow> strings_EqualFold status ''Running'', d'))"

definition EnsureStarted :: "'d incus_server \<Rightarrow> string \<Rightarrow> ('d, unit) prog" where
  "EnsureStarted V name =
     andThen (sure (IsRunning V name)) (\<lambda>running.
     if running then ret ()
     else
     andThen (attempt (StartContainer V name)) (\<lambda>r.
     case r of
       Inr _ \<Rightarrow> ret ()
     | Inl e \<Rightarrow>
         andThen (sure (IsRunning V name)) (\<lambda>running.
         if running then ret ()
         else if strings_Contains (error_text e) ''br_netfilter'' \<or> strings_Contains (error_text e) ''bridge netfilter''
         then
           andThen (ignore (ensureBridgeNetfilter (sv_host V))) (\<lambda>_.
           andThen (attempt (StartContainer V name)) (\<lambda>retry.
           case retry of
             Inr _ \<Rightarrow> ret ()
           | Inl e' \<Rightarrow>
               andThen (sure (IsRunning V name)) (\<lambda>running.
               if running then ret ()
               else throw (IsolationError (ErrWrap '''' e ('' (loaded br_netfilter and retried: '' @ error_text e' @ '')''))))))
         else throw (IsolationError e))))"

section \<open>Every request confines its guest\<close>

lemma ResourceConfig_keys:
  "k \<in> fst ` set (ResourceConfig c m p) \<Longrightarrow>
   k \<in> {''limits.cpu'', ''limits.memory'', ''limits.memory.swap'', ''limits.processes'', ''limits.cpu.allowance''}"
  by (auto simp: ResourceConfig_def Let_def split: if_split_asm)

lemma ResourceConfig_distinct: "distinct (map fst (ResourceConfig c m p))"
  by (simp add: ResourceConfig_def Let_def)

lemma hardened_not_limit: "(k, v) \<in> set HardenedInstanceConfig \<Longrightarrow> map_of (ResourceConfig c m p) k = None"
proof (rule ccontr)
  assume k: "(k, v) \<in> set HardenedInstanceConfig" and "map_of (ResourceConfig c m p) k \<noteq> None"
  then have "k \<in> {''limits.cpu'', ''limits.memory'', ''limits.memory.swap'', ''limits.processes'', ''limits.cpu.allowance''}"
    by (intro ResourceConfig_keys) (simp add: map_of_eq_None_iff)
  then show False using k by (auto simp: HardenedInstanceConfig_def)
qed

lemma create_config_confined: "confined (create_config a)"
proof -
  have "confined (mergeConfig HardenedInstanceConfig (ResourceConfig (a_cpu a) (a_memory a) (a_processes a)))"
  proof (rule confinedI)
    fix k v assume k: "(k, v) \<in> set HardenedInstanceConfig"
    then have "get HardenedInstanceConfig k = v" by (simp add: get_def map_of_is_SomeI hardened_keys_distinct)
    then show "get (mergeConfig HardenedInstanceConfig (ResourceConfig (a_cpu a) (a_memory a) (a_processes a))) k = v"
      by (simp add: get_mergeConfig hardened_keys_distinct ResourceConfig_distinct hardened_not_limit [OF k])
  qed
  then show ?thesis
    unfolding create_config_def Let_def by (auto intro!: confined_update simp: HardenedInstanceConfig_def)
qed

lemma add_profile_set: "set (add_profile n out) = set out \<union> (if n \<in> {'''', ''default''} then {} else {n})"
  by (auto simp: add_profile_def)

lemma fold_add_profile: "set (fold add_profile ns out) = set out \<union> (set ns - {'''', ''default''})"
  by (induction ns arbitrary: out) (auto simp: add_profile_set)

lemma sanitizeProfiles_set: "set (sanitizeProfiles ns) = insert UnprivilegedProfile (set ns - {'''', ''default''})"
proof -
  have "set (fold add_profile ns (add_profile UnprivilegedProfile [])) = insert UnprivilegedProfile (set ns - {'''', ''default''})"
    by (simp add: fold_add_profile add_profile_set UnprivilegedProfile_def)
  then show ?thesis by (auto simp: sanitizeProfiles_def Let_def)
qed

lemma policy_keeps_nic:
  "filtered_nic nic \<Longrightarrow> filtered_nic (ApplyNICNetworkPolicy nic mbps t)"
  by (simp add: filtered_nic_def ApplyNICNetworkPolicy_def ApplyNICBandwidth_def Let_def)

lemma hardened_nic_filtered: "ip \<noteq> '''' \<Longrightarrow> filtered_nic (HardenedNIC n ip)"
  by (simp add: filtered_nic_def HardenedNIC_def)

lemma filtered_nic_safe: "filtered_nic nic \<Longrightarrow> \<not> unsafe_device nic"
  by (simp add: filtered_nic_def unsafe_device_def)

lemma root_disk_safe: "\<not> unsafe_device (RootDiskDevice cfg gb)"
  by (simp add: RootDiskDevice_def unsafe_device_def)

lemma instance_request_safe:
  "filtered_nic nic \<Longrightarrow> safe_request (NewInstance (instance_request cfg a (sanitizeProfiles ps) nic))"
  by (simp add: instance_request_def create_config_confined sanitizeProfiles_set filtered_nic_safe root_disk_safe)
    (simp add: UnprivilegedProfile_def)

lemma without_port_isolation: "filtered_nic nic \<Longrightarrow> filtered_nic (AList.delete ''security.port_isolation'' nic)"
  by (simp add: filtered_nic_def)


context daemon
begin

lemma steps_filterAvailableProfiles [frame_rules]: "steps R (filterAvailableProfiles V ps)"
  unfolding filterAvailableProfiles_def by (intro frame_rules)

lemma steps_finish_request:
  assumes "safe_request (NewInstance again)" "\<And>op. r = Inr op \<Longrightarrow> steps R op"
  shows "steps R (finish_request V again r)"
proof -
  have retry: "yields (steps R) (mapErr h (sv_CreateInstance V again))" for h
    using creation [OF assms(1)] by (auto simp: yields_def mapErr_Inr op_respects_def)
  have "steps R (sv_CreateInstance V again)" using creation [OF assms(1)] by (simp add: op_respects_def)
  then show ?thesis
    using assms(2) unfolding finish_request_def Let_def
    by (intro steps_andThen_yields [where P = "steps R"]) (auto intro!: frame_rules yield_rules retry)
qed

text \<open>What the first reply allows.\<close>

definition reply_respects :: "error + ('d, unit) prog \<Rightarrow> bool" where
  "reply_respects r \<longleftrightarrow> (\<forall>op. r = Inr op \<longrightarrow> steps R op)"

lemma yields_reply: "op_respects R f \<Longrightarrow> yields reply_respects (attempt f)"
  by (auto simp: yields_def attempt_eq op_respects_def reply_respects_def)

lemma steps_send_request:
  assumes nic: "filtered_nic nic" shows "steps R (send_request V cfg a (sanitizeProfiles ps) nic)"
  using creation [OF instance_request_safe [OF nic]] unfolding send_request_def
  by (intro steps_andThen_yields [OF _ yields_reply] steps_finish_request instance_request_safe without_port_isolation nic)
    (auto simp: op_respects_def reply_respects_def intro: frame_rules)

lemma steps_CreateContainer [frame_rules]: "steps (out_rel R) (CreateContainer V a)"
proof -
  have "yields (\<lambda>ip. ip \<noteq> '''') (wrapErr ''allocate static ipv4: '' (AllocateContainerIPv4 V))"
    by (intro yield_rules AllocateContainerIPv4_nonempty)
  then show ?thesis
    unfolding CreateContainer_def Let_def
    by (intro frame_rules client.steps_andThen_yields steps_send_request policy_keeps_nic hardened_nic_filtered) auto
qed

end

text \<open>The request that was sent is in the log of an audited daemon.\<close>

lemma send_request_logged:
  assumes nic: "filtered_nic nic" and run: "send_request (audited V) cfg a (sanitizeProfiles ps) nic d = (r, d')"
  shows "\<exists>more. snd d' = snd d @ NewInstance (instance_request cfg a (sanitizeProfiles ps) nic) # more"
proof -
  let ?rq = "instance_request cfg a (sanitizeProfiles ps) nic"
  let ?f = "sv_CreateInstance (audited V) ?rq"
  have "snd (snd (?f d)) = snd d @ [NewInstance ?rq]"
    by (simp add: audited_def andThen_def record_request_def inside_op_def inside_def ret_def split: prod.split sum.split)
  then obtain reply d1 where f: "?f d = (reply, d1)" "snd d1 = snd d @ [NewInstance ?rq]" by (metis prod.collapse)
  have run: "finish_request (audited V) (instance_request cfg a (sanitizeProfiles ps) (AList.delete ''security.port_isolation'' nic)) reply d1 = (r, d')"
    using run f by (simp add: send_request_def andThen_attempt)
  have "yields audit.reply_respects (attempt ?f)"
    by (rule audit.yields_reply [OF audit.creation [OF instance_request_safe [OF nic]]])
  then have "audit.reply_respects reply" by (rule yieldsD [where w = d and w' = d1]) (simp add: attempt_eq f(1))
  then have "steps log_grows (finish_request (audited V) (instance_request cfg a (sanitizeProfiles ps) (AList.delete ''security.port_isolation'' nic)) reply)"
    by (intro audit.steps_finish_request instance_request_safe without_port_isolation nic) (auto simp: audit.reply_respects_def)
  then have "log_grows d1 d'" using run by (rule stepsD)
  then show ?thesis using f(2) by (auto simp: log_grows_def)
qed


definition ref_args :: create_args where
  "ref_args = \<lparr>a_name = ''goincus-1'', a_image = '''', a_cpu = 1, a_memory = 512, a_storage = 10, a_processes = 512,
     a_bandwidth = 100, a_profiles = [''default''], a_password = '''', a_ssh_port = 20000\<rparr>"


end
