(* ===== verification/Setup.thy ===== *)
theory Setup imports RedisSetup SetupTexts Quoting Containers begin

text \<open>
  \<open>internal/setup/init_linux.go\<close>, \<open>migrations.go\<close> and \<open>config.Save\<close>: \<open>goincus init\<close> installs the services it needs,
  configures them, and writes the configuration, the units and the boot scripts. Lines printed to inform the user are
  left out. The YAML encoder, the random source and the embedded migrations are parameters.
\<close>

section \<open>Commands\<close>

definition run_cmd :: "'d machine \<Rightarrow> string list \<Rightarrow> ('d, unit) prog" where
  "run_cmd M cmd = mc_Attached M [] cmd"

definition noninteractive :: "(string \<times> string) list" where
  "noninteractive = [(''DEBIAN_FRONTEND'', ''noninteractive'')]"

definition su_command :: "string \<Rightarrow> string list \<Rightarrow> string list" where
  "su_command name args =
     [''su'', ''-'', ''postgres'', ''-c'', name @ '' '' @ strings_Join (shellQuoteAll args) '' '']"

definition runAsPostgres :: "'d machine \<Rightarrow> string \<Rightarrow> string list \<Rightarrow> ('d, unit) prog" where
  "runAsPostgres M name args =
     andThen (attempt (run_cmd M ([''runuser'', ''-u'', ''postgres'', ''--'', name] @ args))) (\<lambda>r.
     case r of Inr _ \<Rightarrow> ret () | Inl _ \<Rightarrow> run_cmd M (su_command name args))"

definition outputAsPostgres :: "'d machine \<Rightarrow> string \<Rightarrow> string list \<Rightarrow> ('d, string \<times> error option) prog" where
  "outputAsPostgres M name args =
     andThen (sure (mc_Output M ([''runuser'', ''-u'', ''postgres'', ''--'', name] @ args))) (\<lambda>(out, e).
     case e of None \<Rightarrow> ret (out, None) | Some _ \<Rightarrow> sure (mc_Output M (su_command name args)))"

definition detectPackageManager :: "'d machine \<Rightarrow> ('d, string) prog" where
  "detectPackageManager M =
     andThen (look M ''apt-get'') (\<lambda>apt.
     if apt then ret ''apt''
     else andThen (look M ''dnf'') (\<lambda>dnf. ret (if dnf then ''dnf'' else '''')))"

section \<open>Packages\<close>

definition installIncusZabbly :: "'d machine \<Rightarrow> ('d, unit) prog" where
  "installIncusZabbly M =
     andThen (look M ''incus'') (\<lambda>present.
     if present then ret ()
     else
     andThen (detectPackageManager M) (\<lambda>pm.
     if pm = ''apt'' then wrapErr ''install incus (zabbly): '' (run_cmd M [''bash'', ''-c'', incus_apt_script])
     else
     andThen (mapErr (\<lambda>e. ErrWrap ''install incus: '' e '' (see https://linuxcontainers.org/incus/docs/main/installing/)'')
       (run_cmd M [''bash'', ''-c'', ''curl -fsSL https://pkgs.zabbly.com/get/incus-stable | bash''])) (\<lambda>_.
     andThen (look M ''incus'') (\<lambda>present.
     if present then ret () else throw (ErrText ''incus binary missing after install'')))))"

definition installDependencies :: "'d machine \<Rightarrow> bool \<Rightarrow> ('d, unit) prog" where
  "installDependencies M installRedis =
     andThen (detectPackageManager M) (\<lambda>pm.
     if pm = ''apt'' then
       andThen (mc_Attached M noninteractive [''apt-get'', ''update'', ''-y'']) (\<lambda>_.
       andThen (mc_Attached M noninteractive ([''apt-get'', ''install'', ''-y'', ''postgresql'', ''postgresql-contrib'',
         ''curl'', ''gnupg'', ''ca-certificates'', ''lvm2'', ''thin-provisioning-tools'']
         @ (if installRedis then [''redis-server''] else []))) (\<lambda>_.
       installIncusZabbly M))
     else if pm = ''dnf'' then
       andThen (run_cmd M ([''dnf'', ''install'', ''-y'', ''postgresql-server'', ''postgresql'', ''curl'', ''gnupg2'', ''lvm2'']
         @ (if installRedis then [''redis''] else []))) (\<lambda>_.
       andThen (ignore (run_cmd M [''postgresql-setup'', ''--initdb''])) (\<lambda>_.
       installIncusZabbly M))
     else throw (ErrText
       ''unsupported package manager; install postgresql, redis-server, and incus, then re-run: goincus init --skip-install''))"

section \<open>PostgreSQL\<close>

definition conf_in :: "'d machine \<Rightarrow> string \<Rightarrow> ('d, string option) prog" where
  "conf_in M dir =
     andThen (sure (mc_Stat M (dir @ ''/postgresql.conf''))) (\<lambda>there. ret (if there then Some dir else None))"

definition findPostgresConfDir :: "'d machine \<Rightarrow> ('d, string) prog" where
  "findPostgresConfDir M =
     andThen (attempt (mc_ReadDir M ''/etc/postgresql'')) (\<lambda>r.
     let versions = (case r of Inl _ \<Rightarrow> [] | Inr entries \<Rightarrow> map fst (filter snd entries)) in
     andThen (first_answer (conf_in M)
       (map (\<lambda>v. ''/etc/postgresql/'' @ v @ ''/main'') versions @ [''/var/lib/pgsql/data'', ''/var/lib/postgresql/data''])) (\<lambda>dir.
     ret (case dir of None \<Rightarrow> '''' | Some d \<Rightarrow> d)))"

definition role_statement :: "string \<Rightarrow> string \<Rightarrow> string" where
  "role_statement user pass =
     text_lines [
       ''DO $$ BEGIN'',
       ''  CREATE ROLE '' @ user @ '' LOGIN PASSWORD '' @ [CHR 0x27] @ escapeSQL pass @ [CHR 0x27] @ '';'',
       ''EXCEPTION WHEN duplicate_object THEN'',
       ''  ALTER ROLE '' @ user @ '' WITH PASSWORD '' @ [CHR 0x27] @ escapeSQL pass @ [CHR 0x27] @ '';'']
     @ ''END $$;''"

definition hba_entry :: string where
  "hba_entry = ''host    goincus         goincus         127.0.0.1/32            scram-sha-256'' @ [nl]"

definition allow_password_login :: "'d machine \<Rightarrow> string \<Rightarrow> ('d, unit) prog" where
  "allow_password_login M hba =
     andThen (attempt (h_ReadFile (mc_host M) hba)) (\<lambda>r.
     case r of
       Inr (Some data) \<Rightarrow>
         if strings_Contains data ''goincus         goincus'' then ret ()
         else ignore (mc_WriteFile M hba (data @ hba_entry) 416)
     | _ \<Rightarrow> ret ())"

definition create_database :: "'d machine \<Rightarrow> string \<Rightarrow> string \<Rightarrow> ('d, unit) prog" where
  "create_database M dbname user =
     andThen (outputAsPostgres M ''psql''
       [''-tAc'', ''SELECT 1 FROM pg_database WHERE datname='' @ [CHR 0x27] @ dbname @ [CHR 0x27]]) (\<lambda>(out, _).
     if strings_TrimSpace out \<noteq> ''1'' then
       wrapErr ''create database: '' (runAsPostgres M ''psql''
         [''-v'', ''ON_ERROR_STOP=1'', ''-c'', ''CREATE DATABASE '' @ dbname @ '' OWNER '' @ user])
     else ret ())"

definition configurePostgreSQL :: "'d machine \<Rightarrow> config \<Rightarrow> ('d, unit) prog" where
  "configurePostgreSQL M cfg =
     (let user = d_user (c_database cfg); dbname = database_config.d_name (c_database cfg) in
      andThen (findPostgresConfDir M) (\<lambda>confDir.
      if confDir = '''' then throw (ErrText ''could not locate postgresql.conf directory'')
      else
      andThen (ignore (h_MkdirAll (mc_host M) (confDir @ ''/conf.d''))) (\<lambda>_.
      andThen (mc_WriteFile M (confDir @ ''/conf.d/goincus.conf'') (pg_drop_in (itoa (d_port (c_database cfg)))) 420) (\<lambda>_.
      andThen (allow_password_login M (confDir @ ''/pg_hba.conf'')) (\<lambda>_.
      andThen (ignore (run_cmd M [''systemctl'', ''enable'', ''--now'', ''postgresql''])) (\<lambda>_.
      andThen (ignore (run_cmd M [''systemctl'', ''restart'', ''postgresql''])) (\<lambda>_.
      andThen (pause (mc_host M) 2000000000) (\<lambda>_.
      andThen (wrapErr ''create role: '' (runAsPostgres M ''psql''
        [''-v'', ''ON_ERROR_STOP=1'', ''-c'', role_statement user (d_password (c_database cfg))])) (\<lambda>_.
      andThen (create_database M dbname user) (\<lambda>_.
      ignore (runAsPostgres M ''psql''
        [''-c'', ''GRANT ALL PRIVILEGES ON DATABASE '' @ dbname @ '' TO '' @ user])))))))))))"

section \<open>Redis\<close>

definition redis_drop_path :: string where
  "redis_drop_path = ''/etc/redis/goincus.conf''"

text \<open>The first of the main files that can be read includes the drop-in.\<close>

primrec include_drop_in :: "'d machine \<Rightarrow> string list \<Rightarrow> ('d, unit) prog" where
  "include_drop_in M [] = ret ()"
| "include_drop_in M (p # ps) =
     andThen (attempt (h_ReadFile (mc_host M) p)) (\<lambda>r.
     case r of
       Inr (Some data) \<Rightarrow>
         if strings_Contains data redis_drop_path then ret ()
         else ignore (mc_WriteFile M p (data @ [nl] @ ''include '' @ redis_drop_path @ [nl]) 420)
     | _ \<Rightarrow> include_drop_in M ps)"

definition configureRedis :: "'d machine \<Rightarrow> config \<Rightarrow> ('d, unit) prog" where
  "configureRedis M cfg =
     andThen (h_MkdirAll (mc_host M) ''/etc/redis'') (\<lambda>_.
     andThen (mc_WriteFile M redis_drop_path
       (redis_drop_in (itoa (r_port (c_redis cfg))) (r_password (c_redis cfg))) 416) (\<lambda>_.
     andThen (include_drop_in M [''/etc/redis/redis.conf'', ''/etc/redis.conf'']) (\<lambda>_.
     andThen (forEach (\<lambda>cmd. ignore (run_cmd M cmd))
       [[''systemctl'', ''enable'', ''--now'', ''redis-server''], [''systemctl'', ''enable'', ''--now'', ''redis''],
        [''systemctl'', ''restart'', ''redis-server''], [''systemctl'', ''restart'', ''redis'']]) (\<lambda>_.
     pause (mc_host M) 1000000000))))"


section \<open>Incus\<close>

definition isDFIsolatingStorageDriver :: "string \<Rightarrow> bool" where
  "isDFIsolatingStorageDriver driver \<longleftrightarrow>
     strings_ToLower (strings_TrimSpace driver) \<in> {''zfs'', ''lvm'', ''lvmcluster'', ''ceph''}"

definition driver_of :: "string \<Rightarrow> string option" where
  "driver_of out =
     (case List.find (\<lambda>row. strings_HasPrefix row ''driver:'') (map strings_TrimSpace (strings_Split out nl)) of
        None \<Rightarrow> None | Some row \<Rightarrow> Some (strings_TrimSpace (drop 7 row)))"

definition incusStorageDriver :: "'d machine \<Rightarrow> string \<Rightarrow> ('d, string) prog" where
  "incusStorageDriver M name =
     andThen (sure (mc_Output M [''incus'', ''storage'', ''show'', name])) (\<lambda>(out, e).
     case e of
       Some e \<Rightarrow> throw e
     | None \<Rightarrow>
         (case driver_of out of
            None \<Rightarrow> throw (ErrText (''driver not found for pool '' @ name)) | Some drv \<Rightarrow> ret drv))"

definition pool_candidates :: "string list" where
  "pool_candidates = [''goincus'', ''goincus-lvm'', ''goincus-zfs'']"

definition suitable_pool :: "'d machine \<Rightarrow> string \<Rightarrow> ('d, string option) prog" where
  "suitable_pool M name =
     andThen (attempt (incusStorageDriver M name)) (\<lambda>r.
     ret (case r of Inr drv \<Rightarrow> if isDFIsolatingStorageDriver drv then Some name else None | Inl _ \<Rightarrow> None))"

definition make_pool :: "'d machine \<Rightarrow> string \<Rightarrow> string \<Rightarrow> ('d, string option) prog" where
  "make_pool M name drv =
     andThen (attempt (run_cmd M [''incus'', ''storage'', ''create'', name, drv, ''size=200GiB''])) (\<lambda>r.
     ret (case r of Inr _ \<Rightarrow> Some name | Inl _ \<Rightarrow> None))"

definition missing_pool :: "'d machine \<Rightarrow> string \<Rightarrow> ('d, string option) prog" where
  "missing_pool M name =
     andThen (attempt (incusStorageDriver M name)) (\<lambda>r.
     case r of Inr _ \<Rightarrow> ret None | Inl _ \<Rightarrow> first_answer (make_pool M name) [''zfs'', ''lvm''])"

definition no_pool_text :: string where
  "no_pool_text =
     ''need zfs or lvm storage for disk isolation (dir/btrfs show host disk in guest df). ''
     @ ''Install: apt install -y lvm2 thin-provisioning-tools   # or: apt install -y zfsutils-linux'' @ [nl]
     @ ''Then: incus storage create goincus-lvm lvm size=200GiB''"

definition ensureDFIsolatingStoragePool :: "'d machine \<Rightarrow> ('d, string) prog" where
  "ensureDFIsolatingStoragePool M =
     andThen (first_answer (suitable_pool M) pool_candidates) (\<lambda>r.
     case r of
       Some name \<Rightarrow> ret name
     | None \<Rightarrow>
         andThen (first_answer (missing_pool M) pool_candidates) (\<lambda>r.
         case r of Some name \<Rightarrow> ret name | None \<Rightarrow> throw (ErrText no_pool_text)))"

definition bridge_in :: "string \<Rightarrow> string option" where
  "bridge_in row =
     (case strings_Split (strings_TrimSpace row) (CHR '','') of
        name # kind # _ \<Rightarrow> if kind = ''bridge'' \<and> name \<noteq> '''' then Some name else None
      | _ \<Rightarrow> None)"

definition existing_bridge :: "'d machine \<Rightarrow> ('d, string option) prog" where
  "existing_bridge M =
     andThen (sure (mc_Output M [''incus'', ''network'', ''list'', ''-f'', ''csv'', ''-c'', ''n,t''])) (\<lambda>(out, e).
     ret (case e of
            Some _ \<Rightarrow> None
          | None \<Rightarrow>
              (case List.map_filter bridge_in (strings_Split out nl) of [] \<Rightarrow> None | b # _ \<Rightarrow> Some b)))"

definition profile_root :: "string \<Rightarrow> string list" where
  "profile_root pool =
     [''incus'', ''profile'', ''device'', ''add'', ''default'', ''root'', ''disk'', ''path=/'', ''pool='' @ pool]"

definition use_incusbr0 :: "'d machine \<Rightarrow> string \<Rightarrow> ('d, string) prog" where
  "use_incusbr0 M pool =
     andThen (forEach (\<lambda>cmd. ignore (run_cmd M cmd))
       [[''incus'', ''profile'', ''device'', ''add'', ''default'', ''eth0'', ''nic'', ''network=incusbr0'', ''name=eth0''],
        [''incus'', ''profile'', ''device'', ''set'', ''default'', ''eth0'', ''network=incusbr0''],
        profile_root pool,
        [''incus'', ''profile'', ''device'', ''set'', ''default'', ''root'', ''pool='' @ pool]]) (\<lambda>_. ret pool)"

definition ensureIncusNetworkAndPool :: "'d machine \<Rightarrow> ('d, string) prog" where
  "ensureIncusNetworkAndPool M =
     andThen (ensureDFIsolatingStoragePool M) (\<lambda>pool.
     andThen (attempt (run_cmd M [''incus'', ''network'', ''show'', ''incusbr0''])) (\<lambda>shown.
     case shown of
       Inr _ \<Rightarrow> use_incusbr0 M pool
     | Inl _ \<Rightarrow>
         andThen (existing_bridge M) (\<lambda>b.
         case b of
           Some name \<Rightarrow>
             andThen (ignore (run_cmd M
               [''incus'', ''profile'', ''device'', ''set'', ''default'', ''eth0'', ''network='' @ name])) (\<lambda>_.
             andThen (ignore (run_cmd M (profile_root pool))) (\<lambda>_. ret pool))
         | None \<Rightarrow>
             andThen (wrapErr ''create network incusbr0: '' (run_cmd M
               [''incus'', ''network'', ''create'', ''incusbr0'', ''ipv4.address=auto'', ''ipv4.nat=true'',
                ''ipv6.address=none''])) (\<lambda>_.
             use_incusbr0 M pool))))"

text \<open>The new text of a file of id ranges, when it has no entry for root.\<close>

definition idmap_line :: string where
  "idmap_line = ''root:1000000:1000000000'' @ [nl]"

definition with_idmap :: "string \<Rightarrow> string" where
  "with_idmap data =
     (if \<not> strings_HasSuffix data [nl] \<and> data \<noteq> '''' then data @ [nl] else data) @ idmap_line"

definition ensure_id_range :: "'d machine \<Rightarrow> string \<Rightarrow> ('d, unit) prog" where
  "ensure_id_range M path =
     andThen (attempt (h_ReadFile (mc_host M) path)) (\<lambda>r.
     case r of
       Inr (Some data) \<Rightarrow>
         if strings_Contains data ''root:'' then ret ()
         else wrapErr (''update '' @ path @ '': '') (mc_WriteFile M path (with_idmap data) 420)
     | _ \<Rightarrow> wrapErr (''write '' @ path @ '': '') (mc_WriteFile M path idmap_line 420))"

definition ensureHostIDMaps :: "'d machine \<Rightarrow> ('d, unit) prog" where
  "ensureHostIDMaps M = forEach (ensure_id_range M) [''/etc/subuid'', ''/etc/subgid'']"

definition preseed_incus :: "'d machine \<Rightarrow> ('d, unit) prog" where
  "preseed_incus M =
     andThen (attempt (mc_WithInput M [''incus'', ''admin'', ''init'', ''--preseed''] preseed)) (\<lambda>r.
     case r of
       Inr _ \<Rightarrow> ret ()
     | Inl _ \<Rightarrow> wrapErr ''incus init: '' (mc_WithInput M [''incus'', ''init'', ''--preseed''] preseed))"

definition configureIncus :: "'d machine \<Rightarrow> ('d, string) prog" where
  "configureIncus M =
     andThen (ignore (run_cmd M [''systemctl'', ''enable'', ''--now'', ''incus''])) (\<lambda>_.
     andThen (ignore (run_cmd M [''systemctl'', ''enable'', ''--now'', ''incus.service''])) (\<lambda>_.
     andThen (attempt (run_cmd M [''incus'', ''info''])) (\<lambda>info.
     andThen (case info of Inr _ \<Rightarrow> ret () | Inl _ \<Rightarrow> preseed_incus M) (\<lambda>_.
     andThen (ensureIncusNetworkAndPool M) (\<lambda>pool.
     andThen (ensureHostIDMaps M) (\<lambda>_. ret pool))))))"

section \<open>Files\<close>

definition path_Dir :: "string \<Rightarrow> string" where
  "path_Dir p =
     (if CHR ''/'' \<notin> set p then ''.''
      else let d = rev (tl (dropWhile (\<lambda>c. c \<noteq> CHR ''/'') (rev p))) in if d = '''' then ''/'' else d)"

definition config_header :: string where
  "config_header = ''# Generated by goincus init '' @ em_dash @ '' keep this file private.'' @ [nl]"

definition Save :: "'d machine \<Rightarrow> (config \<Rightarrow> error + string) \<Rightarrow> string \<Rightarrow> config \<Rightarrow> ('d, unit) prog" where
  "Save M marshal path cfg =
     andThen (wrapErr ''mkdir config dir: '' (h_MkdirAll (mc_host M) (path_Dir path))) (\<lambda>_.
     case marshal cfg of
       Inl e \<Rightarrow> throw (ErrWrap ''marshal config: '' e '''')
     | Inr data \<Rightarrow> wrapErr ''write config: '' (mc_WriteFile M path (config_header @ data) 384))"

definition MigrationsDir :: string where
  "MigrationsDir = ''/usr/share/goincus/migrations''"

text \<open>The embedded files by name, in the order \<open>fs.WalkDir\<close> visits them.\<close>

definition WriteEmbeddedMigrations :: "'d machine \<Rightarrow> (string \<times> string) list \<Rightarrow> string \<Rightarrow> ('d, unit) prog" where
  "WriteEmbeddedMigrations M embedded dest =
     andThen (h_MkdirAll (mc_host M) dest) (\<lambda>_.
     forEach (\<lambda>(name, data).
       let target = dest @ ''/'' @ name in
       wrapErr (''write '' @ target @ '': '') (mc_WriteFile M target data 420)) embedded)"

definition support_files :: "(string \<times> string \<times> nat) list" where
  "support_files =
     [(''/usr/local/libexec/goincus/ensure-host-nat.sh'', nat_script, 493),
      (''/usr/local/libexec/goincus/ensure-host-storage.sh'', storage_script, 493),
      (''/etc/systemd/system/goincus-net.service'', net_unit, 420)]"

definition installSupportFiles :: "'d machine \<Rightarrow> (string \<times> string) list \<Rightarrow> ('d, unit) prog" where
  "installSupportFiles M embedded =
     andThen (forEach (h_MkdirAll (mc_host M))
       [MigrationsDir, ''/var/log/goincus'', ''/var/lib/goincus'', ''/opt/goincus'']) (\<lambda>_.
     andThen (attempt (mc_Executable M)) (\<lambda>self.
     andThen
       (case self of
          Inl _ \<Rightarrow> ret ()
        | Inr bin \<Rightarrow> ignore (run_cmd M [''install'', ''-m'', ''0755'', bin, ''/usr/local/bin/goincus''])) (\<lambda>_.
     andThen (mc_WriteFile M ''/etc/systemd/system/goincus.service'' service_unit 420) (\<lambda>_.
     andThen (ignore (h_MkdirAll (mc_host M) ''/usr/local/libexec/goincus'')) (\<lambda>_.
     andThen (forEach (\<lambda>(path, text, mode). mc_WriteFile M path text mode) support_files) (\<lambda>_.
     andThen (ignore (run_cmd M [''systemctl'', ''daemon-reload''])) (\<lambda>_.
     andThen (ignore (run_cmd M [''systemctl'', ''enable'', ''--now'', ''goincus-net''])) (\<lambda>_.
     WriteEmbeddedMigrations M embedded MigrationsDir))))))))"

section \<open>The whole of \<open>init\<close>\<close>

record setup_options =
  so_config :: string
  so_skip_install :: bool
  so_force :: bool

record setup_result =
  sr_config :: string
  sr_keys :: "string list"
  sr_db_password :: string
  sr_redis_password :: string
  sr_redis_host :: string
  sr_redis_port :: int
  sr_redis_reused :: bool

definition with_redis :: "redis_endpoint option \<Rightarrow> config \<Rightarrow> config" where
  "with_redis ep cfg = (case ep of None \<Rightarrow> cfg | Some ep \<Rightarrow> applyExistingRedis ep cfg)"

definition with_pool :: "string \<Rightarrow> config \<Rightarrow> config" where
  "with_pool pool cfg = (if pool \<noteq> '''' then cfg\<lparr>c_incus := (c_incus cfg)\<lparr>n_pool := pool\<rparr>\<rparr> else cfg)"

text \<open>Installing, then looking again for a Redis server; or checking that everything is there.\<close>

definition provide_packages :: "'d machine \<Rightarrow> bool \<Rightarrow> redis_endpoint option \<Rightarrow> ('d, redis_endpoint option) prog" where
  "provide_packages M skip existing =
     (if \<not> skip then
        andThen (if existing \<noteq> None then ret True else redisBinaryPresent M) (\<lambda>have.
        andThen (wrapErr ''dependency install failed: '' (installDependencies M (\<not> have))) (\<lambda>_.
        if existing \<noteq> None then ret existing else detectExistingRedis M))
      else
        andThen (forEach (\<lambda>bin.
          andThen (look M bin) (\<lambda>there.
          if there then ret ()
          else throw (ErrText (bin @ '' not found in PATH; install it or omit --skip-install''))))
          ([''psql'', ''incus''] @ (if existing = None then [''redis-server''] else []))) (\<lambda>_.
        ret existing))"

definition setup_Run ::
    "'d machine \<Rightarrow> (nat \<Rightarrow> ('d, byte list) prog) \<Rightarrow> (config \<Rightarrow> error + string) \<Rightarrow> (string \<times> string) list \<Rightarrow>
     setup_options \<Rightarrow> ('d, setup_result) prog" where
  "setup_Run M rand_read marshal embedded opts =
     andThen (sure (h_IsRoot (mc_host M))) (\<lambda>is_root.
     if \<not> is_root then throw (ErrText ''goincus init must be run as root'')
     else
     let cfgPath = (if so_config opts = '''' then ''/etc/goincus/config.yaml'' else so_config opts) in
     andThen (if so_force opts then ret False else sure (mc_Stat M cfgPath)) (\<lambda>there.
     if there then throw (ErrText (''config already exists at '' @ cfgPath @ '' (use --force to overwrite)''))
     else
     andThen (GenerateInitialized rand_read) (\<lambda>generated.
     andThen (detectExistingRedis M) (\<lambda>found_redis.
     andThen (provide_packages M (so_skip_install opts) found_redis) (\<lambda>redis.
     let cfg = with_redis redis generated in
     andThen (wrapErr ''configure postgresql: '' (configurePostgreSQL M cfg)) (\<lambda>_.
     andThen (if redis \<noteq> None then ret () else wrapErr ''configure redis: '' (configureRedis M cfg)) (\<lambda>_.
     andThen (wrapErr ''configure incus: '' (configureIncus M)) (\<lambda>pool.
     let cfg = with_pool pool cfg in
     andThen (ignore (EnsureHostIsolation (mc_host M))) (\<lambda>_.
     andThen (Save M marshal cfgPath cfg) (\<lambda>_.
     andThen (installSupportFiles M embedded) (\<lambda>_.
     ret \<lparr>sr_config = cfgPath, sr_keys = c_api_keys cfg, sr_db_password = d_password (c_database cfg),
       sr_redis_password = r_password (c_redis cfg), sr_redis_host = r_host (c_redis cfg),
       sr_redis_port = r_port (c_redis cfg), sr_redis_reused = (redis \<noteq> None)\<rparr>)))))))))))"


section \<open>Properties\<close>

text \<open>Without \<open>--force\<close>, \<open>init\<close> refuses when the configuration file exists, before it has generated, installed or
written anything.\<close>

theorem init_keeps_config:
  assumes "h_IsRoot (mc_host M) d = (True, d1)" and "\<not> so_force opts"
    and "mc_Stat M (if so_config opts = '''' then ''/etc/goincus/config.yaml'' else so_config opts) d1 = (True, d2)"
  shows "\<exists>e. setup_Run M rand_read marshal embedded opts d = (Inl (ErrText e), d2)
    \<and> strings_HasPrefix e ''config already exists at ''"
  using assms by (simp add: setup_Run_def andThen_def sure_def throw_def Let_def strings_HasPrefix_def)

theorem init_keeps_config_witness:
  "\<exists>e. setup_Run (locked_redis\<lparr>mc_Stat := \<lambda>_ d. (True, d)\<rparr>) (\<lambda>n. ret (replicate n 7)) (\<lambda>_. Inr '''') [] \<lparr>so_config = '''', so_skip_install = True, so_force = False\<rparr> ()
     = (Inl (ErrText e), ()) \<and> strings_HasPrefix e ''config already exists at ''"
  by (rule init_keeps_config [where ?d1.0 = "()"]) (simp_all add: locked_redis_def)

text \<open>The text \<open>REPLACE_WITH\<close> cannot occur in a generated key: it is lower-case.\<close>

lemma hex_char_lower: "i < 16 \<Longrightarrow> hex_char i \<noteq> CHR ''R''"
proof
  assume "i < 16" "hex_char i = CHR ''R''"
  then have "(of_char (hex_char i) :: nat) = 82" by simp
  then show False using \<open>i < 16\<close> by (simp add: hex_char_def split: if_splits)
qed

lemma hex_encode_lower: "CHR ''R'' \<notin> set (hex_encode bs)"
proof (induction bs)
  case (Cons b bs)
  have b: "unat b < 256" by (rule unat_byte)
  then have "unat b div 16 < 16" "unat b mod 16 < 16" by (simp_all add: less_mult_imp_div_less)
  then have "hex_char (unat b div 16) \<noteq> CHR ''R''" "hex_char (unat b mod 16) \<noteq> CHR ''R''"
    using hex_char_lower [of "unat b div 16"] hex_char_lower [of "unat b mod 16"] by auto
  then show ?case using Cons by auto
qed simp

lemma generated_key:
  assumes "RandomAPIKey rand_read d = (Inr key, d')"
  shows "key \<noteq> '''' \<and> \<not> strings_Contains key ''REPLACE_WITH''"
proof -
  obtain bs where key: "key = ''gic_'' @ hex_encode bs"
    using assms by (auto simp: RandomAPIKey_def andThen_Inr)
  have no: "CHR ''R'' \<notin> set key" using hex_encode_lower by (auto simp: key)
  have "\<not> strings_Contains key ''REPLACE_WITH''"
  proof
    assume "strings_Contains key ''REPLACE_WITH''"
    then obtain a b where "key = a @ ''REPLACE_WITH'' @ b" by (auto simp: strings_Contains_iff)
    then have "CHR ''R'' \<in> set key" by simp
    with no show False by blast
  qed
  then show ?thesis by (simp add: key)
qed



text \<open>The pool \<open>init\<close> chooses hides the host's disk: its driver was seen to, or it was made with one that does.\<close>

lemma first_answer_Some:
  "first_answer f xs d = (Inr (Some y), d') \<Longrightarrow> \<exists>x d0. x \<in> set xs \<and> f x d0 = (Inr (Some y), d')"
proof (induction xs arbitrary: d)
  case (Cons x xs)
  then show ?case by (fastforce simp: andThen_Inr split: option.splits)
qed simp

lemma suitable_pool_Some:
  assumes "suitable_pool M name d = (Inr (Some pool), d')"
  shows "pool = name \<and> (\<exists>drv. incusStorageDriver M name d = (Inr drv, d') \<and> isDFIsolatingStorageDriver drv)"
proof -
  obtain r d1 where r: "incusStorageDriver M name d = (r, d1)" by fastforce
  show ?thesis
    using assms r by (cases r) (simp_all add: suitable_pool_def andThen_def attempt_def ret_def split: if_split_asm)
qed

lemma missing_pool_Some:
  assumes "missing_pool M name d = (Inr (Some pool), d')"
  shows "pool = name \<and> (\<exists>d0. \<exists>drv \<in> {''zfs'', ''lvm''}.
    run_cmd M [''incus'', ''storage'', ''create'', name, drv, ''size=200GiB''] d0 = (Inr (), d'))"
proof -
  have made: "pool = name \<and> run_cmd M [''incus'', ''storage'', ''create'', name, drv, ''size=200GiB''] d0 = (Inr (), d')"
    if "make_pool M name drv d0 = (Inr (Some pool), d')" for drv d0
  proof -
    obtain r d1 where "run_cmd M [''incus'', ''storage'', ''create'', name, drv, ''size=200GiB''] d0 = (r, d1)" by fastforce
    then show ?thesis using that by (cases r) (simp_all add: make_pool_def andThen_def attempt_def ret_def)
  qed
  obtain r d1 where r: "incusStorageDriver M name d = (r, d1)" by fastforce
  have "first_answer (make_pool M name) [''zfs'', ''lvm''] d1 = (Inr (Some pool), d')"
    using assms r by (cases r) (simp_all add: missing_pool_def andThen_def attempt_def ret_def)
  from first_answer_Some [OF this] made show ?thesis by (metis list.set(1) list.simps(15))
qed

lemma chosen_pool:
  assumes "ensureDFIsolatingStoragePool M d = (Inr pool, d')"
  shows "pool \<in> set pool_candidates
    \<and> ((\<exists>d0 drv. incusStorageDriver M pool d0 = (Inr drv, d') \<and> isDFIsolatingStorageDriver drv)
      \<or> (\<exists>d0. \<exists>drv \<in> {''zfs'', ''lvm''}. run_cmd M [''incus'', ''storage'', ''create'', pool, drv, ''size=200GiB''] d0 = (Inr (), d')))"
proof -
  obtain r d1 where r: "first_answer (suitable_pool M) pool_candidates d = (Inr r, d1)"
    and rest: "(case r of Some name \<Rightarrow> ret name | None \<Rightarrow>
         andThen (first_answer (missing_pool M) pool_candidates) (\<lambda>r.
         case r of Some name \<Rightarrow> ret name | None \<Rightarrow> throw (ErrText no_pool_text))) d1 = (Inr pool, d')"
    using assms unfolding ensureDFIsolatingStoragePool_def andThen_Inr by blast
  show ?thesis
  proof (cases r)
    case (Some name)
    then have "first_answer (suitable_pool M) pool_candidates d = (Inr (Some pool), d')" using r rest by simp
    from first_answer_Some [OF this] obtain x d0
      where x: "x \<in> set pool_candidates" "suitable_pool M x d0 = (Inr (Some pool), d')" by blast
    from suitable_pool_Some [OF x(2)] x(1) show ?thesis by (elim conjE exE) (simp, blast)
  next
    case None
    then obtain r2 d2 where r2: "first_answer (missing_pool M) pool_candidates d1 = (Inr r2, d2)"
      and last: "(case r2 of Some name \<Rightarrow> ret name | None \<Rightarrow> throw (ErrText no_pool_text)) d2 = (Inr pool, d')"
      using rest by (auto simp: andThen_Inr)
    then have "first_answer (missing_pool M) pool_candidates d1 = (Inr (Some pool), d')" by (cases r2) auto
    from first_answer_Some [OF this] obtain x d3
      where x: "x \<in> set pool_candidates" "missing_pool M x d3 = (Inr (Some pool), d')" by blast
    from missing_pool_Some [OF x(2)] x(1) show ?thesis by (elim conjE exE bexE) (simp, blast)
  qed
qed

text \<open>The entry for root is added once, behind what the file held.\<close>

lemma with_idmap_once:
  "strings_Contains (with_idmap data) ''root:''" "strings_HasPrefix (with_idmap data) data"
  unfolding with_idmap_def idmap_line_def strings_Contains_iff
  by (auto simp: strings_HasPrefix_def intro: exI [of _ "data @ [nl]"] exI [of _ data])

end
