(* ===== verification/Migrations.thy ===== *)
theory Migrations imports Prelude begin

text \<open>
  \<open>Store.Migrate\<close> of \<open>internal/db/store.go\<close>: the SQL files of a directory are applied in the order of their names, each
  in a transaction of its own together with the record that it was applied.

  The connection to PostgreSQL is a parameter (\<open>migration_db\<close>); what is relied on of its transactions is
  \<open>transactional\<close>. Directory and files are read by functions, so they do not change while the migration runs.
\<close>

section \<open>The program\<close>

record 'p migration_db =
  mg_Ensure :: "('p, unit) prog"
  mg_Exists :: "string \<Rightarrow> ('p, bool) prog"
  mg_Begin :: "('p, unit) prog"
  mg_Exec :: "string \<Rightarrow> ('p, unit) prog"
  mg_Record :: "string \<Rightarrow> ('p, unit) prog"
  mg_Commit :: "('p, unit) prog"
  mg_Rollback :: "('p, unit) prog"

text \<open>\<open>if err != nil { _ = tx.Rollback(ctx); return err }\<close>\<close>

definition orRollback :: "'p migration_db \<Rightarrow> ('p, 'a) prog \<Rightarrow> ('p, 'a) prog" where
  "orRollback D f p =
     (case f p of (r, p') \<Rightarrow> (case r of Inl e \<Rightarrow> (Inl e, snd (mg_Rollback D p')) | Inr x \<Rightarrow> (Inr x, p')))"

definition apply_migration ::
    "'p migration_db \<Rightarrow> (string \<Rightarrow> error + string) \<Rightarrow> string \<Rightarrow> string \<Rightarrow> ('p, unit) prog" where
  "apply_migration D readFile dir version =
     andThen (wrapErr (''check migration '' @ version @ '': '') (mg_Exists D version)) (\<lambda>there.
     if there then ret ()
     else
       (case readFile (dir @ ''/'' @ version) of
          Inl e \<Rightarrow> throw (ErrWrap (''read migration '' @ version @ '': '') e '''')
        | Inr body \<Rightarrow>
            andThen (mg_Begin D) (\<lambda>_.
            andThen (orRollback D (wrapErr (''apply migration '' @ version @ '': '') (mg_Exec D body))) (\<lambda>_.
            andThen (orRollback D (wrapErr (''record migration '' @ version @ '': '') (mg_Record D version))) (\<lambda>_.
            mg_Commit D)))))"

definition sql_files :: "(string \<times> bool) list \<Rightarrow> string list" where
  "sql_files entries = map fst (filter (\<lambda>(name, dir). \<not> dir \<and> strings_HasSuffix name ''.sql'') entries)"

definition Migrate ::
    "'p migration_db \<Rightarrow> (string \<Rightarrow> error + (string \<times> bool) list) \<Rightarrow> (string \<Rightarrow> error + string) \<Rightarrow> string \<Rightarrow>
     ('p, unit) prog" where
  "Migrate D readDir readFile dir =
     andThen (wrapErr ''ensure migrations table: '' (mg_Ensure D)) (\<lambda>_.
     case readDir dir of
       Inl e \<Rightarrow> throw (ErrWrap ''read migrations: '' e '''')
     | Inr entries \<Rightarrow> forEach (apply_migration D readFile dir) (sql_files entries))"

section \<open>Transactions\<close>

text \<open>
  What is committed: the versions recorded and the scripts run; and inside a transaction, what it would add.
\<close>

record tx_view =
  tv_versions :: "string list"
  tv_scripts :: "string list"
  tv_open :: "(string list \<times> string list) option"

definition committed :: "tx_view \<Rightarrow> string list \<times> string list" where
  "committed v = (tv_versions v, tv_scripts v)"

text \<open>
  Each statement answers or fails. Inside a transaction nothing is committed; a commit adds everything at once, and one
  that fails has added everything or nothing, because the reply may have been lost.
\<close>

definition transactional :: "'p migration_db \<Rightarrow> ('p \<Rightarrow> tx_view) \<Rightarrow> bool" where
  "transactional D view \<longleftrightarrow>
     (\<forall>p. tv_open (view p) = None \<longrightarrow> view (snd (mg_Ensure D p)) = view p)
   \<and> (\<forall>v p. tv_open (view p) = None \<longrightarrow> view (snd (mg_Exists D v p)) = view p
        \<and> (\<forall>x. fst (mg_Exists D v p) = Inr x \<longrightarrow> (x \<longleftrightarrow> v \<in> set (tv_versions (view p)))))
   \<and> (\<forall>p. tv_open (view p) = None \<longrightarrow> view (snd (mg_Begin D p)) =
        (if fst (mg_Begin D p) = Inr () then (view p)\<lparr>tv_open := Some ([], [])\<rparr> else view p))
   \<and> (\<forall>s p vs ss. tv_open (view p) = Some (vs, ss) \<longrightarrow>
        committed (view (snd (mg_Exec D s p))) = committed (view p)
        \<and> (fst (mg_Exec D s p) = Inr () \<longrightarrow> tv_open (view (snd (mg_Exec D s p))) = Some (vs, ss @ [s])))
   \<and> (\<forall>v p vs ss. tv_open (view p) = Some (vs, ss) \<longrightarrow>
        committed (view (snd (mg_Record D v p))) = committed (view p)
        \<and> (fst (mg_Record D v p) = Inr () \<longrightarrow> tv_open (view (snd (mg_Record D v p))) = Some (vs @ [v], ss)))
   \<and> (\<forall>p vs ss. tv_open (view p) = Some (vs, ss) \<longrightarrow>
        tv_open (view (snd (mg_Commit D p))) = None
        \<and> (committed (view (snd (mg_Commit D p))) = (tv_versions (view p) @ vs, tv_scripts (view p) @ ss)
           \<or> fst (mg_Commit D p) \<noteq> Inr () \<and> committed (view (snd (mg_Commit D p))) = committed (view p)))
   \<and> (\<forall>p. committed (view (snd (mg_Rollback D p))) = committed (view p) \<and> tv_open (view (snd (mg_Rollback D p))) = None)"

section \<open>Every script runs exactly once\<close>

text \<open>Outside a transaction, every recorded version has had its script run once, and nothing else has run.\<close>

definition migrated_ok :: "(string \<Rightarrow> string) \<Rightarrow> tx_view \<Rightarrow> bool" where
  "migrated_ok script v \<longleftrightarrow>
     tv_open v = None \<and> distinct (tv_versions v) \<and> tv_scripts v = map script (tv_versions v)"

definition grown :: "tx_view \<Rightarrow> tx_view \<Rightarrow> bool" where
  "grown v v' \<longleftrightarrow> (\<exists>more. tv_versions v' = tv_versions v @ more)"

lemma view_eq: "committed v = committed u \<Longrightarrow> tv_open v = tv_open u \<Longrightarrow> v = (u :: tx_view)"
  by (cases v, cases u) (simp add: committed_def)


lemma tx_laws:
  assumes "transactional D view"
  shows "tv_open (view p) = None \<Longrightarrow> mg_Ensure D p = (r, p') \<Longrightarrow> view p' = view p"
    and "tv_open (view p) = None \<Longrightarrow> mg_Exists D v p = (x, p') \<Longrightarrow>
      view p' = view p \<and> (\<forall>b. x = Inr b \<longrightarrow> (b \<longleftrightarrow> v \<in> set (tv_versions (view p))))"
    and "tv_open (view p) = None \<Longrightarrow> mg_Begin D p = (r, p') \<Longrightarrow>
      view p' = (if r = Inr () then (view p)\<lparr>tv_open := Some ([], [])\<rparr> else view p)"
    and "tv_open (view p) = Some (vs, ss) \<Longrightarrow> mg_Exec D s p = (r, p') \<Longrightarrow>
      committed (view p') = committed (view p) \<and> (r = Inr () \<longrightarrow> tv_open (view p') = Some (vs, ss @ [s]))"
    and "tv_open (view p) = Some (vs, ss) \<Longrightarrow> mg_Record D v p = (r, p') \<Longrightarrow>
      committed (view p') = committed (view p) \<and> (r = Inr () \<longrightarrow> tv_open (view p') = Some (vs @ [v], ss))"
    and "tv_open (view p) = Some (vs, ss) \<Longrightarrow> mg_Commit D p = (r, p') \<Longrightarrow>
      tv_open (view p') = None \<and> (committed (view p') = (tv_versions (view p) @ vs, tv_scripts (view p) @ ss)
        \<or> r \<noteq> Inr () \<and> committed (view p') = committed (view p))"
    and "committed (view (snd (mg_Rollback D p))) = committed (view p) \<and> tv_open (view (snd (mg_Rollback D p))) = None"
  using assms unfolding transactional_def by (metis fst_conv snd_conv)+

lemma tx_statement:
  assumes T: "transactional D view"
    and law: "\<And>s q. f p = (s, q) \<Longrightarrow> committed (view q) = committed (view p) \<and> (s = Inr () \<longrightarrow> tv_open (view q) = Some ahead)"
    and run: "orRollback D (wrapErr msg f) p = (r, p')"
  shows "committed (view p') = committed (view p) \<and> tv_open (view p') = (if r = Inr () then Some ahead else None)"
proof -
  obtain s q where q: "f p = (s, q)" by fastforce
  show ?thesis
    using run q law [OF q] tx_laws(7) [OF T, of q] by (cases s) (auto simp: orRollback_def wrapErr_def)
qed

text \<open>One transaction adds the script and its version together, or nothing.\<close>

definition transaction :: "'p migration_db \<Rightarrow> string \<Rightarrow> string \<Rightarrow> string \<Rightarrow> string \<Rightarrow> ('p, unit) prog" where
  "transaction D m1 m2 version body =
     andThen (mg_Begin D) (\<lambda>_.
     andThen (orRollback D (wrapErr m1 (mg_Exec D body))) (\<lambda>_.
     andThen (orRollback D (wrapErr m2 (mg_Record D version))) (\<lambda>_.
     mg_Commit D)))"

lemma transaction_atomic:
  assumes T: "transactional D view" and idle: "tv_open (view p) = None"
    and run: "transaction D m1 m2 version body p = (r, p')"
  shows "tv_open (view p') = None \<and> (committed (view p') = (tv_versions (view p) @ [version], tv_scripts (view p) @ [body])
    \<or> r \<noteq> Inr () \<and> committed (view p') = committed (view p))"
proof -
  obtain y p2 where y: "mg_Begin D p = (y, p2)" by fastforce
  note p2 = tx_laws(3) [OF T idle y]
  obtain z p3 where z: "orRollback D (wrapErr m1 (mg_Exec D body)) p2 = (z, p3)" by fastforce
  obtain t p4 where t: "orRollback D (wrapErr m2 (mg_Record D version)) p3 = (t, p4)" by fastforce
  show ?thesis
  proof (cases "y = Inr ()")
    case False
    then show ?thesis using run y p2 idle by (cases y) (auto simp: transaction_def andThen_def)
  next
    case [simp]: True
    have o2: "tv_open (view p2) = Some ([], [])" "committed (view p2) = committed (view p)" using p2 by (simp_all add: committed_def)
    note p3 = tx_statement [OF T tx_laws(4) [OF T o2(1)] z]
    show ?thesis
    proof (cases "z = Inr ()")
      case False
      then show ?thesis using run y z p3 o2 by (cases z) (auto simp: transaction_def andThen_def)
    next
      case [simp]: True
      have o3: "tv_open (view p3) = Some ([], [] @ [body])" using p3 by simp
      note p4 = tx_statement [OF T tx_laws(5) [OF T o3] t]
      show ?thesis
      proof (cases "t = Inr ()")
        case False
        then show ?thesis using run y z t p3 p4 o2 by (cases t) (auto simp: transaction_def andThen_def)
      next
        case [simp]: True
        have "mg_Commit D p4 = (r, p')" using run y z t by (simp add: transaction_def andThen_def)
        moreover have "tv_open (view p4) = Some ([] @ [version], [] @ [body])" using p4 by simp
        ultimately show ?thesis using tx_laws(6) [OF T, of p4 "[version]" "[body]" r p'] p3 p4 o2 by (auto simp: committed_def)
      qed
    qed
  qed
qed

lemma unchanged_ok:
  assumes "migrated_ok script v" "committed u = committed v" "tv_open u = None"
  shows "migrated_ok script u \<and> grown v u"
  using assms by (auto simp: migrated_ok_def grown_def committed_def)

lemma apply_migration_ok:
  assumes T: "transactional D view" and ok: "migrated_ok script (view p)"
    and files: "\<And>b. readFile (dir @ ''/'' @ version) = Inr b \<Longrightarrow> b = script version"
    and run: "apply_migration D readFile dir version p = (r, p')"
  shows "migrated_ok script (view p') \<and> grown (view p) (view p') \<and> (r = Inr () \<longrightarrow> version \<in> set (tv_versions (view p')))"
proof -
  have idle: "tv_open (view p) = None" using ok by (simp add: migrated_ok_def)
  have same: ?thesis if "view p' = view p" "r = Inr () \<Longrightarrow> version \<in> set (tv_versions (view p))"
    using that ok by (simp add: grown_def)
  obtain x p1 where x: "mg_Exists D version p = (x, p1)" by fastforce
  from tx_laws(2) [OF T idle x] have p1: "view p1 = view p" and there: "\<And>b. x = Inr b \<Longrightarrow> b \<longleftrightarrow> version \<in> set (tv_versions (view p))"
    by auto
  show ?thesis
  proof (cases "x = Inr False \<and> (\<exists>body. readFile (dir @ ''/'' @ version) = Inr body)")
    case False
    then show ?thesis using run x p1 there
      by (intro same; cases x; cases "readFile (dir @ ''/'' @ version)")
        (auto simp: apply_migration_def andThen_def wrapErr_def split: if_split_asm)
  next
    case True
    then obtain body where body: "readFile (dir @ ''/'' @ version) = Inr body" and new: "version \<notin> set (tv_versions (view p))"
      using there by auto
    have "transaction D (''apply migration '' @ version @ '': '') (''record migration '' @ version @ '': '') version body p1 = (r, p')"
      using run x True body by (simp add: apply_migration_def transaction_def andThen_def [of "wrapErr _ _"] wrapErr_def [of _ "mg_Exists D version"])
    from transaction_atomic [OF T _ this] have "tv_open (view p') = None"
      "committed (view p') = (tv_versions (view p) @ [version], tv_scripts (view p) @ [body]) \<or> r \<noteq> Inr () \<and> committed (view p') = committed (view p)"
      using p1 idle by auto
    then show ?thesis using ok new unchanged_ok [OF ok] files [OF body] by (auto simp: migrated_ok_def grown_def committed_def)
  qed
qed

lemma grown_trans: "grown u v \<Longrightarrow> grown v w \<Longrightarrow> grown u w"
  unfolding grown_def by fastforce

lemma grown_set: "grown u v \<Longrightarrow> set (tv_versions u) \<subseteq> set (tv_versions v)"
  by (auto simp: grown_def)

lemma apply_migrations_ok:
  assumes T: "transactional D view" and files: "\<And>v b. readFile (dir @ ''/'' @ v) = Inr b \<Longrightarrow> b = script v"
  shows "migrated_ok script (view p) \<Longrightarrow> forEach (apply_migration D readFile dir) vs p = (r, p') \<Longrightarrow>
    migrated_ok script (view p') \<and> grown (view p) (view p') \<and> (r = Inr () \<longrightarrow> set vs \<subseteq> set (tv_versions (view p')))"
proof (induction vs arbitrary: p)
  case Nil
  then show ?case by (simp add: grown_def)
next
  case (Cons v vs)
  obtain s q where q: "apply_migration D readFile dir v p = (s, q)" by fastforce
  note one = apply_migration_ok [OF T Cons.prems(1) files q]
  show ?case
  proof (cases s)
    case (Inl e)
    then show ?thesis using Cons.prems(2) q one by (auto simp: andThen_def)
  next
    case (Inr u)
    then have "forEach (apply_migration D readFile dir) vs q = (r, p')" using Cons.prems(2) q by (simp add: andThen_def)
    from Cons.IH [OF _ this] one Inr show ?thesis using grown_set [of "view q" "view p'"] by (auto intro: grown_trans)
  qed
qed

lemma Migrate_runs_once:
  assumes "transactional D view" and "migrated_ok script (view p)"
    and "\<And>v b. readFile (dir @ ''/'' @ v) = Inr b \<Longrightarrow> b = script v"
    and run: "Migrate D readDir readFile dir p = (r, p')"
  shows "migrated_ok script (view p') \<and> grown (view p) (view p')
    \<and> (r = Inr () \<longrightarrow> (\<exists>entries. readDir dir = Inr entries \<and> set (sql_files entries) \<subseteq> set (tv_versions (view p'))))"
proof -
  obtain s q where q: "mg_Ensure D p = (s, q)" by fastforce
  have "view q = view p" using tx_laws(1) [OF assms(1) _ q] assms(2) by (simp add: migrated_ok_def)
  then have q_ok: "migrated_ok script (view q) \<and> grown (view p) (view q)" "grown (view p) = grown (view q)"
    using assms(2) by (simp_all add: grown_def)
  show ?thesis
  proof (cases "s = Inr () \<and> (\<exists>entries. readDir dir = Inr entries)")
    case False
    then show ?thesis using run q q_ok
      by (cases s; cases "readDir dir") (auto simp: Migrate_def andThen_def wrapErr_def)
  next
    case True
    then obtain entries where "readDir dir = Inr entries" "forEach (apply_migration D readFile dir) (sql_files entries) q = (r, p')"
      using run q by (auto simp: Migrate_def andThen_def wrapErr_def)
    then show ?thesis
      using apply_migrations_ok [OF assms(1,3), where p = q and p' = p' and r = r and vs = "sql_files entries"] q_ok by auto
  qed
qed

text \<open>C21. However the connection, the files and the server behave, every script that a recorded version stands for has run
exactly once, completely, and nothing else has: a failure leaves no part of a migration behind, and versions are never
forgotten. When \<open>Migrate\<close> succeeds, every SQL file of the directory is among them.\<close>

theorem Migrate_exactly_once:
  assumes "transactional D view" and "migrated_ok script (view p)"
    and "\<And>v b. readFile (dir @ ''/'' @ v) = Inr b \<Longrightarrow> b = script v"
    and run: "Migrate D readDir readFile dir p = (r, p')"
  shows "migrated_ok script (view p') \<and> grown (view p) (view p')
    \<and> (r = Inr () \<longrightarrow> (\<exists>entries. readDir dir = Inr entries \<and> set (sql_files entries) \<subseteq> set (tv_versions (view p'))))"
  using assms by (rule Migrate_runs_once)

text \<open>A server that answers every statement, and two scripts for it.\<close>

definition tx_server :: "tx_view migration_db" where
  "tx_server = \<lparr>
     mg_Ensure = ret (),
     mg_Exists = (\<lambda>v p. (Inr (v \<in> set (tv_versions p)), p)),
     mg_Begin = (\<lambda>p. (Inr (), p\<lparr>tv_open := Some ([], [])\<rparr>)),
     mg_Exec = (\<lambda>s p. (Inr (), case tv_open p of None \<Rightarrow> p | Some (vs, ss) \<Rightarrow> p\<lparr>tv_open := Some (vs, ss @ [s])\<rparr>)),
     mg_Record = (\<lambda>v p. (Inr (), case tv_open p of None \<Rightarrow> p | Some (vs, ss) \<Rightarrow> p\<lparr>tv_open := Some (vs @ [v], ss)\<rparr>)),
     mg_Commit = (\<lambda>p. (Inr (), case tv_open p of None \<Rightarrow> p
       | Some (vs, ss) \<Rightarrow> \<lparr>tv_versions = tv_versions p @ vs, tv_scripts = tv_scripts p @ ss, tv_open = None\<rparr>)),
     mg_Rollback = (\<lambda>p. (Inr (), p\<lparr>tv_open := None\<rparr>))\<rparr>"

lemma tx_server_transactional: "transactional tx_server id"
  by (auto simp: transactional_def tx_server_def committed_def ret_def)

theorem Migrate_exactly_once_witness:
  "\<exists>p'. Migrate tx_server (\<lambda>_. Inr [(''001_init.sql'', False), (''README'', False), (''002_more.sql'', False)])
      (\<lambda>f. Inr (drop 2 f)) ''m'' \<lparr>tv_versions = [''001_init.sql''], tv_scripts = [''001_init.sql''], tv_open = None\<rparr> = (Inr (), p')
    \<and> migrated_ok id p' \<and> {''001_init.sql'', ''002_more.sql''} \<subseteq> set (tv_versions p')"
proof -
  let ?dir = "\<lambda>_ :: string. Inr [(''001_init.sql'', False), (''README'', False), (''002_more.sql'', False)] :: error + (string \<times> bool) list"
  let ?p = "\<lparr>tv_versions = [''001_init.sql''], tv_scripts = [''001_init.sql''], tv_open = None\<rparr>"
  obtain r p' where run: "Migrate tx_server ?dir (\<lambda>f. Inr (drop 2 f)) ''m'' ?p = (r, p')" by fastforce
  have "fst (Migrate tx_server ?dir (\<lambda>f. Inr (drop 2 f)) ''m'' ?p) = Inr ()" by code_simp
  then have r: "r = Inr ()" using run by simp
  have "sql_files [(''001_init.sql'', False), (''README'', False), (''002_more.sql'', False)] = [''001_init.sql'', ''002_more.sql'']"
    by code_simp
  then show ?thesis
    using Migrate_exactly_once [OF tx_server_transactional, of id ?p "\<lambda>f. Inr (drop 2 f)" "''m''" ?dir r p'] run r
    by (auto simp: migrated_ok_def)
qed

end
