(* ===== verification/Remote.thy ===== *)
theory Remote imports ApiClient begin

text \<open>
  The command-line client over the server of this repository: what the client sends is what the router gets, and what
  the service answers is what the client returns.

  \<open>wire\<close> collects what lies between the two: the address the connection comes from, the JSON decoder and encoder of
  the server, the router's answer to unknown paths, the times at which the limiter reads the clock, and what happens
  on the server while the client waits. The base URL names the server itself, and headers arrive as they were set.
\<close>

record ('r, 'i, 'e) wire =
  wi_remote :: string
  wi_codec :: json_codec
  wi_encode :: "body \<Rightarrow> string"
  wi_fallback :: "http_request \<Rightarrow> response"
  wi_t1 :: time
  wi_t2 :: time
  wi_wait :: "int \<Rightarrow> ('r, 'i, 'e) world \<Rightarrow> ('r, 'i, 'e) world"

definition header_of :: "(string \<times> string) list \<Rightarrow> string \<Rightarrow> string" where
  "header_of hs name = (case map_of hs name of None \<Rightarrow> '''' | Some v \<Rightarrow> v)"

definition server_request :: "string \<Rightarrow> string \<Rightarrow> api_request \<Rightarrow> http_request option" where
  "server_request base remote rq =
     (case cut (CHR ''?'') (drop (length base) (ar_url rq)) of (p, q) \<Rightarrow>
        map_option (\<lambda>path. \<lparr>rq_method = ar_method rq, rq_path = path, rq_header = header_of (ar_headers rq),
          rq_remote = remote, rq_query = query_Get q,
          rq_body = (case ar_body rq of None \<Rightarrow> '''' | Some b \<Rightarrow> b)\<rparr>) (route_path p))"

definition over_http ::
    "('r, 'i, 'e) sys \<Rightarrow> ('r, 'i, 'e) wire \<Rightarrow> string \<Rightarrow> (auth_limiter \<times> ('r, 'i, 'e) world) http_client" where
  "over_http S W base = \<lparr>
     hc_NewRequest = (\<lambda>_ _. None),
     hc_Do = (\<lambda>rq (l, w).
       case server_request base (wi_remote W) rq of
         None \<Rightarrow> (Inr (400, Inr ''400 Bad Request''), (l, w))
       | Some r \<Rightarrow>
           (case Router S (wi_codec W) (wi_fallback W) r (wi_t1 W) (wi_t2 W) l w of (x, l', w') \<Rightarrow>
              (case x of
                 Inl e \<Rightarrow> (Inl (ErrText ''EOF''), (l', w'))
               | Inr (st, b) \<Rightarrow> (Inr (st, Inr (wi_encode W b)), (l', w'))))),
     hc_Now = (\<lambda>(l, w). case sys_now S (w_env w) of (t, e) \<Rightarrow> (t, (l, w\<lparr>w_env := e\<rparr>))),
     hc_After = (\<lambda>n (l, w). (l, wi_wait W n w))\<rparr>"

section \<open>Requests arrive as they were meant\<close>

lemma Split_instances:
  "strings_Split (instances_path @ s) (CHR ''/'') = '''' # ''api'' # ''v1'' # ''instances'' # strings_Split s (CHR ''/'')"
proof -
  have "instances_path @ s =
      '''' @ CHR ''/'' # ''api'' @ CHR ''/'' # ''v1'' @ CHR ''/'' # ''instances'' @ CHR ''/'' # s"
    by (simp add: instances_path_def)
  then show ?thesis by (simp only: strings_Split_append list.set char.inject) (simp add: strings_Split_append)
qed

lemma instances_path_facts:
  "list_all path_keeps instances_path" "CHR ''?'' \<notin> set instances_path" "\<not> public_path (instances_path @ s)"
  by (code_simp, simp_all add: instances_path_def public_path_def)

text \<open>The rest of a path after the instance, and a query: they arrive as they are.\<close>

definition suffix_ok :: "string \<Rightarrow> bool" where
  "suffix_ok s \<longleftrightarrow> list_all path_keeps s \<and> CHR ''?'' \<notin> set s"

definition arrives :: "string \<Rightarrow> string \<Rightarrow> (string \<times> string) list \<Rightarrow> string option \<Rightarrow> string \<Rightarrow> string \<Rightarrow> http_request" where
  "arrives remote m hs b path q =
     \<lparr>rq_method = m, rq_path = path, rq_header = header_of hs, rq_remote = remote, rq_query = query_Get q,
      rq_body = (case b of None \<Rightarrow> '''' | Some t \<Rightarrow> t)\<rparr>"

lemma target_arrives:
  assumes "route_path p = Some path" "CHR ''?'' \<notin> set p" "q = '''' \<or> (\<exists>t. q = CHR ''?'' # t)"
  shows "server_request base remote \<lparr>ar_method = m, ar_url = base @ p @ q, ar_headers = hs, ar_body = b\<rparr> =
    Some (arrives remote m hs b path (drop 1 q))"
  using assms by (auto simp: server_request_def arrives_def cut_at cut_none)

lemma segment_target:
  assumes "plain_segment idp" "suffix_ok rest"
  shows "route_path (instances_path @ url_PathEscape idp @ rest) = Some (instances_path @ idp @ rest)"
    "CHR ''?'' \<notin> set (instances_path @ url_PathEscape idp @ rest)"
  using assms instances_path_facts escaped_no_query by (auto simp: route_path_segment suffix_ok_def)

lemma count_query_form: "count_query name n = '''' \<or> (\<exists>t. count_query name n = CHR ''?'' # t)"
  by (simp add: count_query_def)

lemma plain_no_slash: "plain_segment s \<Longrightarrow> CHR ''/'' \<notin> set s" "plain_segment s \<Longrightarrow> s \<noteq> ''''"
  by (simp_all add: plain_segment_def)

lemma route_segments:
  assumes "plain_segment idp"
  shows "route_of (arrives remote m hs b (instances_path @ idp @ rest) q) =
    (case strings_Split (idp @ rest) (CHR ''/'') of x # xs \<Rightarrow>
       if xs = [] \<and> x = '''' then (if m = ''GET'' then Some RList else if m = ''POST'' then Some RCreate else None)
       else instance_route m x xs)"
proof -
  obtain x xs where "strings_Split (idp @ rest) (CHR ''/'') = x # xs"
    by (metis strings_Split_nonempty list.exhaust)
  then show ?thesis
    by (auto simp: route_of_def arrives_def Let_def Split_instances instances_path_facts(3) simp del: strings_Split.simps)
qed

lemma split_after: "plain_segment idp \<Longrightarrow> strings_Split (idp @ CHR ''/'' # rest) (CHR ''/'') = idp # strings_Split rest (CHR ''/'')"
  by (simp add: strings_Split_append plain_segment_def)

lemma split_alone: "plain_segment idp \<Longrightarrow> strings_Split idp (CHR ''/'') = [idp]"
  by (simp add: strings_Split_single plain_segment_def)

section \<open>Every call reaches its route\<close>

text \<open>A transport that records the requests, and the route a request is sent to.\<close>

definition probe :: "api_request list http_client" where
  "probe = \<lparr>hc_NewRequest = (\<lambda>_ _. None), hc_Do = (\<lambda>rq s. (Inr (204, Inr ''''), s @ [rq])),
     hc_Now = (\<lambda>s. (0, s)), hc_After = (\<lambda>_ s. s)\<rparr>"

definition requests :: "(api_request list, 'a) prog \<Rightarrow> api_request list" where
  "requests f = snd (f [])"

definition routed :: "api_client \<Rightarrow> api_request \<Rightarrow> route option" where
  "routed c rq = Option.bind (server_request (ac_base c) '''' rq) route_of"

definition asked :: "api_client \<Rightarrow> string \<Rightarrow> int \<Rightarrow> api_request \<Rightarrow> int option" where
  "asked c name dflt rq = map_option (\<lambda>r. query_int r name dflt) (server_request (ac_base c) '''' rq)"

lemma requests_do:
  assumes "\<And>e. body \<noteq> Some (Inl e)"
  shows "\<exists>hs b. requests (api_do probe J c m path body decode auth) =
    [\<lparr>ar_method = m, ar_url = ac_base c @ path, ar_headers = hs, ar_body = b\<rparr>]"
proof -
  consider "body = None" | b where "body = Some (Inr b)"
    using assms by (metis option.exhaust sum.exhaust)
  then show ?thesis
    by cases (simp_all add: requests_def api_do_def probe_def andThen_def ret_def throw_def split: sum.split)
qed

lemma requests_andThen_ret: "requests (andThen f (\<lambda>x. ret (g x))) = requests f"
  by (simp add: requests_def andThen_def ret_def split: prod.split sum.split)

text \<open>The route of a request on a path with an optional query.\<close>

definition goes_to :: "string \<Rightarrow> string \<Rightarrow> route \<Rightarrow> bool" where
  "goes_to m p rt \<longleftrightarrow>
     (\<exists>path. route_path p = Some path \<and> CHR ''?'' \<notin> set p \<and>
        (\<forall>remote hs b q. route_of (arrives remote m hs b path q) = Some rt))"

lemma routed_do:
  assumes "goes_to m p rt" "q = '''' \<or> (\<exists>t. q = CHR ''?'' # t)" "\<And>e. body \<noteq> Some (Inl e)"
  shows "map (routed c) (requests (api_do probe J c m (p @ q) body decode auth)) = [Some rt]"
proof -
  obtain path where path: "route_path p = Some path" "CHR ''?'' \<notin> set p"
    "route_of (arrives remote m hs b path q) = Some rt" for remote hs b q
    using assms(1) unfolding goes_to_def by blast
  obtain hs b where "requests (api_do probe J c m (p @ q) body decode auth) =
      [\<lparr>ar_method = m, ar_url = ac_base c @ p @ q, ar_headers = hs, ar_body = b\<rparr>]"
    using requests_do [OF assms(3), of J c m "p @ q" decode auth] by auto
  then show ?thesis using target_arrives [OF path(1,2) assms(2)] path(3) by (simp add: routed_def)
qed

lemmas routed_plain = routed_do [where q = "''''", simplified]

lemma goes_to_plain:
  assumes "\<And>remote hs b q. route_of (arrives remote m hs b p q) = Some rt" "suffix_ok p"
  shows "goes_to m p rt"
  using assms unfolding goes_to_def suffix_ok_def by (blast intro: route_path_plain)

lemma goes_to_instance:
  assumes "plain_segment idp" "suffix_ok rest"
    "\<And>remote hs b q. route_of (arrives remote m hs b (instances_path @ idp @ rest) q) = Some rt"
  shows "goes_to m (instances_path @ url_PathEscape idp @ rest) rt"
  using segment_target [OF assms(1,2)] assms(3) unfolding goes_to_def by blast

lemma goes_to_one:
  assumes "plain_segment idp" "instance_route m idp [] = Some rt"
  shows "goes_to m (instances_path @ url_PathEscape idp) rt"
  using goes_to_instance [of idp "''''"] assms route_segments [OF assms(1), of _ m _ _ "''''"]
  by (simp add: suffix_ok_def split_alone plain_no_slash del: strings_Split.simps)

lemma goes_to_under:
  assumes "plain_segment idp" "suffix_ok (CHR ''/'' # rest)" "CHR ''/'' \<notin> set rest" "instance_route m idp [rest] = Some rt"
  shows "goes_to m (instances_path @ url_PathEscape idp @ CHR ''/'' # rest) rt"
  using assms goes_to_instance [of idp "CHR ''/'' # rest"] route_segments [OF assms(1), of _ m _ _ "CHR ''/'' # rest"]
  by (simp add: split_after strings_Split_single del: strings_Split.simps)

lemma goes_to_port:
  assumes "plain_segment idp" "plain_segment portp"
  shows "goes_to ''PATCH'' (instances_path @ url_PathEscape idp @ ''/ports/'' @ url_PathEscape portp) (RUpdatePort idp portp)"
proof -
  have plain: "CHR ''%'' \<notin> set ''/ports/''" "list_all path_keeps ''/ports/''" by code_simp+
  have "url_unescape (instances_path @ url_PathEscape idp @ ''/ports/'' @ url_PathEscape portp) =
      Some (instances_path @ idp @ ''/ports/'' @ portp)"
    using unescape_plain [OF kept_not_percent [OF instances_path_facts(1)]] unescape_plain [OF plain(1)]
      unescape_escape [where keeps = segment_keeps and s = portp and t = "[]"]
    by (simp add: url_PathEscape_def unescape_escape percent_not_kept del: append.simps)
  then have "route_path (instances_path @ url_PathEscape idp @ ''/ports/'' @ url_PathEscape portp) =
      Some (instances_path @ idp @ ''/ports/'' @ portp)"
    using assms escape_kept [OF plain(2)] escape_kept [OF instances_path_facts(1)]
    by (simp add: route_path_def escape_append escape_plain_segment del: append.simps)
  moreover have "CHR ''?'' \<notin> set (instances_path @ url_PathEscape idp @ ''/ports/'' @ url_PathEscape portp)"
    using instances_path_facts escaped_no_query by auto
  moreover have "strings_Split (idp @ ''/ports/'' @ portp) (CHR ''/'') = [idp, ''ports'', portp]"
    using split_after [OF assms(1), of "''ports/'' @ portp"] strings_Split_append [of "CHR ''/''" "''ports''" portp]
      split_alone [OF assms(2)] by simp
  moreover have "portp \<noteq> ''''" using assms(2) by (rule plain_no_slash)
  ultimately show ?thesis
    using assms(1) unfolding goes_to_def
    by (auto simp: route_segments instance_route_def simp del: append.simps strings_Split.simps)
qed


text \<open>The single paths.\<close>

lemma goes_to_fixed:
  "goes_to ''GET'' ''/healthz'' RHealth" "goes_to ''GET'' ''/api/v1/hoststats'' RHostStats"
  "goes_to ''GET'' ''/api/v1/metrics'' RAllMetrics" "goes_to ''GET'' instances_path RList"
  "goes_to ''POST'' instances_path RCreate"
  by (rule goes_to_plain, simp add: route_of_def arrives_def public_path_def instances_path_def Let_def, code_simp)+

lemma suffixes:
  "suffix_ok ''/resources''" "suffix_ok ''/usage''" "suffix_ok ''/metrics''" "suffix_ok ''/start''" "suffix_ok ''/stop''"
  "suffix_ok ''/restart''" "suffix_ok ''/repair''" "suffix_ok ''/reset-password''"
  by code_simp+

lemma asked_do:
  assumes "goes_to m p rt" "0 < n" "n < 2 ^ 63" "list_all unreserved name" "name \<noteq> ''''"
  shows "map (asked c name dflt) (requests (api_do probe J c m (p @ count_query name n) None decode auth)) = [Some n]"
proof -
  obtain path where path: "route_path p = Some path" "CHR ''?'' \<notin> set p"
    using assms(1) unfolding goes_to_def by blast
  obtain hs b where rq: "requests (api_do probe J c m (p @ count_query name n) None decode auth) =
      [\<lparr>ar_method = m, ar_url = ac_base c @ p @ count_query name n, ar_headers = hs, ar_body = b\<rparr>]"
    using requests_do [of None J c m "p @ count_query name n" decode auth] by auto
  have n: "itoa n = nat_str (nat n)" using assms(2) by (simp add: itoa_def)
  have "query_Get (name @ CHR ''='' # nat_str (nat n)) name = nat_str (nat n)"
    by (rule query_Get_number) (use assms(4,5) nat_str_digits in auto)
  moreover have "Atoi (nat_str (nat n)) = Some n"
  proof -
    have "hd (nat_str (nat n)) \<notin> {CHR ''-'', CHR ''+''}"
      using nat_str_digits [of "nat n"] by (cases "nat_str (nat n)") (auto simp: is_digit_def)
    then show ?thesis
      using assms(2,3) hd_nat_str [of "nat n"] by (simp add: Atoi_def decimal_def Let_def nat_str_digits str_nat_nat_str)
  qed
  moreover have "drop 1 (count_query name n) = name @ CHR ''='' # nat_str (nat n)"
    using assms(2) n by (simp add: count_query_def)
  moreover have "server_request (ac_base c) '''' \<lparr>ar_method = m, ar_url = ac_base c @ p @ count_query name n,
      ar_headers = hs, ar_body = b\<rparr> = Some (arrives '''' m hs b path (drop 1 (count_query name n)))"
    by (rule target_arrives [OF path count_query_form])
  ultimately show ?thesis
    by (simp add: rq asked_def query_int_def arrives_def Let_def)
qed


lemma routed_instance:
  assumes "plain_segment idp"
  shows "goes_to ''GET'' (instances_path @ url_PathEscape idp) (RGet idp)"
    "goes_to ''DELETE'' (instances_path @ url_PathEscape idp) (RDelete idp)"
    "goes_to ''GET'' (instances_path @ url_PathEscape idp @ ''/resources'') (RResources idp)"
    "goes_to ''GET'' (instances_path @ url_PathEscape idp @ ''/usage'') (RUsage idp)"
    "goes_to ''GET'' (instances_path @ url_PathEscape idp @ ''/metrics'') (RMetrics idp)"
    "goes_to ''POST'' (instances_path @ url_PathEscape idp @ ''/start'') (RStart idp)"
    "goes_to ''POST'' (instances_path @ url_PathEscape idp @ ''/stop'') (RStop idp)"
    "goes_to ''POST'' (instances_path @ url_PathEscape idp @ ''/restart'') (RRestart idp)"
    "goes_to ''POST'' (instances_path @ url_PathEscape idp @ ''/repair'') (RRepair idp)"
    "goes_to ''POST'' (instances_path @ url_PathEscape idp @ ''/reset-password'') (RResetPassword idp)"
  by (rule goes_to_one goes_to_under, rule assms, (rule suffixes)?, simp_all add: instance_route_def)+

lemmas call_defs = api_Health_def api_ListInstances_def api_GetHostStats_def api_CreateInstance_def api_GetInstance_def
  api_GetInstanceResources_def api_GetInstanceUsage_def api_GetMetrics_def api_DeleteInstance_def
  api_StartInstance_def api_StopInstance_def api_RestartInstance_def api_RepairInstance_def api_action_def
  api_ResetPassword_def api_UpdatePort_def


text \<open>C19. Whatever instance the user names (short of the separators \<open>/\<close>, \<open>;\<close> and \<open>,\<close>), each call of the client sends
one request, the server routes it to the handler of that very operation, and the handler sees the name or id as it
was typed; the number of days or hours asked for is the one read.\<close>

theorem client_requests_routed:
  assumes name: "plain_segment idp" "strings_TrimSpace idp \<noteq> ''''" and port: "plain_segment portp"
    and days: "0 < n" "n < 2 ^ 63"
    and encodes: "aj_create J req = Inr b1" "aj_reset J rp = Inr b2" "aj_update_port J up = Inr b3"
  shows "map (routed c) (requests (api_Health probe J c)) = [Some RHealth]
    \<and> map (routed c) (requests (api_ListInstances probe J c)) = [Some RList]
    \<and> map (routed c) (requests (api_GetHostStats probe J c)) = [Some RHostStats]
    \<and> map (routed c) (requests (api_CreateInstance probe J c req)) = [Some RCreate]
    \<and> map (routed c) (requests (api_GetInstance probe J c idp)) = [Some (RGet idp)]
    \<and> map (routed c) (requests (api_GetInstanceResources probe J c idp)) = [Some (RResources idp)]
    \<and> map (routed c) (requests (api_GetInstanceUsage probe J c idp n)) = [Some (RUsage idp)]
    \<and> map (asked c ''days'' 30) (requests (api_GetInstanceUsage probe J c idp n)) = [Some n]
    \<and> map (routed c) (requests (api_GetMetrics probe J c idp n)) = [Some (RMetrics idp)]
    \<and> map (routed c) (requests (api_GetMetrics probe J c '''' n)) = [Some RAllMetrics]
    \<and> map (asked c ''hours'' 24) (requests (api_GetMetrics probe J c idp n)) = [Some n]
    \<and> map (routed c) (requests (api_DeleteInstance probe J c idp)) = [Some (RDelete idp)]
    \<and> map (routed c) (requests (api_StartInstance probe J c idp)) = [Some (RStart idp)]
    \<and> map (routed c) (requests (api_StopInstance probe J c idp)) = [Some (RStop idp)]
    \<and> map (routed c) (requests (api_RestartInstance probe J c idp)) = [Some (RRestart idp)]
    \<and> map (routed c) (requests (api_RepairInstance probe J c idp)) = [Some (RRepair idp)]
    \<and> map (routed c) (requests (api_ResetPassword probe J c idp rp)) = [Some (RResetPassword idp)]
    \<and> map (routed c) (requests (api_UpdatePort probe J c idp portp up)) = [Some (RUpdatePort idp portp)]"
proof -
  note at = routed_instance [OF name(1)] goes_to_port [OF name(1) port] goes_to_fixed
  note plain = at [THEN routed_plain, where c = c and J = J]
  have counted: "map (routed c) (requests (api_do probe J c m (p @ count_query what n) None decode True)) = [Some rt]"
    if "goes_to m p rt" for m p rt what and decode :: "string \<Rightarrow> error + 'b"
    by (rule routed_do [OF that count_query_form]) simp
  have number: "map (asked c what dflt) (requests (api_do probe J c m (p @ count_query what n) None decode True)) = [Some n]"
    if "goes_to m p rt" "list_all unreserved what" "what \<noteq> ''''" for m p rt what dflt and decode :: "string \<Rightarrow> error + 'b"
    by (rule asked_do [OF that(1) days that(2,3)])
  have names: "list_all unreserved ''days''" "list_all unreserved ''hours''" by code_simp+
  have path: "metrics_path idp = instances_path @ url_PathEscape idp @ ''/metrics''" "metrics_path '''' = ''/api/v1/metrics''"
    using name(2) by (simp add: metrics_path_def, simp add: metrics_path_def strings_TrimSpace_def)
  show ?thesis
    unfolding call_defs requests_andThen_ret encodes path
    by (intro conjI plain counted [OF at(4), unfolded append_assoc] counted [OF at(5)]
        counted [OF goes_to_fixed(3)] number [OF at(4) names(1), unfolded append_assoc]
        number [OF at(5) names(2)]) simp_all
qed


section \<open>A call is the operation of the service\<close>

text \<open>The service's operation behind an action of the client, on the instance the name or id resolves to.\<close>

definition power_operation :: "('r, 'i, 'e) sys \<Rightarrow> string \<Rightarrow> uuid \<Rightarrow> (('r, 'i, 'e) world, inst) prog" where
  "power_operation S action =
     (if action = ''start'' then StartInstance S
      else if action = ''stop'' then StopInstance S
      else if action = ''restart'' then RestartInstance S
      else RepairInstance S)"

text \<open>The JSON of an instance leaves out the internal counter.\<close>

definition wire_inst :: "inst \<Rightarrow> inst" where
  "wire_inst i = i\<lparr>i_counter_snap := 0\<rparr>"

text \<open>The client's decoder reads what the server's encoder wrote for this outcome.\<close>

definition codec_agrees :: "api_json \<Rightarrow> (body \<Rightarrow> string) \<Rightarrow> error + inst \<Rightarrow> bool" where
  "codec_agrees J enc x \<longleftrightarrow>
     (case x of
        Inr i \<Rightarrow> take max_reply (enc (BInstance i)) \<noteq> '''' \<and> aj_instance J (take max_reply (enc (BInstance i))) = Inr (wire_inst i)
      | Inl e \<Rightarrow> error_text e \<noteq> '''' \<and> take max_reply (enc (BError (error_text e))) \<noteq> ''''
          \<and> aj_error J (take max_reply (enc (BError (error_text e)))) = Some (error_text e))"

definition peer_address :: "string \<Rightarrow> string" where
  "peer_address remote = (case SplitHost remote of None \<Rightarrow> remote | Some host \<Rightarrow> host)"

lemma client_headers:
  "header_of (request_headers c wb True) ''Authorization'' = ''Bearer '' @ ac_key c"
  "header_of (request_headers c wb auth) ''X-API-Key'' = ''''"
  "header_of (request_headers c wb auth) ''X-Real-IP'' = ''''"
  "header_of (request_headers c wb auth) ''X-Forwarded-For'' = ''''"
  by (auto simp: header_of_def request_headers_def)

lemma client_identified:
  assumes "strings_TrimSpace (ac_key c) = ac_key c"
  shows "extractAPIKey (arrives remote m (request_headers c wb True) b path q) = ac_key c"
    "clientIP (arrives remote m (request_headers c wb auth) b path q) = peer_address remote"
  using assms by (simp_all add: extractAPIKey_def clientIP_def arrives_def client_headers peer_address_def Let_def
      strings_HasPrefix_def split: option.split)

text \<open>With a key of the configuration and an address that is not blocked, the router runs the handler.\<close>

lemma Router_allows:
  assumes "ValidAPIKey (sys_cfg S) (extractAPIKey r)" "\<not> fst (blocked t1 (clientIP r) l)" "\<not> public_path (rq_path r)"
    "route_of r = Some rt"
  shows "\<exists>l'. Router S J fallback r t1 t2 l w = (case dispatch S J r rt w of (x, w') \<Rightarrow> (x, l', w'))"
  using assms by (simp add: Router_def APIKeyAuth_def Let_def split_beta)

lemma action_answer:
  assumes "action \<in> {''start'', ''stop'', ''restart'', ''repair''}"
    and "andThen (ResolveInstance S idp) (\<lambda>i. power_operation S action (i_id i)) w = (x, w')"
    and "instance_route ''POST'' idp [action] = Some rt"
  shows "dispatch S K r rt w =
    (Inr (case x of Inr i \<Rightarrow> (200, BInstance i) | Inl e \<Rightarrow> (service_status e, BError (error_text e))), w')"
  using assms
  by (auto simp: instance_route_def power_operation_def handleStartInstance_def handleStopInstance_def
      handleRestartInstance_def handleRepairInstance_def with_instance_def respond_def andThen_def
      writeServiceError_def writeError_def split: prod.splits sum.splits)

lemma service_status_is_error: "300 \<le> service_status e \<and> service_status e \<noteq> 204"
  by (simp add: service_status_def)

lemma read_action_reply:
  assumes "codec_agrees J enc x"
  shows "(case (case x of Inr i \<Rightarrow> (200, BInstance i) | Inl e \<Rightarrow> (service_status e, BError (error_text e))) of
      (st, b) \<Rightarrow> read_reply J m path (aj_instance J) st (enc b)) =
    (case x of Inr i \<Rightarrow> Inr (Some (wire_inst i))
     | Inl e \<Rightarrow> Inl (ErrText (''HTTP '' @ nat_str (service_status e) @ '': '' @ error_text e)))"
  using assms service_status_is_error
  by (cases x) (simp_all add: codec_agrees_def read_reply_def Let_def)


text \<open>C10. For a client with a configured key, at an address the limiter does not block, starting, stopping, restarting or
repairing an instance over HTTP is the operation of the service: the world afterwards is the one the service leaves,
the instance it returns is the service's (without the internal counter), and each error of the service is reported
with its status and its text. The client, the escaping, the router, the middleware, the handler and the translation of
errors add nothing and lose nothing.\<close>

theorem remote_action:
  assumes key: "ValidAPIKey (sys_cfg S) (ac_key c)" "strings_TrimSpace (ac_key c) = ac_key c"
    and admitted: "\<not> fst (blocked (wi_t1 W) (peer_address (wi_remote W)) l)"
    and name: "plain_segment idp" and action: "action \<in> {''start'', ''stop'', ''restart'', ''repair''}"
    and service: "andThen (ResolveInstance S idp) (\<lambda>i. power_operation S action (i_id i)) w = (x, w')"
    and codec: "codec_agrees J (wi_encode W) x"
  shows "\<exists>l'. api_action (over_http S W (ac_base c)) J c idp action (l, w) =
    (case x of Inr i \<Rightarrow> Inr (Some (wire_inst i))
     | Inl e \<Rightarrow> Inl (ErrText (''HTTP '' @ nat_str (service_status e) @ '': '' @ error_text e)), (l', w'))"
proof -
  obtain rt where rt: "instance_route ''POST'' idp [action] = Some rt" "suffix_ok (CHR ''/'' # action)" "CHR ''/'' \<notin> set action"
    using action by (elim insertE) (auto simp: instance_route_def suffix_ok_def path_keeps_def unreserved_def)
  define p where "p = instances_path @ url_PathEscape idp @ CHR ''/'' # action"
  define hs where "hs = request_headers c False True"
  define q where "q = arrives (wi_remote W) ''POST'' hs None (instances_path @ idp @ CHR ''/'' # action) ''''"
  have arrive: "server_request (ac_base c) (wi_remote W)
      \<lparr>ar_method = ''POST'', ar_url = ac_base c @ p, ar_headers = hs, ar_body = None\<rparr> = Some q"
    using target_arrives [OF segment_target [OF name rt(2)], of "''''" "ac_base c" "wi_remote W" "''POST''" hs None]
    by (simp add: p_def q_def)
  have routed: "route_of q = Some rt"
    unfolding q_def route_segments [OF name] split_after [OF name] strings_Split_single [OF rt(3)] by (simp add: rt(1))
  have "extractAPIKey q = ac_key c" "clientIP q = peer_address (wi_remote W)"
    unfolding q_def hs_def by (rule client_identified [OF key(2)])+
  moreover have "\<not> public_path (rq_path q)" by (simp add: q_def arrives_def instances_path_facts)
  ultimately obtain l' where "Router S (wi_codec W) (wi_fallback W) q (wi_t1 W) (wi_t2 W) l w =
      (case dispatch S (wi_codec W) q rt w of (x, w') \<Rightarrow> (x, l', w'))"
    using Router_allows [of S q "wi_t1 W" l rt "wi_codec W" "wi_fallback W" "wi_t2 W" w] key(1) admitted routed by auto
  note run = this [unfolded action_answer [OF action service rt(1)], simplified prod.case]
  show ?thesis
    using read_action_reply [OF codec, of "''POST''" p] service_status_is_error
    by (cases x)
      (simp_all add: api_action_def api_do_def over_http_def andThen_def p_def [symmetric] hs_def [symmetric] arrive run
        ret_def throw_def)
qed


text \<open>A client and a server with one key, and a wire that spells every body the same way.\<close>

definition ref_client :: api_client where
  "ref_client = \<lparr>ac_base = ''http://127.0.0.1:9603'', ac_key = ''gic_k''\<rparr>"

definition ref_keyed :: config where
  "ref_keyed = Default\<lparr>c_api_keys := [''gic_k'']\<rparr>"

definition ref_wire :: "(mem_redis, ref_incus, ref_env) wire" where
  "ref_wire = \<lparr>wi_remote = ''10.0.0.7:5000'', wi_codec = ref_codec, wi_encode = (\<lambda>_. ''{}''),
     wi_fallback = (\<lambda>_. (404, NoBody)), wi_t1 = 0, wi_t2 = 0, wi_wait = (\<lambda>_ w. w)\<rparr>"

definition ref_json :: "inst \<Rightarrow> api_json" where
  "ref_json i = \<lparr>aj_create = (\<lambda>_. Inr ''{}''), aj_reset = (\<lambda>_. Inr ''{}''), aj_update_port = (\<lambda>_. Inr ''{}''),
     aj_error = (\<lambda>_. None), aj_health = (\<lambda>_. Inl (ErrText ''EOF'')), aj_instances = (\<lambda>_. Inr [wire_inst i]),
     aj_instance = (\<lambda>_. Inr (wire_inst i)), aj_resources = (\<lambda>_. Inl (ErrText ''EOF'')),
     aj_usage = (\<lambda>_. Inl (ErrText ''EOF'')), aj_metrics = (\<lambda>_. Inl (ErrText ''EOF'')),
     aj_host_stats = (\<lambda>_. Inl (ErrText ''EOF'')), aj_port = (\<lambda>_. Inl (ErrText ''EOF''))\<rparr>"

theorem client_requests_routed_witness:
  "map (routed ref_client) (requests (api_StopInstance probe (ref_json ref_inst) ref_client ''web 1''))
     = [Some (RStop ''web 1'')]
   \<and> map (asked ref_client ''days'' 30) (requests (api_GetInstanceUsage probe (ref_json ref_inst) ref_client ''web 1'' 7))
     = [Some 7]"
proof -
  have names: "plain_segment ''web 1''" "plain_segment ''5''" "strings_TrimSpace ''web 1'' \<noteq> ''''" by code_simp+
  have j: "aj_create (ref_json ref_inst) r = Inr ''{}''" "aj_reset (ref_json ref_inst) rp = Inr ''{}''"
    "aj_update_port (ref_json ref_inst) u = Inr ''{}''" for r rp u
    by (simp_all add: ref_json_def)
  show ?thesis
    using client_requests_routed [OF names(1,3,2) _ _ j, of 7 ref_client] by simp
qed

theorem remote_action_witness:
  "\<exists>i l' w'. api_action (over_http (ref_sys ref_keyed) ref_wire ''http://127.0.0.1:9603'') (ref_json i) ref_client ''web'' ''stop''
      (server_limiter, ref_world one_db) = (Inr (Some (wire_inst i)), (l', w'))"
proof -
  let ?f = "andThen (ResolveInstance (ref_sys ref_keyed) ''web'') (\<lambda>i. power_operation (ref_sys ref_keyed) ''stop'' (i_id i))"
  have "(case fst (?f (ref_world one_db)) of Inr _ \<Rightarrow> True | Inl _ \<Rightarrow> False)" by code_simp
  then obtain i w' where f: "?f (ref_world one_db) = (Inr i, w')"
    by (cases "?f (ref_world one_db)") (auto split: sum.splits)
  have "\<exists>l'. api_action (over_http (ref_sys ref_keyed) ref_wire (ac_base ref_client)) (ref_json i) ref_client ''web'' ''stop''
      (server_limiter, ref_world one_db) =
    (case Inr i of Inr i \<Rightarrow> Inr (Some (wire_inst i))
     | Inl e \<Rightarrow> Inl (ErrText (''HTTP '' @ nat_str (service_status e) @ '': '' @ error_text e)), (l', w'))"
  proof (rule remote_action [OF _ _ _ _ _ f])
    show "ValidAPIKey (sys_cfg (ref_sys ref_keyed)) (ac_key ref_client)"
      by (simp add: ValidAPIKey_iff ref_sys_def ref_keyed_def ref_client_def)
    show "strings_TrimSpace (ac_key ref_client) = ac_key ref_client" by code_simp
    show "\<not> fst (blocked (wi_t1 ref_wire) (peer_address (wi_remote ref_wire)) server_limiter)" by code_simp
    show "plain_segment ''web''" by code_simp
    show "codec_agrees (ref_json i) (wi_encode ref_wire) (Inr i)"
      by (simp add: codec_agrees_def ref_json_def ref_wire_def max_reply_def)
  qed simp
  then show ?thesis by (auto simp: ref_client_def)
qed

end
