(* ===== verification/Devices.thy ===== *)
theory Devices imports Containers begin

text \<open>
  Changes to an existing container and readings from it (\<open>client.go\<close>, second half): proxy devices, limits,
  the disk quota, the counters.

  Each change reads the instance, edits its configuration or devices, and writes it back under the
  entity tag of the reading; the edits are the pure functions the lemmas are about.
\<close>

section \<open>Proxy devices\<close>

definition proxy_config :: "string \<Rightarrow> int \<Rightarrow> int \<Rightarrow> config_map" where
  "proxy_config proto hostPort internalPort =
     [(''type'', ''proxy''), (''listen'', proto @ '':0.0.0.0:'' @ itoa hostPort),
      (''connect'', proto @ '':127.0.0.1:'' @ itoa internalPort), (''bind'', ''host'')]"

text \<open>Read, edit, write: \<open>bad\<close> is what becomes of an error of the three calls.\<close>

definition edit_instance ::
    "'d incus_server \<Rightarrow> string \<Rightarrow> (error \<Rightarrow> error) \<Rightarrow> (incus_instance \<Rightarrow> incus_instance) \<Rightarrow> ('d, unit) prog" where
  "edit_instance V name bad edit =
     andThen (mapErr bad (sv_GetInstance V name)) (\<lambda>(i, etag).
     mapErr bad (and_wait (sv_UpdateInstance V name (edit i) etag)))"

definition add_proxy :: "proxy_spec \<Rightarrow> devices \<Rightarrow> devices" where
  "add_proxy spec devs =
     AList.update (or_else (x_device spec) (''proxy-'' @ itoa (x_host spec)))
       (proxy_config (or_else (x_protocol spec) ''tcp'') (x_host spec) (x_internal spec)) devs"

definition AddProxyDevices :: "'d incus_server \<Rightarrow> string \<Rightarrow> proxy_spec list \<Rightarrow> ('d, unit) prog" where
  "AddProxyDevices V name specs =
     (if specs = [] then ret ()
      else edit_instance V name (\<lambda>e. ErrWrap ''add proxy devices: '' e '''')
        (\<lambda>i. i\<lparr>in_devices := fold add_proxy specs (in_devices i)\<rparr>))"

text \<open>\<open>natErr\<close> is the error of an earlier attempt; no caller has one.\<close>

definition add_proxy_error :: "error option \<Rightarrow> error \<Rightarrow> error" where
  "add_proxy_error natErr e = ErrWrap ''add proxy device: '' e
     (case natErr of None \<Rightarrow> '''' | Some n \<Rightarrow> '' (nat failed: '' @ error_text n @ '')'')"

definition addForkProxyDevice ::
    "'d incus_server \<Rightarrow> string \<Rightarrow> string \<Rightarrow> string \<Rightarrow> int \<Rightarrow> int \<Rightarrow> error option \<Rightarrow> ('d, unit) prog" where
  "addForkProxyDevice V name deviceName protocol hostPort internalPort natErr =
     edit_instance V name (add_proxy_error natErr)
       (\<lambda>i. i\<lparr>in_devices := AList.update deviceName (proxy_config protocol hostPort internalPort) (in_devices i)\<rparr>)"

definition AddProxyDevice ::
    "'d incus_server \<Rightarrow> string \<Rightarrow> string \<Rightarrow> string \<Rightarrow> int \<Rightarrow> int \<Rightarrow> ('d, unit) prog" where
  "AddProxyDevice V name deviceName protocol hostPort internalPort =
     addForkProxyDevice V name deviceName protocol hostPort internalPort None"

definition RemoveProxyDevice :: "'d incus_server \<Rightarrow> string \<Rightarrow> string \<Rightarrow> ('d, unit) prog" where
  "RemoveProxyDevice V name deviceName =
     andThen (wrapErr ''get instance: '' (sv_GetInstance V name)) (\<lambda>(i, etag).
     if map_of (in_devices i) deviceName = None then ret ()
     else
     andThen (wrapErr ''remove proxy device: ''
       (sv_UpdateInstance V name (i\<lparr>in_devices := AList.delete deviceName (in_devices i)\<rparr>) etag)) (\<lambda>op. op))"

definition proxy_keys :: "string list" where
  "proxy_keys = [''type'', ''listen'', ''connect'', ''bind'']"

definition reprotocol :: "string \<Rightarrow> int \<Rightarrow> int \<Rightarrow> config_map \<Rightarrow> config_map" where
  "reprotocol proto hostPort internalPort dev =
     overlay (filter (\<lambda>(k, v). k \<notin> set proxy_keys) dev) (proxy_config proto hostPort internalPort)"

definition rename_proxy :: "string \<Rightarrow> string \<Rightarrow> config_map \<Rightarrow> devices \<Rightarrow> devices" where
  "rename_proxy old new_name cfg devs =
     (let new = or_else new_name old; devs = (if new \<noteq> old then AList.delete old devs else devs) in
      AList.update new cfg devs)"

definition UpdateProxyDeviceProtocol ::
    "'d incus_server \<Rightarrow> string \<Rightarrow> string \<Rightarrow> string \<Rightarrow> string \<Rightarrow> int \<Rightarrow> int \<Rightarrow> ('d, unit) prog" where
  "UpdateProxyDeviceProtocol V name oldDevice newDevice protocol hostPort internalPort =
     (let proto = or_else (strings_ToLower (strings_TrimSpace protocol)) ''tcp'' in
      andThen (wrapErr ''update proxy protocol: '' (sv_GetInstance V name)) (\<lambda>(i, etag).
      case map_of (in_devices i) oldDevice of
        None \<Rightarrow> failed (''proxy device '' @ go_quote oldDevice @ '' not found'')
      | Some dev \<Rightarrow>
          let i' = i\<lparr>in_devices := rename_proxy oldDevice newDevice (reprotocol proto hostPort internalPort dev) (in_devices i)\<rparr> in
          andThen (wrapErr ''update proxy protocol: '' (sv_UpdateInstance V name i' etag)) (\<lambda>op. op)))"

section \<open>Limits\<close>

text \<open>The device \<open>eth0\<close> of an instance, or a copy of the one its profiles give, with type and name set.\<close>

definition eth0_of :: "incus_instance \<Rightarrow> config_map" where
  "eth0_of i =
     (let eth0 = (case map_of (in_devices i) ''eth0'' of
                    Some e \<Rightarrow> e
                  | None \<Rightarrow> (case map_of (in_expanded i) ''eth0'' of None \<Rightarrow> [] | Some e \<Rightarrow> overlay e []));
          eth0 = (if get eth0 ''type'' = '''' then AList.update ''type'' ''nic'' eth0 else eth0) in
      if get eth0 ''name'' = '''' then AList.update ''name'' ''eth0'' eth0 else eth0)"

definition limit_config :: "config_map \<Rightarrow> config_map \<Rightarrow> config_map" where
  "limit_config cfg old =
     (let new = overlay cfg old;
          new = (if map_of cfg ''limits.cpu.allowance'' = None then AList.delete ''limits.cpu.allowance'' new else new) in
      AList.update ''raw.lxc'' (MergeDiskIsolationRawLXC (get new ''raw.lxc'')) new)"

definition UpdateResourceLimits ::
    "'d incus_server \<Rightarrow> string \<Rightarrow> rat \<Rightarrow> int \<Rightarrow> int \<Rightarrow> int \<Rightarrow> bool \<Rightarrow> ('d, unit) prog" where
  "UpdateResourceLimits V name cpuCores memoryMB processes bandwidthMbps throttled =
     edit_instance V name (\<lambda>e. e) (\<lambda>i. i\<lparr>
       in_config := limit_config (ResourceConfig cpuCores memoryMB processes) (in_config i),
       in_devices := AList.update ''eth0'' (ApplyNICNetworkPolicy (eth0_of i) bandwidthMbps throttled) (in_devices i)\<rparr>)"

text \<open>Whether the wanted device differs, as the code decides it: keys that were dropped are only looked at for
\<open>limits.max\<close>.\<close>

definition policy_changed :: "config_map \<Rightarrow> config_map \<Rightarrow> bool" where
  "policy_changed eth0 want \<longleftrightarrow>
     list_ex (\<lambda>k. get eth0 k \<noteq> get want k) (map fst want)
   \<or> (map_of eth0 ''limits.max'' \<noteq> None) \<noteq> (get want ''limits.max'' \<noteq> '''')
   \<or> get eth0 ''limits.max'' \<noteq> get want ''limits.max''"

definition ApplyNetworkPolicy :: "'d incus_server \<Rightarrow> string \<Rightarrow> int \<Rightarrow> bool \<Rightarrow> ('d, unit) prog" where
  "ApplyNetworkPolicy V name bandwidthMbps throttled =
     andThen (sv_GetInstance V name) (\<lambda>(i, etag).
     let eth0 = eth0_of i; want = ApplyNICNetworkPolicy eth0 bandwidthMbps throttled in
     if \<not> policy_changed eth0 want then ret ()
     else and_wait (sv_UpdateInstance V name (i\<lparr>in_devices := AList.update ''eth0'' want (in_devices i)\<rparr>) etag))"

definition EnsureDiskIsolation :: "'d incus_server \<Rightarrow> string \<Rightarrow> ('d, unit) prog" where
  "EnsureDiskIsolation V name =
     andThen (sv_GetInstance V name) (\<lambda>(i, etag).
     let old = get (in_config i) ''raw.lxc''; merged = MergeDiskIsolationRawLXC old in
     if strings_TrimSpace old = strings_TrimSpace merged then ret ()
     else and_wait (sv_UpdateInstance V name (i\<lparr>in_config := AList.update ''raw.lxc'' merged (in_config i)\<rparr>) etag))"

definition quota_disk :: "string \<Rightarrow> int \<Rightarrow> devices \<Rightarrow> devices" where
  "quota_disk pool storageGB devs =
     (let root = (case map_of devs ''root'' of
                    Some d \<Rightarrow> d
                  | None \<Rightarrow> [(''type'', ''disk''), (''pool'', pool), (''path'', ''/'')]) in
      AList.update ''root'' (AList.update ''pool'' pool (AList.update ''size'' (itoa storageGB @ ''GiB'') root)) devs)"

definition UpdateStorageQuota :: "'d incus_server \<Rightarrow> string \<Rightarrow> int \<Rightarrow> ('d icl, unit) prog" where
  "UpdateStorageQuota V name storageGB =
     andThen cfg_pool (\<lambda>pool.
     srv (edit_instance V name (\<lambda>e. e) (\<lambda>i. i\<lparr>in_devices := quota_disk pool storageGB (in_devices i)\<rparr>)))"

section \<open>Readings\<close>

definition nonNeg_client :: "int64 \<Rightarrow> int64" where
  "nonNeg_client v = (if sint v < 0 then 0 else v)"

text \<open>The counters of a network interface, and of all but the loopback one.\<close>

definition counters_sum :: "(int64 \<times> int64 \<Rightarrow> int64) \<Rightarrow> (string \<times> (int64 \<times> int64)) list \<Rightarrow> int64" where
  "counters_sum f nets =
     (case map_of nets ''eth0'' of
        Some c \<Rightarrow> f c
      | None \<Rightarrow> sum_list (map (\<lambda>(_, c). f c) (filter (\<lambda>(ifname, _). ifname \<noteq> ''lo'') nets)))"

definition NetworkBytesTotal :: "'d incus_server \<Rightarrow> string \<Rightarrow> ('d, int64) prog" where
  "NetworkBytesTotal V name =
     andThen (sv_GetInstanceState V name) (\<lambda>st.
     ret (case st of None \<Rightarrow> 0 | Some s \<Rightarrow> counters_sum (\<lambda>(rx, tx). rx + tx) (st_network s)))"

definition no_sample :: resource_sample where
  "no_sample = \<lparr>rs_cpu_ns = 0, rs_mem_used = 0, rs_mem_total = 0, rs_disk_used = 0, rs_disk_total = 0, rs_net_total = 0\<rparr>"

definition disk_counters :: "(string \<times> (int64 \<times> int64)) list \<Rightarrow> int64 \<times> int64" where
  "disk_counters disks =
     (case map_of disks ''root'' of
        Some (used, cap) \<Rightarrow> (nonNeg_client used, nonNeg_client cap)
      | None \<Rightarrow> (sum_list (map (\<lambda>(_, used, _). nonNeg_client used) disks), sum_list (map (\<lambda>(_, _, cap). nonNeg_client cap) disks)))"

definition sample_of :: "instance_state \<Rightarrow> resource_sample" where
  "sample_of s = \<lparr>rs_cpu_ns = nonNeg_client (st_cpu s), rs_mem_used = nonNeg_client (st_mem_used s),
     rs_mem_total = nonNeg_client (st_mem_total s), rs_disk_used = fst (disk_counters (st_disk s)),
     rs_disk_total = snd (disk_counters (st_disk s)),
     rs_net_total = counters_sum (\<lambda>(rx, tx). nonNeg_client rx + nonNeg_client tx) (st_network s)\<rparr>"

definition ResourceSample :: "'d incus_server \<Rightarrow> string \<Rightarrow> ('d, resource_sample) prog" where
  "ResourceSample V name =
     andThen (sv_GetInstanceState V name) (\<lambda>st. ret (case st of None \<Rightarrow> no_sample | Some s \<Rightarrow> sample_of s))"

definition DiskUsageBytes :: "'d incus_server \<Rightarrow> string \<Rightarrow> ('d, int64 \<times> int64) prog" where
  "DiskUsageBytes V name = andThen (ResourceSample V name) (\<lambda>s. ret (rs_disk_used s, rs_disk_total s))"

definition StoragePoolSpace :: "'d incus_server \<Rightarrow> ('d icl, pool_space) prog" where
  "StoragePoolSpace V =
     andThen ActiveStoragePool (\<lambda>active.
     let name = or_else active quotaStoragePool in
     andThen (wrapErr (''get storage pool '' @ go_quote name @ '': '') (srv (sv_GetStoragePool V name))) (\<lambda>driver.
     andThen (wrapErr (''storage pool '' @ go_quote name @ '' resources: '') (srv (sv_GetStoragePoolResources V name))) (\<lambda>(total, used).
     ret \<lparr>ps_pool = name, ps_driver = driver, ps_total = total, ps_used = used,
       ps_free = (if used \<le> total then total - used else 0)\<rparr>)))"

section \<open>A daemon that keeps what it is given\<close>

text \<open>
  \<open>stores V \<sigma>\<close>: \<open>\<sigma>\<close> is the local configuration and the local devices of the instances, as the daemon's API
  documents them: reading an instance shows them and changes none, a completed update replaces those of its
  instance, and an update that only started has changed none.
\<close>

type_synonym 'd instance_view = "'d \<Rightarrow> string \<Rightarrow> (config_map \<times> devices) option"

definition stores :: "'d incus_server \<Rightarrow> 'd instance_view \<Rightarrow> bool" where
  "stores V \<sigma> \<longleftrightarrow>
     (\<forall>n d r d'. sv_GetInstance V n d = (r, d') \<longrightarrow> \<sigma> d' = \<sigma> d \<and>
        (\<forall>i etag. r = Inr (i, etag) \<longrightarrow> \<sigma> d n = Some (in_config i, in_devices i)))
   \<and> (\<forall>n i etag d op d1. sv_UpdateInstance V n i etag d = (Inr op, d1) \<longrightarrow> \<sigma> d1 = \<sigma> d \<and>
        (\<forall>d2. op d1 = (Inr (), d2) \<longrightarrow> \<sigma> d2 = (\<sigma> d1)(n \<mapsto> (in_config i, in_devices i))))"

lemma stores_read:
  "stores V \<sigma> \<Longrightarrow> sv_GetInstance V n d = (Inr (i, etag), d') \<Longrightarrow> \<sigma> d' = \<sigma> d \<and> \<sigma> d n = Some (in_config i, in_devices i)"
  unfolding stores_def by blast

lemma stores_write:
  assumes "stores V \<sigma>" "and_wait (sv_UpdateInstance V n i etag) d = (Inr (), d')"
  shows "\<sigma> d' = (\<sigma> d)(n \<mapsto> (in_config i, in_devices i))"
proof -
  obtain op d1 where "sv_UpdateInstance V n i etag d = (Inr op, d1)" "op d1 = (Inr (), d')"
    using assms(2) by (auto simp: and_wait_def andThen_Inr)
  then show ?thesis using assms(1) unfolding stores_def by metis
qed

lemma edit_instance_stores:
  assumes "stores V \<sigma>" "edit_instance V n bad edit d = (Inr (), d')"
  shows "\<exists>i. \<sigma> d n = Some (in_config i, in_devices i) \<and> \<sigma> d' = (\<sigma> d)(n \<mapsto> (in_config (edit i), in_devices (edit i)))"
proof -
  obtain i etag d1 where "sv_GetInstance V n d = (Inr (i, etag), d1)" "and_wait (sv_UpdateInstance V n (edit i) etag) d1 = (Inr (), d')"
    using assms(2) by (auto simp: edit_instance_def andThen_Inr mapErr_Inr)
  then show ?thesis using stores_read [OF assms(1)] stores_write [OF assms(1)] by metis
qed

lemma edit_view:
  assumes "stores V \<sigma>" "edit_instance V n bad (\<lambda>i. i\<lparr>in_devices := f (in_devices i)\<rparr>) d = (Inr (), d')"
  shows "\<exists>cfg devs. \<sigma> d n = Some (cfg, devs) \<and> \<sigma> d' = (\<sigma> d)(n \<mapsto> (cfg, f devs))"
  using edit_instance_stores [OF assms] by auto

lemma rd_stores: "stores rd_server (\<lambda>d n. map_option (\<lambda>i. (in_config i, in_devices i)) (map_of (rd_instances d) n))"
  by (auto simp: stores_def rd_server_def andThen_def asks_def found_or_not_def put_instance_def update_conv'
      throw_def intro!: ext split: option.splits)

section \<open>Proxy devices: what is added can be removed\<close>

lemma delete_update_absent: "map_of al k = None \<Longrightarrow> AList.delete k (AList.update k v al) = al"
  by (induction al) (auto simp: AList.delete_eq split: if_split_asm)

text \<open>Adding a proxy device and removing it again leaves the configuration and the devices of every instance as they
were, when the device's name was free.\<close>

theorem proxy_added_and_removed:
  assumes V: "stores V \<sigma>" and free: "\<sigma> d n = Some (cfg, devs)" "map_of devs dev = None"
    and add: "AddProxyDevice V n dev proto host internal d = (Inr (), d1)"
    and remove: "RemoveProxyDevice V n dev d1 = (Inr (), d2)"
  shows "\<sigma> d1 = (\<sigma> d)(n \<mapsto> (cfg, devs @ [(dev, proxy_config proto host internal)])) \<and> \<sigma> d2 = \<sigma> d"
proof -
  have new: "AList.update dev p devs = devs @ [(dev, p)]" for p
    using free(2) by (induction devs) (auto split: if_split_asm)
  have d1: "\<sigma> d1 = (\<sigma> d)(n \<mapsto> (cfg, devs @ [(dev, proxy_config proto host internal)]))"
    using edit_view [OF V add [unfolded AddProxyDevice_def addForkProxyDevice_def]] free(1) new by auto
  obtain i etag d3 where r: "sv_GetInstance V n d1 = (Inr (i, etag), d3)"
    using remove by (auto simp: RemoveProxyDevice_def andThen_Inr wrapErr_Inr)
  have i: "\<sigma> d3 = \<sigma> d1" "in_config i = cfg" "in_devices i = devs @ [(dev, proxy_config proto host internal)]"
    using stores_read [OF V r] d1 by auto
  then have w: "and_wait (sv_UpdateInstance V n (i\<lparr>in_devices := AList.delete dev (in_devices i)\<rparr>) etag) d3 = (Inr (), d2)"
    using remove r by (auto simp: RemoveProxyDevice_def andThen_Inr wrapErr_Inr and_wait_def split: if_split_asm)
  have "AList.delete dev (in_devices i) = devs"
    using i(3) new [symmetric] delete_update_absent [OF free(2)] by simp
  then have "\<sigma> d2 = (\<sigma> d1)(n \<mapsto> (cfg, devs))" using stores_write [OF V w] i by simp
  also have "\<dots> = \<sigma> d" using d1 free(1) by (simp add: fun_upd_idem)
  finally show ?thesis using d1 by simp
qed

definition rd_one :: ref_daemon where
  "rd_one = rd_fresh\<lparr>rd_instances := [(''goincus-1'', \<lparr>in_status = ''Running'', in_running = True, in_config = [],
     in_devices = [(''eth0'', [(''type'', ''nic''), (''limits.max'', ''100Mbit'')])], in_expanded = []\<rparr>)]\<rparr>"

lemma proxy_added_and_removed_witness:
  "\<exists>d1 d2. AddProxyDevice rd_server ''goincus-1'' ''proxy-20000'' ''tcp'' 20000 20000 rd_one = (Inr (), d1)
    \<and> RemoveProxyDevice rd_server ''goincus-1'' ''proxy-20000'' d1 = (Inr (), d2)
    \<and> map_option in_devices (map_of (rd_instances d2) ''goincus-1'') = map_option in_devices (map_of (rd_instances rd_one) ''goincus-1'')"
proof -
  define d1 where "d1 = snd (AddProxyDevice rd_server ''goincus-1'' ''proxy-20000'' ''tcp'' 20000 20000 rd_one)"
  define d2 where "d2 = snd (RemoveProxyDevice rd_server ''goincus-1'' ''proxy-20000'' d1)"
  have "fst (AddProxyDevice rd_server ''goincus-1'' ''proxy-20000'' ''tcp'' 20000 20000 rd_one) = Inr ()" by code_simp
  then have add: "AddProxyDevice rd_server ''goincus-1'' ''proxy-20000'' ''tcp'' 20000 20000 rd_one = (Inr (), d1)"
    by (simp add: d1_def prod_eq_iff)
  have "fst (RemoveProxyDevice rd_server ''goincus-1'' ''proxy-20000'' d1) = Inr ()" unfolding d1_def by code_simp
  then have remove: "RemoveProxyDevice rd_server ''goincus-1'' ''proxy-20000'' d1 = (Inr (), d2)"
    by (simp add: d2_def prod_eq_iff)
  have "(\<lambda>d n. map_option (\<lambda>i. (in_config i, in_devices i)) (map_of (rd_instances d) n)) d2 =
      (\<lambda>d n. map_option (\<lambda>i. (in_config i, in_devices i)) (map_of (rd_instances d) n)) rd_one"
    using proxy_added_and_removed [OF rd_stores _ _ add remove] by (simp add: rd_one_def)
  then have "map_option (\<lambda>i. (in_config i, in_devices i)) (map_of (rd_instances d2) ''goincus-1'') =
      map_option (\<lambda>i. (in_config i, in_devices i)) (map_of (rd_instances rd_one) ''goincus-1'')" by (rule fun_cong)
  then have "map_option in_devices (map_of (rd_instances d2) ''goincus-1'') = map_option in_devices (map_of (rd_instances rd_one) ''goincus-1'')"
    by (cases "map_of (rd_instances d2) ''goincus-1''"; cases "map_of (rd_instances rd_one) ''goincus-1''") auto
  then show ?thesis using add remove by blast
qed

section \<open>The rate of the network device\<close>

definition rate_limit :: "int \<Rightarrow> bool \<Rightarrow> string" where
  "rate_limit mbps throttled =
     (if throttled then OverQuotaThrottleLimit else if mbps \<le> 0 then '''' else itoa mbps @ ''Mbit'')"

lemma get_policy:
  "get (ApplyNICNetworkPolicy nic mbps t) k =
     (if k = ''limits.max'' then rate_limit mbps t
      else if k = ''limits.ingress'' \<or> k = ''limits.egress'' then '''' else get nic k)"
  by (simp add: ApplyNICNetworkPolicy_def ApplyNICBandwidth_def rate_limit_def Let_def)

lemma unchanged_rate: "\<not> policy_changed eth0 want \<Longrightarrow> get eth0 ''limits.max'' = get want ''limits.max''"
  by (simp add: policy_changed_def)

text \<open>The network device in effect: the instance's own, or else what its profiles give.\<close>

definition effective_eth0 :: "incus_instance \<Rightarrow> devices \<Rightarrow> config_map" where
  "effective_eth0 i devs = (case map_of devs ''eth0'' of Some e \<Rightarrow> e | None \<Rightarrow> eth0_of i)"



text \<open>A limit of one direction that a profile or an older version left on the device is not seen as a change.\<close>

lemma policy_misses_ingress:
  "\<not> policy_changed [(''type'', ''nic''), (''name'', ''eth0''), (''limits.ingress'', ''1Mbit''), (''limits.max'', ''100Mbit'')]
       (ApplyNICNetworkPolicy [(''type'', ''nic''), (''name'', ''eth0''), (''limits.ingress'', ''1Mbit''), (''limits.max'', ''100Mbit'')] 100 False)"
  by code_simp

section \<open>The limits of an instance\<close>

lemma get_limit_config:
  assumes "distinct (map fst cfg)" "map_of cfg ''raw.lxc'' = None"
  shows "get (limit_config cfg old) k =
     (if k = ''raw.lxc'' then MergeDiskIsolationRawLXC (get old ''raw.lxc'')
      else case map_of cfg k of Some v \<Rightarrow> v | None \<Rightarrow> if k = ''limits.cpu.allowance'' then '''' else get old k)"
  using assms by (auto simp: limit_config_def Let_def get_overlay simp del: map_of_eq_None_iff split: option.split)

text \<open>Changing the limits of a confined instance leaves it confined and keeps every mount that hides the host's
disks; the limits are exactly those of the new resources, so a hard quota of fractional cores goes with
them; every other key keeps its value.\<close>

theorem limits_keep_confinement:
  assumes "confined old"
  shows "confined (limit_config (ResourceConfig c m p) old)
    \<and> list_all (\<lambda>(k, v). get (limit_config (ResourceConfig c m p) old) k = v) (ResourceConfig c m p)
    \<and> (map_of (ResourceConfig c m p) ''limits.cpu.allowance'' = None \<longrightarrow>
         get (limit_config (ResourceConfig c m p) old) ''limits.cpu.allowance'' = '''')"
proof -
  have raw: "map_of (ResourceConfig c m p) ''raw.lxc'' = None"
    by (rule hardened_not_limit [of _ diskIsolationRawLXC]) (simp add: HardenedInstanceConfig_def)
  note get = get_limit_config [OF ResourceConfig_distinct raw]
  have "get (limit_config (ResourceConfig c m p) old) k = v" if "(k, v) \<in> set confining_settings" for k v
  proof -
    have "k \<noteq> ''limits.cpu.allowance''" using that by (auto simp: confining_settings_def)
    then show ?thesis
      using that settings_hardened [OF that] hardened_not_limit [of k v c m p] assms
      by (auto simp: get confined_def list_all_iff)
  qed
  then have "confined (limit_config (ResourceConfig c m p) old)"
    using mounts_merged by (auto simp: confined_def list_all_iff get hides_disks_needles)
  moreover have "get (limit_config (ResourceConfig c m p) old) k = v" if "(k, v) \<in> set (ResourceConfig c m p)" for k v
    using that raw by (auto simp: get map_of_is_SomeI ResourceConfig_distinct)
  ultimately show ?thesis by (auto simp: list_all_iff get)
qed

lemma limits_keep_confinement_witness:
  "confined HardenedInstanceConfig
   \<and> get (limit_config (ResourceConfig 2 512 100) (HardenedInstanceConfig @ [(''limits.cpu.allowance'', ''50ms/100ms'')]))
       ''limits.cpu.allowance'' = ''''
   \<and> confined (limit_config (ResourceConfig 2 512 100) (HardenedInstanceConfig @ [(''limits.cpu.allowance'', ''50ms/100ms'')]))"
proof -
  have c: "confined HardenedInstanceConfig" "confined (HardenedInstanceConfig @ [(''limits.cpu.allowance'', ''50ms/100ms'')])"
    using hardened_confined [of "[]"] hardened_confined by simp_all
  have "map_of (ResourceConfig 2 512 100) ''limits.cpu.allowance'' = None" by code_simp
  with limits_keep_confinement [OF c(2), of 2 512 100] c(1) show ?thesis by simp
qed

section \<open>A new protocol keeps the rest of a proxy device\<close>

text \<open>A change of protocol replaces addresses and protocol of a proxy device and keeps its other keys, gives the
device its new name (or keeps the old one when none is given), and touches no other device.\<close>

theorem reprotocol_keeps_rest:
  assumes "distinct (map fst dev)"
  shows "map_of (rename_proxy old new_name (reprotocol proto host internal dev) devs) =
      (if or_else new_name old \<noteq> old then (map_of devs)(old := None) else map_of devs)
        (or_else new_name old \<mapsto> reprotocol proto host internal dev)
    \<and> map_of (reprotocol proto host internal dev) =
      (\<lambda>k. if k \<in> set proxy_keys then map_of (proxy_config proto host internal) k else map_of dev k)"
proof
  show "map_of (rename_proxy old new_name (reprotocol proto host internal dev) devs) =
      (if or_else new_name old \<noteq> old then (map_of devs)(old := None) else map_of devs)
        (or_else new_name old \<mapsto> reprotocol proto host internal dev)"
    by (auto simp: rename_proxy_def Let_def update_conv' delete_conv')
  have other: "map_of (filter (\<lambda>(k, v). k \<notin> set proxy_keys) dev) k = (if k \<in> set proxy_keys then None else map_of dev k)" for k
    by (induction dev) auto
  have d: "distinct (map fst (filter (\<lambda>(k, v). k \<notin> set proxy_keys) dev))"
    using assms by (rule distinct_map_filter)
  have keys: "map_of (proxy_config proto host internal) k = None" if "k \<notin> set proxy_keys" for k
    using that by (simp add: proxy_config_def proxy_keys_def)
  show "map_of (reprotocol proto host internal dev) =
      (\<lambda>k. if k \<in> set proxy_keys then map_of (proxy_config proto host internal) k else map_of dev k)"
    unfolding reprotocol_def map_of_overlay [OF d]
    by (auto simp: map_add_def other keys fun_eq_iff split: option.split)
qed

lemma reprotocol_keeps_rest_witness:
  "map_of (reprotocol ''udp'' 20000 22 [(''type'', ''proxy''), (''listen'', ''tcp:0.0.0.0:20000''), (''nat'', ''true'')]) ''nat'' = Some ''true''"
proof -
  have "distinct (map fst [(''type'', ''proxy''), (''listen'', ''tcp:0.0.0.0:20000''), (''nat'', ''true'')])" by code_simp
  from reprotocol_keeps_rest [OF this, of "''a''" "''a''" "''udp''" 20000 22 "[]"]
  have "map_of (reprotocol ''udp'' 20000 22 [(''type'', ''proxy''), (''listen'', ''tcp:0.0.0.0:20000''), (''nat'', ''true'')]) ''nat'' =
      (if ''nat'' \<in> set proxy_keys then map_of (proxy_config ''udp'' 20000 22) ''nat''
       else map_of [(''type'', ''proxy''), (''listen'', ''tcp:0.0.0.0:20000''), (''nat'', ''true'')] ''nat'')"
    by simp
  then show ?thesis by (simp add: proxy_keys_def)
qed

section \<open>Counters\<close>

lemma sint_nonNeg_client: "sint (nonNeg_client v) = max 0 (sint v)"
  by (simp add: nonNeg_client_def)

lemma sint_add_small:
  fixes a b :: int64
  assumes "0 \<le> sint a" "0 \<le> sint b" "sint a + sint b < 2 ^ 63"
  shows "sint (a + b) = sint a + sint b"
  using assms by (simp add: sint_word_ariths signed_take_bit_int_eq_self)

text \<open>The counters of a sample are never negative, and the traffic is the sum of both directions, as long as that fits
the 64 bits.\<close>

lemma sample_counters:
  assumes "map_of (st_network s) ''eth0'' = Some (rx, tx)" "max 0 (sint rx) + max 0 (sint tx) < 2 ^ 63"
  shows "0 \<le> sint (rs_cpu_ns (sample_of s))" "0 \<le> sint (rs_mem_used (sample_of s))" "0 \<le> sint (rs_mem_total (sample_of s))"
    "sint (rs_net_total (sample_of s)) = max 0 (sint rx) + max 0 (sint tx)"
  using assms by (simp_all add: sample_of_def sint_nonNeg_client counters_sum_def sint_add_small)

text \<open>Above that the sum wraps, to a negative number of bytes.\<close>

lemma sample_wraps:
  "sint (rs_net_total (sample_of \<lparr>st_cpu = 0, st_mem_used = 0, st_mem_total = 0, st_disk = [],
     st_network = [(''eth0'', (2 ^ 62, 2 ^ 62))]\<rparr>)) = - (2 ^ 63)"
  by code_simp

section \<open>What the changes respect\<close>

context daemon
begin

lemma steps_edit_instance [frame_rules]: "steps R (edit_instance V n bad edit)"
  unfolding edit_instance_def by (intro frame_rules)

lemma steps_devices [frame_rules]:
  "steps R (AddProxyDevices V n specs)" "steps R (AddProxyDevice V n dev proto h i)"
  "steps R (UpdateResourceLimits V n c m p b t)" "steps (out_rel R) (UpdateStorageQuota V n gb)"
  unfolding AddProxyDevices_def AddProxyDevice_def addForkProxyDevice_def UpdateResourceLimits_def UpdateStorageQuota_def
  by (intro frame_rules)+

lemma steps_then_wait: "op_respects R f \<Longrightarrow> steps R (andThen (wrapErr pre f) (\<lambda>op. op))"
  by (rule steps_andThen_yields [where P = "steps R"]) (auto simp: op_respects_def intro: frame_rules yield_rules)

lemma update_respects: "op_respects R (sv_UpdateInstance V n i e)" "op_respects R (sv_DeleteInstance V n)"
  "op_respects R (sv_UpdateInstanceState V n a t f)"
  using respects by (simp_all add: daemon_respects_def)

lemma steps_proxy_changes [frame_rules]:
  "steps R (RemoveProxyDevice V n dev)" "steps R (UpdateProxyDeviceProtocol V n old new proto h i)"
  unfolding RemoveProxyDevice_def UpdateProxyDeviceProtocol_def
  by (intro frame_rules steps_then_wait update_respects)+

lemma steps_policy [frame_rules]: "steps R (ApplyNetworkPolicy V n b t)" "steps R (EnsureDiskIsolation V n)"
  unfolding ApplyNetworkPolicy_def EnsureDiskIsolation_def by (intro frame_rules)+

lemma steps_readings [frame_rules]:
  "steps R (NetworkBytesTotal V n)" "steps R (ResourceSample V n)" "steps R (DiskUsageBytes V n)"
  "steps (out_rel R) (StoragePoolSpace V)"
  unfolding NetworkBytesTotal_def ResourceSample_def DiskUsageBytes_def StoragePoolSpace_def ActiveStoragePool_def
  by (intro frame_rules)+

lemma steps_with_log [frame_rules]: "steps R f \<Longrightarrow> steps R (with_log V n pre f)"
  unfolding with_log_def logSuffix_def InstanceLogSnippet_def by (intro frame_rules)

lemma steps_updateState [frame_rules]: "steps R (updateState V n a)"
  unfolding updateState_def
  by (rule steps_andThen_yields [where P = "steps R"])
    (use update_respects in \<open>auto simp: op_respects_def intro: frame_rules yield_rules\<close>)

lemma steps_power [frame_rules]:
  "steps R (StartContainer V n)" "steps R (RestartContainer V n)" "steps R (GetStatus V n)" "steps R (sure (IsRunning V n))"
proof -
  show s: "steps R (StartContainer V n)" "steps R (RestartContainer V n)" "steps R (GetStatus V n)"
    unfolding StartContainer_def RestartContainer_def GetStatus_def by (intro frame_rules)+
  show "steps R (sure (IsRunning V n))"
    using s(3) by (simp add: steps_def sure_def IsRunning_def split_beta)
qed

lemma steps_StopContainer [frame_rules]: "steps R (StopContainer V n f)"
  unfolding StopContainer_def
  by (rule steps_andThen_yields [where P = "steps R"])
    (use update_respects in \<open>auto simp: op_respects_def intro: frame_rules yield_rules\<close>)

lemma steps_DeleteContainer [frame_rules]: "steps R (DeleteContainer V n)"
  unfolding DeleteContainer_def by (intro frame_rules steps_then_wait update_respects)

lemma steps_EnsureStarted [frame_rules]: "steps R (EnsureStarted V n)"
  unfolding EnsureStarted_def by (intro frame_rules)

lemma steps_Ping [frame_rules]: "steps R (Ping V)"
  unfolding Ping_def by (intro frame_rules)

end

end
