(* ===== verification/Guest.thy ===== *)
theory Guest imports Devices begin

text \<open>
  What the client does inside a guest (\<open>ssh.go\<close>, the rest of \<open>network.go\<close> and \<open>netboot.go\<close>): a static address,
  resolvers, an SSH server that listens, the root password.
\<close>

section \<open>Scripts in the guest\<close>

text \<open>\<open>exec\<close>: both outputs, and the error or the exit code; a missing code counts as zero.\<close>

definition guest_exec :: "'d incus_server \<Rightarrow> string \<Rightarrow> string \<Rightarrow> ('d, string \<times> string \<times> (error + int)) prog" where
  "guest_exec V name script =
     andThen (sure (sv_ExecInstance V name script)) (\<lambda>x.
     ret (xo_stdout x, xo_stderr x,
       case xo_result x of Inl e \<Rightarrow> Inl e | Inr None \<Rightarrow> Inr 0 | Inr (Some code) \<Rightarrow> Inr code))"

text \<open>\<open>if err != nil { \<dots> }; if code != 0 { \<dots> }\<close>\<close>

definition run_script ::
    "'d incus_server \<Rightarrow> string \<Rightarrow> string \<Rightarrow> (string \<Rightarrow> string \<Rightarrow> error \<Rightarrow> error) \<Rightarrow>
      (string \<Rightarrow> string \<Rightarrow> int \<Rightarrow> error) \<Rightarrow> ('d, string) prog" where
  "run_script V name script bad exited =
     andThen (guest_exec V name script) (\<lambda>(out, err, r).
     case r of
       Inl e \<Rightarrow> throw (bad out err e)
     | Inr code \<Rightarrow> if code \<noteq> 0 then throw (exited out err code) else ret out)"

definition in_parens :: "string \<Rightarrow> string" where
  "in_parens s = '' ('' @ s @ '')''"

section \<open>Addresses and resolvers\<close>

definition ApplyGuestStaticIPv4 :: "'d incus_server \<Rightarrow> string \<Rightarrow> string \<Rightarrow> string \<Rightarrow> ('d, unit) prog" where
  "ApplyGuestStaticIPv4 V name ip cidr =
     (case parseHostFromCIDR cidr of
        Inl e \<Rightarrow> throw e
      | Inr (gw, bits) \<Rightarrow>
          andThen (run_script V name (static_ipv4_script ip gw bits (ipv4Netmask bits))
            (\<lambda>out err e. ErrWrap ''apply guest ipv4: '' e (in_parens (out @ '' '' @ err)))
            (\<lambda>out err code. ErrText (''apply guest ipv4 exited '' @ itoa code @ in_parens (out @ '' '' @ err)))) (\<lambda>_.
          ret ()))"

definition fixed_ip :: "config_map \<Rightarrow> string" where
  "fixed_ip eth0 = hd (strings_Split (strings_TrimSpace (get eth0 ''ipv4.address'')) (CHR ''/''))"

definition own_eth0 :: "incus_instance \<Rightarrow> config_map" where
  "own_eth0 i =
     (case map_of (in_devices i) ''eth0'' of
        Some e \<Rightarrow> e
      | None \<Rightarrow> (case map_of (in_expanded i) ''eth0'' of None \<Rightarrow> [] | Some e \<Rightarrow> overlay e []))"

text \<open>The update, sent again without port isolation when it is refused.\<close>

definition put_eth0 ::
    "'d incus_server \<Rightarrow> string \<Rightarrow> incus_instance \<Rightarrow> string \<Rightarrow> config_map \<Rightarrow> ('d, unit) prog" where
  "put_eth0 V name i etag eth0 =
     (let send = (\<lambda>e. sv_UpdateInstance V name (i\<lparr>in_devices := AList.update ''eth0'' e (in_devices i)\<rparr>) etag) in
      wrapErr ''set eth0 ipv4.address: ''
        (andThen (attempt (send eth0)) (\<lambda>r.
         case r of
           Inr op \<Rightarrow> op
         | Inl _ \<Rightarrow> and_wait (send (AList.delete ''security.port_isolation'' eth0)))))"

definition EnsureInstanceIPv4 :: "'d incus_server \<Rightarrow> string \<Rightarrow> ('d icl, string) prog" where
  "EnsureInstanceIPv4 V name =
     andThen (EnsureInfrastructure V) (\<lambda>_.
     andThen (NetworkIPv4CIDR V) (\<lambda>cidr.
     andThen (srv (sv_GetInstance V name)) (\<lambda>(i, etag).
     let eth0 = own_eth0 i; ip = fixed_ip eth0; allocate = (ip = '''' \<or> \<not> sv_is_ip V ip) in
     andThen (if allocate then AllocateContainerIPv4 V else ret ip) (\<lambda>ip.
     andThen cfg_network (\<lambda>network.
     let hardened = HardenedNIC network ip;
         update = (map_of (in_devices i) ''eth0'' = None \<or> allocate \<or> list_ex (\<lambda>(k, v). get eth0 k \<noteq> v) hardened) in
     andThen (if update then srv (put_eth0 V name i etag (overlay hardened eth0)) else ret ()) (\<lambda>_.
     andThen (srv (ApplyGuestStaticIPv4 V name ip cidr)) (\<lambda>_.
     ret ip)))))))"

text \<open>The address of the bridge, if the daemon tells it.\<close>

definition bridge_dns :: "'d incus_server \<Rightarrow> ('d icl, string) prog" where
  "bridge_dns V =
     andThen cfg_network (\<lambda>netName.
     if netName = '''' then ret ''''
     else
     andThen (attempt (srv (sv_GetNetwork V netName))) (\<lambda>r.
     case r of
       Inl _ \<Rightarrow> ret ''''
     | Inr (n, _) \<Rightarrow>
         (let cidr = get (nw_config n) ''ipv4.address'' in
          if cidr \<noteq> '''' \<and> \<not> strings_EqualFold cidr ''none''
          then (case parseHostFromCIDR cidr of Inl _ \<Rightarrow> ret '''' | Inr (host, _) \<Rightarrow> ret host)
          else ret '''')))"

definition ConfigureGuestDNS :: "'d incus_server \<Rightarrow> string \<Rightarrow> ('d icl, unit) prog" where
  "ConfigureGuestDNS V name =
     andThen (bridge_dns V) (\<lambda>dns.
     let script = dns_script
       @ (if dns \<noteq> '''' then ''echo '' @ [CHR 0x27] @ ''nameserver '' @ dns @ [CHR 0x27] @ '' >> /etc/resolv.conf'' @ [nl] else '''')
       @ gai_script in
     andThen (srv (run_script V name script
       (\<lambda>out err e. ErrWrap ''configure dns: '' e (in_parens err))
       (\<lambda>out err code. ErrText (''configure dns exited '' @ itoa code @ '': '' @ err)))) (\<lambda>_. ret ()))"

section \<open>The SSH server\<close>

definition detectGuestOS :: "'d incus_server \<Rightarrow> string \<Rightarrow> ('d, guestOS) prog" where
  "detectGuestOS V name =
     andThen (run_script V name detect_os_script
       (\<lambda>out err e. ErrWrap ''detect guest os: '' e (in_parens err))
       (\<lambda>out err code. ErrText (''detect guest os exited '' @ itoa code @ in_parens err))) (\<lambda>out.
     case parse_os out of Inl e \<Rightarrow> throw e | Inr g \<Rightarrow> ret g)"

definition push_deb :: "'d incus_server \<Rightarrow> string \<Rightarrow> string \<Rightarrow> ('d, unit) prog" where
  "push_deb V name deb =
     andThen (h_ReadFile (sv_host V) deb) (\<lambda>content.
     case content of
       None \<Rightarrow> failed (''open '' @ deb @ '': no such file or directory'')
     | Some text \<Rightarrow>
         wrapErr (''push '' @ deb @ '': '') (sv_CreateInstanceFile V name (''/var/tmp/goincus-debs/'' @ path_Base deb) text))"

definition InstallOpenSSHFromHost :: "'d incus_server \<Rightarrow> string \<Rightarrow> ('d, unit) prog" where
  "InstallOpenSSHFromHost V name =
     andThen (detectGuestOS V name) (\<lambda>g.
     andThen (EnsureOpenSSHDebs (sv_host V) g) (\<lambda>_.
     andThen (sure (h_Glob (sv_host V) (cacheDir g @ ''/*.deb''))) (\<lambda>debs.
     if debs = [] then failed (''no debs in '' @ cacheDir g)
     else
     andThen (guest_exec V name ''mkdir -p /var/tmp/goincus-debs && rm -rf /var/tmp/goincus-debs/*'') (\<lambda>_.
     andThen (forEach (push_deb V name) debs) (\<lambda>_.
     andThen (run_script V name dpkg_script
       (\<lambda>out err e. ErrWrap ''dpkg install: '' e (in_parens (out @ '' '' @ err)))
       (\<lambda>out err code. ErrText (''dpkg install exited '' @ itoa code @ in_parens (out @ '' '' @ err)))) (\<lambda>_.
     ret ()))))))"

definition installOpenSSHViaApt :: "'d incus_server \<Rightarrow> string \<Rightarrow> ('d, unit) prog" where
  "installOpenSSHViaApt V name =
     andThen (run_script V name apt_script
       (\<lambda>out err e. ErrWrap '''' e (in_parens (out @ '' '' @ err)))
       (\<lambda>out err code. ErrText (''exit '' @ itoa code @ in_parens (out @ '' '' @ err)))) (\<lambda>_.
     ret ())"

text \<open>The default of the port, and a whole number of seconds as \<open>time.Duration\<close> prints it.\<close>

definition ssh_port :: "int \<Rightarrow> int" where
  "ssh_port p = (if p \<le> 0 then 22 else p)"

definition duration_String :: "int \<Rightarrow> string" where
  "duration_String ns =
     (let s = ns div 1000000000; h = s div 3600; m = s div 60 mod 60; rest = itoa (s mod 60) @ ''s'' in
      if h > 0 then itoa h @ ''h'' @ itoa m @ ''m'' @ rest else if m > 0 then itoa m @ ''m'' @ rest else rest)"

definition sshd_pattern :: "int \<Rightarrow> string" where
  "sshd_pattern port = ''ss -ltn | grep -E '' @ [CHR 0x27] @ ''[:.]'' @ itoa port @ ''['' @ ''[:space:]'' @ '']'' @ [CHR 0x27]"

definition listening :: "int \<Rightarrow> string \<times> string \<times> (error + int) \<Rightarrow> bool" where
  "listening port x = (case x of (out, err, r) \<Rightarrow> r = Inr 0 \<and> strings_Contains out ('':'' @ itoa port))"

text \<open>The loop polls until the deadline; it does not return (\<open>None\<close>) when the clock stands still.\<close>

partial_function (option) wait_loop ::
    "'d incus_server \<Rightarrow> string \<Rightarrow> int \<Rightarrow> int \<Rightarrow> int \<Rightarrow> 'd \<Rightarrow> ((error + unit) \<times> 'd) option" where
  "wait_loop V name port timeout deadline d =
     (case h_Now (sv_host V) d of (now, d) \<Rightarrow>
        if now < deadline
        then (case guest_exec V name (sshd_pattern port) d of (x, d) \<Rightarrow>
                if (case x of Inr y \<Rightarrow> listening port y | Inl _ \<Rightarrow> False) then Some (Inr (), d)
                else wait_loop V name port timeout deadline (h_Sleep (sv_host V) 2000000000 d))
        else Some (Inl (ErrText (''sshd did not become ready on :'' @ itoa port @ '' within '' @ duration_String timeout)), d))"

declare wait_loop.simps [code]

text \<open>As a step of a program; a call that never returns is shown as an error of its own.\<close>

definition WaitForSSHD :: "'d incus_server \<Rightarrow> string \<Rightarrow> int \<Rightarrow> int \<Rightarrow> ('d, unit) prog" where
  "WaitForSSHD V name sshPort timeout =
     andThen (sure (h_Now (sv_host V))) (\<lambda>now d.
     case wait_loop V name (ssh_port sshPort) timeout (now + timeout) d of
       None \<Rightarrow> (Inl (ErrText ''WaitForSSHD does not return''), d)
     | Some r \<Rightarrow> r)"

definition ensure_ssh_text :: "string \<Rightarrow> int \<Rightarrow> string" where
  "ensure_ssh_text rootPassword port = ensure_ssh_script (std_encode (string_bytes rootPassword)) (itoa port)"

definition EnsureSSH :: "'d incus_server \<Rightarrow> string \<Rightarrow> string \<Rightarrow> int \<Rightarrow> ('d icl, unit) prog" where
  "EnsureSSH V name rootPassword sshPort =
     (if rootPassword = '''' then failed ''root password is empty''
      else
      let port = ssh_port sshPort in
      andThen (ignore (ConfigureGuestDNS V name)) (\<lambda>_.
      andThen (attempt (srv (installOpenSSHViaApt V name))) (\<lambda>r.
      andThen
        (case r of
           Inr _ \<Rightarrow> ret ()
         | Inl aptErr \<Rightarrow>
             mapErr (\<lambda>e. ErrWrap (''install openssh (apt: '' @ error_text aptErr @ ''; host-debs: '') e '')'')
               (srv (InstallOpenSSHFromHost V name))) (\<lambda>_.
      andThen (srv (run_script V name (ensure_ssh_text rootPassword port)
        (\<lambda>out err e. ErrWrap ''configure ssh: '' e '''')
        (\<lambda>out err code. ErrText (''configure ssh exited '' @ itoa code)))) (\<lambda>_.
      srv (WaitForSSHD V name port 90000000000))))))"

definition set_password_text :: "string \<Rightarrow> string" where
  "set_password_text rootPassword = set_password_script (std_encode (string_bytes rootPassword))"

definition SetRootPassword :: "'d incus_server \<Rightarrow> string \<Rightarrow> string \<Rightarrow> ('d, unit) prog" where
  "SetRootPassword V name rootPassword =
     (if strings_TrimSpace rootPassword = '''' then failed ''root password is empty''
      else
      andThen (run_script V name (set_password_text rootPassword)
        (\<lambda>out err e. ErrWrap ''set root password: '' e '''')
        (\<lambda>out err code. ErrText (''set root password exited '' @ itoa code @ '': '' @ out @ '' '' @ err))) (\<lambda>_.
      ret ()))"

section \<open>Secrets reach a shell in Base64 only\<close>

text \<open>A text that holds its argument once, between two fixed parts.\<close>

definition around :: "(string \<Rightarrow> string) \<Rightarrow> bool" where
  "around f \<longleftrightarrow> (\<exists>pre post. \<forall>b. f b = pre @ b @ post)"

lemma around_id: "around (\<lambda>b. b)"
  unfolding around_def by (intro exI [of _ "[]"]) simp

lemma around_pre: "around f \<Longrightarrow> around (\<lambda>b. s @ f b)"
  unfolding around_def by (metis append.assoc)

lemma around_post: "around (\<lambda>b. b @ s)"
  unfolding around_def by (intro exI [of _ "[]"] exI [of _ s]) simp

lemma around_line: "around l \<Longrightarrow> around (\<lambda>b. text_lines (l b # ls))"
  unfolding around_def text_lines_def by (simp, metis append.assoc)

lemma around_skip: "around (\<lambda>b. text_lines (ls b)) \<Longrightarrow> around (\<lambda>b. text_lines (l # ls b))"
  unfolding around_def text_lines_def by (simp, metis append.assoc append_Cons)

lemma around_set_password: "around set_password_script"
  unfolding set_password_script_def
  by (rule around_skip, rule around_line, rule around_pre, rule around_pre, rule around_post)

lemma around_ensure_ssh: "around (\<lambda>b. ensure_ssh_script b port)"
  unfolding ensure_ssh_script_def
  by (rule around_skip, rule around_line, rule around_pre, rule around_pre, rule around_post)

lemma around_cloud_init: "around (\<lambda>b. cloud_init_text b port)"
  unfolding cloud_init_text_def
  by (rule around_skip, rule around_skip, rule around_skip, rule around_skip, rule around_skip, rule around_skip,
      rule around_skip, rule around_skip, rule around_skip, rule around_skip, rule around_line, rule around_pre, rule around_pre, rule around_post)

lemma of_char_byte_eq: "(of_char x :: byte) = of_char y \<longleftrightarrow> x = y"
proof
  assume eq: "(of_char x :: byte) = of_char y"
  have bit: "bit (of_char x :: byte) n = bit (of_char y :: byte) n" for n using eq by simp
  show "x = y"
    using bit [of 0] bit [of 1] bit [of 2] bit [of 3] bit [of 4] bit [of 5] bit [of 6] bit [of 7]
    by (cases x, cases y, hypsubst, unfold of_char_Char bit_horner_sum_bit_word_iff)
      (simp add: nth_Cons')
qed simp

lemma string_bytes_eq [simp]: "string_bytes s = string_bytes t \<longleftrightarrow> s = t"
  by (simp add: string_bytes_def) (metis of_char_byte_eq inj_map_eq_map injI)


section \<open>Waiting for the server ends\<close>

text \<open>
  What \<open>time\<close> documents: the clock never goes back, and a pause takes at least as long as it is asked for. \<open>t\<close> is
  the time a state shows.
\<close>

definition clock :: "'d incus_server \<Rightarrow> ('d \<Rightarrow> int) \<Rightarrow> bool" where
  "clock V t \<longleftrightarrow>
     (\<forall>d. fst (h_Now (sv_host V) d) = t d \<and> t d \<le> t (snd (h_Now (sv_host V) d)))
   \<and> (\<forall>n x d. t d \<le> t (snd (sv_ExecInstance V n x d)))
   \<and> (\<forall>ns d. t d + ns \<le> t (h_Sleep (sv_host V) ns d))"

lemma guest_exec_eq: "guest_exec V n s d = (r, d') \<longleftrightarrow>
    (\<exists>x. sv_ExecInstance V n s d = (x, d') \<and>
      r = Inr (xo_stdout x, xo_stderr x, case xo_result x of Inl e \<Rightarrow> Inl e | Inr None \<Rightarrow> Inr 0 | Inr (Some code) \<Rightarrow> Inr code))"
  by (auto simp: guest_exec_def andThen_def sure_def ret_def split: prod.splits)

lemma wait_loop_ends:
  assumes "clock V t"
  shows "\<exists>r d'. wait_loop V n port timeout deadline d = Some (r, d') \<and> (r \<noteq> Inr () \<longrightarrow> deadline \<le> t d')"
proof (induction "nat (deadline - t d)" arbitrary: d rule: less_induct)
  case less
  obtain now d1 where now: "h_Now (sv_host V) d = (now, d1)" by fastforce
  then have 1: "now = t d" "t d \<le> t d1" using assms unfolding clock_def by (metis fst_conv snd_conv)+
  show ?case
  proof (cases "now < deadline")
    case False
    then show ?thesis using now 1 by (subst wait_loop.simps) simp
  next
    case True
    obtain x d2 where x: "guest_exec V n (sshd_pattern port) d1 = (x, d2)" by fastforce
    then have "t d1 \<le> t d2" using assms by (auto simp: clock_def guest_exec_eq) (metis snd_conv)
    moreover have "t d2 + 2000000000 \<le> t (h_Sleep (sv_host V) 2000000000 d2)" using assms by (simp add: clock_def)
    ultimately have "nat (deadline - t (h_Sleep (sv_host V) 2000000000 d2)) < nat (deadline - t d)" using 1 True by simp
    from less.hyps [OF this] show ?thesis using now x True by (subst wait_loop.simps) simp
  qed
qed

text \<open>C36. With a clock that moves, waiting for the SSH server always returns, and it reports that the server is not
ready only when the whole time has passed.\<close>

theorem WaitForSSHD_ends:
  assumes V: "clock V t" and run: "WaitForSSHD V n port timeout d = (r, d')"
  shows "(\<exists>d1. wait_loop V n (ssh_port port) timeout (t d + timeout) d1 = Some (r, d'))
    \<and> (r = Inr () \<or> t d + timeout \<le> t d')"
proof -
  obtain now d1 where now: "h_Now (sv_host V) d = (now, d1)" by fastforce
  then have "now = t d" using V unfolding clock_def by (metis fst_conv)
  then show ?thesis
    using wait_loop_ends [OF V, of n "ssh_port port" timeout "t d + timeout" d1] run now
    by (auto simp: WaitForSSHD_def andThen_def sure_def)
qed

lemma rd_clock: "clock rd_server rd_clock"
  by (simp add: clock_def rd_server_def rd_host_def)

lemma WaitForSSHD_ends_witness:
  "\<exists>r d'. WaitForSSHD rd_server ''goincus-1'' 20001 90000000000 rd_fresh = (r, d') \<and> (r = Inr () \<or> 90000000000 \<le> rd_clock d')"
proof -
  obtain r d' where run: "WaitForSSHD rd_server ''goincus-1'' 20001 90000000000 rd_fresh = (r, d')" by fastforce
  then show ?thesis using WaitForSSHD_ends [OF rd_clock run] by (auto simp: rd_fresh_def)
qed

section \<open>A configured server listens\<close>

definition seen_listening :: "'d incus_server \<Rightarrow> string \<Rightarrow> int \<Rightarrow> 'd \<Rightarrow> bool" where
  "seen_listening V n port d' \<longleftrightarrow> (\<exists>d x. guest_exec V n (sshd_pattern port) d = (Inr x, d') \<and> listening port x)"

lemma seen_listeningI:
  "guest_exec V n (sshd_pattern port) d = (Inr x, d') \<Longrightarrow> listening port x \<Longrightarrow> seen_listening V n port d'"
  unfolding seen_listening_def by blast

lemma wait_loop_ready:
  assumes ret: "wait_loop V n port timeout deadline d = Some y"
  shows "fst y = Inr () \<longrightarrow> seen_listening V n port (snd y)"
proof (rule wait_loop.raw_induct
    [where P = "\<lambda>V n port timeout deadline d y. fst y = Inr () \<longrightarrow> seen_listening V n port (snd y)", OF _ ret])
  fix loop :: "'d incus_server \<Rightarrow> string \<Rightarrow> int \<Rightarrow> int \<Rightarrow> int \<Rightarrow> 'd \<Rightarrow> ((error + unit) \<times> 'd) option"
    and V n port timeout deadline d y
  assume IH: "\<And>V n port timeout deadline d y. loop V n port timeout deadline d = Some y \<Longrightarrow>
      fst y = Inr () \<longrightarrow> seen_listening V n port (snd y)"
    and eq: "(case h_Now (sv_host V) d of (now, d) \<Rightarrow>
        if now < deadline
        then (case guest_exec V n (sshd_pattern port) d of (x, d) \<Rightarrow>
                if (case x of Inr y \<Rightarrow> listening port y | Inl _ \<Rightarrow> False) then Some (Inr (), d)
                else loop V n port timeout deadline (h_Sleep (sv_host V) 2000000000 d))
        else Some (Inl (ErrText (''sshd did not become ready on :'' @ itoa port @ '' within '' @ duration_String timeout)), d)) = Some y"
  show "fst y = Inr () \<longrightarrow> seen_listening V n port (snd y)"
    using eq IH [of V n port timeout deadline _ y]
    by (auto intro: seen_listeningI split: prod.split_asm if_split_asm sum.split_asm)
qed

text \<open>C37. When \<open>EnsureSSH\<close> succeeds, the guest has run the configuration with the encoded password to a zero exit code, and
the last thing it showed was a listener on the requested port (22 when none is given).\<close>

theorem EnsureSSH_ready:
  assumes "EnsureSSH V n pw port c = (Inr (), c')"
  shows "pw \<noteq> '''' \<and> seen_listening V n (ssh_port port) (cl_out c')
    \<and> (\<exists>d d' out err. guest_exec V n (ensure_ssh_text pw (ssh_port port)) d = (Inr (out, err, Inr 0), d'))"
proof -
  obtain c1 c2 out where "pw \<noteq> ''''"
    and conf: "srv (run_script V n (ensure_ssh_text pw (ssh_port port)) (\<lambda>out err e. ErrWrap ''configure ssh: '' e '''')
        (\<lambda>out err code. ErrText (''configure ssh exited '' @ itoa code))) c1 = (Inr out, c2)"
    and wait: "srv (WaitForSSHD V n (ssh_port port) 90000000000) c2 = (Inr (), c')"
    using assms by (auto simp: EnsureSSH_def Let_def andThen_Inr split: if_split_asm)
  moreover have "\<exists>d d' out err. guest_exec V n (ensure_ssh_text pw (ssh_port port)) d = (Inr (out, err, Inr 0), d')"
    using conf by (auto simp: srv_eq run_script_def andThen_Inr case_sum_eq split: if_split_asm prod.split_asm)
  moreover have "ssh_port (ssh_port port) = ssh_port port" by (simp add: ssh_port_def)
  then have "seen_listening V n (ssh_port port) (cl_out c')"
    using wait wait_loop_ready [of V n "ssh_port port"]
    by (auto simp: srv_eq WaitForSSHD_def andThen_Inr sure_eq split: option.split_asm)
  ultimately show ?thesis by blast
qed

lemma EnsureSSH_ready_witness:
  "\<exists>c'. EnsureSSH rd_server ''goincus-1'' ''secret'' 20000 (rd_client rd_one) = (Inr (), c')
    \<and> seen_listening rd_server ''goincus-1'' 20000 (cl_out c')"
proof -
  define c' where "c' = snd (EnsureSSH rd_server ''goincus-1'' ''secret'' 20000 (rd_client rd_one))"
  have "fst (EnsureSSH rd_server ''goincus-1'' ''secret'' 20000 (rd_client rd_one)) = Inr ()" by code_simp
  then have run: "EnsureSSH rd_server ''goincus-1'' ''secret'' 20000 (rd_client rd_one) = (Inr (), c')"
    by (simp add: c'_def prod_eq_iff)
  show ?thesis using EnsureSSH_ready [OF run] run by (auto simp: ssh_port_def)
qed

end
