(* ===== verification/Provision.thy ===== *)
theory Provision imports Create begin

text \<open>
  What provisioning, deletion and the changes of port mappings leave in the tables: an instance that
  \<open>provision\<close> declares running has its whole block of ports recorded, a job always ends in running
  or error while the database answers, a deletion removes the instance and exactly its ports.
\<close>

section \<open>The stored status\<close>

definition stored_status :: "uuid \<Rightarrow> database \<Rightarrow> instance_status option" where
  "stored_status iid d = map_option i_status (List.find (\<lambda>r. i_id r = iid) (t_instances d))"

definition same_status :: "database \<Rightarrow> database \<Rightarrow> bool" where
  "same_status d d' \<longleftrightarrow> map (\<lambda>r. (i_id r, i_status r)) (t_instances d') = map (\<lambda>r. (i_id r, i_status r)) (t_instances d)"

interpretation same_status: db_frame same_status
  by unfold_locales (simp_all add: same_status_def)

lemma find_status_eq:
  "map (\<lambda>r. (i_id r, i_status r)) xs = map (\<lambda>r. (i_id r, i_status r)) ys \<Longrightarrow>
   map_option i_status (List.find (\<lambda>r. i_id r = iid) xs) = map_option i_status (List.find (\<lambda>r. i_id r = iid) ys)"
proof (induction xs arbitrary: ys)
  case (Cons x xs)
  then obtain y ys' where "ys = y # ys'" by (cases ys) auto
  then show ?case using Cons by auto
qed simp

lemma same_status_stored: "same_status d d' \<Longrightarrow> stored_status iid d' = stored_status iid d"
  unfolding same_status_def stored_status_def by (rule find_status_eq)

text \<open>A status update: the row of the id gets the status, or nothing happens.\<close>

lemma find_update:
  assumes "\<And>r. i_id (f r) = i_id r"
  shows "List.find (\<lambda>r. i_id r = iid) (map (\<lambda>r. if i_id r = iid then f r else r) rows)
    = map_option f (List.find (\<lambda>r. i_id r = iid) rows)"
  by (induction rows) (auto simp: assms)

lemma set_status_stored:
  "stored_status iid (snd (set_status iid st msg v t d)) = stored_status iid d \<or>
   stored_status iid (snd (set_status iid st msg v t d)) = map_option (\<lambda>_. st) (stored_status iid d)"
proof -
  let ?f = "\<lambda>r. r\<lparr>i_status := st, i_error := msg, i_updated := t\<rparr>"
  let ?d = "d\<lparr>t_instances := map (\<lambda>r. if i_id r = iid then ?f r else r) (t_instances d)\<rparr>"
  have new: "stored_status iid ?d = map_option (\<lambda>_. st) (stored_status iid d)"
    using find_update [of ?f iid "t_instances d"] by (simp add: stored_status_def option.map_comp comp_def)
  have "snd (set_status iid st msg v t d) = d \<or> snd (set_status iid st msg v t d) = ?d"
    using snd_update_instances [of iid ?f v d] unfolding set_status_def by blast
  then show ?thesis
  proof (elim disjE)
    assume eq: "snd (set_status iid st msg v t d) = d"
    show ?thesis unfolding eq by (rule disjI1, rule refl)
  next
    assume eq: "snd (set_status iid st msg v t d) = ?d"
    show ?thesis unfolding eq by (rule disjI2, rule new)
  qed
qed

text \<open>With the checks in place the update is never refused.\<close>

lemma set_status_ok:
  assumes "db_ok d"
  shows "stored_status iid (snd (set_status iid st msg v t d)) = map_option (\<lambda>_. st) (stored_status iid d)"
proof -
  let ?f = "\<lambda>r. r\<lparr>i_status := st, i_error := msg, i_updated := t\<rparr>"
  have "list_all instance_checks (t_instances d)" using assms by (simp add: db_ok_def instances_ok_def)
  moreover have "instance_checks (?f r) = instance_checks r" for r by (simp add: instance_checks_def)
  ultimately have "list_all (\<lambda>r. i_id r = iid \<longrightarrow> instance_checks r) (map (\<lambda>r. if i_id r = iid then ?f r else r) (t_instances d))"
    by (auto simp add: list_all_iff)
  then have "snd (set_status iid st msg v t d) = d\<lparr>t_instances := map (\<lambda>r. if i_id r = iid then ?f r else r) (t_instances d)\<rparr>"
    by (simp add: set_status_def update_instances_def set_instances_def Let_def)
  then show ?thesis
    using find_update [of ?f iid "t_instances d"] by (simp add: stored_status_def option.map_comp comp_def)
qed

lemma set_db_status_cases:
  "set_db_status S iid st msg w = (r, w') \<Longrightarrow>
   stored_status iid (w_db w') = stored_status iid (w_db w) \<or>
   stored_status iid (w_db w') = map_option (\<lambda>_. st) (stored_status iid (w_db w))"
proof -
  assume "set_db_status S iid st msg w = (r, w')"
  then have "w_db w' = w_db w \<or> (\<exists>v t. w_db w' = snd (set_status iid st msg v t (w_db w)))"
    by (auto simp: set_db_status_def db_UpdateInstanceStatus_def ignore_eq sql_def
        split: prod.splits pg_reply.splits) (metis snd_conv)+
  then show ?thesis
  proof (elim disjE exE)
    fix v t assume eq: "w_db w' = snd (set_status iid st msg v t (w_db w))"
    show ?thesis unfolding eq by (rule set_status_stored)
  qed simp
qed

lemma set_db_status_up:
  assumes "pg_up S" "db_ok (w_db w)" "set_db_status S iid st msg w = (r, w')"
  shows "stored_status iid (w_db w') = map_option (\<lambda>_. st) (stored_status iid (w_db w))"
proof -
  obtain t v e where "sql S (set_status iid st msg) w =
      (fst (set_status iid st msg v t (w_db w)), w\<lparr>w_db := snd (set_status iid st msg v t (w_db w)), w_env := e\<rparr>)"
    using sql_up [OF assms(1), of "set_status iid st msg" w] by blast
  then have "w_db w' = snd (set_status iid st msg v t (w_db w))"
    using assms(3) by (auto simp: set_db_status_def db_UpdateInstanceStatus_def ignore_eq)
  then show ?thesis using set_status_ok [OF assms(2)] by simp
qed

section \<open>The ports of an instance\<close>

definition host_ports :: "uuid \<Rightarrow> database \<Rightarrow> int set" where
  "host_ports iid d = p_host ` {p \<in> set (t_ports d). p_instance p = iid}"

definition same_ports :: "database \<Rightarrow> database \<Rightarrow> bool" where
  "same_ports d d' \<longleftrightarrow> t_ports d' = t_ports d"

interpretation same_ports: db_frame same_ports
  by unfold_locales (simp_all add: same_ports_def)

lemma update_instances_ports: "t_ports (snd (update_instances iid f v d)) = t_ports d"
  by (simp add: update_instances_def Let_def set_instances_def refused_def throw_def)

lemma same_ports_status: "steps (db_rel same_ports) (set_db_status S iid st msg)"
  unfolding set_db_status_def db_UpdateInstanceStatus_def set_status_def
  by (intro frame_rules same_ports.steps_sql) (simp add: steps_def same_ports_def update_instances_ports)

lemma same_ports_state: "steps (db_rel same_ports) (set_state S iid st ttl)"
  unfolding set_state_def by (intro frame_rules)

lemma AddPort_Inr:
  assumes "db_AddPort S pm w = (Inr u, w')"
  shows "t_ports (w_db w') = t_ports (w_db w) @ [pm] \<and> port_checks pm \<and> t_instances (w_db w') = t_instances (w_db w)"
proof -
  obtain v t where "insert_port pm v t (w_db w) = (Inr u, w_db w')"
    using sql_Inr [OF assms [unfolded db_AddPort_def]] by blast
  then have "w_db w' = (w_db w)\<lparr>t_ports := t_ports (w_db w) @ [pm]\<rparr> \<and> port_checks pm"
    by (auto simp: insert_port_def refused_def set_ports_def split: if_splits)
  then show ?thesis by simp
qed

lemma AddPorts_Inr:
  "forEach (\<lambda>pm. wrapErr (msg pm) (db_AddPort S pm)) pms w = (Inr u, w') \<Longrightarrow>
   t_ports (w_db w') = t_ports (w_db w) @ pms"
proof (induction pms arbitrary: w)
  case (Cons pm pms)
  then obtain u1 w1 where "db_AddPort S pm w = (Inr u1, w1)"
    and "forEach (\<lambda>pm. wrapErr (msg pm) (db_AddPort S pm)) pms w1 = (Inr u, w')"
    by (auto simp: andThen_Inr wrapErr_Inr)
  then show ?case using AddPort_Inr [of S pm w] Cons.IH by simp
qed simp

lemma new_mappings:
  "mapEach (\<lambda>port. andThen (uuid_New S) (\<lambda>pid. ret (one_to_one pid iid port now))) ports w = (Inr pms, w') \<Longrightarrow>
   map p_host pms = ports \<and> (\<forall>pm \<in> set pms. p_instance pm = iid) \<and> w_db w' = w_db w"
proof (induction ports arbitrary: w pms)
  case (Cons port ports)
  then obtain pid w1 pms' where pid: "uuid_New S w = (Inr pid, w1)"
    and rest: "mapEach (\<lambda>port. andThen (uuid_New S) (\<lambda>pid. ret (one_to_one pid iid port now))) ports w1 = (Inr pms', w')"
    and pms: "pms = one_to_one pid iid port now # pms'"
    by (auto simp: andThen_Inr)
  show ?case using Cons.IH [OF rest] same_db_stepsD [OF same_db.steps_uuid_New pid] pms
    by (simp add: one_to_one_def)
qed simp

lemma attachPortBlock_Inr:
  assumes "attachPortBlock S i block w = (Inr u, w')"
  shows "set block \<subseteq> host_ports (i_id i) (w_db w')"
proof -
  obtain existing w1 now w2 pending w3 where
    ex: "db_ListPorts S (i_id i) w = (Inr existing, w1)" and now: "time_Now S w1 = (Inr now, w2)"
    and pend: "mapEach (\<lambda>port. andThen (uuid_New S) (\<lambda>pid. ret (one_to_one pid (i_id i) port now)))
      (filter (\<lambda>port. port \<notin> p_host ` set existing) block) w2 = (Inr pending, w3)"
    and rest: "(if filter (\<lambda>port. port \<notin> p_host ` set existing) block = [] then ret ()
     else andThen (wrapErr ''proxy devices: '' (incus S (\<lambda>c. ic_AddProxyDevices c (i_incus i)
         (map proxy_of (filter (\<lambda>port. port \<notin> p_host ` set existing) block))))) (\<lambda>_.
       forEach (\<lambda>pm. wrapErr (''persist port '' @ itoa (p_host pm) @ '': '') (db_AddPort S pm)) pending)) w3 = (Inr u, w')"
    using assms by (auto simp: attachPortBlock_def Let_def andThen_Inr wrapErr_Inr)
  have db: "existing = select_ports (i_id i) (w_db w)" "w_db w2 = w_db w" "w_db w3 = w_db w"
    using query_row [OF ex [unfolded db_ListPorts_def]] same_db_stepsD [OF same_db.steps_time_Now now]
      new_mappings [OF pend] by auto
  have old: "p_host ` set existing \<subseteq> host_ports (i_id i) (w_db w)"
    by (auto simp: db(1) select_ports_def host_ports_def)
  show ?thesis
  proof (cases "filter (\<lambda>port. port \<notin> p_host ` set existing) block = []")
    case True
    then have "set block \<subseteq> p_host ` set existing" by (auto simp: filter_empty_conv)
    then show ?thesis using True rest old db by auto
  next
    case False
    obtain x w4 where proxies: "incus S (\<lambda>c. ic_AddProxyDevices c (i_incus i)
         (map proxy_of (filter (\<lambda>port. port \<notin> p_host ` set existing) block))) w3 = (x, w4)"
      and add: "forEach (\<lambda>pm. wrapErr (''persist port '' @ itoa (p_host pm) @ '': '') (db_AddPort S pm)) pending w4 = (Inr u, w')"
      using rest unfolding if_not_P [OF False] andThen_Inr wrapErr_Inr by blast
    have "w_db w4 = w_db w3" by (rule same_db_stepsD [OF same_db.steps_on_incus proxies])
    then have ports: "t_ports (w_db w') = t_ports (w_db w) @ pending"
      using AddPorts_Inr [OF add] db by simp
    have "p \<in> host_ports (i_id i) (w_db w')" if "p \<in> set block" for p
    proof (cases "p \<in> p_host ` set existing")
      case True
      then show ?thesis using old ports by (auto simp: host_ports_def)
    next
      case False
      then have "p \<in> p_host ` set pending" using new_mappings [OF pend] that by (simp flip: set_map)
      then show ?thesis using new_mappings [OF pend] ports by (fastforce simp: host_ports_def)
    qed
    then show ?thesis by blast
  qed
qed


section \<open>Provisioning\<close>

lemma same_status_ports: "steps (db_rel same_status) (db_AddPort S pm)"
  unfolding db_AddPort_def
  by (rule same_status.steps_sql) (simp add: steps_def insert_port_def set_ports_def refused_def throw_def same_status_def)

lemma update_keeps_status:
  assumes "\<And>r. i_id (f r) = i_id r \<and> i_status (f r) = i_status r"
  shows "same_status d (snd (update_instances iid f v d))"
proof -
  have "map (\<lambda>r. (i_id r, i_status r)) (map (\<lambda>r. if i_id r = iid then f r else r) rows)
      = map (\<lambda>r. (i_id r, i_status r)) rows" for rows
    by (induction rows) (auto simp: assms)
  then show ?thesis
    by (simp add: update_instances_def Let_def set_instances_def refused_def throw_def same_status_def del: map_map)
qed

lemma same_status_password: "steps (db_rel same_status) (db_UpdateRootPassword S iid pw)"
  unfolding db_UpdateRootPassword_def set_password_def
  by (rule same_status.steps_sql, rule stepsI, rule update_keeps_status) simp

lemma same_status_guest: "steps (db_rel same_status) (provision_guest S i block)"
  unfolding provision_guest_def bootstrapSSH_def attachPortBlock_def secrets_RandomPassword_def
  by (intro frame_rules same_status_password same_status_ports)

lemma same_db_release:
  "steps (db_rel (=)) (releaseUnused S iid block)"
  unfolding releaseUnused_def by (intro frame_rules)

text \<open>The failure path never declares an instance running.\<close>

definition stays_down :: "uuid \<Rightarrow> database \<Rightarrow> database \<Rightarrow> bool" where
  "stays_down iid d d' \<longleftrightarrow> (stored_status iid d \<noteq> Some StatusRunning \<longrightarrow> stored_status iid d' \<noteq> Some StatusRunning)"

interpretation stays_down: db_frame "stays_down iid" for iid
  by unfold_locales (auto simp: stays_down_def)

lemma stays_down_status: "st \<noteq> StatusRunning \<Longrightarrow> steps (db_rel (stays_down iid)) (set_db_status S iid st msg)"
proof (rule stepsI)
  fix w assume "st \<noteq> StatusRunning"
  then show "db_rel (stays_down iid) w (snd (set_db_status S iid st msg w))"
    using set_db_status_cases [of S iid st msg w, OF prod.collapse [symmetric]]
    by (auto simp: db_rel_def stays_down_def)
qed

lemma stays_down_fail: "steps (db_rel (stays_down iid)) (fail_instance S iid cause)"
  unfolding fail_instance_def set_state_def by (intro frame_rules stays_down_status) simp

lemma stays_down_failed:
  "steps (db_rel (stays_down (i_id i))) (andThen (ports_ReleaseBlock S block) (\<lambda>_. fail_instance S (i_id i) e))"
  "steps (db_rel (stays_down (i_id i))) (andThen (releaseUnused S (i_id i) block) (\<lambda>_. fail_instance S (i_id i) e))"
  unfolding releaseUnused_def by (intro frame_rules stays_down_fail)+

lemma stays_downD:
  "steps (db_rel (stays_down iid)) f \<Longrightarrow> f w = (r, w') \<Longrightarrow> stored_status iid (w_db w) \<noteq> Some StatusRunning \<Longrightarrow>
   stored_status iid (w_db w') \<noteq> Some StatusRunning"
  using stepsD [of "db_rel (stays_down iid)" f w r w'] by (simp add: db_rel_def stays_down_def)

lemma same_statusD: "steps (db_rel same_status) f \<Longrightarrow> f w = (r, w') \<Longrightarrow> stored_status iid (w_db w') = stored_status iid (w_db w)"
  using stepsD [of "db_rel same_status" f w r w'] by (simp add: db_rel_def same_status_stored)

lemma same_portsD: "steps (db_rel same_ports) f \<Longrightarrow> f w = (r, w') \<Longrightarrow> t_ports (w_db w') = t_ports (w_db w)"
  using stepsD [of "db_rel same_ports" f w r w'] by (simp add: db_rel_def same_ports_def)


lemma service_answers [answer_rules]:
  "answers (set_db_status S iid st msg)" "answers (set_state S iid st ttl)"
  "answers (ports_ReleaseBlock S block)"
  unfolding set_db_status_def set_state_def ports_ReleaseBlock_def by (intro answer_rules)+

lemma answers_releaseUnused [answer_rules]: "answers (releaseUnused S iid block)"
  unfolding releaseUnused_def by (intro answer_rules)

text \<open>How a provisioning job ends: on its failure path, or after the guest has been set up.\<close>

definition quiet :: "database \<Rightarrow> database \<Rightarrow> bool" where
  "quiet d d' \<longleftrightarrow> same_status d d' \<and> keeps_ok d d'"

interpretation quiet: db_frame quiet
  by unfold_locales (auto simp: quiet_def same_status_def keeps_ok_def)

lemma quiet_guest: "steps (db_rel quiet) (provision_guest S i block)"
proof -
  have "steps (db_rel keeps_ok) (provision_guest S i block)"
    unfolding provision_guest_def by (intro frame_rules)
  then show ?thesis using same_status_guest [of S i block] by (simp add: steps_def db_rel_def quiet_def)
qed

lemma quietD: "steps (db_rel quiet) f \<Longrightarrow> f w = (r, w') \<Longrightarrow> quiet (w_db w) (w_db w')"
  using stepsD [of "db_rel quiet" f w r w'] by (simp add: db_rel_def)

lemma quiet_release: "steps (db_rel quiet) (releaseUnused S iid block)"
  unfolding releaseUnused_def by (intro frame_rules)

lemma provision_cases:
  assumes "provision S i w = (r, w')"
  obtains (failed) e w1 w2 where
      "set_db_status S (i_id i) StatusCreating '''' w = (Inr (), w1)" "quiet (w_db w1) (w_db w2)"
      "fail_instance S (i_id i) e w2 = (r, w')"
  | (finished) w1 w2 w3 w4 w5 block where
      "set_db_status S (i_id i) StatusCreating '''' w = (Inr (), w1)"
      "ports_AllocateBlock S (port_block_size (sys_cfg S)) w1 = (Inr block, w2)"
      "w_db w3 = w_db w2" "provision_guest S i block w3 = (Inr (), w4)"
      "set_db_status S (i_id i) StatusRunning '''' w4 = (Inr (), w5)"
      "set_state S (i_id i) StatusRunning (24 * hour) w5 = (r, w')"
proof -
  obtain w1 a w2 where w1: "set_db_status S (i_id i) StatusCreating '''' w = (Inr (), w1)"
    and a: "ports_AllocateBlock S (port_block_size (sys_cfg S)) w1 = (a, w2)"
    and rest: "(case a of
       Inl e \<Rightarrow> fail_instance S (i_id i) (ErrWrap ''allocate port block: '' e '''')
     | Inr block \<Rightarrow>
         andThen (attempt (incus S (\<lambda>c. ic_CreateContainer c (create_args_of (sys_cfg S) i (hd block))))) (\<lambda>r.
         case r of
           Inl e \<Rightarrow> andThen (ports_ReleaseBlock S block) (\<lambda>_.
                     fail_instance S (i_id i) (ErrWrap ''create container: '' e ''''))
         | Inr _ \<Rightarrow>
             andThen (attempt (provision_guest S i block)) (\<lambda>r.
             case r of
               Inl e \<Rightarrow> andThen (releaseUnused S (i_id i) block) (\<lambda>_. fail_instance S (i_id i) e)
             | Inr _ \<Rightarrow>
                 andThen (set_db_status S (i_id i) StatusRunning '''') (\<lambda>_.
                 set_state S (i_id i) StatusRunning (24 * hour))))) w2 = (r, w')"
    using assms unfolding provision_def
    by (elim andThen_answers [rotated]) (auto simp: attempt_eq intro: answer_rules)
  have db2: "quiet (w_db w1) (w_db w2)" by (rule quietD [OF quiet.steps_ports(2) a])
  show thesis
  proof (cases a)
    case (Inl e)
    then show thesis using failed [OF w1 db2] rest by simp
  next
    case a: (Inr block)
    obtain c w3 where c: "incus S (\<lambda>c. ic_CreateContainer c (create_args_of (sys_cfg S) i (hd block))) w2 = (c, w3)"
      by fastforce
    have db3: "w_db w3 = w_db w2" by (rule same_db_stepsD [OF same_db.steps_on_incus c])
    note rest = rest [unfolded a sum.case andThen_attempt c prod.case]
    show thesis
    proof (cases c)
      case (Inl e)
      obtain u w4 where x: "ports_ReleaseBlock S block w3 = (Inr u, w4)"
        and f: "fail_instance S (i_id i) (ErrWrap ''create container: '' e '''') w4 = (r, w')"
        using rest [unfolded Inl sum.case] by (elim andThen_answers [rotated]) (auto intro: answer_rules)
      have "quiet (w_db w2) (w_db w4)" using quietD [OF quiet.steps_ReleaseBlock x] db3 by simp
      from quiet.db_trans [OF db2 this] show thesis using failed [OF w1 _ f] by blast
    next
      case c: (Inr u)
      obtain g w4 where g: "provision_guest S i block w3 = (g, w4)" by fastforce
      note rest = rest [unfolded c sum.case andThen_attempt g prod.case]
      have db4: "quiet (w_db w1) (w_db w4)" using quiet.db_trans [OF db2] quietD [OF quiet_guest g] db3 by simp
      show thesis
      proof (cases g)
        case (Inl e)
        obtain u w5 where x: "releaseUnused S (i_id i) block w4 = (Inr u, w5)"
          and f: "fail_instance S (i_id i) e w5 = (r, w')"
          using rest [unfolded Inl sum.case] by (elim andThen_answers [rotated]) (auto intro: answer_rules)
        from quiet.db_trans [OF db4 quietD [OF quiet_release x]] show thesis using failed [OF w1 _ f] by blast
      next
        case g: (Inr u)
        obtain u w5 where x: "set_db_status S (i_id i) StatusRunning '''' w4 = (Inr u, w5)"
          and f: "set_state S (i_id i) StatusRunning (24 * hour) w5 = (r, w')"
          using rest [unfolded g sum.case] by (elim andThen_answers [rotated]) (auto intro: answer_rules)
        then show thesis using finished [OF w1] a db3 \<open>ports_AllocateBlock S _ w1 = (a, w2)\<close> \<open>provision_guest S i block w3 = (g, w4)\<close> g
          by auto
      qed
    qed
  qed
qed


lemma provision_ends_lemma:
  assumes "pg_up S" "db_ok (w_db w)" "provision S i w = (r, w')"
  shows "stored_status (i_id i) (w_db w') = map_option (\<lambda>_. StatusRunning) (stored_status (i_id i) (w_db w))
    \<or> stored_status (i_id i) (w_db w') = map_option (\<lambda>_. StatusError) (stored_status (i_id i) (w_db w))"
  using assms(3)
proof (cases rule: provision_cases)
  case (failed e w1 w2)
  have 1: "db_ok (w_db w1)" "stored_status (i_id i) (w_db w1) = map_option (\<lambda>_. StatusCreating) (stored_status (i_id i) (w_db w))"
    using stepsD [OF ok.steps_status(1) failed(1)] assms(2) set_db_status_up [OF assms(1,2) failed(1)]
    by (simp_all add: db_rel_def keeps_ok_def)
  have 2: "db_ok (w_db w2)" "stored_status (i_id i) (w_db w2) = stored_status (i_id i) (w_db w1)"
    using failed(2) 1 same_status_stored by (auto simp: quiet_def keeps_ok_def)
  obtain u w3 where s: "set_db_status S (i_id i) StatusError (error_text e) w2 = (Inr u, w3)"
    and l: "set_state S (i_id i) StatusError hour w3 = (r, w')"
    using failed(3) unfolding fail_instance_def by (elim andThen_answers [rotated]) (auto intro: answer_rules)
  show ?thesis
    using set_db_status_up [OF assms(1) 2(1) s] same_db_stepsD [OF same_db_others(2) l] 1 2
    by (simp add: option.map_comp comp_def)
next
  case (finished w1 w2 w3 w4 w5 block)
  have 1: "db_ok (w_db w1)" "stored_status (i_id i) (w_db w1) = map_option (\<lambda>_. StatusCreating) (stored_status (i_id i) (w_db w))"
    using stepsD [OF ok.steps_status(1) finished(1)] assms(2) set_db_status_up [OF assms(1,2) finished(1)]
    by (simp_all add: db_rel_def keeps_ok_def)
  have "quiet (w_db w1) (w_db w4)"
    using quietD [OF quiet.steps_ports(2) finished(2)] quietD [OF quiet_guest finished(4)] finished(3)
    by (auto intro: quiet.db_trans)
  then have 2: "db_ok (w_db w4)" "stored_status (i_id i) (w_db w4) = stored_status (i_id i) (w_db w1)"
    using 1 same_status_stored by (auto simp: quiet_def keeps_ok_def)
  show ?thesis
    using set_db_status_up [OF assms(1) 2(1) finished(5)] same_db_stepsD [OF same_db_others(2) finished(6)] 1 2
    by (simp add: option.map_comp comp_def)
qed

lemma guest_ports:
  assumes "provision_guest S i block w = (Inr u, w')"
  shows "set block \<subseteq> host_ports (i_id i) (w_db w')"
proof -
  obtain w1 where "attachPortBlock S i block w1 = (Inr u, w')"
    using assms unfolding provision_guest_def andThen_Inr wrapErr_Inr by blast
  then show ?thesis by (rule attachPortBlock_Inr)
qed

lemma provision_running_lemma:
  assumes laws: "redis_server_ok (sys_redis S) members" and p: "provision S i w = (r, w')"
    and before: "stored_status (i_id i) (w_db w) \<noteq> Some StatusRunning"
    and after: "stored_status (i_id i) (w_db w') = Some StatusRunning"
  shows "\<exists>s. po_start (c_ports (sys_cfg S)) \<le> s \<and> s + port_block_size (sys_cfg S) - 1 \<le> po_end (c_ports (sys_cfg S))
    \<and> {s..s + port_block_size (sys_cfg S) - 1} \<subseteq> host_ports (i_id i) (w_db w')"
  using p
proof (cases rule: provision_cases)
  case (failed e w1 w2)
  have "stored_status (i_id i) (w_db w1) \<noteq> Some StatusRunning"
    by (rule stays_downD [OF stays_down_status failed(1) before]) simp
  then have "stored_status (i_id i) (w_db w2) \<noteq> Some StatusRunning"
    using failed(2) same_status_stored [of "w_db w1" "w_db w2"] by (simp add: quiet_def)
  then show ?thesis using stays_downD [OF stays_down_fail failed(3)] after by simp
next
  case (finished w1 w2 w3 w4 w5 block)
  obtain s where s: "first_block (c_ports (sys_cfg S)) (port_block_size (sys_cfg S))
      (set (select_used_ports (w_db w1)) \<union> marked members S w1) = Some s"
    and block: "block = ports_from s (port_block_size (sys_cfg S))"
    using redis_laws.AllocateBlock_Inr [OF redis_laws.intro [OF laws] refl finished(2)] by blast
  have "s \<in> set (block_starts (c_ports (sys_cfg S)) (port_block_size (sys_cfg S)))"
    using s unfolding first_block_def find_Some_iff by auto
  moreover have "t_ports (w_db w') = t_ports (w_db w4)"
    using same_portsD [OF same_ports_status finished(5)] same_portsD [OF same_ports_state finished(6)] by simp
  ultimately show ?thesis
    using guest_ports [OF finished(4)] block
    by (auto simp: block_starts_def ports_from_def host_ports_def)
qed

text \<open>C3. An instance that a provisioning job declares running has a whole block of ports of the configured
size, contiguous and inside the configured range, recorded for it in the tables: whatever fails on the way,
the job never reports a half provisioned instance as running.\<close>

theorem provision_running:
  assumes "redis_server_ok (sys_redis S) members"
    and "stored_status (i_id i) (w_db w) \<noteq> Some StatusRunning"
    and "stored_status (i_id i) (w_db (snd (provision S i w))) = Some StatusRunning"
  shows "\<exists>s. po_start (c_ports (sys_cfg S)) \<le> s \<and> s + port_block_size (sys_cfg S) - 1 \<le> po_end (c_ports (sys_cfg S))
    \<and> {s..s + port_block_size (sys_cfg S) - 1} \<subseteq> host_ports (i_id i) (w_db (snd (provision S i w)))"
  by (rule provision_running_lemma [OF assms(1) prod.collapse [symmetric] assms(2,3)])

text \<open>C13. While the database answers, a provisioning job never leaves its instance in a transitional state:
when it ends, the stored status is running or error.\<close>

theorem provision_ends:
  assumes "pg_up S" and "db_ok (w_db w)" and "stored_status (i_id i) (w_db w) \<noteq> None"
  shows "stored_status (i_id i) (w_db (snd (provision S i w))) \<in> {Some StatusRunning, Some StatusError}"
  using provision_ends_lemma [OF assms(1,2) prod.collapse [symmetric], of i] assms(3) by auto


text \<open>The examples: an instance waiting to be provisioned, with ports to spare and with none.\<close>

definition waiting_db :: database where
  "waiting_db = empty_db\<lparr>t_instances := [ref_inst\<lparr>i_status := StatusPending\<rparr>]\<rparr>"

lemma waiting_db_ok: "db_ok waiting_db"
  by (simp add: db_ok_def waiting_db_def empty_db_def ref_inst_def instances_ok_def
      instance_checks_def ports_ok_def ports_unique_def instance_ids_def daily_ok_def hourly_ok_def)

lemma ref_provision:
  "stored_status 77 (w_db (snd (provision (ref_sys small_cfg) ref_inst (ref_world waiting_db)))) = Some StatusRunning"
  by code_simp

lemma ref_waiting: "stored_status 77 (w_db (ref_world waiting_db)) = Some StatusPending"
  by code_simp


lemma ref_inst_id [simp]: "i_id ref_inst = 77"
  by (simp add: ref_inst_def)

theorem provision_running_witness:
  "\<exists>s\<ge>20000. {s..s + 2} \<subseteq> host_ports 77 (w_db (snd (provision (ref_sys small_cfg) ref_inst (ref_world waiting_db))))"
proof -
  have ok: "redis_server_ok (sys_redis (ref_sys small_cfg)) mem_members" by (simp add: mem_server_ok)
  have cfg: "po_start (c_ports small_cfg) = 20000" "port_block_size small_cfg = 3" by code_simp+
  have "stored_status (i_id ref_inst) (w_db (ref_world waiting_db)) \<noteq> Some StatusRunning" by (simp add: ref_waiting)
  from provision_running [OF ok this] ref_provision cfg show ?thesis by (auto simp: add.commute)
qed

theorem provision_ends_witness:
  "stored_status 77 (w_db (snd (provision (ref_sys Default) ref_inst (ref_world waiting_db)))) \<in> {Some StatusRunning, Some StatusError}"
  using provision_ends [of "ref_sys Default" "ref_world waiting_db" ref_inst] waiting_db_ok
  by (simp add: ref_world_def waiting_db_def stored_status_def)

section \<open>Deletion\<close>

lemma delete_port_up:
  assumes "pg_up S" "remove_port S i p w = (r, w')"
  shows "r = Inr () \<and> t_ports (w_db w') = filter (\<lambda>q. p_id q \<noteq> p_id p) (t_ports (w_db w))"
proof -
  obtain u v w1 w2 where
    rm: "ignore (incus S (\<lambda>c. ic_RemoveProxyDevice c (i_incus i) (p_device p))) w = (Inr u, w1)"
    and rl: "ignore (ports_Release S (p_host p)) w1 = (Inr v, w2)"
    and del: "ignore (db_DeletePort S (p_id p)) w2 = (r, w')"
    using assms(2) unfolding remove_port_def by (elim andThen_answers [rotated]) (auto intro: answer_rules)
  have db: "w_db w2 = w_db w"
    using same_db_stepsD [OF same_db.steps_ignore [OF same_db.steps_on_incus] rm]
      same_db_stepsD [OF same_db.steps_ignore [OF same_db.steps_ports(5)] rl] by simp
  obtain v t e where "sql S (delete_port (p_id p)) w2 = (fst (delete_port (p_id p) v t (w_db w2)),
      w2\<lparr>w_db := snd (delete_port (p_id p) v t (w_db w2)), w_env := e\<rparr>)"
    using sql_up [OF assms(1), of "delete_port (p_id p)" w2] by blast
  then show ?thesis
    using del db by (auto simp: ignore_eq db_DeletePort_def delete_port_def set_ports_def)
qed

lemma delete_ports_up:
  "pg_up S \<Longrightarrow> forEach (remove_port S i) ps w = (r, w') \<Longrightarrow>
   r = Inr () \<and> t_ports (w_db w') = filter (\<lambda>q. p_id q \<notin> p_id ` set ps) (t_ports (w_db w))"
proof (induction ps arbitrary: w)
  case (Cons p ps)
  obtain x w1 where x: "remove_port S i p w = (x, w1)" by fastforce
  note rp = delete_port_up [OF Cons.prems(1) x]
  then have "forEach (remove_port S i) ps w1 = (r, w')" using Cons.prems(2) x by (simp add: andThen_def)
  from Cons.IH [OF Cons.prems(1) this] rp show ?case by (simp add: conj_commute)
qed auto

text \<open>\<open>GetInstance\<close> returns the live row with its ports and leaves ports and rows' keys alone.\<close>

lemma same_ports_sync: "steps (db_rel same_ports) (syncStatusFromIncus S i)"
  unfolding syncStatusFromIncus_def by (intro frame_rules same_ports_status same_ports_state)

lemma sync_fields:
  "yields (\<lambda>i'. i_id i' = i_id i \<and> i_incus i' = i_incus i \<and> i_ports i' = i_ports i \<and> i_name i' = i_name i)
     (syncStatusFromIncus S i)"
  unfolding syncStatusFromIncus_def by (intro yield_rules; simp)

lemma db_GetInstance_Inr:
  assumes "db_GetInstance S iid w = (Inr i, w')"
  shows "\<exists>row. select_instance iid (w_db w) = Some row \<and> i = row\<lparr>i_ports := select_ports iid (w_db w)\<rparr>
    \<and> w_db w' = w_db w"
proof -
  obtain row w1 ports w2 where "query S (select_instance iid) w = (Inr (Some row), w1)"
    and "query S (select_ports iid) w1 = (Inr ports, w')" "i = row\<lparr>i_ports := ports\<rparr>"
    using assms unfolding db_GetInstance_def db_ListPorts_def
    by (auto simp: andThen_Inr found_def split: option.splits)
  then show ?thesis using query_Inr(1,2) by metis
qed

lemma db_GetInstanceByName_Inr:
  assumes "db_GetInstanceByName S name w = (Inr i, w')"
  shows "\<exists>row. select_instance_by_name name (w_db w) = Some row \<and> i_id i = i_id row \<and> w_db w' = w_db w"
proof -
  obtain row w1 ports where q: "query S (select_instance_by_name name) w = (Inr (Some row), w1)"
    "query S (select_ports (i_id row)) w1 = (Inr ports, w')" and i: "i = row\<lparr>i_ports := ports\<rparr>"
    using assms unfolding db_GetInstanceByName_def db_ListPorts_def
    by (auto simp: andThen_Inr found_def split: option.splits)
  from i have "i_id i = i_id row" by simp
  with query_Inr(1,2) [OF q(1)] query_Inr(1,2) [OF q(2)] show ?thesis by metis
qed

lemma GetInstance_Inr:
  assumes "GetInstance S iid w = (Inr i, w')"
  shows "i_id i = iid \<and> i_ports i = select_ports iid (w_db w) \<and> t_ports (w_db w') = t_ports (w_db w)
    \<and> (\<exists>row. select_instance iid (w_db w) = Some row \<and> i_incus i = i_incus row)"
proof -
  obtain j w1 where j: "db_GetInstance S iid w = (Inr j, w1)" and s: "syncStatusFromIncus S j w1 = (Inr i, w')"
    using assms unfolding GetInstance_def andThen_Inr orNotFound_Inr by blast
  obtain row where "select_instance iid (w_db w) = Some row" "j = row\<lparr>i_ports := select_ports iid (w_db w)\<rparr>"
    "w_db w1 = w_db w" using db_GetInstance_Inr [OF j] by blast
  then show ?thesis
    using yieldsD [OF sync_fields s] same_portsD [OF same_ports_sync s]
    by (auto simp: select_instance_def dest: find_unique_some)
qed

lemma soft_delete_ok:
  assumes "soft_delete iid v t d = (Inr u, d')"
  shows "select_instance iid d' = None \<and> t_ports d' = t_ports d"
proof -
  have "\<not> (i_id r = iid \<and> live r)" if "r \<in> set (map (\<lambda>r. if i_id r = iid then r\<lparr>i_status := StatusDeleted, i_updated := t\<rparr> else r) rows)" for r rows
    using that by (induction rows) (auto simp: live_def split: if_splits)
  then have "List.find (\<lambda>r. i_id r = iid \<and> live r) (map (\<lambda>r. if i_id r = iid then r\<lparr>i_status := StatusDeleted, i_updated := t\<rparr> else r) rows) = None" for rows
    by (simp only: find_None_iff) blast
  then show ?thesis
    using assms by (auto simp: soft_delete_def update_instances_def Let_def set_instances_def refused_def
        select_instance_def simp del: map_map split: if_splits)
qed

lemma DeleteInstance_Inr:
  assumes up: "pg_up S" and "distinct (map p_id (t_ports (w_db w)))" and d: "DeleteInstance S iid w = (Inr u, w')"
  shows "select_instance iid (w_db w') = None
    \<and> t_ports (w_db w') = filter (\<lambda>p. p_instance p \<noteq> iid) (t_ports (w_db w))"
proof -
  obtain i w1 w2 w3 w4 w5 w6 where
    get: "GetInstance S iid w = (Inr i, w1)"
    and s1: "set_db_status S iid StatusDeleting '''' w1 = (Inr (), w2)"
    and s2: "set_state S iid StatusDeleting hour w2 = (Inr (), w3)"
    and ports: "forEach (remove_port S i) (i_ports i) w3 = (Inr (), w4)"
    and c: "ignore (incus S (\<lambda>c. ic_DeleteContainer c (i_incus i))) w4 = (Inr (), w5)"
    and s3: "ignore (redis_DeleteInstanceState S (uuid_String S iid)) w5 = (Inr (), w6)"
    and soft: "sql S (soft_delete iid) w6 = (Inr u, w')"
    using d unfolding DeleteInstance_def andThen_Inr db_SoftDeleteInstance_def by auto
  note g = GetInstance_Inr [OF get]
  have db3: "t_ports (w_db w3) = t_ports (w_db w)"
    using g same_portsD [OF same_ports_status s1] same_portsD [OF same_ports_state s2] by simp
  have "w_db w5 = w_db w4" by (rule same_db_stepsD [OF same_db.steps_ignore [OF same_db.steps_on_incus] c])
  moreover have "w_db w6 = w_db w5"
    by (rule same_db_stepsD [OF same_db.steps_ignore [OF same_db.steps_redis(9)] s3])
  moreover obtain v t where "soft_delete iid v t (w_db w6) = (Inr u, w_db w')" using sql_Inr [OF soft] by blast
  moreover have "filter (\<lambda>q. p_id q \<notin> p_id ` set (select_ports iid (w_db w))) (t_ports (w_db w))
      = filter (\<lambda>p. p_instance p \<noteq> iid) (t_ports (w_db w))"
    using assms(2) by (intro filter_cong refl) (auto simp: select_ports_def distinct_map inj_on_def)
  ultimately show ?thesis
    using soft_delete_ok [of iid v t "w_db w6" u "w_db w'"] delete_ports_up [OF up ports] g db3 by simp
qed




section \<open>A deletion during provisioning\<close>

lemma select_find: "select_instance iid d = List.find (\<lambda>r. i_id r = iid \<and> live r) (t_instances d)"
  by (simp add: select_instance_def)

lemma stored_live:
  "stored_status iid d = Some st \<Longrightarrow> st \<noteq> StatusDeleted \<Longrightarrow> select_instance iid d \<noteq> None"
  by (auto simp: stored_status_def select_instance_def find_None_iff live_def dest: find_unique_some)

lemma stored_kept:
  assumes "rows_kept d d'" "stored_status iid d \<noteq> None"
  shows "stored_status iid d' \<noteq> None"
proof -
  have "stored_status iid d \<noteq> None \<longleftrightarrow> iid \<in> fst ` identity ` set (t_instances d)" for d
    by (auto simp: stored_status_def find_None_iff identity_def image_iff)
  then show ?thesis using assms rows_kept_identity [OF assms(1)] by blast
qed

lemma selected_stored: "select_instance iid d = Some r \<Longrightarrow> stored_status iid d \<noteq> None"
  by (auto simp: stored_status_def select_instance_def find_None_iff dest: find_unique_some)

text \<open>C26. The status updates of a provisioning job are unconditional. When a client deletes the instance
while the job of its creation is still to run, the deletion reports success, and the job then makes the
deleted instance live again, as running or in error.\<close>

theorem provision_revives_deleted:
  assumes "pg_up S" and "db_ok (w_db w)"
    and "DeleteInstance S (i_id i) w = (Inr (), w1)"
  shows "select_instance (i_id i) (w_db w1) = None
    \<and> select_instance (i_id i) (w_db (snd (provision S i w1))) \<noteq> None"
proof -
  obtain j w0 where "GetInstance S (i_id i) w = (Inr j, w0)"
    using assms(3) unfolding DeleteInstance_def andThen_Inr by blast
  then have "stored_status (i_id i) (w_db w) \<noteq> None" using GetInstance_Inr selected_stored by metis
  moreover have "rows_kept (w_db w) (w_db w1)" "keeps_ok (w_db w) (w_db w1)"
    using stepsD [OF kept.steps_DeleteInstance assms(3)] stepsD [OF ok.steps_DeleteInstance assms(3)]
    by (simp_all add: db_rel_def)
  ultimately have 1: "stored_status (i_id i) (w_db w1) \<noteq> None" "db_ok (w_db w1)"
    using stored_kept assms(2) by (auto simp: keeps_ok_def)
  have "distinct (map p_id (t_ports (w_db w)))" using assms(2) by (simp add: db_ok_def ports_ok_def ports_unique_def)
  then have "select_instance (i_id i) (w_db w1) = None" using DeleteInstance_Inr [OF assms(1) _ assms(3)] by blast
  moreover have "select_instance (i_id i) (w_db (snd (provision S i w1))) \<noteq> None"
    using provision_ends_lemma [OF assms(1) 1(2) prod.collapse [symmetric], of i] 1(1)
      stored_live [of "i_id i" "w_db (snd (provision S i w1))"]
    by auto
  ultimately show ?thesis by blast
qed

theorem provision_revives_deleted_witness:
  "select_instance 77 (w_db (snd (provision (ref_sys Default) ref_inst
     (snd (DeleteInstance (ref_sys Default) 77 (ref_world one_db)))))) \<noteq> None"
proof -
  have "fst (DeleteInstance (ref_sys Default) (i_id ref_inst) (ref_world one_db)) = Inr ()" by code_simp
  then have "DeleteInstance (ref_sys Default) (i_id ref_inst) (ref_world one_db)
      = (Inr (), snd (DeleteInstance (ref_sys Default) (i_id ref_inst) (ref_world one_db)))"
    by (simp add: prod_eq_iff)
  from provision_revives_deleted [OF ref_pg_up _ this] show ?thesis by (simp add: ref_world_def one_db_ok)
qed

end
