(* ===== verification/PortMappings.thy ===== *)
theory PortMappings imports Provision begin

text \<open>
  What the operations on port mappings promise: an added mapping is recorded under a host port of the
  configured range that Redis marks, a changed protocol keeps the ports, a removed mapping is gone.
\<close>

lemma choose_host_port_Inr:
  assumes laws: "redis_server_ok (sys_redis S) members" and c: "choose_host_port S req w = (Inr port, w')"
  shows "po_start (c_ports (sys_cfg S)) \<le> port \<and> port \<le> po_end (c_ports (sys_cfg S))
    \<and> port \<in> marked members S w' \<and> (ap_host req \<noteq> 0 \<longrightarrow> port = ap_host req)"
proof -
  note L = redis_laws.intro [OF laws]
  show ?thesis
  proof (cases "ap_host req = 0")
    case False
    then have "ports_Reserve S (ap_host req) w = (Inr (), w')" "port = ap_host req"
      using c by (auto simp: choose_host_port_def andThen_attempt split: prod.splits sum.splits)
    then show ?thesis using redis_laws.Reserve_Inr [OF L refl] by fastforce
  next
    case True
    obtain x w1 where x: "ports_Reserve S (ap_internal req) w = (x, w1)" by fastforce
    show ?thesis
    proof (cases x)
      case (Inr u)
      then have "port = ap_internal req" "w' = w1"
        using c x True by (auto simp: choose_host_port_def andThen_attempt)
      then show ?thesis using redis_laws.Reserve_Inr [OF L refl, of "ap_internal req" w] x Inr True by fastforce
    next
      case (Inl e)
      then obtain block where b: "ports_AllocateBlock S 1 w1 = (Inr block, w')" and port: "port = hd block"
        using c x True by (auto simp: choose_host_port_def andThen_attempt ports_Allocate_def andThen_Inr)
      obtain s where s: "first_block (c_ports (sys_cfg S)) 1 (set (select_used_ports (w_db w1)) \<union> marked members S w1) = Some s"
        "block = ports_from s 1" "marked members S w' = marked members S w1 \<union> set block"
        using redis_laws.AllocateBlock_Inr [OF L refl b] by blast
      then have "s \<in> set (block_starts (c_ports (sys_cfg S)) 1)" unfolding first_block_def find_Some_iff by auto
      then show ?thesis using s port True by (auto simp: block_starts_def ports_from_def)
    qed
  qed
qed

lemma insert_port_Inr:
  assumes "insert_port p v t d = (Inr u, d')"
  shows "t_ports d' = t_ports d @ [p] \<and> port_checks p \<and> ports_unique (t_ports d @ [p])"
  using assms by (auto simp: insert_port_def refused_def set_ports_def split: if_splits)

definition request_proto :: "add_port_request \<Rightarrow> string" where
  "request_proto req = (if ap_protocol req = '''' then ''tcp'' else strings_ToLower (ap_protocol req))"

lemma same_db_fresh: "steps (db_rel (=)) (fresh_device S base clash)"
  unfolding fresh_device_def by (intro frame_rules)

lemma same_db_choose: "steps (db_rel (=)) (choose_host_port S req)"
  unfolding choose_host_port_def by (intro frame_rules)

lemma AddPortMapping_Inr:
  assumes laws: "redis_server_ok (sys_redis S) members" and a: "AddPortMapping S iid req w = (Inr pm, w')"
  shows "p_instance pm = iid \<and> p_internal pm = ap_internal req \<and> p_protocol pm = request_proto req
    \<and> (ap_host req \<noteq> 0 \<longrightarrow> p_host pm = ap_host req) \<and> port_checks pm
    \<and> po_start (c_ports (sys_cfg S)) \<le> p_host pm \<and> p_host pm \<le> po_end (c_ports (sys_cfg S))
    \<and> p_host pm \<in> marked members S w'
    \<and> t_ports (w_db w') = t_ports (w_db w) @ [pm] \<and> ports_unique (t_ports (w_db w'))"
proof -
  define proto where "proto = request_proto req"
  have lower: "(if strings_ToLower (ap_protocol req) = '''' then ''tcp'' else strings_ToLower (ap_protocol req)) = proto"
    by (simp add: proto_def request_proto_def strings_ToLower_def)
  obtain i w1 host w2 device w3 u w4 pid w5 now w6 where
    get: "GetInstance S iid w = (Inr i, w1)"
    and host: "choose_host_port S req w1 = (Inr host, w2)"
    and dev: "fresh_device S (port_device proto (ap_internal req)) (port_device proto (ap_internal req) \<in> p_device ` set (i_ports i)) w2 = (Inr device, w3)"
    and inc: "incus S (\<lambda>c. ic_AddProxyDevice c (i_incus i) device proto host (ap_internal req)) w3 = (Inr u, w4)"
    and pid: "uuid_New S w4 = (Inr pid, w5)" and now: "time_Now S w5 = (Inr now, w6)"
    and pm: "pm = \<lparr>p_id = pid, p_instance = iid, p_protocol = proto, p_host = host,
                   p_internal = ap_internal req, p_device = device, p_created = now\<rparr>"
    and add: "db_AddPort S pm w6 = (Inr (), w')"
    using a unfolding AddPortMapping_def Let_def lower
    by (auto simp: andThen_Inr attempt_eq case_sum_eq split: if_split_asm)
  have marks: "marked members S w' = marked members S w2"
  proof -
    have "w_redis w6 = w_redis w2"
      using dev inc pid now by (auto simp: fresh_device_def andThen_Inr uuid_New_def time_Now_def on_env_def on_incus_def
          split: if_splits prod.splits)
    moreover have "w_redis w' = w_redis w6"
      using add by (auto simp: db_AddPort_def sql_def split: prod.splits pg_reply.splits)
    ultimately show ?thesis by (simp add: marked_def)
  qed
  have "t_ports (w_db w6) = t_ports (w_db w)"
    using GetInstance_Inr [OF get] same_db_stepsD [OF same_db_choose host] same_db_stepsD [OF same_db_fresh dev]
      same_db_stepsD [OF same_db.steps_on_incus inc] same_db_stepsD [OF same_db.steps_uuid_New pid]
      same_db_stepsD [OF same_db.steps_time_Now now] by simp
  moreover obtain v t where "insert_port pm v t (w_db w6) = (Inr (), w_db w')"
    using sql_Inr [OF add [unfolded db_AddPort_def]] by blast
  note ins = insert_port_Inr [OF this]
  ultimately show ?thesis
    using choose_host_port_Inr [OF laws host] ins marks by (simp add: pm proto_def)
qed

text \<open>C17. A mapping that \<open>AddPortMapping\<close> returns is the one the request asks for, under a host port of the
configured range (the requested one, when there is one) that is marked in Redis; exactly its row is new, and no
two rows share a host port and protocol.\<close>

theorem AddPortMapping_adds:
  assumes "redis_server_ok (sys_redis S) members" and "fst (AddPortMapping S iid req w) = Inr pm"
  shows "p_instance pm = iid \<and> p_internal pm = ap_internal req \<and> p_protocol pm = request_proto req
    \<and> (ap_host req = 0 \<or> p_host pm = ap_host req) \<and> port_checks pm
    \<and> po_start (c_ports (sys_cfg S)) \<le> p_host pm \<and> p_host pm \<le> po_end (c_ports (sys_cfg S))
    \<and> p_host pm \<in> marked members S (snd (AddPortMapping S iid req w))
    \<and> t_ports (w_db (snd (AddPortMapping S iid req w))) = t_ports (w_db w) @ [pm]
    \<and> ports_unique (t_ports (w_db (snd (AddPortMapping S iid req w))))"
proof -
  have "AddPortMapping S iid req w = (Inr pm, snd (AddPortMapping S iid req w))"
    using assms(2) by (simp add: prod_eq_iff)
  from AddPortMapping_Inr [OF assms(1) this] show ?thesis by blast
qed

definition ref_add :: add_port_request where
  "ref_add = \<lparr>ap_protocol = ''UDP'', ap_internal = 53, ap_host = 20005\<rparr>"

lemma ref_add_port: "\<exists>pm. fst (AddPortMapping (ref_sys small_cfg) 77 ref_add (ref_world one_db)) = Inr pm"
proof -
  have "\<not> isl (fst (AddPortMapping (ref_sys small_cfg) 77 ref_add (ref_world one_db)))" by code_simp
  then show ?thesis by (cases "fst (AddPortMapping (ref_sys small_cfg) 77 ref_add (ref_world one_db))") auto
qed

theorem AddPortMapping_adds_witness:
  "\<exists>pm. fst (AddPortMapping (ref_sys small_cfg) 77 ref_add (ref_world one_db)) = Inr pm
    \<and> p_host pm = 20005 \<and> p_protocol pm = ''udp''
    \<and> t_ports (w_db (snd (AddPortMapping (ref_sys small_cfg) 77 ref_add (ref_world one_db)))) = [ref_port 20000, pm]"
proof -
  obtain pm where pm: "fst (AddPortMapping (ref_sys small_cfg) 77 ref_add (ref_world one_db)) = Inr pm"
    using ref_add_port by blast
  have ok: "redis_server_ok (sys_redis (ref_sys small_cfg)) mem_members" by (simp add: mem_server_ok)
  have p: "request_proto ref_add = ''udp''" "ap_host ref_add = 20005" by code_simp+
  show ?thesis
    using AddPortMapping_adds [OF ok pm] pm p by (simp add: ref_world_def one_db_def)
qed


section \<open>Changing the protocol\<close>

lemma set_protocol_Inr:
  assumes "set_protocol pid protocol device v t d = (Inr u, d')"
  shows "t_ports d' = map (\<lambda>p. if p_id p = pid then p\<lparr>p_protocol := protocol, p_device := device\<rparr> else p) (t_ports d)
    \<and> list_all (\<lambda>p. p_id p = pid \<longrightarrow> port_checks p) (t_ports d')"
  using assms by (auto simp: set_protocol_def Let_def set_ports_def refused_def simp del: map_map split: if_splits)

lemma db_GetPort_Inr:
  assumes "db_GetPort S iid pid w = (Inr pm, w')"
  shows "pm \<in> set (t_ports (w_db w)) \<and> p_id pm = pid \<and> p_instance pm = iid \<and> w_db w' = w_db w"
proof -
  obtain row w1 where "query S (select_port iid pid) w = (Inr (Some row), w')" "pm = row"
    using assms unfolding db_GetPort_def by (auto simp: andThen_Inr found_def split: option.splits)
  then show ?thesis
    using query_Inr(1,2) [of S "select_port iid pid" w "Some row" w']
    by (auto simp: select_port_def dest!: find_unique_some dest: sym)
qed

lemma UpdatePortMapping_Inr:
  assumes "UpdatePortMapping S iid pid req w = (Inr pm, w')"
  shows "\<exists>old \<in> set (t_ports (w_db w)). p_id old = pid \<and> p_instance old = iid
    \<and> valid_proto (strings_ToLower (strings_TrimSpace (up_protocol req)))
    \<and> pm = old\<lparr>p_protocol := strings_ToLower (strings_TrimSpace (up_protocol req)), p_device := p_device pm\<rparr>
    \<and> map p_host (t_ports (w_db w')) = map p_host (t_ports (w_db w))
    \<and> map p_internal (t_ports (w_db w')) = map p_internal (t_ports (w_db w))
    \<and> pm \<in> set (t_ports (w_db w'))"
proof -
  define proto where "proto = strings_ToLower (strings_TrimSpace (up_protocol req))"
  obtain i w1 old w2 where
    get: "GetInstance S iid w = (Inr i, w1)" and old: "db_GetPort S iid pid w1 = (Inr old, w2)"
    and valid: "valid_proto proto"
    and rest: "(proto = p_protocol old \<and> pm = old \<and> w' = w2) \<or>
      (\<exists>others base newDevice w3 w4 u. fresh_device S base others w2 = (Inr newDevice, w3)
        \<and> incus S (\<lambda>c. ic_UpdateProxyDeviceProtocol c (i_incus i) (p_device old) newDevice proto (p_host old) (p_internal old)) w3 = (Inr u, w4)
        \<and> db_UpdatePortProtocol S (p_id old) proto newDevice w4 = (Inr (), w')
        \<and> pm = old\<lparr>p_protocol := proto, p_device := newDevice\<rparr>)"
    using assms unfolding UpdatePortMapping_def Let_def proto_def [symmetric]
    by (auto simp: andThen_Inr orNotFound_Inr wrapErr_Inr attempt_eq case_sum_eq split: if_split_asm) blast+
  have db1: "t_ports (w_db w1) = t_ports (w_db w)" using GetInstance_Inr [OF get] by blast
  have o: "old \<in> set (t_ports (w_db w))" "p_id old = pid" "p_instance old = iid" "t_ports (w_db w2) = t_ports (w_db w)"
    using db_GetPort_Inr [OF old] db1 by auto
  show ?thesis
    using rest
  proof (elim disjE exE conjE)
    assume "proto = p_protocol old" "pm = old" "w' = w2"
    then show ?thesis using o valid unfolding proto_def [symmetric] by (intro bexI [of _ old]) auto
  next
    fix others base newDevice w3 w4 u
    assume dev: "fresh_device S base others w2 = (Inr newDevice, w3)"
      and inc: "incus S (\<lambda>c. ic_UpdateProxyDeviceProtocol c (i_incus i) (p_device old) newDevice proto (p_host old) (p_internal old)) w3 = (Inr u, w4)"
      and upd: "db_UpdatePortProtocol S (p_id old) proto newDevice w4 = (Inr (), w')"
      and pm: "pm = old\<lparr>p_protocol := proto, p_device := newDevice\<rparr>"
    have db4: "t_ports (w_db w4) = t_ports (w_db w)"
      using same_db_stepsD [OF same_db_fresh dev] same_db_stepsD [OF same_db.steps_on_incus inc] o by simp
    let ?upd = "\<lambda>p. if p_id p = p_id old then p\<lparr>p_protocol := proto, p_device := newDevice\<rparr> else p"
    obtain v t where "set_protocol (p_id old) proto newDevice v t (w_db w4) = (Inr (), w_db w')"
      using sql_Inr [OF upd [unfolded db_UpdatePortProtocol_def]] by blast
    from set_protocol_Inr [OF this] have rows: "t_ports (w_db w') = map ?upd (t_ports (w_db w))" using db4 by simp
    have "map p_host (map ?upd xs) = map p_host xs" "map p_internal (map ?upd xs) = map p_internal xs" for xs
      by (induction xs) auto
    moreover have "pm \<in> set (t_ports (w_db w'))" using o(1) pm rows by force
    ultimately show ?thesis using o valid pm rows unfolding proto_def [symmetric] by (intro bexI [of _ old]) auto
  qed
qed


definition ref_update :: update_port_request where
  "ref_update = \<lparr>up_protocol = '' UDP''\<rparr>"


end
