(* ===== verification/IncusClient.thy ===== *)
theory IncusClient imports Guest PortMappings begin

text \<open>
  The composition: the service with the Incus client of this repository in place of the opaque one, over any
  Incus daemon.
\<close>

section \<open>The client as the service sees it\<close>

text \<open>\<open>client_of V\<close>: the methods of \<open>incusclient.Client\<close> that the service calls, on a daemon \<open>V\<close>.\<close>

definition client_of :: "'d incus_server \<Rightarrow> 'd icl incus_client" where
  "client_of V = \<lparr>
     ic_Ping = srv (Ping V),
     ic_CreateContainer = CreateContainer V,
     ic_EnsureStarted = (\<lambda>n. srv (EnsureStarted V n)),
     ic_EnsureInstanceIPv4 = EnsureInstanceIPv4 V,
     ic_HardenNetwork = (\<lambda>n. srv (HardenNetwork V n)),
     ic_ConfigureGuestDNS = ConfigureGuestDNS V,
     ic_EnsureSSH = EnsureSSH V,
     ic_SetRootPassword = (\<lambda>n pw. srv (SetRootPassword V n pw)),
     ic_AddProxyDevices = (\<lambda>n specs. srv (AddProxyDevices V n specs)),
     ic_AddProxyDevice = (\<lambda>n dev proto host internal. srv (AddProxyDevice V n dev proto host internal)),
     ic_RemoveProxyDevice = (\<lambda>n dev. srv (RemoveProxyDevice V n dev)),
     ic_UpdateProxyDeviceProtocol = (\<lambda>n old new proto host internal.
       srv (UpdateProxyDeviceProtocol V n old new proto host internal)),
     ic_GetStatus = (\<lambda>n. srv (GetStatus V n)),
     ic_IsRunning = (\<lambda>n c. case IsRunning V n (cl_out c) of (b, d) \<Rightarrow> (b, c\<lparr>cl_out := d\<rparr>)),
     ic_UpdateResourceLimits = (\<lambda>n cpu mem procs mbps throttled.
       srv (UpdateResourceLimits V n cpu mem procs mbps throttled)),
     ic_EnsureDiskIsolation = (\<lambda>n. srv (EnsureDiskIsolation V n)),
     ic_ApplyNetworkPolicy = (\<lambda>n mbps throttled. srv (ApplyNetworkPolicy V n mbps throttled)),
     ic_StopContainer = (\<lambda>n force. srv (StopContainer V n force)),
     ic_RestartContainer = (\<lambda>n. srv (RestartContainer V n)),
     ic_DeleteContainer = (\<lambda>n. srv (DeleteContainer V n)),
     ic_NetworkBytesTotal = (\<lambda>n. srv (NetworkBytesTotal V n)),
     ic_ResourceSample = (\<lambda>n. srv (ResourceSample V n)),
     ic_DiskUsageBytes = (\<lambda>n. srv (DiskUsageBytes V n)),
     ic_StoragePoolSpace = StoragePoolSpace V\<rparr>"

section \<open>What happens in a guest respects what the daemon's operations respect\<close>

context daemon
begin

lemma steps_guest_exec [frame_rules]: "steps R (guest_exec V n s)"
  unfolding guest_exec_def by (intro frame_rules)

lemma steps_run_script [frame_rules]: "steps R (run_script V n s bad exited)"
  unfolding run_script_def by (intro frame_rules)

lemma steps_ApplyGuestStaticIPv4 [frame_rules]: "steps R (ApplyGuestStaticIPv4 V n ip cidr)"
  unfolding ApplyGuestStaticIPv4_def by (intro frame_rules)

lemma steps_put_eth0 [frame_rules]: "steps R (put_eth0 V n i etag eth0)"
proof -
  have first: "steps R (andThen (attempt (sv_UpdateInstance V n j etag)) (\<lambda>r. case r of Inr op \<Rightarrow> op | Inl _ \<Rightarrow> again))"
    if "steps R again" for j and again :: "('d, unit) prog"
    by (rule steps_andThen_yields [OF _ yields_reply])
      (use that update_respects in \<open>auto simp: op_respects_def reply_respects_def intro: frame_rules split: sum.split\<close>)
  show ?thesis unfolding put_eth0_def Let_def by (intro frame_rules first)
qed

lemma steps_EnsureInstanceIPv4 [frame_rules]: "steps (out_rel R) (EnsureInstanceIPv4 V n)"
  unfolding EnsureInstanceIPv4_def NetworkIPv4CIDR_def by (intro frame_rules)

lemma steps_ConfigureGuestDNS [frame_rules]: "steps (out_rel R) (ConfigureGuestDNS V n)"
  unfolding ConfigureGuestDNS_def bridge_dns_def by (intro frame_rules)

lemma steps_load_urls [frame_rules]: "steps R (load_urls (sv_host V) us out errs)"
  by (induction us arbitrary: out errs) (auto simp: fetch_index_def intro!: frame_rules)

lemma steps_try_mirrors [frame_rules]: "steps R (try_mirrors (sv_host V) pkg dest roots seen e)"
  by (induction roots arbitrary: seen e) (auto simp: try_mirror_def Let_def intro!: frame_rules)

lemma steps_or_panic [frame_rules]: "steps R (or_panic x)"
  unfolding or_panic_def by (intro frame_rules)

lemma steps_EnsureOpenSSHDebs [frame_rules]: "steps R (EnsureOpenSSHDebs (sv_host V) g)"
  unfolding EnsureOpenSSHDebs_def loadPackagesIndex_def downloadDebFile_def by (intro frame_rules)

lemma steps_InstallOpenSSHFromHost [frame_rules]: "steps R (InstallOpenSSHFromHost V n)"
  unfolding InstallOpenSSHFromHost_def detectGuestOS_def push_deb_def by (intro frame_rules)

lemma wait_loop_respects:
  assumes ret: "wait_loop V n port timeout deadline d = Some y"
  shows "R d (snd y)"
proof -
  have "U = V \<longrightarrow> R d (snd y)" if "wait_loop U n port timeout deadline d = Some y" for U n port timeout deadline d y
  proof (rule wait_loop.raw_induct [where P = "\<lambda>U n port timeout deadline d y. U = V \<longrightarrow> R d (snd y)", OF _ that])
    fix loop :: "'d incus_server \<Rightarrow> string \<Rightarrow> int \<Rightarrow> int \<Rightarrow> int \<Rightarrow> 'd \<Rightarrow> ((error + unit) \<times> 'd) option"
      and U n port timeout deadline d y
    assume IH: "\<And>U n port timeout deadline d y. loop U n port timeout deadline d = Some y \<Longrightarrow> U = V \<longrightarrow> R d (snd y)"
      and eq: "(case h_Now (sv_host U) d of (now, d) \<Rightarrow>
          if now < deadline
          then (case guest_exec U n (sshd_pattern port) d of (x, d) \<Rightarrow>
                  if (case x of Inr y \<Rightarrow> listening port y | Inl _ \<Rightarrow> False) then Some (Inr (), d)
                  else loop U n port timeout deadline (h_Sleep (sv_host U) 2000000000 d))
          else Some (Inl (ErrText (''sshd did not become ready on :'' @ itoa port @ '' within '' @ duration_String timeout)), d)) = Some y"
    show "U = V \<longrightarrow> R d (snd y)"
    proof
      assume "U = V"
      obtain now d1 where now: "h_Now (sv_host V) d = (now, d1)" by fastforce
      obtain x d2 where x: "guest_exec V n (sshd_pattern port) d1 = (x, d2)" by fastforce
      have "R d d1" using stepsD [OF host_calls(12), of d "Inr now" d1] now by (simp add: sure_def)
      moreover have "R d1 d2" using steps_guest_exec x by (rule stepsD)
      moreover have "R d2 (h_Sleep (sv_host V) 2000000000 d2)"
        using stepsD [OF host_calls(13), of 2000000000 d2] by (simp add: pause_def)
      ultimately have R: "R d d1" "R d d2" "R d (h_Sleep (sv_host V) 2000000000 d2)" by (metis frame_trans)+
      show "R d (snd y)"
        using eq now x R IH [of V n port timeout deadline _ y] frame_trans [OF R(3)]
        unfolding \<open>U = V\<close> by (auto split: if_split_asm)
    qed
  qed
  then show ?thesis using ret by blast
qed

lemma steps_WaitForSSHD [frame_rules]: "steps R (WaitForSSHD V n port timeout)"
  unfolding WaitForSSHD_def
  by (rule steps_andThen [OF host_calls(12)])
    (auto simp: steps_def frame_refl dest: wait_loop_respects split: option.split)

lemma steps_EnsureSSH [frame_rules]: "steps (out_rel R) (EnsureSSH V n pw port)"
  unfolding EnsureSSH_def installOpenSSHViaApt_def by (intro frame_rules)

lemma steps_SetRootPassword [frame_rules]: "steps R (SetRootPassword V n pw)"
  unfolding SetRootPassword_def by (intro frame_rules)

end

section \<open>The service over the client\<close>

definition incus_rel :: "('i \<Rightarrow> 'i \<Rightarrow> bool) \<Rightarrow> ('r, 'i, 'e) world \<Rightarrow> ('r, 'i, 'e) world \<Rightarrow> bool" where
  "incus_rel Q w w' \<longleftrightarrow> Q (w_incus w) (w_incus w')"

definition over_client :: "('r, 'd icl, 'e) sys \<Rightarrow> 'd incus_server \<Rightarrow> ('r, 'd icl, 'e) sys" where
  "over_client S V = S\<lparr>sys_incus := client_of V\<rparr>"

lemma steps_incus_rel: "steps Q f \<Longrightarrow> steps (incus_rel Q) (on_incus f)"
  by (simp add: steps_def incus_rel_def on_incus_def split_beta)

lemma steps_incus_total: "steps Q (sure f) \<Longrightarrow> steps (incus_rel Q) (on_incus (total f))"
  by (simp add: steps_def incus_rel_def on_incus_def total_def sure_def split_beta)

lemma steps_incus_sql: "(\<And>x. Q x x) \<Longrightarrow> steps (incus_rel Q) (sql S stmt)"
  by (auto simp: steps_def incus_rel_def sql_def split_beta split: pg_reply.split)

context daemon
begin

lemma steps_client_running: "steps (out_rel R) (sure (ic_IsRunning (client_of V) n))"
  using steps_power(4) [of n] by (simp add: client_of_def steps_def sure_def out_rel_def split_beta)

lemma client_respects: "incus_respects (incus_rel (out_rel R)) (client_of V)"
  unfolding incus_respects_def
  by (intro conjI allI steps_incus_rel steps_incus_total steps_client_running)
    (simp_all add: client_of_def, (intro frame_rules)+)

lemma sys_frame_client: "sys_frame (incus_rel (out_rel R)) (over_client S V)"
proof
  fix u v w :: "('r, 'd icl, 'e) world" and r e
  show "incus_rel (out_rel R) w w" "incus_rel (out_rel R) w (w\<lparr>w_redis := r\<rparr>)" "incus_rel (out_rel R) w (w\<lparr>w_env := e\<rparr>)"
    by (simp_all add: incus_rel_def client.frame_refl)
  show "incus_rel (out_rel R) u v \<Longrightarrow> incus_rel (out_rel R) v w \<Longrightarrow> incus_rel (out_rel R) u w"
    unfolding incus_rel_def by (rule client.frame_trans)
  show "incus_respects (incus_rel (out_rel R)) (sys_incus (over_client S V))"
    using client_respects by (simp add: over_client_def)
qed (unfold store_frame_defs, (rule steps_incus_sql client.frame_refl)+)

end

interpretation guarded: sys_frame "incus_rel (out_rel log_grows)" "over_client S (audited V)"
  for S :: "('r, 'd audited icl, 'e) sys" and V :: "'d incus_server"
  by (rule audit.sys_frame_client)

section \<open>Nothing but confining requests, whatever happens\<close>

text \<open>
  A session of the daemon: requests, creations, provisioning jobs, and in between anything that happens to
  Redis, to the machine and inside the Incus daemon by itself.
\<close>

datatype ('r, 'd, 'e) action =
    Operate operation
  | Request create_request
  | Provision inst
  | Restarted incus_config
  | Meanwhile "'r \<Rightarrow> 'r" "'d \<Rightarrow> 'd" "'e \<Rightarrow> 'e"

definition restarted :: "'d incus_server \<Rightarrow> incus_config \<Rightarrow> 'd icl \<Rightarrow> 'd icl" where
  "restarted V cfg c = snd (prepare V \<lparr>cl_cfg = cfg, cl_out = cl_out c\<rparr>)"

definition meanwhile :: "('d \<Rightarrow> 'd) \<Rightarrow> 'd audited icl \<Rightarrow> 'd audited icl" where
  "meanwhile g c = c\<lparr>cl_out := (g (fst (cl_out c)), snd (cl_out c))\<rparr>"

fun act :: "('r, 'd audited icl, 'e) sys \<Rightarrow> 'd incus_server \<Rightarrow> ('r, 'd, 'e) action \<Rightarrow>
    ('r, 'd audited icl, 'e) world \<Rightarrow> ('r, 'd audited icl, 'e) world" where
  "act S V (Operate op) w = run_op (over_client S (audited V)) op w"
| "act S V (Request req) w = snd (CreateInstance (over_client S (audited V)) req w)"
| "act S V (Provision i) w = snd (provision (over_client S (audited V)) i w)"
| "act S V (Restarted cfg) w = w\<lparr>w_incus := restarted (audited V) cfg (w_incus w)\<rparr>"
| "act S V (Meanwhile f g h) w = w\<lparr>w_redis := f (w_redis w), w_env := h (w_env w), w_incus := meanwhile g (w_incus w)\<rparr>"

definition sent :: "('r, 'd audited icl, 'e) world \<Rightarrow> request list" where
  "sent w = snd (cl_out (w_incus w))"

context daemon
begin

lemma steps_prepare: "steps (out_rel R) (prepare V)"
  unfolding prepare_def EnsureHostOpenSSHDebs_def by (intro frame_rules)

lemma restarted_respects: "out_rel R c (restarted V cfg c)"
  using stepsE [OF steps_prepare, of "\<lparr>cl_cfg = cfg, cl_out = cl_out c\<rparr>"] by (simp add: restarted_def out_rel_def)

end

lemma act_grows: "incus_rel (out_rel log_grows) w (act S V a w)"
proof (cases a)
  case (Operate op)
  show ?thesis unfolding Operate act.simps by (rule guarded.run_op_frame)
next
  case (Request req)
  show ?thesis unfolding Request act.simps by (rule stepsE [OF guarded.steps_CreateInstance])
next
  case (Provision i)
  show ?thesis unfolding Provision act.simps by (rule stepsE [OF guarded.steps_provision])
next
  case (Restarted cfg)
  show ?thesis unfolding Restarted by (simp add: incus_rel_def audit.restarted_respects)
next
  case (Meanwhile f g h)
  show ?thesis unfolding Meanwhile by (simp add: incus_rel_def out_rel_def meanwhile_def log_growsI)
qed


end
