(* ===== verification/Serve.thy ===== *)
theory Serve imports Cli Setup Migrations Remote IncusClient begin

text \<open>
  \<open>cmd/goincus/main.go\<close>: \<open>goincus init\<close> with what it prints, and \<open>goincus serve\<close> from the configuration file to the
  end of the process: \<open>db.Connect\<close>, \<open>Migrate\<close>, \<open>redisstore.Connect\<close>, \<open>incusclient.Connect\<close>, \<open>Allocator.Sync\<close>, then
  requests, provisioning jobs and background jobs until the process is told to stop.

  The machine, the drivers of the services and the YAML codec are the record \<open>platform\<close>. Files are read in one moment.
  What is logged is left out, but an error carries the message it is logged with. While the process serves, events
  happen one at a time (\<open>serve_event\<close>); in between anything may happen outside the daemon.
\<close>

section \<open>Connecting\<close>

record ('r, 'd, 'e) platform =
  pl_machine :: "'d machine"
  pl_readFile :: "'d \<Rightarrow> string \<Rightarrow> error + byte list"
  pl_readText :: "'d \<Rightarrow> string \<Rightarrow> error + string"
  pl_readDir :: "'d \<Rightarrow> string \<Rightarrow> error + (string \<times> bool) list"
  pl_mode :: "'d \<Rightarrow> string \<Rightarrow> error + 32 word"
  pl_Abs :: "string \<Rightarrow> string option"
  pl_unmarshal :: "byte list \<Rightarrow> config \<Rightarrow> error + config"
  pl_marshal :: "config \<Rightarrow> error + string"
  pl_ParseDSN :: "string \<Rightarrow> error + unit"
  pl_NewPool :: "string \<Rightarrow> int \<Rightarrow> int \<Rightarrow> ('e, unit) prog"
  pl_ClosePool :: "('e, unit) prog"
  pl_migrations :: "'e migration_db"
  pl_CloseRedis :: "('r, unit) prog"
  pl_dial :: "string \<Rightarrow> ('d, string option \<Rightarrow> 'd incus_server) prog"

text \<open>A computation that reads the state, and one whose error ends the start with a message.\<close>

definition given :: "('w \<Rightarrow> error + 'a) \<Rightarrow> ('w, 'a) prog" where
  "given f w = (f w, w)"

definition logged :: "string \<Rightarrow> ('w, 'a) prog \<Rightarrow> ('w, 'a) prog" where
  "logged msg = wrapErr (msg @ '': '')"

text \<open>\<open>if err != nil { close(); return err }\<close>\<close>

definition orClose :: "('w, unit) prog \<Rightarrow> ('w, 'a) prog \<Rightarrow> ('w, 'a) prog" where
  "orClose close f w =
     (case f w of (r, w') \<Rightarrow> (case r of Inl e \<Rightarrow> (Inl e, snd (close w')) | Inr x \<Rightarrow> (Inr x, w')))"

definition db_Connect ::
    "('r, 'd, 'e) platform \<Rightarrow> ('r, 'i, 'e) sys \<Rightarrow> database_config \<Rightarrow> (('r, 'i, 'e) world, unit) prog" where
  "db_Connect P S cfg =
     andThen (wrapErr ''parse dsn: '' (given (\<lambda>_. pl_ParseDSN P (DSN cfg)))) (\<lambda>_.
     andThen (wrapErr ''connect database: '' (on_env (pl_NewPool P (DSN cfg) (d_max_conns cfg) (d_min_conns cfg)))) (\<lambda>_.
     orClose (on_env (pl_ClosePool P)) (wrapErr ''ping database: '' (db_Ping S))))"

definition redis_Connect :: "('r, 'd, 'e) platform \<Rightarrow> ('r, 'i, 'e) sys \<Rightarrow> (('r, 'i, 'e) world, unit) prog" where
  "redis_Connect P S = orClose (on_redis (pl_CloseRedis P)) (wrapErr ''ping redis: '' (redis_Ping S))"

text \<open>The client keeps a copy of the configuration, with the network and the pool it found.\<close>

definition incus_Connect ::
    "('r, 'd, 'e) platform \<Rightarrow> incus_config \<Rightarrow> (('r, 'd icl, 'e) world, 'd incus_server) prog" where
  "incus_Connect P cfg w =
     (case Connect (pl_dial P) cfg (cl_out (w_incus w)) of
        (Inl e, d) \<Rightarrow> (Inl e, w\<lparr>w_incus := (w_incus w)\<lparr>cl_out := d\<rparr>\<rparr>)
      | (Inr (V, own), d) \<Rightarrow> (Inr V, w\<lparr>w_incus := \<lparr>cl_cfg = own, cl_out = d\<rparr>\<rparr>))"

section \<open>The start of the server\<close>

definition load_config :: "('r, 'd, 'e) platform \<Rightarrow> string \<Rightarrow> (('r, 'd icl, 'e) world, config) prog" where
  "load_config P path =
     andThen (logged ''load config'' (given (\<lambda>w. Load (pl_readFile P (cl_out (w_incus w))) (pl_unmarshal P) path))) (\<lambda>cfg.
     andThen (logged ''insecure config permissions''
       (given (\<lambda>w. EnsureFilePermissions (pl_mode P (cl_out (w_incus w))) path))) (\<lambda>_.
     ret cfg))"

definition migrate_database :: "('r, 'd, 'e) platform \<Rightarrow> string \<Rightarrow> (('r, 'd icl, 'e) world, unit) prog" where
  "migrate_database P dir w =
     logged ''migrate database''
       (on_env (Migrate (pl_migrations P) (pl_readDir P (cl_out (w_incus w))) (pl_readText P (cl_out (w_incus w)))
         (case pl_Abs P dir of Some full \<Rightarrow> full | None \<Rightarrow> dir))) w"

text \<open>A storage pool that differs from the one in the file is written back, if that works.\<close>

definition persist_pool ::
    "('r, 'd, 'e) platform \<Rightarrow> string \<Rightarrow> config \<Rightarrow> (('r, 'd icl, 'e) world, config) prog" where
  "persist_pool P path cfg =
     andThen (on_incus ActiveStoragePool) (\<lambda>pool.
     if pool \<noteq> '''' \<and> pool \<noteq> n_pool (c_incus cfg)
     then let cfg = with_pool pool cfg in
       andThen (ignore (on_incus (srv (Save (pl_machine P) (pl_marshal P) path cfg)))) (\<lambda>_. ret cfg)
     else ret cfg)"

text \<open>
  \<open>serve\<close> starts everything and hands the assembled service to \<open>run\<close>; the connections are closed whatever happens
  after they were made.
\<close>

definition serve ::
    "('r, 'd, 'e) platform \<Rightarrow> ('r, 'd icl, 'e) sys \<Rightarrow> string \<Rightarrow> string \<Rightarrow>
     (('r, 'd icl, 'e) sys \<Rightarrow> (('r, 'd icl, 'e) world, unit) prog) \<Rightarrow> (('r, 'd icl, 'e) world, unit) prog" where
  "serve P S path dir run =
     andThen (load_config P path) (\<lambda>cfg.
     andThen (logged ''database connect'' (db_Connect P S (c_database cfg))) (\<lambda>_.
     deferring (on_env (pl_ClosePool P))
       (andThen (migrate_database P dir) (\<lambda>_.
        andThen (logged ''redis connect'' (redis_Connect P S)) (\<lambda>_.
        deferring (on_redis (pl_CloseRedis P))
          (andThen (logged ''incus connect'' (incus_Connect P (c_incus cfg))) (\<lambda>V.
           andThen (persist_pool P path cfg) (\<lambda>cfg.
           let T = over_client (S\<lparr>sys_cfg := cfg\<rparr>) V in
           andThen (logged ''sync port allocator'' (ports_Sync T)) (\<lambda>_.
           run T)))))))))"

section \<open>Serving\<close>

text \<open>
  What the process does while it serves: a request (with the two times the limiter looks at the clock), the goroutine
  of a created instance, the tick of a background loop; and what happens outside.
\<close>

datatype ('r, 'i, 'e) event =
    Arrives http_request time time
  | JobRuns inst
  | TrafficTick
  | HourlyTick
  | Elsewhere "'r \<Rightarrow> 'r" "'i \<Rightarrow> 'i" "'e \<Rightarrow> 'e"

type_synonym ('r, 'i, 'e) serving = "auth_limiter \<times> ('r, 'i, 'e) daemon"

text \<open>\<open>CreateInstance\<close> answers with 202, and only then has it started a goroutine.\<close>

definition started :: "error + response \<Rightarrow> inst list" where
  "started x = (case x of Inr (status, BInstance i) \<Rightarrow> if status = 202 then [i] else [] | _ \<Rightarrow> [])"

definition trafficLoop_tick :: "('r, 'i, 'e) sys \<Rightarrow> ('r, 'i, 'e) world \<Rightarrow> ('r, 'i, 'e) world" where
  "trafficLoop_tick S w = snd (reconcileTraffic S w)"

definition hourlyMetricsLoop_tick :: "('r, 'i, 'e) sys \<Rightarrow> ('r, 'i, 'e) world \<Rightarrow> ('r, 'i, 'e) world" where
  "hourlyMetricsLoop_tick S w = (if u_hourly_enabled (c_usage (sys_cfg S)) then snd (sampleAllHourlyMetrics S w) else w)"

fun serve_event ::
    "('r, 'i, 'e) sys \<Rightarrow> json_codec \<Rightarrow> (http_request \<Rightarrow> response) \<Rightarrow> ('r, 'i, 'e) event \<Rightarrow>
     ('r, 'i, 'e) serving \<Rightarrow> ('r, 'i, 'e) serving" where
  "serve_event S J fallback (Arrives r t1 t2) (l, w, jobs) =
     (case Router S J fallback r t1 t2 l w of (x, l', w') \<Rightarrow> (l', w', jobs @ started x))"
| "serve_event S J fallback (JobRuns i) (l, w, jobs) =
     (if i \<in> set jobs then (l, snd (provision S i w), remove1 i jobs) else (l, w, jobs))"
| "serve_event S J fallback TrafficTick (l, w, jobs) = (l, trafficLoop_tick S w, jobs)"
| "serve_event S J fallback HourlyTick (l, w, jobs) = (l, hourlyMetricsLoop_tick S w, jobs)"
| "serve_event S J fallback (Elsewhere f g h) (l, w, jobs) =
     (l, w\<lparr>w_redis := f (w_redis w), w_incus := g (w_incus w), w_env := h (w_env w)\<rparr>, jobs)"

text \<open>Until \<open>ctx.Done()\<close>; \<open>stop\<close> is what \<open>httpServer.Shutdown\<close> says.\<close>

definition serving_run ::
    "json_codec \<Rightarrow> (http_request \<Rightarrow> response) \<Rightarrow> ('r, 'i, 'e) event list \<Rightarrow> error + unit \<Rightarrow> ('r, 'i, 'e) sys \<Rightarrow>
     (('r, 'i, 'e) world, unit) prog" where
  "serving_run J fallback events stop S w =
     (stop, fst (snd (fold (serve_event S J fallback) events (server_limiter, w, []))))"

section \<open>The two commands\<close>

definition flag_or :: "(string \<times> string) list \<Rightarrow> string \<Rightarrow> string \<Rightarrow> string" where
  "flag_or vals n dflt = (case flag_text vals n of None \<Rightarrow> dflt | Some v \<Rightarrow> v)"

definition runServe ::
    "cli_env \<Rightarrow> ('r, 'd, 'e) platform \<Rightarrow> ('r, 'd icl, 'e) sys \<Rightarrow>
     (('r, 'd icl, 'e) sys \<Rightarrow> (('r, 'd icl, 'e) world, unit) prog) \<Rightarrow> string list \<Rightarrow>
     ('r, 'd icl, 'e) world \<Rightarrow> cli_output \<times> ('r, 'd icl, 'e) world" where
  "runServe E P S run args w =
     (case flag_Parse E [(''config'', StringFlag), (''migrations'', StringFlag)] args [] of
        Inl code \<Rightarrow> (exits code, w)
      | Inr (vals, rest) \<Rightarrow>
          (case serve P S (flag_or vals ''config'' DefaultConfigPath) (flag_or vals ''migrations'' MigrationsDir) run w of
             (Inl e, w') \<Rightarrow> (exits 1, w')
           | (Inr _, w') \<Rightarrow> (exits 0, w')))"

definition init_report :: "setup_result \<Rightarrow> string" where
  "init_report r =
     newline @ line [''goincus init complete''] @ line [''---------------------'']
     @ line [''Config:        '', sr_config r] @ line [''Database port: 127.0.0.1:9601'']
     @ line [''Redis:         '', sr_redis_host r, '':'', itoa (sr_redis_port r),
         if sr_redis_reused r then '' (existing, reused)'' else '''']
     @ line [''API listen:    0.0.0.0:9603''] @ newline
     @ line [''Generated secrets (store securely '' @ em_dash @ '' shown once):'']
     @ line [''  database.password = '', sr_db_password r]
     @ (if sr_redis_reused r
        then if sr_redis_password r = ''''
          then line [''  redis.password    = (none '' @ em_dash @ '' existing Redis has no requirepass)'']
          else line [''  redis.password    = '', sr_redis_password r, '' (from existing Redis)'']
        else line [''  redis.password    = '', sr_redis_password r])
     @ concat (map (\<lambda>(n, key). line [''  auth.api_keys['', itoa (int n), '']  = '', key]) (enumerate 0 (sr_keys r)))
     @ newline @ line [''Start the API:''] @ line [''  systemctl enable --now goincus''] @ line [''  # or: goincus serve'']"

definition runInit ::
    "cli_env \<Rightarrow> 'd machine \<Rightarrow> (nat \<Rightarrow> ('d, byte list) prog) \<Rightarrow> (config \<Rightarrow> error + string) \<Rightarrow> (string \<times> string) list \<Rightarrow>
     string list \<Rightarrow> 'd command" where
  "runInit E M rand_read marshal embedded args d =
     (case flag_Parse E [(''config'', StringFlag), (''force'', BoolFlag), (''skip-install'', BoolFlag)] args [] of
        Inl code \<Rightarrow> (exits code, d)
      | Inr (vals, rest) \<Rightarrow>
          (case setup_Run M rand_read marshal embedded
              \<lparr>so_config = flag_or vals ''config'' DefaultConfigPath, so_skip_install = flag_bool vals ''skip-install'' False,
                so_force = flag_bool vals ''force'' False\<rparr> d of
             (Inl e, d') \<Rightarrow>
               (\<lparr>co_out = '''', co_err = ''goincus init failed: '' @ error_text e @ newline, co_code = 1\<rparr>, d')
           | (Inr r, d') \<Rightarrow> (printed (init_report r), d')))"

section \<open>Everything served is a sequence of the daemon's steps\<close>

lemma reach_trans: "reach S t u \<Longrightarrow> reach S s t \<Longrightarrow> reach S s u"
  by (induction rule: reach.induct) (auto intro: reach_step)

lemma reach_one: "step S t u \<Longrightarrow> reach S t u"
  by (rule reach_step [OF reach_refl])

text \<open>A handler that starts no goroutine and reaches its final state by operations of the service.\<close>

definition serves :: "('r, 'i, 'e) sys \<Rightarrow> (('r, 'i, 'e) world, response) prog \<Rightarrow> bool" where
  "serves S h \<longleftrightarrow> (\<forall>w jobs. started (fst (h w)) = [] \<and> reach S (w, jobs) (snd (h w), jobs))"

lemma started_errors [simp]: "started (Inr (writeServiceError e)) = []" "started (Inr (writeError n e)) = []" "started (Inl e) = []"
  by (simp_all add: started_def writeServiceError_def writeError_def)

lemma serves_ret: "started (Inr a) = [] \<Longrightarrow> serves S (ret a)"
  by (simp add: serves_def ret_def reach_refl)

lemma serves_respond:
  assumes "\<And>w. snd (f w) = run_op S op w" and "status \<noteq> 202 \<or> (\<forall>x i. enc x \<noteq> BInstance i)"
  shows "serves S (respond status enc f)"
  unfolding serves_def
proof (intro allI conjI)
  fix w jobs
  show "reach S (w, jobs) (snd (respond status enc f w), jobs)"
    unfolding snd_respond assms(1) by (rule reach_one [OF step_op])
  show "started (fst (respond status enc f w)) = []"
    using assms(2) by (auto simp: respond_def started_def writeServiceError_def writeError_def split: prod.splits sum.splits body.splits)
qed

lemma serves_with_instance:
  assumes "\<And>i. serves S (k i)"
  shows "serves S (with_instance S name k)"
  unfolding serves_def
proof (intro allI conjI)
  fix w jobs
  obtain r w1 where res: "ResolveInstance S name w = (r, w1)" by fastforce
  then have first: "reach S (w, jobs) (w1, jobs)" using reach_one [OF step_op, of S w jobs "OpResolve name"] by simp
  show "reach S (w, jobs) (snd (with_instance S name k w), jobs)"
    using assms first by (cases r) (auto simp: with_instance_def res serves_def intro: reach_trans)
  show "started (fst (with_instance S name k w)) = []"
    using assms by (cases r) (auto simp: with_instance_def res serves_def)
qed

lemma serves_handlers:
  "serves S (handleHealth S)" "serves S (handleListInstances S)" "serves S (handleGetAllMetrics S r)"
  "serves S (handleGetHostStats S)"
proof -
  show "serves S (handleHealth S)" "serves S (handleGetAllMetrics S r)" "serves S (handleGetHostStats S)"
    unfolding handleHealth_def handleGetAllMetrics_def handleGetHostStats_def
    by (rule serves_respond, rule run_op.simps [symmetric], simp)+
  have "snd (handleListInstances S w) = run_op S OpList w \<and> started (fst (handleListInstances S w)) = []" for w
    by (auto simp: handleListInstances_def started_def writeError_def split: prod.splits sum.splits)
  then show "serves S (handleListInstances S)" unfolding serves_def by (metis reach_one step_op)
qed

lemma serves_refusals: "serves S (ret invalid_json)" "serves S (ret invalid_port_id)" "serves S (ret (200, BInstance i))"
  by (rule serves_ret, simp add: invalid_json_def invalid_port_id_def started_def writeError_def)+

lemma serves_instance_handlers:
  "serves S (handleGetInstanceResources S n)" "serves S (handleGetInstanceUsage S r n)"
  "serves S (handleGetInstanceMetrics S r n)" "serves S (handleDeleteInstance S n)" "serves S (handleStartInstance S n)"
  "serves S (handleStopInstance S n)" "serves S (handleRestartInstance S n)" "serves S (handleRepairInstance S n)"
  unfolding handleGetInstanceResources_def handleGetInstanceUsage_def handleGetInstanceMetrics_def handleDeleteInstance_def
    handleStartInstance_def handleStopInstance_def handleRestartInstance_def handleRepairInstance_def
  by (rule serves_with_instance, rule serves_respond, rule run_op.simps [symmetric], simp)+

lemma serves_decoding_handlers:
  "serves S (handleGetInstance S n)" "serves S (handleResetPassword S J r n)" "serves S (handleAddPort S J r n)"
  "serves S (handleUpdatePort S J r n p)" "serves S (handleRemovePort S n p)"
  unfolding handleGetInstance_def handleResetPassword_def handleAddPort_def handleUpdatePort_def handleRemovePort_def
  by (rule serves_with_instance,
      (auto split: decoded.split option.split intro: serves_refusals
         intro!: serves_respond [OF run_op.simps(7) [symmetric]] serves_respond [OF run_op.simps(11) [symmetric]]
           serves_respond [OF run_op.simps(12) [symmetric]] serves_respond [OF run_op.simps(13) [symmetric]]))+

lemma dispatch_reach: "reach S (w, jobs) (snd (dispatch S J r rt w), jobs @ started (fst (dispatch S J r rt w)))"
proof (cases "rt = RCreate")
  case True
  show ?thesis
  proof (cases "dec_create J (rq_body r)")
    case (Decoded req)
    then show ?thesis using True
      by (cases "CreateInstance S req w"; cases "fst (CreateInstance S req w)")
        (auto simp: handleCreateInstance_def respond_def started_def writeServiceError_def writeError_def
          intro: reach_one step_create step_create_failed)
  qed (simp_all add: True handleCreateInstance_def ret_def invalid_json_def reach_refl)
next
  case False
  then have "serves S (dispatch S J r rt)"
    by (cases rt) (simp_all add: serves_handlers serves_instance_handlers serves_decoding_handlers)
  then show ?thesis by (simp add: serves_def)
qed

lemma Router_reach:
  assumes "Router S J fallback r t1 t2 l w = (x, l', w')" and "\<And>q. started (Inr (fallback q)) = []"
  shows "reach S (w, jobs) (w', jobs @ started x)"
proof -
  have "dispatch S J r rt w = (x, w') \<Longrightarrow> reach S (w, jobs) (w', jobs @ started x)" for rt
    using dispatch_reach [of S w jobs J r rt] by simp
  then show ?thesis
    using assms by (auto simp: Router_def reach_refl split: prod.splits if_splits option.splits)
qed

definition plain_fallback :: "(http_request \<Rightarrow> response) \<Rightarrow> bool" where
  "plain_fallback fallback \<longleftrightarrow> (\<forall>q. started (Inr (fallback q)) = [])"

lemma serve_event_reach:
  assumes "plain_fallback fallback" and "serve_event S J fallback ev (l, w, jobs) = (l', w', jobs')"
  shows "reach S (w, jobs) (w', jobs')"
proof (cases ev)
  case (Arrives r t1 t2)
  then show ?thesis
    using assms by (auto simp: plain_fallback_def intro: Router_reach split: prod.splits)
next
  case (JobRuns i)
  then show ?thesis using assms(2) by (auto intro: reach_one step_provision reach_refl split: if_splits)
next
  case TrafficTick
  then show ?thesis using assms(2) step_op [of S w jobs OpReconcileTraffic] by (auto simp: trafficLoop_tick_def intro: reach_one)
next
  case HourlyTick
  then show ?thesis
    using assms(2) step_op [of S w jobs OpSampleHourly] by (auto simp: hourlyMetricsLoop_tick_def intro: reach_one reach_refl)
next
  case (Elsewhere f g h)
  then show ?thesis using assms(2) by (auto intro!: reach_one step_outside)
qed

lemma serve_events_reach:
  "plain_fallback fallback \<Longrightarrow> fold (serve_event S J fallback) events (l, w, jobs) = (l', w', jobs') \<Longrightarrow>
   reach S (w, jobs) (w', jobs')"
proof (induction events arbitrary: l w jobs)
  case Nil
  then show ?case by (simp add: reach_refl)
next
  case (Cons ev events)
  obtain l1 w1 jobs1 where one: "serve_event S J fallback ev (l, w, jobs) = (l1, w1, jobs1)" by (metis prod_cases3)
  show ?case
    using Cons.IH [of l1 w1 jobs1] Cons.prems one serve_event_reach [OF Cons.prems(1) one] by (auto intro: reach_trans)
qed

section \<open>What the start does to the state\<close>

lemma andThen_here_cong: "(\<And>x w1. f w = (Inr x, w1) \<Longrightarrow> g x w1 = g' x w1) \<Longrightarrow> andThen f g w = andThen f g' w"
  by (auto simp: andThen_def split: prod.splits sum.splits)

lemma deferring_here_cong: "f w = f' w \<Longrightarrow> deferring g f w = deferring g f' w"
  by (simp add: deferring_def)

lemma logged_Inr: "logged msg f w = (Inr x, w') \<longleftrightarrow> f w = (Inr x, w')"
  by (simp add: logged_def wrapErr_Inr)

lemma orClose_Inr: "orClose c f w = (Inr x, w') \<longleftrightarrow> f w = (Inr x, w')"
  by (auto simp: orClose_def split: prod.splits sum.splits)

lemma load_config_Inr:
  assumes "load_config P path w = (Inr cfg, w')"
  shows "w' = w \<and> config_ok cfg \<and> \<not> is_template cfg
    \<and> EnsureFilePermissions (pl_mode P (cl_out (w_incus w))) path = Inr ()"
  using assms by (auto simp: load_config_def andThen_Inr logged_Inr given_def ret_def dest: Load_config_ok)

text \<open>Statements other than those of the migrations leave the migrations alone.\<close>

definition connection_keeps :: "('r, 'd, 'e) platform \<Rightarrow> ('r, 'i, 'e) sys \<Rightarrow> ('e \<Rightarrow> 'v) \<Rightarrow> bool" where
  "connection_keeps P S view \<longleftrightarrow>
     (\<forall>dsn m n e. view (snd (pl_NewPool P dsn m n e)) = view e)
   \<and> (\<forall>e. view (snd (sys_pg_ping S e)) = view e) \<and> (\<forall>e. view (snd (sys_pg S e)) = view e)"

lemma db_Connect_Inr:
  assumes "db_Connect P S cfg w = (Inr u, w')" and "connection_keeps P S view"
  shows "w_db w' = w_db w \<and> w_redis w' = w_redis w \<and> w_incus w' = w_incus w \<and> view (w_env w') = view (w_env w)"
proof -
  have "view e' = view e" if "pl_NewPool P x m n e = (r, e')" for x m n e r e'
    using assms(2) that by (metis connection_keeps_def snd_conv)
  moreover have "view e' = view e" if "sys_pg_ping S e = (r, e')" for e r e'
    using assms(2) that by (metis connection_keeps_def snd_conv)
  ultimately show ?thesis
    using assms(1)
    by (auto simp: db_Connect_def andThen_Inr orClose_Inr wrapErr_Inr given_def on_env_def db_Ping_def split: prod.splits)
qed

lemma redis_Connect_Inr:
  "redis_Connect P S w = (Inr u, w') \<Longrightarrow> w_db w' = w_db w \<and> w_env w' = w_env w \<and> w_incus w' = w_incus w"
  by (auto simp: redis_Connect_def orClose_Inr wrapErr_Inr redis_Ping_def on_redis_def split: prod.splits)

lemma incus_Connect_state: "incus_Connect P cfg w = (x, w') \<Longrightarrow> w_db w' = w_db w \<and> w_env w' = w_env w"
  by (auto simp: incus_Connect_def split: prod.splits sum.splits)

lemma persist_pool_state:
  "persist_pool P path cfg w = (x, w') \<Longrightarrow> w_db w' = w_db w \<and> w_env w' = w_env w \<and> (\<forall>c. x = Inr c \<longrightarrow> (\<exists>pool. c = with_pool pool cfg))"
  by (auto simp: persist_pool_def andThen_def on_incus_def ActiveStoragePool_def ignore_def ret_def with_pool_def Let_def
      split: prod.splits sum.splits if_splits)

section \<open>Properties\<close>

text \<open>
  Ready to serve: the configuration is valid and private, every migration of the directory has been applied, and Redis
  marks exactly the ports of live instances.
\<close>

definition ready_to_serve ::
    "('r, 'd, 'e) platform \<Rightarrow> string \<Rightarrow> string \<Rightarrow> ('r \<Rightarrow> string \<Rightarrow> int set) \<Rightarrow> (string \<Rightarrow> string) \<Rightarrow> ('e \<Rightarrow> tx_view) \<Rightarrow> 'd \<Rightarrow>
     ('r, 'd icl, 'e) sys \<Rightarrow> ('r, 'd icl, 'e) world \<Rightarrow> bool" where
  "ready_to_serve P path dir members script view d T w \<longleftrightarrow>
     config_ok (sys_cfg T) \<and> \<not> is_template (sys_cfg T)
   \<and> EnsureFilePermissions (pl_mode P d) path = Inr ()
   \<and> (\<exists>entries. pl_readDir P d dir = Inr entries \<and> set (sql_files entries) \<subseteq> set (tv_versions (view (w_env w))))
   \<and> migrated_ok script (view (w_env w))
   \<and> marked members T w = set (select_used_ports (w_db w))"

lemma config_ok_with_pool [simp]:
  "config_ok (with_pool pool c) \<longleftrightarrow> config_ok c" "is_template (with_pool pool c) \<longleftrightarrow> is_template c"
  by (simp_all add: with_pool_def config_ok_def is_template_def)

lemma over_client_fields [simp]:
  "sys_cfg (over_client S V) = sys_cfg S" "sys_redis (over_client S V) = sys_redis S" "sys_pg (over_client S V) = sys_pg S"
  by (simp_all add: over_client_def)

lemma query_env:
  assumes "query T f w = (x, w')" and "\<And>e. view (snd (sys_pg T e)) = view e"
  shows "view (w_env w') = view (w_env w)"
  using assms by (auto simp: query_def sql_def asks_def split: prod.splits pg_reply.splits) (metis snd_conv)+

lemma Sync_env:
  assumes "ports_Sync T w = (Inr u, w')" and "\<And>e. view (snd (sys_pg T e)) = view e"
  shows "view (w_env w') = view (w_env w)"
proof -
  obtain used w1 where "db_ListUsedHostPorts T w = (Inr used, w1)" and sync: "redis_SyncAllocatedPorts T used w1 = (Inr (), w')"
    using assms(1) by (auto simp: ports_Sync_def andThen_Inr wrapErr_Inr)
  then have "view (w_env w1) = view (w_env w)" using assms(2) unfolding db_ListUsedHostPorts_def by (blast dest: query_env)
  moreover have "w_env w' = w_env w1" using sync by (auto simp: redis_SyncAllocatedPorts_def on_redis_def split: prod.splits)
  ultimately show ?thesis by simp
qed

lemma Sync_ready:
  assumes "redis_server_ok (sys_redis T) members" and "ports_Sync T w = (Inr u, w')"
  shows "marked members T w' = set (select_used_ports (w_db w')) \<and> w_db w' = w_db w"
  using Sync_marks [OF assms(1), of w] assms(2) by simp

lemma migrate_database_Inr:
  assumes "migrate_database P dir w = (Inr u, w')" and "transactional (pl_migrations P) view"
    and "migrated_ok script (view (w_env w))" and "pl_Abs P dir = Some full"
    and "\<And>v b. pl_readText P (cl_out (w_incus w)) (full @ ''/'' @ v) = Inr b \<Longrightarrow> b = script v"
  shows "w_db w' = w_db w \<and> w_incus w' = w_incus w \<and> migrated_ok script (view (w_env w'))
    \<and> (\<exists>entries. pl_readDir P (cl_out (w_incus w)) full = Inr entries
         \<and> set (sql_files entries) \<subseteq> set (tv_versions (view (w_env w'))))"
proof -
  obtain e where run: "Migrate (pl_migrations P) (pl_readDir P (cl_out (w_incus w))) (pl_readText P (cl_out (w_incus w))) full
      (w_env w) = (Inr (), e)" and w': "w' = w\<lparr>w_env := e\<rparr>"
    using assms(1,4) by (auto simp: migrate_database_def logged_Inr on_env_def split: prod.splits)
  from Migrate_runs_once [OF assms(2,3,5) run] show ?thesis by (simp add: w')
qed

text \<open>A preorder on the tables that the served program respects is respected by the whole of \<open>serve\<close>.\<close>

context db_frame
begin

lemma steps_given: "steps (db_rel Q) (given f)"
  by (simp add: given_def steps_def frame_refl)

lemma steps_orClose: "steps (db_rel Q) c \<Longrightarrow> steps (db_rel Q) f \<Longrightarrow> steps (db_rel Q) (orClose c f)"
proof (rule stepsI)
  fix w
  assume "steps (db_rel Q) c" "steps (db_rel Q) f"
  then have "db_rel Q w (snd (f w))" "db_rel Q (snd (f w)) (snd (c (snd (f w))))" by (simp_all add: steps_def)
  then show "db_rel Q w (snd (orClose c f w))"
    by (auto simp: orClose_def split_beta intro: frame_trans split: sum.split)
qed

lemma steps_incus_Connect: "steps (db_rel Q) (incus_Connect P cfg)"
  by (auto simp: steps_def db_rel_def db_refl incus_Connect_def split: prod.split sum.split)

lemma steps_migrate_database: "steps (db_rel Q) (migrate_database P dir)"
  by (simp add: steps_def migrate_database_def logged_def on_env_def db_rel_def db_refl split_beta)

lemma steps_starting:
  "steps (db_rel Q) (load_config P path)" "steps (db_rel Q) (db_Connect P S cfg)" "steps (db_rel Q) (redis_Connect P S)"
  "steps (db_rel Q) (persist_pool P path c)"
  unfolding load_config_def db_Connect_def redis_Connect_def persist_pool_def logged_def db_Ping_def redis_Ping_def Let_def
  by (intro steps_andThen steps_wrapErr steps_given steps_orClose steps_ret steps_on_env steps_on_redis steps_on_incus
      steps_ignore steps_if)+

lemma steps_logged: "steps (db_rel Q) f \<Longrightarrow> steps (db_rel Q) (logged msg f)"
  by (simp add: logged_def steps_wrapErr)

lemma steps_serve:
  assumes "\<And>T. steps (db_rel Q) (run T)"
  shows "steps (db_rel Q) (serve P S path dir run)"
  unfolding serve_def Let_def
  by (intro steps_andThen steps_deferring steps_logged steps_starting steps_migrate_database steps_incus_Connect
      steps_on_env steps_on_redis steps_ports assms)

end

text \<open>C5. The service is only ever run on a state that is ready for it: for the whole of \<open>serve\<close> it makes no difference
what \<open>run\<close> would do anywhere else. So \<open>serve\<close> refuses an invalid, template or readable configuration, a migration that
fails and a Redis that cannot be synchronised; whatever the storage pool, and in whatever way a connection fails.\<close>

theorem serve_runs_only_ready:
  assumes "transactional (pl_migrations P) view" and "migrated_ok script (view (w_env w))"
    and "\<And>v b. pl_readText P (cl_out (w_incus w)) (full @ ''/'' @ v) = Inr b \<Longrightarrow> b = script v"
    and "pl_Abs P dir = Some full" and "connection_keeps P S view" and "redis_server_ok (sys_redis S) members"
  shows "serve P S path dir run w =
    serve P S path dir (\<lambda>T w1. if ready_to_serve P path full members script view (cl_out (w_incus w)) T w1
      then run T w1 else other T w1) w"
  unfolding serve_def Let_def
proof (intro andThen_here_cong deferring_here_cong, goal_cases)
  case (1 cfg w1 u2 w2 u3 w3 u4 w4 V w5 cfg' w6 u7 w7)
  let ?T = "over_client (S\<lparr>sys_cfg := cfg'\<rparr>) V"
  have l: "w1 = w" "config_ok cfg" "\<not> is_template cfg" "EnsureFilePermissions (pl_mode P (cl_out (w_incus w))) path = Inr ()"
    using load_config_Inr [OF 1(1)] by simp_all
  have 2: "w_incus w2 = w_incus w" "view (w_env w2) = view (w_env w)"
    using db_Connect_Inr [OF 1(2) [unfolded logged_Inr] assms(5)] l by simp_all
  have 3: "migrated_ok script (view (w_env w3))" "\<exists>entries. pl_readDir P (cl_out (w_incus w)) full = Inr entries
      \<and> set (sql_files entries) \<subseteq> set (tv_versions (view (w_env w3)))"
    using migrate_database_Inr [OF 1(3) assms(1)] assms(2,3,4) 2 by metis+
  have c: "config_ok cfg'" "\<not> is_template cfg'" "w_env w6 = w_env w3"
    using redis_Connect_Inr [OF 1(4) [unfolded logged_Inr]] incus_Connect_state [OF 1(5) [unfolded logged_Inr]]
      persist_pool_state [OF 1(6)] l by auto
  have "view (w_env w7) = view (w_env w6)"
    using Sync_env [OF 1(7) [unfolded logged_Inr], of view] assms(5) by (simp add: connection_keeps_def)
  moreover have "marked members ?T w7 = set (select_used_ports (w_db w7))"
    using Sync_ready [OF _ 1(7) [unfolded logged_Inr]] assms(6) by simp
  ultimately have "ready_to_serve P path full members script view (cl_out (w_incus w)) ?T w7"
    using l 3 c by (simp add: ready_to_serve_def)
  then show ?case by simp
qed

lemma serving_run_reach:
  assumes "plain_fallback fallback"
  obtains jobs where "reach T (v, []) (snd (serving_run J fallback events stop T v), jobs)"
proof -
  obtain l u jobs where run: "fold (serve_event T J fallback) events (server_limiter, v, []) = (l, u, jobs)"
    by (metis prod_cases3)
  from serve_events_reach [OF assms this] show ?thesis using run that by (simp add: serving_run_def)
qed

text \<open>C6. From the start of \<open>serve\<close> to the end of the process, whatever requests arrive with whatever keys, whatever jobs and
background loops run in between, however the services fail and however the process ends: the tables keep the promises of
the schema, and no instance row is lost or changes its identity.\<close>

theorem served_tables:
  assumes "plain_fallback fallback" and "db_ok (w_db w)"
    and "serve P S path dir (serving_run J fallback events stop) w = (r, w')"
  shows "db_ok (w_db w') \<and> (\<exists>new. map identity (t_instances (w_db w')) = map identity (t_instances (w_db w)) @ new)"
proof -
  have "steps (db_rel keeps_ok) (serving_run J fallback events stop T)" for T
  proof (rule stepsI)
    fix v show "db_rel keeps_ok v (snd (serving_run J fallback events stop T v))"
      by (rule serving_run_reach [OF assms(1), of T v J events stop]) (drule ok.reach_frame, simp)
  qed
  from ok.steps_serve [OF this] have ok: "db_rel keeps_ok w w'" using assms(3) by (rule stepsD)
  have "steps (db_rel rows_kept) (serving_run J fallback events stop T)" for T
  proof (rule stepsI)
    fix v show "db_rel rows_kept v (snd (serving_run J fallback events stop T v))"
      by (rule serving_run_reach [OF assms(1), of T v J events stop]) (drule kept.reach_frame, simp)
  qed
  from kept.steps_serve [OF this] have "db_rel rows_kept w w'" using assms(3) by (rule stepsD)
  then show ?thesis using ok assms(2) by (simp add: db_rel_def keeps_ok_def rows_kept_def)
qed

text \<open>A machine on which everything works: the reference daemon, a server in memory, and a directory with two scripts.\<close>

definition ref_machine :: "ref_daemon machine" where
  "ref_machine = \<lparr>mc_host = rd_host, mc_Stat = (\<lambda>_ d. (False, d)), mc_ReadDir = (\<lambda>_. ret []), mc_WriteFile = (\<lambda>_ _ _. ret ()),
     mc_Attached = (\<lambda>_ _. ret ()), mc_WithInput = (\<lambda>_ _. ret ()), mc_Output = (\<lambda>_ d. (('''', None), d)),
     mc_Dial = (\<lambda>_ _ d. (True, d)), mc_Executable = ret ''/usr/local/bin/goincus'', mc_local_ip = (\<lambda>_. False)\<rparr>"

definition ref_config :: config where
  "ref_config = Default\<lparr>c_api_keys := [''gic_test'']\<rparr>"

definition ref_platform :: "(mem_redis, ref_daemon, tx_view) platform" where
  "ref_platform = \<lparr>pl_machine = ref_machine, pl_readFile = (\<lambda>_ _. Inr []), pl_readText = (\<lambda>_ f. Inr (drop 2 f)),
     pl_readDir = (\<lambda>_ _. Inr [(''001_init.sql'', False), (''README'', False)]), pl_mode = (\<lambda>_ _. Inr 384),
     pl_Abs = Some, pl_unmarshal = (\<lambda>_ _. Inr ref_config), pl_marshal = (\<lambda>_. Inr ''''), pl_ParseDSN = (\<lambda>_. Inr ()),
     pl_NewPool = (\<lambda>_ _ _. ret ()), pl_ClosePool = ret (), pl_migrations = tx_server, pl_CloseRedis = ret (),
     pl_dial = (\<lambda>_. ret (\<lambda>_. rd_server))\<rparr>"

definition ref_service :: "(mem_redis, ref_daemon icl, tx_view) sys" where
  "ref_service = \<lparr>sys_cfg = Default, sys_redis = mem_server, sys_incus = client_of rd_server,
     sys_pg = (\<lambda>e. (PgDone 0 '''', e)), sys_pg_ping = ret (), sys_now = (\<lambda>e. (0, e)), sys_rand = (\<lambda>n. ret (replicate n 7)),
     sys_uuid = (\<lambda>e. (1, e)), uuid_String = canonical_uuid, uuid_Parse = parse_uuid\<rparr>"

definition ref_start :: "(mem_redis, ref_daemon icl, tx_view) world" where
  "ref_start = \<lparr>w_db = one_db, w_redis = mem_empty, w_incus = rd_client rd_fresh,
     w_env = \<lparr>tv_versions = [], tv_scripts = [], tv_open = None\<rparr>\<rparr>"

lemma ref_load: "load_config ref_platform p w = (Inr ref_config, w)"
  by (simp add: load_config_def andThen_def logged_def wrapErr_def given_def ret_def Load_def ref_platform_def ref_config_def
      sample_config_valid EnsureFilePermissions_def)

lemma ref_connected: "db_Connect ref_platform ref_service c w = (Inr (), w)" "redis_Connect ref_platform ref_service w = (Inr (), w)"
  by (simp_all add: db_Connect_def redis_Connect_def andThen_def wrapErr_def given_def orClose_def on_env_def on_redis_def
      db_Ping_def redis_Ping_def ref_platform_def ref_service_def ret_def mem_server_def)

lemma ref_migrated: "\<exists>e. migrate_database ref_platform ''m'' ref_start = (Inr (), ref_start\<lparr>w_env := e\<rparr>)"
proof -
  have "fst (Migrate tx_server (\<lambda>_. Inr [(''001_init.sql'', False), (''README'', False)]) (\<lambda>f. Inr (drop 2 f)) ''m''
      \<lparr>tv_versions = [], tv_scripts = [], tv_open = None\<rparr>) = Inr ()" by code_simp
  then show ?thesis
    by (cases "Migrate tx_server (\<lambda>_. Inr [(''001_init.sql'', False), (''README'', False)]) (\<lambda>f. Inr (drop 2 f)) ''m''
        \<lparr>tv_versions = [], tv_scripts = [], tv_open = None\<rparr>")
      (auto simp: migrate_database_def logged_def wrapErr_def on_env_def ref_platform_def ref_start_def)
qed

text \<open>The daemon has a pool and a network, so \<open>Connect\<close> only adds the hardened profile and leaves the pool as it is.\<close>

lemma ref_incus_connected:
  assumes "cl_out (w_incus w) = rd_fresh"
  shows "\<exists>w'. incus_Connect ref_platform (c_incus ref_config) w = (Inr rd_server, w') \<and> n_pool (cl_cfg (w_incus w')) = ''goincus''"
proof -
  have isolated: "EnsureHostIsolation rd_host rd_fresh = (Inr (), rd_fresh)" by code_simp
  have "(case EnsureUnprivilegedProfile rd_server rd_fresh of (x, d) \<Rightarrow> x = Inr () \<and>
      (case EnsureInfrastructure rd_server \<lparr>cl_cfg = c_incus ref_config, cl_out = d\<rparr> of
         (y, c) \<Rightarrow> y = Inr () \<and> n_pool (cl_cfg c) = ''goincus''))"
    by code_simp
  then obtain d c where 1: "EnsureUnprivilegedProfile rd_server rd_fresh = (Inr (), d)"
      "EnsureInfrastructure rd_server \<lparr>cl_cfg = c_incus ref_config, cl_out = d\<rparr> = (Inr (), c)" "n_pool (cl_cfg c) = ''goincus''"
    by (auto split: prod.splits)
  have "sv_host rd_server = rd_host" "n_project (c_incus ref_config) = ''default''"
    by (simp_all add: rd_server_def ref_config_def Default_def)
  then show ?thesis
    using isolated 1 assms
    by (auto simp: incus_Connect_def Connect_def prepare_def andThen_def srv_def ignore_def wrapErr_def ref_platform_def ret_def
        split: prod.splits sum.splits)
qed

lemma ref_synchronised: "\<exists>w'. ports_Sync (over_client (ref_service\<lparr>sys_cfg := c\<rparr>) V) w = (Inr (), w')"
  by (simp add: ports_Sync_def andThen_def wrapErr_def db_ListUsedHostPorts_def query_def sql_def redis_SyncAllocatedPorts_def
      on_redis_def asks_def ref_service_def over_client_def mem_server_def)

lemma ref_serve: "fst (serve ref_platform ref_service ''c.yaml'' ''m'' (\<lambda>T. ret ()) ref_start) = Inr ()"
proof -
  obtain e where m: "migrate_database ref_platform ''m'' ref_start = (Inr (), ref_start\<lparr>w_env := e\<rparr>)"
    using ref_migrated by blast
  obtain w1 where i: "incus_Connect ref_platform (c_incus ref_config) (ref_start\<lparr>w_env := e\<rparr>) = (Inr rd_server, w1)"
      "n_pool (cl_cfg (w_incus w1)) = ''goincus''"
    using ref_incus_connected [of "ref_start\<lparr>w_env := e\<rparr>"] by (auto simp: ref_start_def rd_client_def)
  have "strings_TrimSpace ''goincus'' = ''goincus''" "n_pool (c_incus ref_config) = ''goincus''"
    by code_simp (simp add: ref_config_def Default_def)
  then have "persist_pool ref_platform ''c.yaml'' ref_config w1 = (Inr ref_config, w1)"
    using i(2) by (simp add: persist_pool_def andThen_def on_incus_def ActiveStoragePool_def cfg_pool_def asks_def ret_def)
  moreover obtain w2 where "ports_Sync (over_client (ref_service\<lparr>sys_cfg := ref_config\<rparr>) rd_server) w1 = (Inr (), w2)"
    using ref_synchronised by blast
  ultimately show ?thesis
    using m i(1) by (simp add: serve_def ref_load ref_connected andThen_def deferring_def logged_def wrapErr_def ret_def Let_def)
qed

theorem serve_runs_only_ready_witness:
  "fst (serve ref_platform ref_service ''c.yaml'' ''m''
     (\<lambda>T w. if ready_to_serve ref_platform ''c.yaml'' ''m'' mem_members id id rd_fresh T w then ret () w
       else (Inl (ErrText ''not ready''), w)) ref_start) = Inr ()"
proof -
  have "serve ref_platform ref_service ''c.yaml'' ''m'' (\<lambda>T. ret ()) ref_start =
      serve ref_platform ref_service ''c.yaml'' ''m''
        (\<lambda>T w. if ready_to_serve ref_platform ''c.yaml'' ''m'' mem_members id id (cl_out (w_incus ref_start)) T w then ret () w
          else (Inl (ErrText ''not ready''), w)) ref_start"
    by (rule serve_runs_only_ready)
      (simp_all add: ref_platform_def ref_service_def ref_start_def tx_server_transactional mem_server_ok
        connection_keeps_def migrated_ok_def ret_def)
  moreover have "cl_out (w_incus ref_start) = rd_fresh" by (simp add: ref_start_def rd_client_def)
  ultimately show ?thesis using ref_serve by simp
qed

theorem served_tables_witness:
  "db_ok (w_db (snd (serve ref_platform ref_service ''c.yaml'' ''m''
      (serving_run ref_codec (\<lambda>_. (404, NoBody)) [TrafficTick] (Inr ())) ref_start)))"
proof -
  have 1: "db_ok (w_db ref_start)" by (simp add: ref_start_def one_db_ok)
  have 2: "plain_fallback (\<lambda>_. (404, NoBody))" by (simp add: plain_fallback_def started_def)
  obtain r w' where run: "serve ref_platform ref_service ''c.yaml'' ''m''
      (serving_run ref_codec (\<lambda>_. (404, NoBody)) [TrafficTick] (Inr ())) ref_start = (r, w')" by fastforce
  from served_tables [OF 2 1 run] show ?thesis by (simp add: run)
qed

end
