(* ===== verification/EndToEnd.thy ===== *)
theory EndToEnd imports Cli Remote Provision begin

text \<open>
  From the command line to the tables: the commands of \<open>cmd/goincus\<close>, over the HTTP client, the router, the middleware and
  the handlers, on the operations of the service.
\<close>

section \<open>What a name denotes\<close>

text \<open>The row a name or an id given on the command line stands for.\<close>

definition denotes :: "('r, 'i, 'e) sys \<Rightarrow> string \<Rightarrow> inst \<Rightarrow> bool" where
  "denotes S n row \<longleftrightarrow> live row \<and>
     (case uuid_Parse S n of Some iid \<Rightarrow> i_id row = iid | None \<Rightarrow> i_name row = strings_ToLower (strings_TrimSpace n))"

lemma ResolveInstance_Inr:
  assumes "ResolveInstance S n w = (Inr i, w')"
  shows "t_ports (w_db w') = t_ports (w_db w) \<and> (\<exists>row \<in> set (t_instances (w_db w)). denotes S n row \<and> i_id i = i_id row)"
proof (cases "uuid_Parse S n")
  case (Some iid)
  then have "GetInstance S iid w = (Inr i, w')" using assms by (simp add: ResolveInstance_def)
  from GetInstance_Inr [OF this] obtain row where
    r: "List.find (\<lambda>r. i_id r = iid \<and> live r) (t_instances (w_db w)) = Some row"
    and eq: "i_id i = iid" "t_ports (w_db w') = t_ports (w_db w)"
    unfolding select_instance_def by blast
  from find_unique_some [OF r] Some eq show ?thesis by (auto simp: denotes_def)
next
  case None
  then obtain j w1 where j: "db_GetInstanceByName S (strings_ToLower (strings_TrimSpace n)) w = (Inr j, w1)"
    and s: "syncStatusFromIncus S j w1 = (Inr i, w')"
    using assms by (auto simp: ResolveInstance_def andThen_Inr orNotFound_Inr)
  from db_GetInstanceByName_Inr [OF j] obtain row where
    r: "List.find (\<lambda>r. i_name r = strings_ToLower (strings_TrimSpace n) \<and> live r) (t_instances (w_db w)) = Some row"
    and eq: "i_id j = i_id row" "w_db w1 = w_db w" by (auto simp: select_instance_by_name_def)
  from find_unique_some [OF r] None eq yieldsD [OF sync_fields s] same_portsD [OF same_ports_sync s] show ?thesis
    by (auto simp: denotes_def)
qed

section \<open>A request that was answered with success\<close>

text \<open>When a call over HTTP returns a result, the middleware let it pass and the handler of its route answered below 300.\<close>

lemma over_http_success:
  assumes "goes_to m p rt" and "api_do (over_http S W (ac_base c)) J c m p None decode auth (l, w) = (Inr x, (l', w'))"
  shows "\<exists>q st b. dispatch S (wi_codec W) q rt w = (Inr (st, b), w') \<and> st < 300"
proof -
  obtain path where path: "route_path p = Some path" "CHR ''?'' \<notin> set p"
    "\<And>remote hs b q. route_of (arrives remote m hs b path q) = Some rt"
    using assms(1) unfolding goes_to_def by blast
  define hs where "hs = request_headers c False auth"
  define q where "q = arrives (wi_remote W) m hs None path ''''"
  have arrive: "server_request (ac_base c) (wi_remote W)
      \<lparr>ar_method = m, ar_url = ac_base c @ p, ar_headers = hs, ar_body = None\<rparr> = Some q"
    using target_arrives [OF path(1,2), of "''''" "ac_base c" "wi_remote W" m hs None] by (simp add: q_def)
  obtain y l1 w1 where run: "Router S (wi_codec W) (wi_fallback W) q (wi_t1 W) (wi_t2 W) l w = (y, l1, w1)"
    by (metis prod_cases3)
  then obtain st b where y: "y = Inr (st, b)" "read_reply J m p decode st (wi_encode W b) = Inr x" "l1 = l'" "w1 = w'"
    using assms(2)
    by (cases y)
      (auto simp: api_do_def over_http_def andThen_def hs_def [symmetric] arrive ret_def throw_def split: sum.splits)
  have "st < 300" using y(2) by (auto simp: read_reply_def Let_def split: if_splits)
  moreover obtain r l2 where "APIKeyAuth (sys_cfg S) q (wi_t1 W) (wi_t2 W) l = (r, l2)" by fastforce
  then have "dispatch S (wi_codec W) q rt w = (Inr (st, b), w')"
    using run y path(3) [of "wi_remote W" hs None "''''"] \<open>st < 300\<close>
    by (cases r) (auto simp: Router_def writeError_def q_def [symmetric] split: prod.splits)
  ultimately show ?thesis by blast
qed

text \<open>Conversely, with a configured key at an address that is not blocked, the handler runs and the client reads its answer.\<close>

lemma not_public: "route_of r = Some rt \<Longrightarrow> rt \<noteq> RHealth \<Longrightarrow> \<not> public_path (rq_path r)"
  by (auto simp: route_of_def public_path_def Let_def instance_route_def split: if_splits)

lemma over_http_delivers:
  assumes "goes_to m p rt" "rt \<noteq> RHealth"
    and key: "ValidAPIKey (sys_cfg S) (ac_key c)" "strings_TrimSpace (ac_key c) = ac_key c"
    and admitted: "\<not> fst (blocked (wi_t1 W) (peer_address (wi_remote W)) l)"
    and answer: "\<And>q. dispatch S (wi_codec W) q rt w = (Inr (st, b), w')"
  shows "\<exists>l'. api_do (over_http S W (ac_base c)) J c m p None decode True (l, w) =
    (read_reply J m p decode st (wi_encode W b), (l', w'))"
proof -
  obtain path where path: "route_path p = Some path" "CHR ''?'' \<notin> set p"
    "\<And>remote hs b q. route_of (arrives remote m hs b path q) = Some rt"
    using assms(1) unfolding goes_to_def by blast
  define hs where "hs = request_headers c False True"
  define q where "q = arrives (wi_remote W) m hs None path ''''"
  have arrive: "server_request (ac_base c) (wi_remote W)
      \<lparr>ar_method = m, ar_url = ac_base c @ p, ar_headers = hs, ar_body = None\<rparr> = Some q"
    using target_arrives [OF path(1,2), of "''''" "ac_base c" "wi_remote W" m hs None] by (simp add: q_def)
  have "extractAPIKey q = ac_key c" "clientIP q = peer_address (wi_remote W)"
    unfolding q_def hs_def by (rule client_identified [OF key(2)])+
  with Router_allows [of S q "wi_t1 W" l rt "wi_codec W" "wi_fallback W" "wi_t2 W" w] key(1) admitted
    path(3) [of "wi_remote W" hs None "''''"] not_public [of q rt] assms(2) answer [of q]
  obtain l' where run: "Router S (wi_codec W) (wi_fallback W) q (wi_t1 W) (wi_t2 W) l w = (Inr (st, b), l', w')"
    by (auto simp: q_def)
  show ?thesis
    by (cases "read_reply J m p decode st (wi_encode W b)")
      (simp_all add: api_do_def over_http_def andThen_def hs_def [symmetric] arrive run ret_def throw_def)
qed

section \<open>Deleting an instance from the command line\<close>

text \<open>The handler of \<open>DELETE /instances/{id}\<close> answers below 300 only when the instance the name denotes is gone.\<close>

lemma handleDeleteInstance_success:
  assumes up: "pg_up S" and ok: "db_ok (w_db w)"
    and run: "handleDeleteInstance S n w = (Inr (st, b), w')" and st: "st < 300"
  shows "\<exists>row \<in> set (t_instances (w_db w)). denotes S n row \<and> select_instance (i_id row) (w_db w') = None
    \<and> t_ports (w_db w') = filter (\<lambda>p. p_instance p \<noteq> i_id row) (t_ports (w_db w))"
proof -
  have err: "\<not> service_status e < 300" for e using service_status_is_error [of e] by simp
  obtain i w1 where i: "ResolveInstance S n w = (Inr i, w1)"
    and resp: "respond 204 (\<lambda>_. NoBody) (DeleteInstance S (i_id i)) w1 = (Inr (st, b), w')"
    using run st err
    by (auto simp: handleDeleteInstance_def with_instance_def writeServiceError_def writeError_def
        split: prod.splits sum.splits)
  then obtain u where d: "DeleteInstance S (i_id i) w1 = (Inr u, w')"
    using st err by (auto simp: respond_def writeServiceError_def writeError_def split: prod.splits sum.splits)
  note found = ResolveInstance_Inr [OF i]
  have "distinct (map p_id (t_ports (w_db w1)))" using found ok by (simp add: db_ok_def ports_ok_def ports_unique_def)
  from DeleteInstance_Inr [OF up this d] found show ?thesis by auto
qed



end
