(* ===== verification/Deletion.thy ===== *)
theory Deletion imports Provision begin

text \<open>
  Deleted instances stay deleted. The statement that sets a status (\<open>UPDATE instances SET status = \<dots> WHERE id = \<dots>\<close>) and
  the one that inserts a mapping would revive an instance, so what keeps it deleted are the reads before them: every
  operation starts from a live row. The two writes are therefore conditional in this frame; all other writes are not,
  which is the interface \<open>upkeep_frame\<close>. The exception is a provisioning job that is still pending, which reads nothing
  (theory \<open>Provision\<close>, \<open>provision_revives_deleted\<close>).
\<close>

section \<open>Deleted rows\<close>

text \<open>An instance that existed, has no live row, and no mapping.\<close>

definition gone :: "uuid \<Rightarrow> database \<Rightarrow> bool" where
  "gone iid d \<longleftrightarrow> iid \<in> i_id ` set (t_instances d) \<and> (\<forall>r \<in> set (t_instances d). i_id r = iid \<longrightarrow> \<not> live r)
     \<and> (\<forall>p \<in> set (t_ports d). p_instance p \<noteq> iid)"

definition stays_gone :: "uuid \<Rightarrow> database \<Rightarrow> database \<Rightarrow> bool" where
  "stays_gone iid d d' \<longleftrightarrow> (gone iid d \<longrightarrow> gone iid d')"

interpretation stays_gone: db_frame "stays_gone iid" for iid
  by unfold_locales (auto simp: stays_gone_def)

lemma gone_update:
  assumes "\<And>r. i_id (f r) = i_id r" and "jid = iid \<Longrightarrow> (\<And>r. live (f r) \<Longrightarrow> live r)"
  shows "steps (stays_gone iid) (update_instances jid f v)"
proof (rule stepsI)
  fix d :: database
  let ?g = "\<lambda>r. if i_id r = jid then f r else r"
  have "map i_id (map ?g (t_instances d)) = map i_id (t_instances d)" by (simp add: assms(1))
  from arg_cong [OF this, of set] have "i_id ` set (map ?g (t_instances d)) = i_id ` set (t_instances d)"
    by (simp only: set_map)
  moreover have "\<not> live r'" if h: "gone iid d" "r' \<in> set (map ?g (t_instances d))" "i_id r' = iid" for r'
  proof -
    obtain r where r: "r \<in> set (t_instances d)" "r' = ?g r" using h(2) by auto
    have "i_id r = iid" using h(3) r(2) assms(1) by metis
    then have "\<not> live r" using h(1) r(1) by (simp add: gone_def)
    then show ?thesis using assms(2) r(2) \<open>i_id r = iid\<close> by metis
  qed
  ultimately have "gone iid (d\<lparr>t_instances := map ?g (t_instances d)\<rparr>)" if "gone iid d"
    using that by (simp add: gone_def del: set_map)
  then show "stays_gone iid d (snd (update_instances jid f v d))"
    using snd_update_instances [of jid f v d] by (auto simp: stays_gone_def)
qed

lemma gone_instances:
  "steps (stays_gone iid) (set_password jid pw v t)"
  "steps (stays_gone iid) (soft_delete jid v t)"
  "steps (stays_gone iid) (set_traffic jid used snap period throttled v t)"
  "jid \<noteq> iid \<Longrightarrow> steps (stays_gone iid) (set_status jid st msg v t)"
  unfolding update_statement_defs by (rule gone_update; simp add: live_def)+

lemma gone_insert_instance: "steps (stays_gone iid) (insert_instance i v t)"
  by (rule stepsI)
    (auto simp: stays_gone_def gone_def insert_instance_def set_instances_def refused_def throw_def Let_def)

lemma gone_ports:
  "steps (stays_gone iid) (delete_port pid v t)"
  "steps (stays_gone iid) (set_protocol pid protocol device v t)"
  "p_instance p \<noteq> iid \<Longrightarrow> steps (stays_gone iid) (insert_port p v t)"
  by (auto simp: steps_def stays_gone_def gone_def other_statement_defs)

lemma gone_counters:
  "steps (stays_gone iid) (upsert_daily drow v t)" "steps (stays_gone iid) (purge_daily before v t)"
  "steps (stays_gone iid) (upsert_hourly hrow v t)" "steps (stays_gone iid) (purge_hourly before v t)"
  by (simp_all add: steps_def stays_gone_def gone_def other_statement_defs)

interpretation kept_gone: upkeep_frame "db_rel (stays_gone iid)" S for iid and S :: "('r, 'i, 'e) sys"
  by (unfold_locales; (unfold store_frame_defs)?;
      (rule stays_gone.steps_sql gone_instances(1-3) gone_insert_instance gone_ports(1,2) gone_counters
        | simp add: incus_respects_def stays_gone.steps_on_incus)+)

section \<open>Operations on live rows\<close>

abbreviation leaves_gone :: "uuid \<Rightarrow> (('r, 'i, 'e) world, 'a) prog \<Rightarrow> bool" where
  "leaves_gone iid \<equiv> steps (db_rel (stays_gone iid))"

lemma leaves_goneD: "leaves_gone iid f \<Longrightarrow> f w = (r, w') \<Longrightarrow> gone iid (w_db w) \<Longrightarrow> gone iid (w_db w')"
  using stepsD [of "db_rel (stays_gone iid)" f w r w'] by (simp add: db_rel_def stays_gone_def)

text \<open>What follows a read may rely on what the read saw.\<close>

lemma gone_read:
  assumes f: "leaves_gone iid f" and seen: "\<And>w x w'. gone iid (w_db w) \<Longrightarrow> f w = (Inr x, w') \<Longrightarrow> P x"
    and k: "\<And>x. P x \<Longrightarrow> leaves_gone iid (k x)"
  shows "leaves_gone iid (andThen f k)"
proof (rule stepsI)
  fix w
  have "gone iid (w_db (snd (andThen f k w)))" if g: "gone iid (w_db w)"
  proof -
    obtain r w1 where f1: "f w = (r, w1)" by fastforce
    note g1 = leaves_goneD [OF f f1 g]
    show ?thesis
    proof (cases r)
      case (Inl e)
      then show ?thesis using f1 g1 by (simp add: andThen_def)
    next
      case (Inr x)
      with k [OF seen [OF g]] f1 have "leaves_gone iid (k x)" by simp
      from leaves_goneD [OF this _ g1, of "fst (k x w1)" "snd (k x w1)"] show ?thesis
        using f1 Inr by (simp add: andThen_def)
    qed
  qed
  then show "db_rel (stays_gone iid) w (snd (andThen f k w))" by (simp add: db_rel_def stays_gone_def)
qed

lemma gone_select: "gone iid d \<Longrightarrow> select_instance jid d = Some r \<Longrightarrow> i_id r = jid \<and> jid \<noteq> iid"
  by (auto simp: select_instance_def gone_def dest!: find_unique_some)

lemma gone_select_by_name: "gone iid d \<Longrightarrow> select_instance_by_name n d = Some r \<Longrightarrow> i_id r \<noteq> iid"
  by (auto simp: select_instance_by_name_def gone_def dest!: find_unique_some)

named_theorems gone_rules

lemma gone_after_db_get [gone_rules]:
  assumes "\<And>i. i_id i = jid \<Longrightarrow> jid \<noteq> iid \<Longrightarrow> leaves_gone iid (k i)"
  shows "leaves_gone iid (andThen (orNotFound (db_GetInstance S jid)) k)"
proof (rule gone_read [where P = "\<lambda>i. i_id i = jid \<and> jid \<noteq> iid"])
  show "leaves_gone iid (orNotFound (db_GetInstance S jid))" by (intro frame_rules)
qed (use assms gone_select db_GetInstance_Inr in \<open>fastforce simp: orNotFound_Inr\<close>)+

text \<open>The writes that need a live row.\<close>

lemma gone_status [gone_rules]: "jid \<noteq> iid \<Longrightarrow> leaves_gone iid (set_db_status S jid st msg)"
  unfolding set_db_status_def db_UpdateInstanceStatus_def
  by (rule stays_gone.steps_ignore, rule stays_gone.steps_sql, rule gone_instances(4))

lemma gone_fail [gone_rules]: "jid \<noteq> iid \<Longrightarrow> leaves_gone iid (fail_instance S jid cause)"
  unfolding fail_instance_def by (intro frame_rules gone_rules)

lemma gone_AddPort [gone_rules]: "p_instance p \<noteq> iid \<Longrightarrow> leaves_gone iid (db_AddPort S p)"
  unfolding db_AddPort_def by (intro stays_gone.steps_sql gone_ports(3))

lemma gone_sync [gone_rules]: "i_id i \<noteq> iid \<Longrightarrow> leaves_gone iid (syncStatusFromIncus S i)"
  unfolding syncStatusFromIncus_def by (intro frame_rules gone_rules; assumption)

lemma gone_get: "leaves_gone iid (GetInstance S jid)"
  unfolding GetInstance_def by (rule gone_after_db_get, rule gone_sync) simp

lemma gone_after_get [gone_rules]:
  assumes "\<And>i. i_id i = jid \<Longrightarrow> jid \<noteq> iid \<Longrightarrow> leaves_gone iid (k i)"
  shows "leaves_gone iid (andThen (GetInstance S jid) k)"
proof (rule gone_read [OF gone_get, where P = "\<lambda>i. i_id i = jid \<and> jid \<noteq> iid"])
  show "i_id i = jid \<and> jid \<noteq> iid" if "gone iid (w_db w)" "GetInstance S jid w = (Inr i, w')" for w i w'
    using GetInstance_Inr [OF that(2)] gone_select [OF that(1)] by blast
qed (use assms in blast)

lemma gone_after_new:
  assumes "\<And>pms. (\<forall>pm \<in> set pms. p_instance pm = jid) \<Longrightarrow> leaves_gone iid (k pms)"
  shows "leaves_gone iid
    (andThen (mapEach (\<lambda>port. andThen (uuid_New S) (\<lambda>pid. ret (one_to_one pid jid port now))) missing) k)"
proof (rule gone_read [where P = "\<lambda>pms. \<forall>pm \<in> set pms. p_instance pm = jid"])
  show "leaves_gone iid (mapEach (\<lambda>port. andThen (uuid_New S) (\<lambda>pid. ret (one_to_one pid jid port now))) missing)"
    by (intro frame_rules)
qed (use assms new_mappings in blast)+

lemma gone_forEach: "(\<And>x. x \<in> set xs \<Longrightarrow> leaves_gone iid (f x)) \<Longrightarrow> leaves_gone iid (forEach f xs)"
  by (induction xs) (auto intro!: frame_rules)

lemma gone_attach [gone_rules]:
  assumes "i_id i \<noteq> iid" shows "leaves_gone iid (attachPortBlock S i block)"
  unfolding attachPortBlock_def Let_def
  by (rule stays_gone.steps_andThen, intro frame_rules, rule stays_gone.steps_andThen, intro frame_rules,
      rule gone_after_new, rule stays_gone.steps_if, intro frame_rules, rule stays_gone.steps_andThen, intro frame_rules,
      rule gone_forEach, intro frame_rules gone_rules) (use assms in auto)

lemma gone_fill [gone_rules]: "i_id i \<noteq> iid \<Longrightarrow> leaves_gone iid (fill_port S i port)"
  unfolding fill_port_def by (intro frame_rules gone_rules) (simp add: one_to_one_def)

lemma gone_ensure [gone_rules]: "i_id i \<noteq> iid \<Longrightarrow> leaves_gone iid (ensurePortBlock S i)"
  unfolding ensurePortBlock_def by (intro frame_rules gone_rules; assumption)

lemma gone_provision: "i_id i \<noteq> iid \<Longrightarrow> leaves_gone iid (provision S i)"
  unfolding provision_def provision_guest_def by (intro frame_rules gone_rules; assumption)

lemma gone_resolve: "leaves_gone iid (ResolveInstance S n)"
proof (cases "uuid_Parse S n")
  case None
  have "leaves_gone iid
      (andThen (orNotFound (db_GetInstanceByName S (strings_ToLower (strings_TrimSpace n)))) (syncStatusFromIncus S))"
  proof (rule gone_read [where P = "\<lambda>i. i_id i \<noteq> iid"])
    fix w i w' assume "gone iid (w_db w)"
      and "orNotFound (db_GetInstanceByName S (strings_ToLower (strings_TrimSpace n))) w = (Inr i, w')"
    then show "i_id i \<noteq> iid"
      using db_GetInstanceByName_Inr gone_select_by_name unfolding orNotFound_Inr by metis
  qed (intro frame_rules gone_rules)+
  then show ?thesis by (simp add: ResolveInstance_def None)
qed (simp add: ResolveInstance_def gone_get)

lemma live_rows_mapped:
  "mapEach (\<lambda>i. andThen (db_ListPorts S (i_id i)) (\<lambda>ports. ret (i\<lparr>i_ports := ports\<rparr>))) rows w = (Inr xs, w') \<Longrightarrow>
   map i_id xs = map i_id rows"
  by (induction rows arbitrary: w xs) (auto simp: andThen_Inr)

lemma db_ListInstances_ids:
  assumes "db_ListInstances S w = (Inr xs, w')"
  shows "i_id ` set xs = i_id ` {r \<in> set (t_instances (w_db w)). live r}"
proof -
  obtain rows w1 where q: "query S select_live_instances w = (Inr rows, w1)"
    and m: "mapEach (\<lambda>i. andThen (db_ListPorts S (i_id i)) (\<lambda>ports. ret (i\<lparr>i_ports := ports\<rparr>))) rows w1 = (Inr xs, w')"
    using assms by (auto simp: db_ListInstances_def andThen_Inr)
  from arg_cong [OF live_rows_mapped [OF m], of set] have "i_id ` set xs = i_id ` set rows" by (simp only: set_map)
  moreover have "set rows = {r \<in> set (t_instances (w_db w)). live r}"
    using query_Inr(1) [OF q] by (simp add: select_live_instances_def)
  ultimately show ?thesis by simp
qed

lemma gone_list: "leaves_gone iid (ListInstances S)"
  unfolding ListInstances_def
proof (rule gone_read [where P = "\<lambda>xs. iid \<notin> i_id ` set xs"])
  show "leaves_gone iid (db_ListInstances S)" by (intro frame_rules)
  show "iid \<notin> i_id ` set xs" if "gone iid (w_db w)" "db_ListInstances S w = (Inr xs, w')" for w xs w'
    using that(1) unfolding db_ListInstances_ids [OF that(2)] by (auto simp: gone_def)
  show "leaves_gone iid (mapEach (syncStatusFromIncus S) xs)" if "iid \<notin> i_id ` set xs" for xs
    using that by (induction xs) (auto intro!: frame_rules gone_rules)
qed

section \<open>Every operation leaves what is deleted deleted\<close>

lemma gone_StartInstance: "leaves_gone iid (StartInstance S jid)"
  unfolding StartInstance_def
  by (rule gone_after_db_get) (intro frame_rules gone_rules gone_get; simp)

lemma gone_power:
  "leaves_gone iid (RepairInstance S jid)"
  "leaves_gone iid (ResetRootPassword S jid rq)"
  "leaves_gone iid (StopInstance S jid)"
  "leaves_gone iid (RestartInstance S jid)"
  unfolding RepairInstance_def ResetRootPassword_def StopInstance_def RestartInstance_def
     apply (rule gone_StartInstance)
    apply (rule gone_after_get, intro frame_rules gone_rules gone_get; simp)+
  done

lemma gone_DeleteInstance: "leaves_gone iid (DeleteInstance S jid)"
  unfolding DeleteInstance_def
  by (rule gone_after_get) (intro frame_rules gone_rules; simp)

lemma gone_port_mappings:
  "leaves_gone iid (AddPortMapping S jid ar)"
  "leaves_gone iid (RemovePortMapping S jid pid)"
  "leaves_gone iid (UpdatePortMapping S jid pid ur)"
  unfolding AddPortMapping_def RemovePortMapping_def UpdatePortMapping_def
  by (rule gone_after_get, intro frame_rules gone_rules; simp)+

lemma gone_resources: "leaves_gone iid (GetInstanceResources S jid)"
  unfolding GetInstanceResources_def
  by (rule gone_after_get) (intro frame_rules gone_rules; simp)

lemma gone_run_op: "gone iid (w_db w) \<Longrightarrow> gone iid (w_db (run_op S op w))"
  by (cases op; simp only: run_op.simps;
      rule leaves_goneD [OF _ prod.collapse [symmetric]], intro frame_rules gone_get gone_list gone_resolve
        gone_StartInstance gone_power gone_DeleteInstance gone_port_mappings gone_resources kept_gone.steps_Health
        kept_gone.steps_GetHostStats kept_gone.steps_GetUsageChart kept_gone.steps_metrics kept_gone.steps_reconcileTraffic)

lemma gone_step:
  assumes "step S (w, jobs) (w', jobs')" and g: "gone iid (w_db w)" and j: "iid \<notin> i_id ` set jobs"
  shows "gone iid (w_db w') \<and> iid \<notin> i_id ` set jobs'"
proof (rule step_pairE [OF assms(1)])
  fix op assume "w' = run_op S op w" "jobs' = jobs"
  then show ?thesis using gone_run_op [OF g] j by simp
next
  fix req i assume c: "CreateInstance S req w = (Inr i, w')" and jobs: "jobs' = jobs @ [i]"
  have g': "gone iid (w_db w')" by (rule leaves_goneD [OF kept_gone.steps_CreateInstance c g])
  moreover have "i_id i \<noteq> iid"
    using CreateInstance_Inr [OF c] g' by (auto simp: gone_def instance_row_def live_def)
  ultimately show ?thesis using jobs j by simp
next
  fix req e assume c: "CreateInstance S req w = (Inl e, w')" and jobs: "jobs' = jobs"
  then show ?thesis using leaves_goneD [OF kept_gone.steps_CreateInstance c g] j by simp
next
  fix i assume i: "w' = snd (provision S i w)" "jobs' = remove1 i jobs" "i \<in> set jobs"
  then have "i_id i \<noteq> iid" using j by auto
  from leaves_goneD [OF gone_provision [OF this] prod.collapse [symmetric] g] show ?thesis
    using i j by (auto dest!: subsetD [OF set_remove1_subset])
next
  assume "w_db w' = w_db w" "jobs' = jobs"
  then show ?thesis using g j by simp
qed

lemma gone_reach:
  "reach S s t \<Longrightarrow> gone iid (w_db (fst s)) \<Longrightarrow> iid \<notin> i_id ` set (snd s) \<Longrightarrow>
   gone iid (w_db (fst t)) \<and> iid \<notin> i_id ` set (snd t)"
proof (induction rule: reach.induct)
  case (reach_step t u)
  then show ?case using gone_step [of S "fst t" "snd t" "fst u" "snd u" iid] by simp
qed simp

lemma DeleteInstance_gone:
  assumes "pg_up S" "db_ok (w_db w)" and d: "DeleteInstance S iid w = (Inr u, w')"
  shows "gone iid (w_db w')"
proof -
  have "distinct (map p_id (t_ports (w_db w)))" using assms(2) by (simp add: db_ok_def ports_ok_def ports_unique_def)
  note eff = DeleteInstance_Inr [OF assms(1) this d]
  obtain i w1 where "GetInstance S iid w = (Inr i, w1)" using d unfolding DeleteInstance_def andThen_Inr by blast
  from GetInstance_Inr [OF this] obtain row where "select_instance iid (w_db w) = Some row" by blast
  then have "stored_status iid (w_db w) \<noteq> None"
    by (auto simp: select_instance_def stored_status_def find_None_iff dest!: find_unique_some)
  moreover have "rows_kept (w_db w) (w_db w')"
    using stepsD [OF kept.steps_DeleteInstance d] by (simp add: db_rel_def)
  ultimately have "stored_status iid (w_db w') \<noteq> None" by (rule stored_kept [rotated])
  then have "iid \<in> i_id ` set (t_instances (w_db w'))" by (auto simp: stored_status_def dest!: find_unique_some)
  with eff show ?thesis by (auto simp: gone_def select_instance_def find_None_iff)
qed



end
