(* ===== verification/Interleaving.thy ===== *)
theory Interleaving imports Ports begin

text \<open>
  The allocator while other goroutines run. Elsewhere an operation is atomic; here every call of Redis or
  PostgreSQL is a step of its own, and between two of them the rest of the daemon may act: it gives back ports it
  holds, records ports, changes anything that is not the set of marked ports. The mutex of the allocator is what
  \<open>sync.Mutex\<close> makes it: an operation enters only when none is inside.

  \<open>thread\<close> is a program that can be stopped before each call; \<open>run\<close> runs one without a stop, and for the operations
  below that is the program of theory \<open>Ports\<close>.
\<close>

section \<open>Programs that can be interrupted\<close>

datatype ('w, 'a) thread = Return "error + 'a" | Call "'w \<Rightarrow> ('w, 'a) thread \<times> 'w"

primrec run :: "('w, 'a) thread \<Rightarrow> ('w, 'a) prog" where
  "run (Return r) = (\<lambda>w. (r, w))"
| "run (Call c) = (\<lambda>w. case map_prod run id (c w) of (k, w') \<Rightarrow> k w')"

definition call :: "('w, 'a) prog \<Rightarrow> ('w, 'a) thread" where
  "call f = Call (\<lambda>w. case f w of (r, w') \<Rightarrow> (Return r, w'))"

text \<open>Go on with the result, an error included.\<close>

primrec thenDo :: "('w, 'a) thread \<Rightarrow> (error + 'a \<Rightarrow> ('w, 'b) thread) \<Rightarrow> ('w, 'b) thread" where
  "thenDo (Return r) g = g r"
| "thenDo (Call c) g = Call (\<lambda>w. map_prod (\<lambda>t. thenDo t g) id (c w))"

definition thenTry :: "('w, 'a) thread \<Rightarrow> ('a \<Rightarrow> ('w, 'b) thread) \<Rightarrow> ('w, 'b) thread" where
  "thenTry t g = thenDo t (\<lambda>r. case r of Inl e \<Rightarrow> Return (Inl e) | Inr x \<Rightarrow> g x)"

definition thenFinally :: "('w, unit) thread \<Rightarrow> ('w, 'a) thread \<Rightarrow> ('w, 'a) thread" where
  "thenFinally g t = thenDo t (\<lambda>r. thenDo g (\<lambda>_. Return r))"

lemma run_call [simp]: "run (call f) = f"
  by (simp add: call_def fun_eq_iff split_beta)

lemma run_thenDo [simp]: "run (thenDo t g) w = (case run t w of (r, w') \<Rightarrow> run (g r) w')"
proof (induction t arbitrary: w)
  case (Call c)
  have "fst (c w) \<in> Basic_BNFs.fsts (c w)" by (cases "c w") simp
  from Call [OF rangeI this] show ?case by (simp add: split_beta)
qed simp

lemma run_thenTry [simp]: "run (thenTry t g) = andThen (run t) (\<lambda>x. run (g x))"
  by (auto simp: thenTry_def andThen_def fun_eq_iff split: prod.split sum.split)

lemma run_thenFinally [simp]: "run (thenFinally g t) = deferring (run g) (run t)"
  by (auto simp: thenFinally_def deferring_def fun_eq_iff split: prod.split)

section \<open>The operations of the allocator\<close>

definition t_is_free :: "('r, 'i, 'e) sys \<Rightarrow> int list \<Rightarrow> int \<Rightarrow> (('r, 'i, 'e) world, bool) thread" where
  "t_is_free S used port =
     (if port \<in> set used then Return (Inr False)
      else thenTry (call (redis_IsPortAllocated S port)) (\<lambda>allocated. Return (Inr (\<not> allocated))))"

primrec t_block_free :: "('r, 'i, 'e) sys \<Rightarrow> int list \<Rightarrow> int list \<Rightarrow> (('r, 'i, 'e) world, bool) thread" where
  "t_block_free S used [] = Return (Inr True)"
| "t_block_free S used (p # ps) =
     thenTry (t_is_free S used p) (\<lambda>free. if free then t_block_free S used ps else Return (Inr False))"

primrec t_ReleaseBlock :: "('r, 'i, 'e) sys \<Rightarrow> int list \<Rightarrow> (('r, 'i, 'e) world, unit) thread" where
  "t_ReleaseBlock S [] = Return (Inr ())"
| "t_ReleaseBlock S (p # ps) = thenDo (call (redis_ReleasePort S p)) (\<lambda>_. t_ReleaseBlock S ps)"

primrec t_mark_block :: "('r, 'i, 'e) sys \<Rightarrow> int list \<Rightarrow> int list \<Rightarrow> (('r, 'i, 'e) world, int list) thread" where
  "t_mark_block S [] block = Return (Inr block)"
| "t_mark_block S (p # ps) block =
     thenDo (call (redis_MarkPortAllocated S p)) (\<lambda>r.
       case r of
         Inl e \<Rightarrow> thenDo (t_ReleaseBlock S block) (\<lambda>_. Return (Inl e))
       | Inr _ \<Rightarrow> t_mark_block S ps (block @ [p]))"

primrec t_search_block ::
    "('r, 'i, 'e) sys \<Rightarrow> int list \<Rightarrow> int \<Rightarrow> int list \<Rightarrow> (('r, 'i, 'e) world, int list) thread" where
  "t_search_block S used n [] = Return (Inl (no_free_block (c_ports (sys_cfg S)) n))"
| "t_search_block S used n (start # starts) =
     thenTry (t_block_free S used (ports_from start n)) (\<lambda>okBlock.
       if okBlock then t_mark_block S (ports_from start n) []
       else t_search_block S used n starts)"

definition t_with_lock ::
    "('r, 'i, 'e) sys \<Rightarrow> (('r, 'i, 'e) world, bool) prog \<Rightarrow> (('r, 'i, 'e) world, 'a) thread \<Rightarrow>
     (('r, 'i, 'e) world, 'a) thread" where
  "t_with_lock S acquire body =
     thenTry (call acquire) (\<lambda>ok.
       if \<not> ok then Return (Inl busy)
       else thenFinally (call (redis_ReleaseLock S ''port-alloc'')) body)"

definition t_AllocateBlock :: "('r, 'i, 'e) sys \<Rightarrow> int \<Rightarrow> (('r, 'i, 'e) world, int list) thread" where
  "t_AllocateBlock S n =
     (if n < 1 then Return (Inl (ErrText ''block size must be >= 1''))
      else t_with_lock S (wrapErr ''acquire port lock: '' (redis_AcquireLock S ''port-alloc'' allocLockTTL))
        (thenTry (call (db_ListUsedHostPorts S)) (\<lambda>used.
         t_search_block S used n (block_starts (c_ports (sys_cfg S)) n))))"

definition t_Reserve :: "('r, 'i, 'e) sys \<Rightarrow> int \<Rightarrow> (('r, 'i, 'e) world, unit) thread" where
  "t_Reserve S port =
     (let cfg = c_ports (sys_cfg S);
          taken = ErrText (''host port '' @ itoa port @ '' already allocated'') in
      if port < po_start cfg \<or> port > po_end cfg
      then Return (Inl (ErrText (''host port '' @ itoa port @ '' outside allowed range ''
             @ itoa (po_start cfg) @ ''-'' @ itoa (po_end cfg))))
      else t_with_lock S (redis_AcquireLock S ''port-alloc'' allocLockTTL)
        (thenTry (call (db_ListUsedHostPorts S)) (\<lambda>used.
         if port \<in> set used then Return (Inl taken)
         else thenTry (call (redis_IsPortAllocated S port)) (\<lambda>allocated.
           if allocated then Return (Inl taken) else call (redis_MarkPortAllocated S port)))))"

text \<open>Without interruption they are the programs of \<open>Ports\<close>.\<close>

lemma run_Return: "run (Return (Inr x)) = ret x" "run (Return (Inl e)) = throw e"
  by (simp_all add: fun_eq_iff ret_def throw_def)

lemma run_if: "run (if b then s else t) = (if b then run s else run t)"
  by simp

lemmas run_simps = run_Return run_if run_call run_thenTry run_thenFinally

lemma run_block_free: "run (t_block_free S used ps) = block_free S used ps"
  by (induction ps) (simp_all only: t_block_free.simps block_free.simps t_is_free_def is_free_def run_simps)

lemma run_ReleaseBlock: "run (t_ReleaseBlock S ps) w = ports_ReleaseBlock S ps w"
  by (induction ps arbitrary: w)
    (simp_all add: ports_ReleaseBlock_def ret_def andThen_def ignore_def split_beta)

lemma run_mark_block: "run (t_mark_block S ps block) w = mark_block S ps block w"
proof (induction ps arbitrary: block w)
  case (Cons p ps)
  have "answers (ports_ReleaseBlock S block)" unfolding ports_ReleaseBlock_def by (intro answer_rules)
  then show ?case
    by (auto simp: Cons.IH run_ReleaseBlock andThen_def attempt_def throw_def answers_def split: prod.split sum.split)
      (metis prod.inject sum.distinct(1))+
qed (simp add: ret_def)

lemma run_search_block: "run (t_search_block S used n starts) = search_block S used n starts"
proof -
  have "run (t_mark_block S ps []) = mark_block S ps []" for ps by (rule ext) (rule run_mark_block)
  then show ?thesis
    by (induction starts) (simp_all only: t_search_block.simps search_block.simps run_block_free run_simps)
qed

lemma run_with_lock: "run (t_with_lock S acquire body) = with_lock S acquire (run body)"
  by (simp only: t_with_lock_def with_lock_def run_simps)

theorem run_AllocateBlock: "run (t_AllocateBlock S n) = ports_AllocateBlock S n"
  by (simp only: t_AllocateBlock_def ports_AllocateBlock_def run_with_lock run_search_block run_simps)

theorem run_Reserve: "run (t_Reserve S port) = ports_Reserve S port"
  by (simp only: t_Reserve_def ports_Reserve_def run_with_lock run_simps Let_def)

section \<open>Reasoning about an interrupted operation\<close>

text \<open>
  \<open>M\<close> reads the marked ports off the state and \<open>held\<close> are the ports handed out so far. What the rest of the daemon may
  do between two calls: it gives ports back, and it does not take the mark of a port that is not its own. The held ports
  are marked at every moment.
\<close>

definition meanwhile :: "('w \<Rightarrow> int set) \<Rightarrow> 'w \<Rightarrow> int set \<Rightarrow> 'w \<Rightarrow> int set \<Rightarrow> bool" where
  "meanwhile M w held w' held' \<longleftrightarrow> held' \<subseteq> held \<and> held' \<subseteq> M w' \<and> M w - held \<subseteq> M w'"

lemma meanwhile_refl: "held \<subseteq> M w \<Longrightarrow> meanwhile M w held w held"
  by (auto simp: meanwhile_def)

lemma meanwhile_trans: "meanwhile M w1 h1 w2 h2 \<Longrightarrow> meanwhile M w2 h2 w3 h3 \<Longrightarrow> meanwhile M w1 h1 w3 h3"
  by (auto simp: meanwhile_def)

text \<open>However it is interrupted, the thread keeps the held ports marked and ends with \<open>Q\<close>.\<close>

primrec safe :: "('w \<Rightarrow> int set) \<Rightarrow> ('w, 'a) thread \<Rightarrow> (error + 'a \<Rightarrow> 'w \<Rightarrow> int set \<Rightarrow> bool) \<Rightarrow> 'w \<Rightarrow> int set \<Rightarrow> bool" where
  "safe M (Return r) = (\<lambda>Q w held. \<forall>w' held'. meanwhile M w held w' held' \<longrightarrow> Q r w' held')"
| "safe M (Call c) = (\<lambda>Q w held. \<forall>w1 held'. meanwhile M w held w1 held' \<longrightarrow>
     (case map_prod (safe M) id (c w1) of (k, w') \<Rightarrow> held' \<subseteq> M w' \<and> k Q w' held'))"

lemma safe_Call:
  "safe M (Call c) Q w held \<longleftrightarrow>
   (\<forall>w1 held' t w'. meanwhile M w held w1 held' \<longrightarrow> c w1 = (t, w') \<longrightarrow> held' \<subseteq> M w' \<and> safe M t Q w' held')"
  by (simp add: split_beta) (metis fst_conv snd_conv surjective_pairing)

lemma called_thread: "c w = (t, w') \<Longrightarrow> t \<in> Basic_BNFs.fsts (c w)"
  by simp

lemma safe_meanwhile:
  assumes "safe M t Q w held" "meanwhile M w held w' held'" shows "safe M t Q w' held'"
proof (cases t)
  case (Return r)
  show ?thesis using assms(1) meanwhile_trans [OF assms(2)] unfolding Return safe.simps(1) by blast
next
  case (Call c)
  show ?thesis using assms(1) meanwhile_trans [OF assms(2)] unfolding Call safe_Call by blast
qed

lemma safe_thenDo:
  "safe M t (\<lambda>r. safe M (g r) Q) w held \<Longrightarrow> held \<subseteq> M w \<Longrightarrow> safe M (thenDo t g) Q w held"
proof (induction t arbitrary: w held)
  case (Return r)
  then show ?case using meanwhile_refl [of held M w] Return(2) unfolding thenDo.simps safe.simps(1) by blast
next
  case (Call c)
  show ?case unfolding thenDo.simps safe_Call
  proof (intro allI impI)
    fix w1 held' t' w2 assume mw: "meanwhile M w held w1 held'" and c: "map_prod (\<lambda>t. thenDo t g) id (c w1) = (t', w2)"
    then obtain t where t: "c w1 = (t, w2)" "t' = thenDo t g" by (cases "c w1") auto
    have "held' \<subseteq> M w2 \<and> safe M t (\<lambda>r. safe M (g r) Q) w2 held'"
      using Call.prems(1) mw t(1) unfolding safe_Call by blast
    then show "held' \<subseteq> M w2 \<and> safe M t' Q w2 held'"
      using Call.IH [OF rangeI called_thread [of c w1 t w2, OF t(1)]] t(2) by blast
  qed
qed

lemma safe_weaken:
  assumes "\<And>r w held. P r w held \<Longrightarrow> Q r w held" shows "safe M t P w held \<Longrightarrow> safe M t Q w held"
proof (induction t arbitrary: w held)
  case (Return r)
  then show ?case using assms unfolding safe.simps(1) by blast
next
  case (Call c)
  show ?case unfolding safe_Call
  proof (intro allI impI)
    fix w1 held' t w' assume mw: "meanwhile M w held w1 held'" and c: "c w1 = (t, w')"
    have "held' \<subseteq> M w' \<and> safe M t P w' held'" using Call.prems mw c unfolding safe_Call by blast
    then show "held' \<subseteq> M w' \<and> safe M t Q w' held'" using Call.IH [OF rangeI called_thread [of c w1 t w', OF c]] by blast
  qed
qed

lemma safe_then:
  assumes "safe M t P w held" "held \<subseteq> M w" "\<And>r w held. P r w held \<Longrightarrow> safe M (g r) Q w held"
  shows "safe M (thenDo t g) Q w held"
  using assms(2) by (rule safe_thenDo [of M t g Q w held, rotated]) (rule safe_weaken [OF assms(3) assms(1)])

lemma safe_call:
  assumes "\<And>w1 held' r w'. meanwhile M w held w1 held' \<Longrightarrow> f w1 = (r, w') \<Longrightarrow>
    held' \<subseteq> M w' \<and> (\<forall>w2 held2. meanwhile M w' held' w2 held2 \<longrightarrow> Q r w2 held2)"
  shows "safe M (call f) Q w held"
  unfolding call_def safe_Call using assms by (fastforce split: prod.splits)

text \<open>What a thread needs to know while it is interrupted is of two kinds: ports that nobody holds, and marks of its own.\<close>

definition untouched :: "('w \<Rightarrow> int set) \<Rightarrow> int set \<Rightarrow> int set \<Rightarrow> 'w \<Rightarrow> int set \<Rightarrow> bool" where
  "untouched M free mine w held \<longleftrightarrow> free \<inter> held = {} \<and> mine \<inter> held = {} \<and> mine \<subseteq> M w \<and> held \<subseteq> M w"

lemma untouched_meanwhile: "untouched M free mine w held \<Longrightarrow> meanwhile M w held w' held' \<Longrightarrow> untouched M free mine w' held'"
  unfolding untouched_def meanwhile_def by blast

text \<open>When it returns, with the result \<open>x\<close>, it knows that \<open>free x\<close> are held by nobody and \<open>mine x\<close> are its own.\<close>

definition ends ::
    "('w \<Rightarrow> int set) \<Rightarrow> ('w, 'a) thread \<Rightarrow> ('a \<Rightarrow> int set) \<Rightarrow> ('a \<Rightarrow> int set) \<Rightarrow> 'w \<Rightarrow> int set \<Rightarrow> bool" where
  "ends M t free mine =
     safe M t (\<lambda>r w held. held \<subseteq> M w \<and> (\<forall>x. r = Inr x \<longrightarrow> untouched M (free x) (mine x) w held))"

lemma meanwhile_held: "meanwhile M w held w' held' \<Longrightarrow> held' \<subseteq> M w'"
  by (simp add: meanwhile_def)

lemma ends_Return: "untouched M (free x) (mine x) w held \<Longrightarrow> ends M (Return (Inr x)) free mine w held"
  by (auto simp: ends_def dest: untouched_meanwhile dest: subsetD [OF meanwhile_held])

lemma ends_error: "ends M (Return (Inl e)) free mine w held"
  by (simp add: ends_def meanwhile_held)

lemma ends_thenTry:
  assumes "ends M t free mine w held" "held \<subseteq> M w"
    and "\<And>x w held. untouched M (free x) (mine x) w held \<Longrightarrow> ends M (g x) free' mine' w held"
  shows "ends M (thenTry t g) free' mine' w held"
  unfolding ends_def thenTry_def
proof (rule safe_then)
  let ?P = "\<lambda>r w held. held \<subseteq> M w \<and> (\<forall>x. r = Inr x \<longrightarrow> untouched M (free x) (mine x) w held)"
  show "safe M t ?P w held" using assms(1) unfolding ends_def .
  show "held \<subseteq> M w" by (rule assms(2))
  fix r :: "error + _" and w held assume "?P r w held"
  then show "safe M (case r of Inl e \<Rightarrow> Return (Inl e) | Inr x \<Rightarrow> g x)
      (\<lambda>r w held. held \<subseteq> M w \<and> (\<forall>x. r = Inr x \<longrightarrow> untouched M (free' x) (mine' x) w held)) w held"
    using assms(3) ends_error [of M _ free' mine' w held] unfolding ends_def by (cases r) auto
qed

lemma ends_call:
  assumes "untouched M free mine w held"
    and f: "\<And>w held r w'. untouched M free mine w held \<Longrightarrow> f w = (r, w') \<Longrightarrow>
      held \<subseteq> M w' \<and> (\<forall>x. r = Inr x \<longrightarrow> untouched M (free' x) (mine' x) w' held)"
  shows "ends M (call f) free' mine' w held"
  unfolding ends_def
proof (rule safe_call)
  fix w1 held' r w' assume "meanwhile M w held w1 held'" "f w1 = (r, w')"
  with f untouched_meanwhile [OF assms(1)]
  show "held' \<subseteq> M w' \<and> (\<forall>w2 held2. meanwhile M w' held' w2 held2 \<longrightarrow>
      held2 \<subseteq> M w2 \<and> (\<forall>x. r = Inr x \<longrightarrow> untouched M (free' x) (mine' x) w2 held2))"
    using untouched_meanwhile meanwhile_held by metis
qed

lemma safe_marks_kept:
  assumes "untouched M free mine w held" and f: "\<And>w r w'. f w = (r, w') \<Longrightarrow> M w' = M w"
  shows "safe M (call f) (\<lambda>_. untouched M free mine) w held"
proof (rule safe_call)
  fix w1 held' r w' assume "meanwhile M w held w1 held'" "f w1 = (r, w')"
  with untouched_meanwhile [OF assms(1)] f have "untouched M free mine w' held'" by (fastforce simp: untouched_def)
  moreover from this have "held' \<subseteq> M w'" by (simp add: untouched_def)
  ultimately show "held' \<subseteq> M w' \<and> (\<forall>w2 held2. meanwhile M w' held' w2 held2 \<longrightarrow> untouched M free mine w2 held2)"
    using untouched_meanwhile by metis
qed

lemma ends_marks_kept:
  assumes "untouched M free mine w held" and "\<And>w r w'. f w = (r, w') \<Longrightarrow> M w' = M w"
  shows "ends M (call f) (\<lambda>_. free) (\<lambda>_. mine) w held"
  unfolding ends_def by (rule safe_weaken [OF _ safe_marks_kept [OF assms]]) (auto simp: untouched_def)

section \<open>The operations are safe\<close>

context redis_laws
begin

lemma ends_block_free:
  assumes S: "sys_redis S = R" and "untouched (marked members S) free {} w held"
  shows "ends (marked members S) (t_block_free S used ps) (\<lambda>b. if b then free \<union> set ps else {}) (\<lambda>_. {}) w held"
  using assms(2)
proof (induction ps arbitrary: free w held)
  case Nil
  then show ?case by (auto intro!: ends_Return)
next
  case (Cons p ps)
  let ?M = "marked members S"
  have ask: "ends ?M (call (redis_IsPortAllocated S p)) (\<lambda>b. if b then {} else insert p free) (\<lambda>_. {}) w held"
    by (rule ends_call [OF Cons.prems]) (use is_allocated [OF S] in \<open>auto simp: untouched_def\<close>)
  have "ends ?M (t_is_free S used p) (\<lambda>b. if b then insert p free else {}) (\<lambda>_. {}) w held"
    unfolding t_is_free_def using Cons.prems
    by (auto intro!: ends_Return ends_thenTry [OF ask] simp: untouched_def disjoint_iff)
  then show ?case unfolding t_block_free.simps
  proof (rule ends_thenTry)
    show "held \<subseteq> ?M w" using Cons.prems by (simp add: untouched_def)
    fix b w held assume u: "untouched ?M (if b then insert p free else {}) {} w held"
    have eq: "insert p free \<union> set ps = free \<union> set (p # ps)" by auto
    show "ends ?M (if b then t_block_free S used ps else Return (Inr False))
        (\<lambda>b. if b then free \<union> set (p # ps) else {}) (\<lambda>_. {}) w held"
    proof (cases b)
      case True
      then have "untouched ?M (insert p free) {} w held" using u by simp
      from Cons.IH [OF this] show ?thesis unfolding eq using True by (simp only: if_True)
    next
      case False
      then show ?thesis using u by (simp add: ends_Return)
    qed
  qed
qed

lemma ends_ReleaseBlock:
  assumes S: "sys_redis S = R" and "untouched (marked members S) (set ps) {} w held"
  shows "safe (marked members S) (t_ReleaseBlock S ps) (\<lambda>_. untouched (marked members S) {} {}) w held"
  using assms(2)
proof (induction ps arbitrary: w held)
  case Nil
  then show ?case using untouched_meanwhile [of "marked members S" "{}" "{}"] by (simp add: untouched_def)
next
  case (Cons p ps)
  let ?M = "marked members S"
  have "safe ?M (call (redis_ReleasePort S p)) (\<lambda>_. untouched ?M (set ps) {}) w held"
  proof (rule safe_call)
    fix w1 held' r w' assume "meanwhile ?M w held w1 held'" "redis_ReleasePort S p w1 = (r, w')"
    with untouched_meanwhile [OF Cons.prems] release_port [OF S]
    have "held' \<subseteq> ?M w' \<and> untouched ?M (set ps) {} w' held'" by (fastforce simp: untouched_def)
    then show "held' \<subseteq> ?M w' \<and> (\<forall>w2 held2. meanwhile ?M w' held' w2 held2 \<longrightarrow> untouched ?M (set ps) {} w2 held2)"
      using untouched_meanwhile by metis
  qed
  then show ?case unfolding t_ReleaseBlock.simps
    by (rule safe_then) (use Cons in \<open>auto simp: untouched_def\<close>)
qed

lemma ends_mark_block:
  assumes S: "sys_redis S = R" and "untouched (marked members S) (set ps) (set block) w held"
  shows "ends (marked members S) (t_mark_block S ps block) (\<lambda>_. {}) set w held"
  using assms(2)
proof (induction ps arbitrary: block w held)
  case Nil
  then show ?case by (auto intro!: ends_Return)
next
  case (Cons p ps)
  let ?M = "marked members S"
  have mark: "safe ?M (call (redis_MarkPortAllocated S p))
      (\<lambda>r. untouched ?M (set (p # ps) \<union> set block) (if isl r then {} else insert p (set block))) w held"
  proof (rule safe_call)
    fix w1 held' r w' assume mw: "meanwhile ?M w held w1 held'" and "redis_MarkPortAllocated S p w1 = (r, w')"
    from untouched_meanwhile [OF Cons.prems mw] mark_port [OF S this(2)]
    have "held' \<subseteq> ?M w' \<and> untouched ?M (set (p # ps) \<union> set block) (if isl r then {} else insert p (set block)) w' held'"
      by (cases r) (auto simp: untouched_def)
    then show "held' \<subseteq> ?M w' \<and> (\<forall>w2 held2. meanwhile ?M w' held' w2 held2 \<longrightarrow>
        untouched ?M (set (p # ps) \<union> set block) (if isl r then {} else insert p (set block)) w2 held2)"
      using untouched_meanwhile by metis
  qed
  show ?case unfolding t_mark_block.simps ends_def
  proof (rule safe_then [OF mark])
    show "held \<subseteq> ?M w" using Cons.prems by (simp add: untouched_def)
    fix r :: "error + unit" and w held
    assume u: "untouched ?M (set (p # ps) \<union> set block) (if isl r then {} else insert p (set block)) w held"
    show "safe ?M (case r of Inl e \<Rightarrow> thenDo (t_ReleaseBlock S block) (\<lambda>_. Return (Inl e))
        | Inr _ \<Rightarrow> t_mark_block S ps (block @ [p])) 
        (\<lambda>r w held. held \<subseteq> ?M w \<and> (\<forall>x. r = Inr x \<longrightarrow> untouched ?M {} (set x) w held)) w held"
    proof (cases r)
      case (Inl e)
      have block: "untouched ?M (set block) {} w held" using u by (auto simp: untouched_def)
      have "safe ?M (thenDo (t_ReleaseBlock S block) (\<lambda>_. Return (Inl e)))
          (\<lambda>r w held. held \<subseteq> ?M w \<and> (\<forall>x. r = Inr x \<longrightarrow> untouched ?M {} (set x) w held)) w held"
        by (rule safe_then [OF ends_ReleaseBlock [OF S block]])
          (use u in \<open>simp_all add: untouched_def meanwhile_held\<close>)
      then show ?thesis by (simp only: Inl sum.case)
    next
      case (Inr y)
      have "untouched ?M (set ps) (set (block @ [p])) w held" using u Inr by (auto simp: untouched_def)
      from Cons.IH [OF this] Inr show ?thesis by (simp add: ends_def)
    qed
  qed
qed

text \<open>The search starts from nothing and ends with a block of its own.\<close>

lemma ends_search_block:
  assumes S: "sys_redis S = R" and "untouched (marked members S) {} {} w held"
  shows "ends (marked members S) (t_search_block S used n starts) (\<lambda>_. {}) set w held"
  using assms(2)
proof (induction starts arbitrary: w held)
  case Nil
  then show ?case by (simp add: ends_error)
next
  case (Cons start starts)
  show ?case unfolding t_search_block.simps
  proof (rule ends_thenTry [OF ends_block_free [OF S Cons.prems]])
    show "held \<subseteq> marked members S w" using Cons.prems by (simp add: untouched_def)
    fix b w held
    assume u: "untouched (marked members S) (if b then {} \<union> set (ports_from start n) else {}) {} w held"
    then show "ends (marked members S)
        (if b then t_mark_block S (ports_from start n) [] else t_search_block S used n starts) (\<lambda>_. {}) set w held"
      using Cons.IH [of w held] ends_mark_block [OF S, of "ports_from start n" "[]" w held] by auto
  qed
qed

lemma ends_with_lock:
  assumes S: "sys_redis S = R" and "untouched (marked members S) {} {} w held"
    and acquire: "\<And>w r w'. acquire w = (r, w') \<Longrightarrow> marked members S w' = marked members S w"
    and body: "\<And>w held. untouched (marked members S) {} {} w held \<Longrightarrow> ends (marked members S) body (\<lambda>_. {}) mine w held"
  shows "ends (marked members S) (t_with_lock S acquire body) (\<lambda>_. {}) mine w held"
  unfolding t_with_lock_def
proof (rule ends_thenTry)
  let ?M = "marked members S"
  show "ends ?M (call acquire) (\<lambda>_. {}) (\<lambda>_. {}) w held" by (rule ends_marks_kept [OF assms(2)]) (rule acquire)
  show "held \<subseteq> ?M w" using assms(2) by (simp add: untouched_def)
  fix ok w held assume u: "untouched ?M {} {} w held"
  have "ends ?M (thenFinally (call (redis_ReleaseLock S ''port-alloc'')) body) (\<lambda>_. {}) mine w held"
    unfolding ends_def thenFinally_def
  proof (rule safe_then [OF body [OF u, unfolded ends_def]])
    show "held \<subseteq> ?M w" using u by (simp add: untouched_def)
    fix r :: "error + _" and w held assume r: "held \<subseteq> ?M w \<and> (\<forall>x. r = Inr x \<longrightarrow> untouched ?M {} (mine x) w held)"
    let ?mine = "case r of Inl e \<Rightarrow> {} | Inr x \<Rightarrow> mine x"
    have "untouched ?M {} ?mine w held" using r by (cases r) (auto simp: untouched_def)
    moreover have "?M w' = ?M w" if "redis_ReleaseLock S ''port-alloc'' w = (r, w')" for w r w'
      using ReleaseLock_marks [OF S, of "''port-alloc''" w] that by simp
    ultimately have "safe ?M (call (redis_ReleaseLock S ''port-alloc'')) (\<lambda>_. untouched ?M {} ?mine) w held"
      by (rule safe_marks_kept)
    then show "safe ?M (thenDo (call (redis_ReleaseLock S ''port-alloc'')) (\<lambda>_. Return r))
        (\<lambda>r w held. held \<subseteq> ?M w \<and> (\<forall>x. r = Inr x \<longrightarrow> untouched ?M {} (mine x) w held)) w held"
    proof (rule safe_then)
      fix w held assume u: "untouched ?M {} ?mine w held"
      then show "safe ?M (Return r)
          (\<lambda>r w held. held \<subseteq> ?M w \<and> (\<forall>x. r = Inr x \<longrightarrow> untouched ?M {} (mine x) w held)) w held"
        using untouched_meanwhile [OF u] by (auto simp: meanwhile_held)
    qed (use r in blast)
  qed
  then show "ends ?M (if \<not> ok then Return (Inl busy)
      else thenFinally (call (redis_ReleaseLock S ''port-alloc'')) body) (\<lambda>_. {}) mine w held"
    by (simp add: ends_error)
qed

lemma ends_AllocateBlock:
  assumes S: "sys_redis S = R" and "untouched (marked members S) {} {} w held"
  shows "ends (marked members S) (t_AllocateBlock S n) (\<lambda>_. {}) set w held"
proof (cases "n < 1")
  case False
  have list: "marked members S w' = marked members S w" if "db_ListUsedHostPorts S w = (r, w')" for w r w'
    using stepsD [OF same_marks_query [of S S select_used_ports], of w r w'] that
    by (simp add: db_ListUsedHostPorts_def same_marks_def)
  have lock: "marked members S w' = marked members S w"
    if "wrapErr ''acquire port lock: '' (redis_AcquireLock S ''port-alloc'' allocLockTTL) w = (r, w')" for w r w'
    using AcquireLock_marks [OF S, of "''port-alloc''" allocLockTTL w] that
    by (metis prod.collapse snd_wrapErr snd_conv)
  show ?thesis unfolding t_AllocateBlock_def if_not_P [OF False]
  proof (rule ends_with_lock [OF S assms(2) lock])
    fix w held assume u: "untouched (marked members S) {} {} w held"
    show "ends (marked members S) (thenTry (call (db_ListUsedHostPorts S))
        (\<lambda>used. t_search_block S used n (block_starts (c_ports (sys_cfg S)) n))) (\<lambda>_. {}) set w held"
      by (rule ends_thenTry [OF ends_marks_kept [OF u list]])
        (use u ends_search_block [OF S] in \<open>simp_all add: untouched_def\<close>)
  qed
qed (simp add: t_AllocateBlock_def ends_error)

lemma ends_Reserve:
  assumes S: "sys_redis S = R" and "untouched (marked members S) {} {} w held"
  shows "ends (marked members S) (t_Reserve S port) (\<lambda>_. {}) (\<lambda>_. {port}) w held"
proof (cases "port < po_start (c_ports (sys_cfg S)) \<or> port > po_end (c_ports (sys_cfg S))")
  case False
  let ?M = "marked members S"
  have list: "?M w' = ?M w" if "db_ListUsedHostPorts S w = (r, w')" for w r w'
    using stepsD [OF same_marks_query [of S S select_used_ports], of w r w'] that
    by (simp add: db_ListUsedHostPorts_def same_marks_def)
  have mark: "ends ?M (call (redis_MarkPortAllocated S port)) (\<lambda>_. {}) (\<lambda>_. {port}) w held"
    if "untouched ?M {port} {} w held" for w held
    by (rule ends_call [OF that]) (use mark_port [OF S] in \<open>fastforce simp: untouched_def\<close>)
  have ask: "ends ?M (call (redis_IsPortAllocated S port)) (\<lambda>b. if b then {} else {port}) (\<lambda>_. {}) w held"
    if "untouched ?M {} {} w held" for w held
    by (rule ends_call [OF that]) (use is_allocated [OF S] in \<open>auto simp: untouched_def\<close>)
  show ?thesis unfolding t_Reserve_def Let_def if_not_P [OF False]
  proof (rule ends_with_lock [OF S assms(2) AcquireLock_marks [OF S]])
    fix w held assume u: "untouched ?M {} {} w held"
    show "ends ?M (thenTry (call (db_ListUsedHostPorts S)) (\<lambda>used.
         if port \<in> set used then Return (Inl (ErrText (''host port '' @ itoa port @ '' already allocated'')))
         else thenTry (call (redis_IsPortAllocated S port)) (\<lambda>allocated.
           if allocated then Return (Inl (ErrText (''host port '' @ itoa port @ '' already allocated'')))
           else call (redis_MarkPortAllocated S port)))) (\<lambda>_. {}) (\<lambda>_. {port}) w held"
      by (rule ends_thenTry [OF ends_marks_kept [OF u list]])
        (use u mark in \<open>auto simp: untouched_def ends_error intro!: ends_thenTry [OF ask]\<close>)
  qed
qed (simp add: t_Reserve_def Let_def ends_error)

end

section \<open>The allocator in a running daemon\<close>

text \<open>
  The state: the world, the operation inside the mutex, if any, and the blocks handed out. A goroutine that waits for
  the mutex has not done anything yet, so it is not part of the state.
\<close>

record ('r, 'i, 'e) alloc =
  al_world :: "('r, 'i, 'e) world"
  al_running :: "(('r, 'i, 'e) world, int list) thread option"
  al_held :: "int list list"

definition reserving :: "('r, 'i, 'e) sys \<Rightarrow> int \<Rightarrow> (('r, 'i, 'e) world, int list) thread" where
  "reserving S port = thenTry (t_Reserve S port) (\<lambda>_. Return (Inr [port]))"

inductive alloc_step ::
    "('r, 'i, 'e) sys \<Rightarrow> ('r \<Rightarrow> string \<Rightarrow> int set) \<Rightarrow> ('r, 'i, 'e) alloc \<Rightarrow> ('r, 'i, 'e) alloc \<Rightarrow> bool"
  for S :: "('r, 'i, 'e) sys" and members :: "'r \<Rightarrow> string \<Rightarrow> int set" where
  enter_allocate: "alloc_step S members \<lparr>al_world = w, al_running = None, al_held = bs\<rparr>
    \<lparr>al_world = w, al_running = Some (t_AllocateBlock S n), al_held = bs\<rparr>"
| enter_reserve: "alloc_step S members \<lparr>al_world = w, al_running = None, al_held = bs\<rparr>
    \<lparr>al_world = w, al_running = Some (reserving S port), al_held = bs\<rparr>"
| next_call: "c w = (t, w') \<Longrightarrow> alloc_step S members \<lparr>al_world = w, al_running = Some (Call c), al_held = bs\<rparr>
    \<lparr>al_world = w', al_running = Some t, al_held = bs\<rparr>"
| leave: "alloc_step S members \<lparr>al_world = w, al_running = Some (Return r), al_held = bs\<rparr>
    \<lparr>al_world = w, al_running = None, al_held = (case r of Inl _ \<Rightarrow> bs | Inr b \<Rightarrow> b # bs)\<rparr>"
| give_back: "p \<in> set (concat bs) \<Longrightarrow> ports_Release S p w = (r, w') \<Longrightarrow>
    alloc_step S members \<lparr>al_world = w, al_running = x, al_held = bs\<rparr>
      \<lparr>al_world = w', al_running = x, al_held = map (removeAll p) bs\<rparr>"
| elsewhere: "marked members S w' = marked members S w \<Longrightarrow>
    alloc_step S members \<lparr>al_world = w, al_running = x, al_held = bs\<rparr> \<lparr>al_world = w', al_running = x, al_held = bs\<rparr>"

text \<open>No port is in two of the blocks.\<close>

primrec unshared :: "int list list \<Rightarrow> bool" where
  "unshared [] = True"
| "unshared (b # bs) = (set b \<inter> set (concat bs) = {} \<and> unshared bs)"

lemma unshared_removeAll: "unshared bs \<Longrightarrow> unshared (map (removeAll p) bs)"
  by (induction bs) auto

definition alloc_ok :: "('r \<Rightarrow> string \<Rightarrow> int set) \<Rightarrow> ('r, 'i, 'e) sys \<Rightarrow> ('r, 'i, 'e) alloc \<Rightarrow> bool" where
  "alloc_ok members S a \<longleftrightarrow> (let M = marked members S; held = set (concat (al_held a)) in
     unshared (al_held a) \<and> held \<subseteq> M (al_world a)
     \<and> (\<forall>t. al_running a = Some t \<longrightarrow> ends M t (\<lambda>_. {}) set (al_world a) held))"

lemma alloc_ok_meanwhile:
  assumes "alloc_ok members S \<lparr>al_world = w, al_running = x, al_held = bs\<rparr>" "unshared bs'"
    and "meanwhile (marked members S) w (set (concat bs)) w' (set (concat bs'))"
  shows "alloc_ok members S \<lparr>al_world = w', al_running = x, al_held = bs'\<rparr>"
  using assms(1,2) meanwhile_held [OF assms(3)] safe_meanwhile [OF _ assms(3)]
  unfolding alloc_ok_def ends_def Let_def by (simp del: set_concat) blast

context redis_laws
begin

lemma ends_reserving:
  assumes "sys_redis S = R" "untouched (marked members S) {} {} w held"
  shows "ends (marked members S) (reserving S port) (\<lambda>_. {}) set w held"
  unfolding reserving_def
  by (rule ends_thenTry [OF ends_Reserve [OF assms]])
    (use assms(2) in \<open>auto simp: untouched_def intro!: ends_Return\<close>)

lemma alloc_step_ok:
  assumes S: "sys_redis S = R" and "alloc_step S members a a'" "alloc_ok members S a"
  shows "alloc_ok members S a'"
  using assms(2,3)
proof (induction rule: alloc_step.induct)
  case (enter_allocate w bs n)
  then show ?case using ends_AllocateBlock [OF S] by (simp add: alloc_ok_def untouched_def Let_def)
next
  case (enter_reserve w bs port)
  then show ?case using ends_reserving [OF S] by (simp add: alloc_ok_def untouched_def Let_def)
next
  case (next_call c w t w' bs)
  let ?M = "marked members S" and ?held = "set (concat bs)"
  have "meanwhile ?M w ?held w ?held" "ends ?M (Call c) (\<lambda>_. {}) set w ?held"
    using next_call(2) by (simp_all add: alloc_ok_def Let_def meanwhile_refl)
  then have "?held \<subseteq> ?M w' \<and> ends ?M t (\<lambda>_. {}) set w' ?held"
    using next_call(1) unfolding ends_def safe_Call by blast
  then show ?case using next_call(2) by (simp add: alloc_ok_def Let_def)
next
  case (leave w r bs)
  then show ?case
    using meanwhile_refl [of "set (concat bs)" "marked members S" w]
    by (cases r) (auto simp: alloc_ok_def ends_def untouched_def Let_def)
next
  case (give_back p bs w r w' x)
  let ?M = "marked members S" and ?held = "set (concat bs)"
  have eq: "set (concat (map (removeAll p) bs)) = ?held - {p}" by auto
  have "meanwhile ?M w ?held w' (set (concat (map (removeAll p) bs)))"
    unfolding eq using give_back release_port [OF S give_back(2) [unfolded ports_Release_def]]
    by (auto simp: alloc_ok_def meanwhile_def Let_def)
  moreover have "unshared (map (removeAll p) bs)"
    using give_back(3) by (simp add: alloc_ok_def Let_def unshared_removeAll)
  ultimately show ?case by (intro alloc_ok_meanwhile [OF give_back(3)])
next
  case (elsewhere w' w x bs)
  then have "meanwhile (marked members S) w (set (concat bs)) w' (set (concat bs))" "unshared bs"
    by (simp_all add: alloc_ok_def meanwhile_def Let_def)
  then show ?case using alloc_ok_meanwhile [OF elsewhere(2)] by blast
qed

end


text \<open>Two blocks one after the other, each without interruption.\<close>

lemma uninterrupted:
  "(alloc_step S members)\<^sup>*\<^sup>* \<lparr>al_world = w, al_running = Some t, al_held = bs\<rparr>
     \<lparr>al_world = snd (run t w), al_running = Some (Return (fst (run t w))), al_held = bs\<rparr>"
proof (induction t arbitrary: w)
  case (Call c)
  obtain t w1 where c: "c w = (t, w1)" by fastforce
  have "alloc_step S members \<lparr>al_world = w, al_running = Some (Call c), al_held = bs\<rparr>
      \<lparr>al_world = w1, al_running = Some t, al_held = bs\<rparr>" using c by (rule next_call)
  from converse_rtranclp_into_rtranclp [OF this Call.IH [OF rangeI called_thread [of c w t w1, OF c]]] show ?case
    by (simp add: c)
qed simp

lemma allocates:
  assumes "ports_AllocateBlock S n w = (Inr b, w')"
  shows "(alloc_step S members)\<^sup>*\<^sup>* \<lparr>al_world = w, al_running = None, al_held = bs\<rparr>
    \<lparr>al_world = w', al_running = None, al_held = b # bs\<rparr>"
proof -
  have "(alloc_step S members)\<^sup>*\<^sup>* \<lparr>al_world = w, al_running = None, al_held = bs\<rparr>
      \<lparr>al_world = w', al_running = Some (Return (Inr b)), al_held = bs\<rparr>"
    using converse_rtranclp_into_rtranclp [OF enter_allocate [of S members w bs n] uninterrupted] assms
    by (simp add: run_AllocateBlock)
  from rtranclp.rtrancl_into_rtrancl [OF this leave] show ?thesis by simp
qed


end
